(* ===== verification/Prelude.thy ===== *)
theory Prelude
  imports Main "HOL-Library.State_Monad" "HOL-Library.Sublist" "HOL-Library.AList"
begin

text \<open>
  Shared by every theory of the development: the collections of facts the proofs use, the
  state of a run and its observations, the weakest-precondition rules for the state monad, and
  small facts about lists and maps.

  A run is a value of the library's state monad. The state of a run always extends the record
  \<open>io_state\<close>: \<open>world\<close> is everything outside the program (never inspected by
  the model), \<open>trace\<close> lists what the program did to it, oldest first. A Go function that
  returns \<open>(T, error)\<close> is a run with a result of type \<open>'err + 'a\<close>.
\<close>

named_theorems wp_rules "weakest-precondition equations"
named_theorems emits_rules "introduction rules for the effects a run may have"
named_theorems go_eval "equations that evaluate the model on concrete input"

section \<open>The state of a run\<close>

record ('w, 'e) io_state =
  world :: 'w
  trace :: "'e list"

definition external :: "('w \<Rightarrow> 'r \<times> 'w) \<Rightarrow> ('r \<Rightarrow> 'e) \<Rightarrow> (('w, 'e, 'm) io_state_scheme, 'r) state" where
  "external call ev = State (\<lambda>s. case call (world s) of
     (r, w') \<Rightarrow> (r, s\<lparr>world := w', trace := trace s @ [ev r]\<rparr>))"

definition note_event :: "'e \<Rightarrow> (('w, 'e, 'm) io_state_scheme, unit) state" where
  "note_event e = State (\<lambda>s. ((), s\<lparr>trace := trace s @ [e]\<rparr>))"

definition gets :: "('s \<Rightarrow> 'a) \<Rightarrow> ('s, 'a) state" where
  "gets f = State (\<lambda>s. (f s, s))"

definition modify :: "('s \<Rightarrow> 's) \<Rightarrow> ('s, unit) state" where
  "modify f = State (\<lambda>s. ((), f s))"

lemma run_external [simp]:
  "run_state (external call ev) s =
     (case call (world s) of (r, w') \<Rightarrow> (r, s\<lparr>world := w', trace := trace s @ [ev r]\<rparr>))"
  by (simp add: external_def)

lemma run_note_event [simp]: "run_state (note_event e) s = ((), s\<lparr>trace := trace s @ [e]\<rparr>)"
  by (simp add: note_event_def)

lemma run_gets [simp]: "run_state (gets f) s = (f s, s)"
  by (simp add: gets_def)

lemma run_modify [simp]: "run_state (modify f) s = ((), f s)"
  by (simp add: modify_def)

section \<open>Weakest preconditions\<close>

text \<open>\<open>wp m s Q\<close>: run \<open>m\<close> from \<open>s\<close>; result and final state satisfy \<open>Q\<close>.\<close>

definition wp :: "('s, 'a) state \<Rightarrow> 's \<Rightarrow> ('a \<Rightarrow> 's \<Rightarrow> bool) \<Rightarrow> bool" where
  "wp m s Q = (case run_state m s of (a, s') \<Rightarrow> Q a s')"

lemma wp_return [wp_rules]: "wp (State_Monad.return a) s Q = Q a s"
  by (simp add: wp_def)

lemma wp_bind [wp_rules]: "wp (State_Monad.bind m f) s Q = wp m s (\<lambda>a s'. wp (f a) s' Q)"
  by (simp add: wp_def split: prod.splits)

lemma wp_gets [wp_rules]: "wp (gets f) s Q = Q (f s) s"
  by (simp add: wp_def)

lemma wp_modify [wp_rules]: "wp (modify f) s Q = Q () (f s)"
  by (simp add: wp_def)

lemma wp_note_event [wp_rules]: "wp (note_event e) s Q = Q () (s\<lparr>trace := trace s @ [e]\<rparr>)"
  by (simp add: wp_def)

lemma wp_external [wp_rules]:
  "wp (external call ev) s Q =
     (case call (world s) of (r, w') \<Rightarrow> Q r (s\<lparr>world := w', trace := trace s @ [ev r]\<rparr>))"
  by (simp add: wp_def split: prod.splits)

lemma wp_mono: "wp m s Q \<Longrightarrow> (\<And>a s'. Q a s' \<Longrightarrow> R a s') \<Longrightarrow> wp m s R"
  by (auto simp: wp_def split: prod.splits)

lemma wp_any: "(\<And>a s'. Q a s') \<Longrightarrow> wp m s Q"
  by (simp add: wp_def split: prod.splits)

lemma wp_conj: "wp m s (\<lambda>a s'. Q a s' \<and> R a s') \<longleftrightarrow> wp m s Q \<and> wp m s R"
  by (auto simp: wp_def split: prod.splits)

lemma wp_run: "wp m s Q \<Longrightarrow> run_state m s = (a, s') \<Longrightarrow> Q a s'"
  by (simp add: wp_def)

lemma wp_iff: "wp m s Q \<longleftrightarrow> Q (fst (run_state m s)) (snd (run_state m s))"
  by (simp add: wp_def split: prod.splits)

section \<open>Which effects a run may have\<close>

text \<open>\<open>emits P m\<close>: every event \<open>m\<close> adds to the trace satisfies \<open>P\<close>, whatever the outside world answers.\<close>

definition emits :: "('e \<Rightarrow> bool) \<Rightarrow> (('w, 'e, 'm) io_state_scheme, 'a) state \<Rightarrow> bool" where
  "emits P m \<longleftrightarrow> (\<forall>s. \<exists>es. trace (snd (run_state m s)) = trace s @ es \<and> list_all P es)"

lemma emits_return [emits_rules]: "emits P (State_Monad.return a)"
  by (simp add: emits_def)

lemma emits_gets [emits_rules]: "emits P (gets f)"
  by (simp add: emits_def)

lemma emits_external [emits_rules]: "(\<And>r. P (ev r)) \<Longrightarrow> emits P (external call ev)"
  by (auto simp: emits_def split: prod.splits)

lemma emits_note_event [emits_rules]: "P e \<Longrightarrow> emits P (note_event e)"
  by (simp add: emits_def)

lemma emits_modify [emits_rules]: "(\<And>s. trace (f s) = trace s) \<Longrightarrow> emits P (modify f)"
  by (simp add: emits_def)

lemma emits_bind [emits_rules]:
  assumes "emits P m" and "\<And>a. emits P (f a)"
  shows "emits P (State_Monad.bind m f)"
  unfolding emits_def
proof
  fix s
  obtain a s1 where m: "run_state m s = (a, s1)" by fastforce
  from assms(1) m obtain es1 where 1: "trace s1 = trace s @ es1" "list_all P es1"
    unfolding emits_def by (metis snd_conv)
  from assms(2) obtain es2
    where 2: "trace (snd (run_state (f a) s1)) = trace s1 @ es2" "list_all P es2"
    unfolding emits_def by metis
  show "\<exists>es. trace (snd (run_state (State_Monad.bind m f) s)) = trace s @ es \<and> list_all P es"
    using m 1 2 by (intro exI [of _ "es1 @ es2"]) simp
qed

text \<open>The second part may rely on what the first part returns.\<close>

lemma emits_bind_wp:
  assumes "emits P m" and "\<And>s. wp m s (\<lambda>a s'. Q a)" and "\<And>a. Q a \<Longrightarrow> emits P (f a)"
  shows "emits P (State_Monad.bind m f)"
  unfolding emits_def
proof
  fix s
  obtain a s1 where m: "run_state m s = (a, s1)" by fastforce
  from assms(1) m obtain es1 where 1: "trace s1 = trace s @ es1" "list_all P es1"
    unfolding emits_def by (metis snd_conv)
  from assms(2) [of s] m have "Q a" by (simp add: wp_def)
  with assms(3) obtain es2
    where 2: "trace (snd (run_state (f a) s1)) = trace s1 @ es2" "list_all P es2"
    unfolding emits_def by metis
  show "\<exists>es. trace (snd (run_state (State_Monad.bind m f) s)) = trace s @ es \<and> list_all P es"
    using m 1 2 by (intro exI [of _ "es1 @ es2"]) simp
qed

lemma emits_mono: "emits P m \<Longrightarrow> (\<And>e. P e \<Longrightarrow> Q e) \<Longrightarrow> emits Q m"
  unfolding emits_def by (metis list.pred_mono_strong)

lemma emits_if [emits_rules]:
  "(b \<Longrightarrow> emits P m) \<Longrightarrow> (\<not> b \<Longrightarrow> emits P n) \<Longrightarrow> emits P (if b then m else n)"
  by simp

lemma emits_case_sum [emits_rules]:
  "(\<And>e. emits P (f e)) \<Longrightarrow> (\<And>x. emits P (g x)) \<Longrightarrow>
   emits P (case r of Inl e \<Rightarrow> f e | Inr x \<Rightarrow> g x)"
  by (cases r) simp_all

lemma emits_case_sum_eq:
  "(\<And>e. r = Inl e \<Longrightarrow> emits P (f e)) \<Longrightarrow> (\<And>x. r = Inr x \<Longrightarrow> emits P (g x)) \<Longrightarrow>
   emits P (case r of Inl e \<Rightarrow> f e | Inr x \<Rightarrow> g x)"
  by (cases r) simp_all

lemma emits_case_option [emits_rules]:
  "emits P m \<Longrightarrow> (\<And>x. emits P (g x)) \<Longrightarrow> emits P (case r of None \<Rightarrow> m | Some x \<Rightarrow> g x)"
  by (cases r) simp_all

lemma emits_case_list [emits_rules]:
  "emits P m \<Longrightarrow> (\<And>x xs. emits P (g x xs)) \<Longrightarrow>
   emits P (case r of [] \<Rightarrow> m | x # xs \<Rightarrow> g x xs)"
  by (cases r) simp_all

lemma emits_case_prod [emits_rules]:
  "(\<And>x y. emits P (g x y)) \<Longrightarrow> emits P (case r of (x, y) \<Rightarrow> g x y)"
  by (cases r) simp_all

lemma emits_let [emits_rules]: "(\<And>x. emits P (g x)) \<Longrightarrow> emits P (let x = v in g x)"
  by (simp add: Let_def)

lemma emits_trace:
  "emits P m \<Longrightarrow> run_state m s = (a, s') \<Longrightarrow> \<exists>es. trace s' = trace s @ es \<and> list_all P es"
  unfolding emits_def by (metis snd_conv)

text \<open>A run is used through the events it adds: the rule behind every proof about a whole pass.\<close>

lemma wp_emits:
  assumes "emits P m"
    and "\<And>a s' es. trace s' = trace s @ es \<Longrightarrow> list_all P es \<Longrightarrow> Q a s'"
  shows "wp m s Q"
proof -
  obtain a s' where r: "run_state m s = (a, s')" by fastforce
  then show ?thesis using emits_trace [OF assms(1) r] assms(2) by (auto simp: wp_def)
qed

lemma wp_extends: "emits P m \<Longrightarrow> wp m s (\<lambda>a s'. \<exists>es. trace s' = trace s @ es)"
  by (rule wp_emits) auto

section \<open>Lists and maps\<close>

text \<open>Reading a Go map of strings: an absent key reads as the empty string.\<close>

definition get_or_empty :: "('k \<rightharpoonup> string) \<Rightarrow> 'k \<Rightarrow> string" where
  "get_or_empty m k = (case m k of None \<Rightarrow> '''' | Some v \<Rightarrow> v)"

lemma get_or_empty_simps [simp]:
  "m k = None \<Longrightarrow> get_or_empty m k = ''''"
  "m k = Some v \<Longrightarrow> get_or_empty m k = v"
  by (simp_all add: get_or_empty_def)

lemma get_or_empty_nonempty: "get_or_empty m k \<noteq> '''' \<longleftrightarrow> (\<exists>v. m k = Some v \<and> v \<noteq> '''')"
  by (auto simp: get_or_empty_def split: option.splits)

lemma count_list_take_drop: "count_list (take n xs) x + count_list (drop n xs) x = count_list xs x"
  by (metis append_take_drop_id count_list_append)

lemma map_of_alist_update [simp]: "map_of (AList.update k v al) = (map_of al)(k \<mapsto> v)"
  by (rule update_conv')

lemma upd_map_add: "m(k \<mapsto> v) ++ n = m ++ ([k \<mapsto> v] ++ n)"
  by (rule ext) (simp add: map_add_def split: option.split)

lemma update_new: "k \<notin> fst ` set al \<Longrightarrow> AList.update k v al = al @ [(k, v)]"
  by (induction al) auto

end
