(* ===== verification/Go_Strings.thy ===== *)
theory Go_Strings
  imports Prelude "HOL-Library.Multiset"
begin

text \<open>
  The part of Go's string library the operator uses: \<open>strings\<close>, \<open>strconv\<close>,
  \<open>unicode\<close> and \<open>unicode/utf8\<close>. A Go string is a sequence of bytes, as is an
  Isabelle \<open>string\<close>. Where Go decodes UTF-8 so does the model (\<open>runes\<close>, with Go's
  treatment of invalid bytes). What the language leaves open or keeps in tables is the parameter
  \<open>go_runtime\<close>: the Unicode case and print tables (no ASCII string depends on them),
  \<open>float64\<close> arithmetic on fractions of a duration, the wording of the library's own
  decoding errors, and the order in which \<open>range\<close> walks a map.
\<close>

type_synonym rune = nat

abbreviation byte :: "char \<Rightarrow> nat" where
  "byte c \<equiv> of_char c"

definition rune_error :: rune where
  "rune_error = 65533"

section \<open>UTF-8\<close>

definition is_cont :: "char \<Rightarrow> bool" where
  "is_cont c \<longleftrightarrow> 128 \<le> byte c \<and> byte c \<le> 191"

text \<open>\<open>utf8.DecodeRuneInString\<close>: the first rune and how many bytes it takes.\<close>

definition decode_rune :: "string \<Rightarrow> rune \<times> nat" where
  "decode_rune s = (case s of [] \<Rightarrow> (rune_error, 0) | c0 # r0 \<Rightarrow>
     if byte c0 < 128 then (byte c0, 1)
     else if 194 \<le> byte c0 \<and> byte c0 \<le> 223 then
       (case r0 of c1 # _ \<Rightarrow> if is_cont c1 then ((byte c0 - 192) * 64 + (byte c1 - 128), 2)
                               else (rune_error, 1)
        | [] \<Rightarrow> (rune_error, 1))
     else if 224 \<le> byte c0 \<and> byte c0 \<le> 239 then
       (case r0 of c1 # c2 # _ \<Rightarrow>
          if is_cont c1 \<and> is_cont c2 \<and> (byte c0 = 224 \<longrightarrow> 160 \<le> byte c1)
             \<and> (byte c0 = 237 \<longrightarrow> byte c1 \<le> 159)
          then ((byte c0 - 224) * 4096 + (byte c1 - 128) * 64 + (byte c2 - 128), 3)
          else (rune_error, 1)
        | _ \<Rightarrow> (rune_error, 1))
     else if 240 \<le> byte c0 \<and> byte c0 \<le> 244 then
       (case r0 of c1 # c2 # c3 # _ \<Rightarrow>
          if is_cont c1 \<and> is_cont c2 \<and> is_cont c3 \<and> (byte c0 = 240 \<longrightarrow> 144 \<le> byte c1)
             \<and> (byte c0 = 244 \<longrightarrow> byte c1 \<le> 143)
          then ((byte c0 - 240) * 262144 + (byte c1 - 128) * 4096 + (byte c2 - 128) * 64
                 + (byte c3 - 128), 4)
          else (rune_error, 1)
        | _ \<Rightarrow> (rune_error, 1))
     else (rune_error, 1))"

text \<open>\<open>utf8.AppendRune\<close>; surrogates and values past the last code point encode the error rune.\<close>

definition encode_rune :: "rune \<Rightarrow> string" where
  "encode_rune r0 =
     (let r = (if 1114111 < r0 \<or> (55296 \<le> r0 \<and> r0 \<le> 57343) then rune_error else r0)
      in if r < 128 then [char_of r]
         else if r < 2048 then [char_of (192 + r div 64), char_of (128 + r mod 64)]
         else if r < 65536 then
           [char_of (224 + r div 4096), char_of (128 + r div 64 mod 64), char_of (128 + r mod 64)]
         else [char_of (240 + r div 262144), char_of (128 + r div 4096 mod 64),
               char_of (128 + r div 64 mod 64), char_of (128 + r mod 64)])"

text \<open>The runes of a string, each with the bytes it was decoded from.\<close>

fun runes :: "string \<Rightarrow> (rune \<times> string) list" where
  "runes [] = []"
| "runes (c # s) = (let (r, n) = decode_rune (c # s)
                    in (r, c # take (n - 1) s) # runes (drop (n - 1) s))"

lemma concat_runes [simp]: "concat (map snd (runes s)) = s"
  by (induction s rule: runes.induct) (auto simp: Let_def split: prod.splits)

definition ascii :: "string \<Rightarrow> bool" where
  "ascii s \<longleftrightarrow> list_all (\<lambda>c. byte c < 128) s"

lemma ascii_simps [simp]:
  "ascii []"
  "ascii (c # s) \<longleftrightarrow> byte c < 128 \<and> ascii s"
  "ascii (s @ t) \<longleftrightarrow> ascii s \<and> ascii t"
  by (auto simp: ascii_def)

lemma runes_ascii: "ascii s \<Longrightarrow> runes s = map (\<lambda>c. (byte c, [c])) s"
  by (induction s rule: runes.induct) (simp_all add: decode_rune_def)

section \<open>White space, trimming, fields\<close>

text \<open>\<open>unicode.IsSpace\<close>.\<close>

definition is_space :: "rune \<Rightarrow> bool" where
  "is_space r \<longleftrightarrow> (9 \<le> r \<and> r \<le> 13) \<or> r = 32 \<or> r = 133 \<or> r = 160 \<or> r = 5760
     \<or> (8192 \<le> r \<and> r \<le> 8202) \<or> r = 8232 \<or> r = 8233 \<or> r = 8239 \<or> r = 8287 \<or> r = 12288"

definition trim_space :: "string \<Rightarrow> string" where
  "trim_space s = concat (map snd (rev (dropWhile (is_space \<circ> fst)
     (rev (dropWhile (is_space \<circ> fst) (runes s))))))"

text \<open>\<open>strings.Fields\<close>: the maximal runs without white space.\<close>

fun str_fields_from :: "(rune \<times> string) list \<Rightarrow> string \<Rightarrow> string list" where
  "str_fields_from [] cur = (if cur = '''' then [] else [cur])"
| "str_fields_from ((r, b) # rs) cur =
     (if is_space r then (if cur = '''' then [] else [cur]) @ str_fields_from rs ''''
      else str_fields_from rs (cur @ b))"

definition str_fields :: "string \<Rightarrow> string list" where
  "str_fields s = str_fields_from (runes s) ''''"

text \<open>\<open>strings.Split\<close> with a one-byte separator, and \<open>strings.Join\<close>.\<close>

fun split_on :: "char \<Rightarrow> string \<Rightarrow> string list" where
  "split_on c [] = [[]]"
| "split_on c (x # s) = (if x = c then [] # split_on c s
     else (case split_on c s of [] \<Rightarrow> [[x]] | p # ps \<Rightarrow> (x # p) # ps))"

fun join :: "string \<Rightarrow> string list \<Rightarrow> string" where
  "join sep [] = ''''"
| "join sep [x] = x"
| "join sep (x # y # ys) = x @ sep @ join sep (y # ys)"

section \<open>Searching and replacing\<close>

text \<open>\<open>strings.Index\<close>, with \<open>None\<close> for a negative result.\<close>

fun index_of :: "string \<Rightarrow> string \<Rightarrow> nat option" where
  "index_of pat [] = (if pat = '''' then Some 0 else None)"
| "index_of pat (c # s) =
     (if prefix pat (c # s) then Some 0 else map_option Suc (index_of pat s))"

fun replace_nonempty :: "string \<Rightarrow> string \<Rightarrow> string \<Rightarrow> string" where
  "replace_nonempty old new [] = ''''"
| "replace_nonempty old new (c # s) =
     (if prefix old (c # s) then new @ replace_nonempty old new (drop (length old - 1) s)
      else c # replace_nonempty old new s)"

text \<open>\<open>strings.ReplaceAll\<close>: an empty pattern matches before every rune and at the end.\<close>

definition replace_all :: "string \<Rightarrow> string \<Rightarrow> string \<Rightarrow> string" where
  "replace_all s old new =
     (if old = '''' then new @ concat (map (\<lambda>p. snd p @ new) (runes s))
      else replace_nonempty old new s)"

definition has_suffix :: "string \<Rightarrow> string \<Rightarrow> bool" where
  "has_suffix s suf \<longleftrightarrow> suffix suf s"

definition trim_suffix :: "string \<Rightarrow> string \<Rightarrow> string" where
  "trim_suffix s suf = (if suffix suf s then take (length s - length suf) s else s)"

section \<open>Numbers\<close>

fun nat_digits :: "nat \<Rightarrow> string" where
  "nat_digits n = (if n < 10 then [char_of (48 + n)]
     else nat_digits (n div 10) @ [char_of (48 + n mod 10)])"

declare nat_digits.simps [simp del]

text \<open>\<open>strconv.FormatInt(n, 10)\<close> and the verb \<open>%d\<close>.\<close>

definition itoa :: "int \<Rightarrow> string" where
  "itoa n = (if n < 0 then ''-'' @ nat_digits (nat (- n)) else nat_digits (nat n))"

definition is_digit :: "char \<Rightarrow> bool" where
  "is_digit c \<longleftrightarrow> 48 \<le> byte c \<and> byte c \<le> 57"

definition digit_value :: "char \<Rightarrow> int" where
  "digit_value c = of_char c - 48"

text \<open>\<open>strconv.Atoi\<close>: \<open>None\<close> is any error (syntax, or out of the range of a 64-bit \<open>int\<close>).\<close>

definition atoi :: "string \<Rightarrow> int option" where
  "atoi s = (let neg = (case s of c # _ \<Rightarrow> c = CHR ''-'' | [] \<Rightarrow> False);
                 ds = (case s of c # r \<Rightarrow> if c = CHR ''-'' \<or> c = CHR ''+'' then r else s | [] \<Rightarrow> []);
                 v = foldl (\<lambda>a d. 10 * a + digit_value d) 0 ds
             in if ds = '''' \<or> \<not> list_all is_digit ds then None
                else if neg then (if v \<le> 2 ^ 63 then Some (- v) else None)
                else if v < 2 ^ 63 then Some v else None)"

section \<open>Case and quoting\<close>

record go_runtime =
  to_upper_rune :: "rune \<Rightarrow> rune" \<comment> \<open>\<open>unicode.ToUpper\<close>\<close>
  to_lower_rune :: "rune \<Rightarrow> rune" \<comment> \<open>\<open>unicode.ToLower\<close>\<close>
  same_fold :: "rune \<Rightarrow> rune \<Rightarrow> bool" \<comment> \<open>in one orbit of \<open>unicode.SimpleFold\<close>\<close>
  is_print :: "rune \<Rightarrow> bool" \<comment> \<open>\<open>unicode.IsPrint\<close>\<close>
  float_fraction :: "int \<Rightarrow> int \<Rightarrow> int \<Rightarrow> int" \<comment> \<open>\<open>f * (unit / scale)\<close> in \<open>float64\<close>, truncated\<close>
  json_error_text :: "string \<Rightarrow> string \<Rightarrow> string" \<comment> \<open>error of decoding a text into a Go type\<close>
  url_error_text :: "string \<Rightarrow> string" \<comment> \<open>error of \<open>url.Parse\<close>\<close>
  map_order :: "(string \<times> string) list \<Rightarrow> (string \<times> string) list" \<comment> \<open>the order \<open>range\<close> walks a map in\<close>

text \<open>The order of a range is some order of the entries: each once.\<close>

definition fair_map_order :: "go_runtime \<Rightarrow> bool" where
  "fair_map_order R \<longleftrightarrow> (\<forall>m. mset (map_order R m) = mset m)"

lemma fair_map_order_set: "fair_map_order R \<Longrightarrow> set (map_order R m) = set m"
  by (metis fair_map_order_def set_mset_mset)

definition upper_byte :: "char \<Rightarrow> char" where
  "upper_byte c = (if 97 \<le> byte c \<and> byte c \<le> 122 then char_of (byte c - 32) else c)"

definition lower_byte :: "char \<Rightarrow> char" where
  "lower_byte c = (if 65 \<le> byte c \<and> byte c \<le> 90 then char_of (byte c + 32) else c)"

definition to_upper :: "go_runtime \<Rightarrow> string \<Rightarrow> string" where
  "to_upper R s = (if ascii s then map upper_byte s
     else concat (map (\<lambda>p. encode_rune (to_upper_rune R (fst p))) (runes s)))"

definition to_lower :: "go_runtime \<Rightarrow> string \<Rightarrow> string" where
  "to_lower R s = (if ascii s then map lower_byte s
     else concat (map (\<lambda>p. encode_rune (to_lower_rune R (fst p))) (runes s)))"

text \<open>\<open>strings.EqualFold\<close>: two ASCII runes by ASCII case, anything else by the fold orbit.\<close>

definition fold_rune_eq :: "go_runtime \<Rightarrow> rune \<Rightarrow> rune \<Rightarrow> bool" where
  "fold_rune_eq R a b \<longleftrightarrow> a = b \<or>
     (if max a b < 128 then 65 \<le> min a b \<and> min a b \<le> 90 \<and> max a b = min a b + 32
      else same_fold R (min a b) (max a b))"

definition equal_fold :: "go_runtime \<Rightarrow> string \<Rightarrow> string \<Rightarrow> bool" where
  "equal_fold R s t \<longleftrightarrow> list_all2 (fold_rune_eq R) (map fst (runes s)) (map fst (runes t))"

definition hex_digit :: "nat \<Rightarrow> char" where
  "hex_digit n = (if n < 10 then char_of (48 + n) else char_of (87 + n))"

fun hex_pad :: "nat \<Rightarrow> nat \<Rightarrow> string" where
  "hex_pad 0 n = ''''"
| "hex_pad (Suc k) n = hex_pad k (n div 16) @ [hex_digit (n mod 16)]"

text \<open>\<open>strconv.Quote\<close>, the verb \<open>%q\<close>.\<close>

definition quote_rune :: "go_runtime \<Rightarrow> rune \<times> string \<Rightarrow> string" where
  "quote_rune R p = (case p of (r, b) \<Rightarrow>
     if r = rune_error \<and> length b = 1 then [CHR 0x5C, CHR ''x''] @ hex_pad 2 (byte (hd b))
     else if r = 34 \<or> r = 92 then [CHR 0x5C, char_of r]
     else if (if r < 128 then 32 \<le> r \<and> r < 127 else is_print R r) then encode_rune r
     else if r = 7 then [CHR 0x5C, CHR ''a'']
     else if r = 8 then [CHR 0x5C, CHR ''b'']
     else if r = 12 then [CHR 0x5C, CHR ''f'']
     else if r = 10 then [CHR 0x5C, CHR ''n'']
     else if r = 13 then [CHR 0x5C, CHR ''r'']
     else if r = 9 then [CHR 0x5C, CHR ''t'']
     else if r = 11 then [CHR 0x5C, CHR ''v'']
     else if r < 32 \<or> r = 127 then [CHR 0x5C, CHR ''x''] @ hex_pad 2 r
     else if r < 65536 then [CHR 0x5C, CHR ''u''] @ hex_pad 4 r
     else [CHR 0x5C, CHR ''U''] @ hex_pad 8 r)"

definition quote :: "go_runtime \<Rightarrow> string \<Rightarrow> string" where
  "quote R s = [CHR 0x22] @ concat (map (quote_rune R) (runes s)) @ [CHR 0x22]"

end
