(* ===== verification/Errors.thy ===== *)
theory Errors
  imports Go_Strings
begin

text \<open>
  Go \<open>error\<close> values. The constructors are the dynamic types the operator tells apart:
  its own \<open>APIError\<close> (\<open>krypticapi/client.go\<close>), the classes of Kubernetes API
  errors \<open>apierrors.IsNotFound\<close> and \<open>IsConflict\<close> ask for, the AWS
  \<open>NoSuchEntityException\<close>, and any other error, known by its text. \<open>Wrap\<close> is
  \<open>fmt.Errorf\<close> with a trailing \<open>%w\<close>: the text before it and the wrapped error.
  \<open>Hang\<close> is no Go error: it is the result of a call that has not returned within the bounds of
  the model (\<open>Username\<close>).
\<close>

datatype goerr =
    Err string
  | ApiError int
  | KubeNotFound string
  | KubeConflict string
  | NoSuchEntity string
  | Wrap string goerr
  | Hang

text \<open>HTTP status codes the code names.\<close>

definition StatusOK :: int where "StatusOK = 200"
definition StatusUnauthorized :: int where "StatusUnauthorized = 401"
definition StatusForbidden :: int where "StatusForbidden = 403"
definition StatusNotFound :: int where "StatusNotFound = 404"

text \<open>\<open>APIError.Error\<close>: the text depends on the status code alone, never on a response body.\<close>

definition api_error_text :: "int \<Rightarrow> string" where
  "api_error_text st =
     (if st = StatusUnauthorized \<or> st = StatusForbidden
      then ''kryptic api: authentication failed (HTTP '' @ itoa st @ '')''
      else ''kryptic api: request failed (HTTP '' @ itoa st @ '')'')"

text \<open>\<open>APIError.Permanent\<close>.\<close>

definition permanent :: "int \<Rightarrow> bool" where
  "permanent st \<longleftrightarrow> st = StatusUnauthorized \<or> st = StatusForbidden \<or> st = StatusNotFound"

fun err_text :: "goerr \<Rightarrow> string" where
  "err_text (Err t) = t"
| "err_text (ApiError st) = api_error_text st"
| "err_text (KubeNotFound t) = t"
| "err_text (KubeConflict t) = t"
| "err_text (NoSuchEntity t) = t"
| "err_text (Wrap p e) = p @ err_text e"
| "err_text Hang = ''''"

text \<open>\<open>errors.As\<close> with an \<open>*APIError\<close> target walks the chain of wrapped errors.\<close>

fun as_api_error :: "goerr \<Rightarrow> int option" where
  "as_api_error (ApiError st) = Some st"
| "as_api_error (Wrap p e) = as_api_error e"
| "as_api_error _ = None"

fun is_no_such_entity :: "goerr \<Rightarrow> bool" where
  "is_no_such_entity (NoSuchEntity t) = True"
| "is_no_such_entity (Wrap p e) = is_no_such_entity e"
| "is_no_such_entity _ = False"

text \<open>\<open>asAPIError\<close> (\<open>leases.go\<close>) is a plain type assertion: it does not unwrap.\<close>

fun direct_api_error :: "goerr \<Rightarrow> int option" where
  "direct_api_error (ApiError st) = Some st"
| "direct_api_error _ = None"

fun is_not_found :: "goerr \<Rightarrow> bool" where
  "is_not_found (KubeNotFound t) = True"
| "is_not_found (Wrap p e) = is_not_found e"
| "is_not_found _ = False"

fun is_conflict :: "goerr \<Rightarrow> bool" where
  "is_conflict (KubeConflict t) = True"
| "is_conflict (Wrap p e) = is_conflict e"
| "is_conflict _ = False"

lemma direct_implies_as: "direct_api_error e = Some st \<Longrightarrow> as_api_error e = Some st"
  by (cases e) auto

text \<open>The condition under which the reconciler backs off for good.\<close>

definition is_permanent :: "goerr \<Rightarrow> bool" where
  "is_permanent e \<longleftrightarrow> (case as_api_error e of Some st \<Rightarrow> permanent st | None \<Rightarrow> False)"

lemma is_permanent_wrap [simp]: "is_permanent (Wrap p e) = is_permanent e"
  by (simp add: is_permanent_def)

lemma is_permanent_api [simp]: "is_permanent (ApiError st) = permanent st"
  by (simp add: is_permanent_def)

end
