(* ===== verification/Go_Json.thy ===== *)
theory Go_Json
  imports Go_Strings
begin

text \<open>
  Go's \<open>encoding/json\<close> as far as the operator uses it. \<open>json_encode\<close> writes a
  value the way \<open>json.Marshal\<close> does (compact, HTML-safe escapes). \<open>json_parse\<close>
  is the reader of \<open>json.Unmarshal\<close> (the whole input is one value) and
  \<open>json_parse_prefix\<close> that of \<open>Decoder.Decode\<close> (what follows the value is left
  alone). The \<open>decode_\<close> functions store a value into a Go variable by the rules of
  \<open>Unmarshal\<close>: \<open>null\<close> leaves the variable as it is, field names match without
  regard to case, unknown fields are skipped, a value of the wrong type is an error
  (\<open>None\<close>). Integers and other numbers are told apart because only the former decode
  into a Go \<open>int\<close>.
\<close>

datatype json =
    JNull
  | JBool bool
  | JInt int
  | JFloat string \<comment> \<open>a number with a fraction or an exponent, as written\<close>
  | JStr string
  | JArr "json list"
  | JObj "(string \<times> json) list"

section \<open>Writing\<close>

definition json_rune :: "rune \<times> string \<Rightarrow> string" where
  "json_rune p = (case p of (r, b) \<Rightarrow>
     if r = rune_error \<and> length b = 1 then [CHR 0x5C] @ ''ufffd''
     else if r = 34 then [CHR 0x5C, CHR 0x22]
     else if r = 92 then [CHR 0x5C, CHR 0x5C]
     else if r = 8 then [CHR 0x5C, CHR ''b'']
     else if r = 12 then [CHR 0x5C, CHR ''f'']
     else if r = 10 then [CHR 0x5C, CHR ''n'']
     else if r = 13 then [CHR 0x5C, CHR ''r'']
     else if r = 9 then [CHR 0x5C, CHR ''t'']
     else if r < 32 \<or> r \<in> {38, 60, 62, 8232, 8233} then [CHR 0x5C, CHR ''u''] @ hex_pad 4 r
     else b)"

definition json_string :: "string \<Rightarrow> string" where
  "json_string s = [CHR 0x22] @ concat (map json_rune (runes s)) @ [CHR 0x22]"

fun json_encode :: "json \<Rightarrow> string" where
  "json_encode JNull = ''null''"
| "json_encode (JBool b) = (if b then ''true'' else ''false'')"
| "json_encode (JInt n) = itoa n"
| "json_encode (JFloat s) = s"
| "json_encode (JStr s) = json_string s"
| "json_encode (JArr vs) = ''['' @ join '','' (map json_encode vs) @ '']''"
| "json_encode (JObj kvs) =
     ''{'' @ join '','' (map (\<lambda>(k, v). json_string k @ '':'' @ json_encode v) kvs) @ ''}''"

section \<open>Reading\<close>

definition json_space :: "char \<Rightarrow> bool" where
  "json_space c \<longleftrightarrow> byte c \<in> {9, 10, 13, 32}"

definition hex_value :: "char \<Rightarrow> nat option" where
  "hex_value c = (if is_digit c then Some (byte c - 48)
     else if 97 \<le> byte c \<and> byte c \<le> 102 then Some (byte c - 87)
     else if 65 \<le> byte c \<and> byte c \<le> 70 then Some (byte c - 55) else None)"

definition hex4 :: "string \<Rightarrow> nat option" where
  "hex4 s = (if length s < 4 then None
     else foldl (\<lambda>a c. case a of None \<Rightarrow> None | Some x \<Rightarrow>
            map_option (\<lambda>h. 16 * x + h) (hex_value c)) (Some 0) (take 4 s))"

text \<open>A \<open>\u\<close> escape (the input starts after the \<open>u\<close>): its rune and how many bytes it takes.\<close>

definition unicode_escape :: "string \<Rightarrow> (rune \<times> nat) option" where
  "unicode_escape s = (case hex4 s of None \<Rightarrow> None | Some r \<Rightarrow>
     if 55296 \<le> r \<and> r \<le> 57343 then
       (if take 2 (drop 4 s) = [CHR 0x5C, CHR ''u''] then
          (case hex4 (drop 6 s) of
             Some r2 \<Rightarrow> if r \<le> 56319 \<and> 56320 \<le> r2 \<and> r2 \<le> 57343
                        then Some (65536 + (r - 55296) * 1024 + (r2 - 56320), 10)
                        else Some (rune_error, 4)
           | None \<Rightarrow> Some (rune_error, 4))
        else Some (rune_error, 4))
     else Some (r, 4))"

text \<open>The rest of a string literal, after the opening quote: its value and what follows.\<close>

fun scan_string :: "string \<Rightarrow> (string \<times> string) option" where
  "scan_string [] = None"
| "scan_string (c # s) =
     (if byte c = 34 then Some ('''', s)
      else if byte c < 32 then None
      else if byte c = 92 then
        (case s of [] \<Rightarrow> None | e # s' \<Rightarrow>
           if e = CHR ''u'' then
             (case unicode_escape s' of None \<Rightarrow> None | Some (r, n) \<Rightarrow>
                map_option (map_prod (\<lambda>t. encode_rune r @ t) id) (scan_string (drop n s')))
           else (case map_of [(CHR 0x22, CHR 0x22), (CHR 0x5C, CHR 0x5C), (CHR ''/'', CHR ''/''),
                     (CHR ''b'', CHR 0x08), (CHR ''f'', CHR 0x0C), (CHR ''n'', CHR 0x0A),
                     (CHR ''r'', CHR 0x0D), (CHR ''t'', CHR 0x09)] e of
               None \<Rightarrow> None
             | Some d \<Rightarrow> map_option (map_prod (\<lambda>t. d # t) id) (scan_string s')))
      else (case decode_rune (c # s) of (r, n) \<Rightarrow>
        map_option (map_prod (\<lambda>t. encode_rune r @ t) id) (scan_string (drop (n - 1) s))))"

definition span_digits :: "string \<Rightarrow> string \<times> string" where
  "span_digits s = (takeWhile is_digit s, dropWhile is_digit s)"

definition scan_number :: "string \<Rightarrow> (json \<times> string) option" where
  "scan_number s =
     (let neg = (s \<noteq> '''' \<and> hd s = CHR ''-'');
          s1 = (if neg then tl s else s);
          ip = fst (span_digits s1);
          int_part = (if take 1 ip = ''0'' then ''0'' else ip);
          s2 = drop (length int_part) s1;
          has_frac = (s2 \<noteq> '''' \<and> hd s2 = CHR ''.'');
          fp = (if has_frac then fst (span_digits (tl s2)) else '''');
          s3 = (if has_frac then drop (length fp) (tl s2) else s2);
          has_exp = (s3 \<noteq> '''' \<and> (hd s3 = CHR ''e'' \<or> hd s3 = CHR ''E''));
          s4 = (if has_exp then tl s3 else s3);
          s5 = (if has_exp \<and> s4 \<noteq> '''' \<and> (hd s4 = CHR ''+'' \<or> hd s4 = CHR ''-'') then tl s4 else s4);
          ep = (if has_exp then fst (span_digits s5) else '''');
          s6 = drop (length ep) s5;
          n = foldl (\<lambda>a d. 10 * a + digit_value d) 0 int_part
      in if int_part = '''' \<or> (has_frac \<and> fp = '''') \<or> (has_exp \<and> ep = '''') then None
         else if has_frac \<or> has_exp then Some (JFloat (take (length s - length s6) s), s6)
         else Some (JInt (if neg then - n else n), s6))"

text \<open>
  The reader is one function over a stack-free grammar: \<open>mode\<close> says what is expected. The
  guards on the length of the rest only make the recursion well founded: every reader consumes
  input.
\<close>

datatype json_mode = Value | Elements | Members

function (sequential) json_read :: "json_mode \<Rightarrow> string \<Rightarrow> (json \<times> string) option" where
  "json_read Value s0 = (let s = dropWhile json_space s0 in
     case s of [] \<Rightarrow> None | c # r \<Rightarrow>
       if c = CHR 0x22 then map_option (map_prod JStr id) (scan_string r)
       else if c = CHR ''{'' then
         (case dropWhile json_space r of
            [] \<Rightarrow> None
          | d # r' \<Rightarrow> if d = CHR ''}'' then Some (JObj [], r') else json_read Members r)
       else if c = CHR ''['' then
         (case dropWhile json_space r of
            [] \<Rightarrow> None
          | d # r' \<Rightarrow> if d = CHR '']'' then Some (JArr [], r') else json_read Elements r)
       else if prefix ''null'' s then Some (JNull, drop 4 s)
       else if prefix ''true'' s then Some (JBool True, drop 4 s)
       else if prefix ''false'' s then Some (JBool False, drop 5 s)
       else scan_number s)"
| "json_read Elements s =
     (case json_read Value s of None \<Rightarrow> None | Some (v, r) \<Rightarrow>
        (case dropWhile json_space r of [] \<Rightarrow> None | c # r' \<Rightarrow>
           if c = CHR '']'' then Some (JArr [v], r')
           else if c = CHR '','' \<and> length r' < length s then
             (case json_read Elements r' of
                Some (JArr vs, r'') \<Rightarrow> Some (JArr (v # vs), r'') | _ \<Rightarrow> None)
           else None))"
| "json_read Members s =
     (case dropWhile json_space s of [] \<Rightarrow> None | q # r0 \<Rightarrow>
        if q \<noteq> CHR 0x22 then None else
        (case scan_string r0 of None \<Rightarrow> None | Some (k, r1) \<Rightarrow>
           (case dropWhile json_space r1 of [] \<Rightarrow> None | c # r2 \<Rightarrow>
              if c \<noteq> CHR '':'' \<or> \<not> length r2 < length s then None else
              (case json_read Value r2 of None \<Rightarrow> None | Some (v, r3) \<Rightarrow>
                 (case dropWhile json_space r3 of [] \<Rightarrow> None | e # r4 \<Rightarrow>
                    if e = CHR ''}'' then Some (JObj [(k, v)], r4)
                    else if e = CHR '','' \<and> length r4 < length s then
                      (case json_read Members r4 of
                         Some (JObj kvs, r5) \<Rightarrow> Some (JObj ((k, v) # kvs), r5) | _ \<Rightarrow> None)
                    else None)))))"
  by pat_completeness auto
termination
proof (relation "measures [\<lambda>(m, s). length s, \<lambda>(m, s). case m of Value \<Rightarrow> 0 | _ \<Rightarrow> 1]", goal_cases)
  case (2 s0 s c r d r')
  from 2(1,2) have "length (c # r) \<le> length s0"
    by (metis length_dropWhile_le)
  then show ?case by simp
next
  case (3 s0 s c r d r')
  from 3(1,2) have "length (c # r) \<le> length s0"
    by (metis length_dropWhile_le)
  then show ?case by simp
qed auto

declare json_read.simps [simp del]

definition json_parse_prefix :: "string \<Rightarrow> json option" where
  "json_parse_prefix s = map_option fst (json_read Value s)"

definition json_parse :: "string \<Rightarrow> json option" where
  "json_parse s = (case json_read Value s of
     Some (v, r) \<Rightarrow> if dropWhile json_space r = '''' then Some v else None
   | None \<Rightarrow> None)"

section \<open>Decoding into Go variables\<close>

type_synonym 'a decoder = "'a \<Rightarrow> json \<Rightarrow> 'a option" \<comment> \<open>the variable's old value comes first\<close>

definition decode_string :: "string decoder" where
  "decode_string old j = (case j of JNull \<Rightarrow> Some old | JStr s \<Rightarrow> Some s | _ \<Rightarrow> None)"

definition decode_bool :: "bool decoder" where
  "decode_bool old j = (case j of JNull \<Rightarrow> Some old | JBool b \<Rightarrow> Some b | _ \<Rightarrow> None)"

text \<open>A Go \<open>int\<close> (or \<open>int64\<close>): a number out of range is an error.\<close>

definition decode_int :: "int decoder" where
  "decode_int old j = (case j of
       JNull \<Rightarrow> Some old
     | JInt n \<Rightarrow> if - (2 ^ 63) \<le> n \<and> n < 2 ^ 63 then Some n else None
     | _ \<Rightarrow> None)"

definition decode_pointer :: "'a \<Rightarrow> 'a decoder \<Rightarrow> 'a option decoder" where
  "decode_pointer zero dec old j = (case j of
       JNull \<Rightarrow> Some None
     | _ \<Rightarrow> map_option Some (dec (case old of None \<Rightarrow> zero | Some x \<Rightarrow> x) j))"

text \<open>An element of an array is decoded over the element the slice already has at its index.\<close>

fun decode_elements :: "'a \<Rightarrow> 'a decoder \<Rightarrow> 'a list \<Rightarrow> json list \<Rightarrow> 'a list option" where
  "decode_elements zero dec old [] = Some []"
| "decode_elements zero dec old (j # js) =
     (case dec (case old of [] \<Rightarrow> zero | x # _ \<Rightarrow> x) j of
        None \<Rightarrow> None
      | Some x \<Rightarrow> map_option ((#) x) (decode_elements zero dec (tl old) js))"

definition decode_slice :: "'a \<Rightarrow> 'a decoder \<Rightarrow> 'a list decoder" where
  "decode_slice zero dec old j = (case j of
       JNull \<Rightarrow> Some []
     | JArr js \<Rightarrow> decode_elements zero dec old js
     | _ \<Rightarrow> None)"

text \<open>
  A struct: every member goes to the field of its name, in the order of the text;
  \<open>step\<close> says what a member does.
\<close>

fun decode_members :: "('a \<Rightarrow> string \<Rightarrow> json \<Rightarrow> 'a option) \<Rightarrow> 'a \<Rightarrow> (string \<times> json) list \<Rightarrow> 'a option" where
  "decode_members step a [] = Some a"
| "decode_members step a ((k, v) # kvs) =
     (case step a k v of None \<Rightarrow> None | Some a' \<Rightarrow> decode_members step a' kvs)"

definition decode_struct :: "('a \<Rightarrow> string \<Rightarrow> json \<Rightarrow> 'a option) \<Rightarrow> 'a decoder" where
  "decode_struct step old j = (case j of
       JNull \<Rightarrow> Some old
     | JObj kvs \<Rightarrow> decode_members step old kvs
     | _ \<Rightarrow> None)"

definition field_matches :: "go_runtime \<Rightarrow> string \<Rightarrow> string \<Rightarrow> bool" where
  "field_matches R name k \<longleftrightarrow> k = name \<or> equal_fold R k name"

text \<open>\<open>map[string]string\<close>, as an association list with distinct keys and as a map.\<close>

definition decode_entry :: "(string \<times> string) list \<Rightarrow> string \<Rightarrow> json \<Rightarrow> (string \<times> string) list option" where
  "decode_entry m k v = map_option (\<lambda>s. AList.update k s m) (decode_string '''' v)"

definition decode_alist :: "(string \<times> string) list decoder" where
  "decode_alist old j = (case j of
       JNull \<Rightarrow> Some []
     | JObj kvs \<Rightarrow> decode_members decode_entry old kvs
     | _ \<Rightarrow> None)"

definition decode_map_entry :: "(string \<rightharpoonup> string) \<Rightarrow> string \<Rightarrow> json \<Rightarrow> (string \<rightharpoonup> string) option" where
  "decode_map_entry m k v = map_option (\<lambda>s. m(k \<mapsto> s)) (decode_string '''' v)"

definition decode_map :: "(string \<rightharpoonup> string) decoder" where
  "decode_map old j = (case j of
       JNull \<Rightarrow> Some Map.empty
     | JObj kvs \<Rightarrow> decode_members decode_map_entry old kvs
     | _ \<Rightarrow> None)"

lemma decode_members_alist_map:
  "map_option map_of (decode_members decode_entry al kvs)
     = decode_members decode_map_entry (map_of al) kvs"
proof (induction kvs arbitrary: al)
  case (Cons kv kvs)
  obtain k v where kv: "kv = (k, v)" by fastforce
  show ?case
  proof (cases "decode_string [] v")
    case None
    then have "decode_entry al k v = None" "decode_map_entry (map_of al) k v = None"
      by (simp_all add: decode_entry_def decode_map_entry_def)
    then show ?thesis by (simp add: kv)
  next
    case (Some t)
    then have "decode_entry al k v = Some (AList.update k t al)"
      "decode_map_entry (map_of al) k v = Some (map_of (AList.update k t al))"
      by (simp_all add: decode_entry_def decode_map_entry_def update_conv')
    then show ?thesis using Cons.IH [of "AList.update k t al"] by (simp only: kv decode_members.simps option.case)
  qed
qed simp

text \<open>The two ways to decode a map agree.\<close>

lemma decode_alist_map_of: "map_option map_of (decode_alist old j) = decode_map (map_of old) j"
  by (cases j) (simp_all add: decode_alist_def decode_map_def decode_members_alist_map)

lemma decode_members_distinct:
  "distinct (map fst al) \<Longrightarrow> decode_members decode_entry al kvs = Some m \<Longrightarrow> distinct (map fst m)"
proof (induction kvs arbitrary: al)
  case (Cons kv kvs)
  obtain k v where kv: "kv = (k, v)" by fastforce
  from Cons.prems(2) obtain al' where al: "decode_entry al k v = Some al'"
    and m: "decode_members decode_entry al' kvs = Some m"
    by (simp only: kv decode_members.simps split: option.splits) blast
  from al have "distinct (map fst al')"
    by (auto simp: decode_entry_def distinct_update Cons.prems(1))
  then show ?case using m by (rule Cons.IH)
qed simp

lemma decode_alist_distinct:
  "distinct (map fst old) \<Longrightarrow> decode_alist old j = Some m \<Longrightarrow> distinct (map fst m)"
  by (auto simp: decode_alist_def split: json.splits dest: decode_members_distinct)

end
