(* ===== verification/Go_Time.thy ===== *)
theory Go_Time
  imports Go_Strings
begin

text \<open>
  The part of Go's \<open>time\<close> package the operator uses. A \<open>time.Duration\<close> and a
  point in time are integers counting nanoseconds (the latter from the Unix epoch, UTC).
  \<open>parse_duration\<close> is \<open>time.ParseDuration\<close> with its 64-bit overflow checks;
  \<open>format_rfc3339\<close> is \<open>t.UTC().Format(time.RFC3339)\<close>.
\<close>

type_synonym duration = int
type_synonym time = int

definition nanosecond :: duration where "nanosecond = 1"
definition second :: duration where "second = 1000000000"
definition minute :: duration where "minute = 60 * second"
definition hour :: duration where "hour = 60 * minute"

section \<open>Parsing durations\<close>

text \<open>\<open>leadingInt\<close>: \<open>None\<close> is its overflow error.\<close>

fun leading_int :: "int \<Rightarrow> string \<Rightarrow> (int \<times> string) option" where
  "leading_int x [] = Some (x, [])"
| "leading_int x (c # s) =
     (if \<not> is_digit c then Some (x, c # s)
      else if 2 ^ 63 div 10 < x then None
      else if 2 ^ 63 < x * 10 + digit_value c then None
      else leading_int (x * 10 + digit_value c) s)"

text \<open>\<open>leadingFraction\<close>: digits past the precision of 64 bits are skipped.\<close>

fun leading_fraction :: "bool \<Rightarrow> int \<Rightarrow> int \<Rightarrow> string \<Rightarrow> int \<times> int \<times> string" where
  "leading_fraction ovf x scale [] = (x, scale, [])"
| "leading_fraction ovf x scale (c # s) =
     (if \<not> is_digit c then (x, scale, c # s)
      else if ovf \<or> (2 ^ 63 - 1) div 10 < x \<or> 2 ^ 63 < x * 10 + digit_value c
      then leading_fraction True x scale s
      else leading_fraction False (x * 10 + digit_value c) (scale * 10) s)"

definition unit_value :: "string \<Rightarrow> int option" where
  "unit_value u = map_of
     [(''ns'', 1), (''us'', 1000), ([CHR 0xC2, CHR 0xB5, CHR ''s''], 1000),
      ([CHR 0xCE, CHR 0xBC, CHR ''s''], 1000), (''ms'', 1000000), (''s'', 1000000000),
      (''m'', 60000000000), (''h'', 3600000000000)] u"

definition number_char :: "char \<Rightarrow> bool" where
  "number_char c \<longleftrightarrow> c = CHR ''.'' \<or> is_digit c"

lemma leading_int_length: "leading_int x s = Some (v, r) \<Longrightarrow> length r \<le> length s"
  by (induction x s rule: leading_int.induct) (auto split: if_splits)

lemma leading_fraction_length: "length (snd (snd (leading_fraction o' x sc s))) \<le> length s"
  by (induction o' x sc s rule: leading_fraction.induct) auto

text \<open>The optional fraction of a term: whether it has digits, their value and scale, the rest.\<close>

definition fraction_part :: "string \<Rightarrow> bool \<times> int \<times> int \<times> string" where
  "fraction_part s = (if s \<noteq> '''' \<and> hd s = CHR ''.''
     then (case leading_fraction False 0 1 (tl s) of (f, scale, r) \<Rightarrow>
             (length r \<noteq> length (tl s), f, scale, r))
     else (False, 0, 1, s))"

definition scale_unit :: "go_runtime \<Rightarrow> int \<Rightarrow> int \<Rightarrow> int \<Rightarrow> int \<Rightarrow> int option" where
  "scale_unit R v f scale unit =
     (if 2 ^ 63 div unit < v then None
      else if f = 0 then Some (v * unit)
      else if 2 ^ 63 < v * unit + float_fraction R f unit scale then None
      else Some (v * unit + float_fraction R f unit scale))"

text \<open>One \<open>number unit\<close> term: its value in nanoseconds and the rest of the input.\<close>

definition duration_term :: "go_runtime \<Rightarrow> string \<Rightarrow> (int \<times> string) option" where
  "duration_term R s =
     (if s = '''' \<or> \<not> number_char (hd s) then None else
      case leading_int 0 s of None \<Rightarrow> None | Some (v, s1) \<Rightarrow>
        (case fraction_part s1 of (post, f, scale, s2) \<Rightarrow>
          if length s1 = length s \<and> \<not> post then None
          else if takeWhile (\<lambda>c. \<not> number_char c) s2 = '''' then None
          else (case unit_value (takeWhile (\<lambda>c. \<not> number_char c) s2) of None \<Rightarrow> None | Some unit \<Rightarrow>
            map_option (\<lambda>d. (d, dropWhile (\<lambda>c. \<not> number_char c) s2))
              (scale_unit R v f scale unit))))"

lemma fraction_part_length: "fraction_part s = (p, f, sc, r) \<Longrightarrow> length r \<le> length s"
  using leading_fraction_length [of False 0 1 "tl s"]
  by (cases s) (auto simp: fraction_part_def split: if_splits prod.splits)

lemma dropWhile_shorter: "takeWhile P s \<noteq> [] \<Longrightarrow> length (dropWhile P s) < length s"
  by (cases s) (auto simp: length_dropWhile_le le_imp_less_Suc split: if_splits)

lemma duration_term_shorter:
  assumes "duration_term R s = Some (v, r)"
  shows "length r < length s"
proof -
  from assms obtain w s1 p f sc s2 where s1: "leading_int 0 s = Some (w, s1)"
    and s2: "fraction_part s1 = (p, f, sc, s2)"
    and r: "r = dropWhile (\<lambda>c. \<not> number_char c) s2" "takeWhile (\<lambda>c. \<not> number_char c) s2 \<noteq> []"
    by (auto simp: duration_term_def split: if_splits option.splits prod.splits)
  from dropWhile_shorter [OF r(2)] fraction_part_length [OF s2] leading_int_length [OF s1]
  show ?thesis unfolding r(1) by linarith
qed

function duration_terms :: "go_runtime \<Rightarrow> int \<Rightarrow> string \<Rightarrow> int option" where
  "duration_terms R d s =
     (if s = '''' then Some d else
      case duration_term R s of None \<Rightarrow> None | Some (v, r) \<Rightarrow>
        if 2 ^ 63 < (d + v) mod 2 ^ 64 then None else duration_terms R ((d + v) mod 2 ^ 64) r)"
  by pat_completeness auto
termination
  by (relation "measure (\<lambda>(R, d, s). length s)") (auto dest: duration_term_shorter)

declare duration_terms.simps [simp del]

definition parse_duration :: "go_runtime \<Rightarrow> string \<Rightarrow> duration option" where
  "parse_duration R orig =
     (let signed = (orig \<noteq> '''' \<and> (hd orig = CHR ''-'' \<or> hd orig = CHR ''+''));
          neg = (signed \<and> hd orig = CHR ''-'');
          s = (if signed then tl orig else orig)
      in if s = ''0'' then Some 0
         else if s = '''' then None
         else case duration_terms R 0 s of None \<Rightarrow> None | Some d \<Rightarrow>
           if neg then Some (- d) else if 2 ^ 63 - 1 < d then None else Some d)"

lemma duration_terms_bound:
  "duration_terms R d s = Some d' \<Longrightarrow> 0 \<le> d \<Longrightarrow> d \<le> 2 ^ 63 \<Longrightarrow> 0 \<le> d' \<and> d' \<le> 2 ^ 63"
proof (induction R d s rule: duration_terms.induct)
  case (1 R d s)
  show ?case
  proof (cases "s = ''''")
    case True
    with "1.prems" show ?thesis by (simp add: duration_terms.simps)
  next
    case False
    with "1.prems"(1) obtain v r where t: "duration_term R s = Some (v, r)"
      and le: "\<not> 2 ^ 63 < (d + v) mod 2 ^ 64"
      and rec: "duration_terms R ((d + v) mod 2 ^ 64) r = Some d'"
      by (subst (asm) duration_terms.simps) (simp split: option.splits if_splits prod.splits)
    have b: "0 \<le> (d + v) mod 2 ^ 64" "(d + v) mod 2 ^ 64 \<le> 2 ^ 63" using le by simp_all
    from "1.IH" [OF False t refl le rec b] show ?thesis .
  qed
qed

lemma parse_duration_cases:
  assumes "parse_duration R s = Some d"
  obtains "d = 0" | t e where "duration_terms R 0 t = Some e" and "d = - e \<or> d = e \<and> e < 2 ^ 63"
proof -
  define t where "t = (if s \<noteq> '''' \<and> (hd s = CHR ''-'' \<or> hd s = CHR ''+'') then tl s else s)"
  have "d = 0 \<or> (\<exists>e. duration_terms R 0 t = Some e \<and> (d = - e \<or> d = e \<and> e < 2 ^ 63))"
    using assms unfolding parse_duration_def Let_def t_def [symmetric]
    by (cases "duration_terms R 0 t") (auto split: if_splits)
  with that show thesis by blast
qed

lemma parse_duration_bounds:
  assumes "parse_duration R s = Some d"
  shows "- (2 ^ 63) \<le> d" and "d < 2 ^ 63"
  using assms by (auto elim!: parse_duration_cases dest!: duration_terms_bound)

section \<open>Calendar\<close>

text \<open>Days since the epoch as a date of the proleptic Gregorian calendar.\<close>

definition civil_of_days :: "int \<Rightarrow> int \<times> int \<times> int" where
  "civil_of_days z0 =
     (let z = z0 + 719468;
          era = z div 146097;
          doe = z mod 146097;
          yoe = (doe - doe div 1460 + doe div 36524 - doe div 146096) div 365;
          doy = doe - (365 * yoe + yoe div 4 - yoe div 100);
          mp = (5 * doy + 2) div 153;
          d = doy - (153 * mp + 2) div 5 + 1;
          m = (if mp < 10 then mp + 3 else mp - 9);
          y = yoe + era * 400 + (if m \<le> 2 then 1 else 0)
      in (y, m, d))"

definition append_int :: "int \<Rightarrow> nat \<Rightarrow> string" where
  "append_int x width =
     (let ds = nat_digits (nat \<bar>x\<bar>)
      in (if x < 0 then ''-'' else '''') @ replicate (width - length ds) CHR ''0'' @ ds)"

text \<open>The parts of \<open>t.UTC()\<close>; fractions of a second are cut off.\<close>

definition unix_seconds :: "time \<Rightarrow> int" where
  "unix_seconds t = t div second"

definition format_date :: "time \<Rightarrow> string" where
  "format_date t = (case civil_of_days (unix_seconds t div 86400) of (y, m, d) \<Rightarrow>
     append_int y 4 @ ''-'' @ append_int m 2 @ ''-'' @ append_int d 2)"

definition format_clock :: "time \<Rightarrow> string" where
  "format_clock t = (let s = unix_seconds t mod 86400 in
     append_int (s div 3600) 2 @ '':'' @ append_int (s div 60 mod 60) 2 @ '':'' @ append_int (s mod 60) 2)"

definition format_rfc3339 :: "time \<Rightarrow> string" where
  "format_rfc3339 t = format_date t @ ''T'' @ format_clock t @ ''Z''"

text \<open>The layout \<open>2006-01-02 15:04:05+00\<close>: its \<open>+00\<close> is literal text.\<close>

definition format_statement_time :: "time \<Rightarrow> string" where
  "format_statement_time t = format_date t @ '' '' @ format_clock t @ ''+00''"

section \<open>Parsing \<open>time.RFC3339\<close>\<close>

text \<open>
  \<open>time.Parse(time.RFC3339, s)\<close>, with the library's liberties: a one-digit hour, a comma
  before the fraction, and zone offsets up to 24 hours and 60 minutes.
\<close>

definition expect :: "char \<Rightarrow> string \<Rightarrow> string option" where
  "expect c s = (case s of x # r \<Rightarrow> if x = c then Some r else None | [] \<Rightarrow> None)"

definition two_digits :: "string \<Rightarrow> (int \<times> string) option" where
  "two_digits s = (case s of a # b # r \<Rightarrow>
       if is_digit a \<and> is_digit b then Some (10 * digit_value a + digit_value b, r) else None
     | _ \<Rightarrow> None)"

definition hour_digits :: "string \<Rightarrow> (int \<times> string) option" where
  "hour_digits s = (case s of a # r \<Rightarrow>
       if \<not> is_digit a then None
       else (case r of b # r' \<Rightarrow> if is_digit b then Some (10 * digit_value a + digit_value b, r')
                                 else Some (digit_value a, r)
             | [] \<Rightarrow> Some (digit_value a, r))
     | [] \<Rightarrow> None)"

definition four_digits :: "string \<Rightarrow> (int \<times> string) option" where
  "four_digits s = (if length s < 4 \<or> \<not> list_all is_digit (take 4 s) then None
     else Some (foldl (\<lambda>a d. 10 * a + digit_value d) 0 (take 4 s), drop 4 s))"

text \<open>The fraction of a second in nanoseconds (nine digits count) and the rest.\<close>

definition fraction_digits :: "string \<Rightarrow> int \<times> string" where
  "fraction_digits s = (case s of p # d # r \<Rightarrow>
       if (p = CHR ''.'' \<or> p = CHR '','') \<and> is_digit d then
         (let ds = take 9 (takeWhile is_digit (d # r))
          in (foldl (\<lambda>a d. 10 * a + digit_value d) 0 ds * 10 ^ (9 - length ds), dropWhile is_digit (d # r)))
       else (0, s)
     | _ \<Rightarrow> (0, s))"

text \<open>The zone's offset in seconds; nothing may follow it.\<close>

definition zone_offset :: "string \<Rightarrow> int option" where
  "zone_offset s = (if s = ''Z'' then Some 0 else
     case s of sg # r0 \<Rightarrow>
       if sg \<noteq> CHR ''+'' \<and> sg \<noteq> CHR ''-'' then None else
       (case two_digits r0 of Some (hh, r1) \<Rightarrow>
          (case expect CHR '':'' r1 of Some r2 \<Rightarrow>
             (case two_digits r2 of Some (mm, r3) \<Rightarrow>
                if r3 \<noteq> [] \<or> 24 < hh \<or> 60 < mm then None
                else Some ((if sg = CHR ''-'' then - 1 else 1) * (hh * 60 + mm) * 60)
              | None \<Rightarrow> None)
           | None \<Rightarrow> None)
        | None \<Rightarrow> None)
     | [] \<Rightarrow> None)"

definition leap_year :: "int \<Rightarrow> bool" where
  "leap_year y \<longleftrightarrow> y mod 4 = 0 \<and> (y mod 100 \<noteq> 0 \<or> y mod 400 = 0)"

definition days_in :: "int \<Rightarrow> int \<Rightarrow> int" where
  "days_in m y = (if m = 2 then (if leap_year y then 29 else 28)
     else if m \<in> {4, 6, 9, 11} then 30 else 31)"

definition days_of_civil :: "int \<Rightarrow> int \<Rightarrow> int \<Rightarrow> int" where
  "days_of_civil y0 m d =
     (let y = (if m \<le> 2 then y0 - 1 else y0);
          era = y div 400; yoe = y mod 400;
          mp = (if m > 2 then m - 3 else m + 9);
          doy = (153 * mp + 2) div 5 + d - 1;
          doe = yoe * 365 + yoe div 4 - yoe div 100 + doy
      in era * 146097 + doe - 719468)"

definition parse_date :: "string \<Rightarrow> ((int \<times> int \<times> int) \<times> string) option" where
  "parse_date s = Option.bind (four_digits s) (\<lambda>(y, r0). Option.bind (expect CHR ''-'' r0) (\<lambda>r1.
     Option.bind (two_digits r1) (\<lambda>(m, r2). Option.bind (expect CHR ''-'' r2) (\<lambda>r3.
     Option.bind (two_digits r3) (\<lambda>(d, r4).
       if 1 \<le> m \<and> m \<le> 12 \<and> 1 \<le> d \<and> d \<le> days_in m y then Some ((y, m, d), r4) else None)))))"

definition parse_clock :: "string \<Rightarrow> (int \<times> string) option" where
  "parse_clock s = Option.bind (hour_digits s) (\<lambda>(h, r0). Option.bind (expect CHR '':'' r0) (\<lambda>r1.
     Option.bind (two_digits r1) (\<lambda>(m, r2). Option.bind (expect CHR '':'' r2) (\<lambda>r3.
     Option.bind (two_digits r3) (\<lambda>(sec, r4).
       if h < 24 \<and> m < 60 \<and> sec < 60 then Some (h * 3600 + m * 60 + sec, r4) else None)))))"

definition parse_rfc3339 :: "string \<Rightarrow> time option" where
  "parse_rfc3339 s = Option.bind (parse_date s) (\<lambda>((y, m, d), r0).
     Option.bind (expect CHR ''T'' r0) (\<lambda>r1. Option.bind (parse_clock r1) (\<lambda>(secs, r2).
     (case fraction_digits r2 of (ns, r3) \<Rightarrow>
        map_option (\<lambda>off. (days_of_civil y m d * 86400 + secs - off) * second + ns) (zone_offset r3)))))"

text \<open>Go's zero \<open>time.Time\<close>, the first instant of year 1.\<close>

definition zero_time :: time where
  "zero_time = -62135596800 * second"

end
