(* ===== verification/Kube.thy ===== *)
theory Kube
  imports Errors Go_Json Go_Time
begin

text \<open>
  The Kubernetes objects the operator reads and writes and the API it calls
  (\<open>k8s.io/client-go\<close>, not part of the repository). The API server is the parameter
  \<open>kube_api\<close>: one function per call, which may answer anything and change the outside
  world in any way.
\<close>

record owner_reference =
  or_apiVersion :: string
  or_kind :: string
  or_name :: string
  or_uid :: string
  or_controller :: "bool option"
  or_blockOwnerDeletion :: "bool option"

text \<open>\<open>corev1.Secret\<close>; a \<open>nil\<close> map and an empty one are the same map.\<close>

record secret =
  s_name :: string
  s_namespace :: string
  s_version :: string
  s_labels :: "string \<rightharpoonup> string"
  s_annotations :: "string \<rightharpoonup> string"
  s_owners :: "owner_reference list"
  s_type :: string
  s_data :: "string \<rightharpoonup> string"

record 'w kube_api =
  get_secret :: "string \<Rightarrow> string \<Rightarrow> 'w \<Rightarrow> (goerr + secret) \<times> 'w"
  create_secret :: "string \<Rightarrow> secret \<Rightarrow> 'w \<Rightarrow> (goerr + secret) \<times> 'w"
  update_secret :: "string \<Rightarrow> secret \<Rightarrow> 'w \<Rightarrow> (goerr + secret) \<times> 'w"
  get_resource :: "string \<Rightarrow> string \<Rightarrow> 'w \<Rightarrow> (goerr + json) \<times> 'w"
  update_resource :: "string \<Rightarrow> json \<Rightarrow> 'w \<Rightarrow> (goerr + json) \<times> 'w"
  update_resource_status :: "string \<Rightarrow> json \<Rightarrow> 'w \<Rightarrow> (goerr + json) \<times> 'w"

datatype kube_event =
    GetSecret string string "goerr + secret" \<comment> \<open>namespace, name, answer\<close>
  | CreateSecret string secret "goerr + secret"
  | UpdateSecret string secret "goerr + secret"
  | GetResource string string "goerr + json"
  | UpdateResource string json "goerr + json"
  | UpdateResourceStatus string json "goerr + json"

fun writes_secret :: "kube_event \<Rightarrow> bool" where
  "writes_secret (CreateSecret _ _ _) = True"
| "writes_secret (UpdateSecret _ _ _) = True"
| "writes_secret _ = False"

end
