(* ===== verification/Workqueue.thy ===== *)
theory Workqueue
  imports Kube
begin

text \<open>
  What drives the manager (\<open>k8s.io/client-go\<close> and the Go runtime, not part of the
  repository): the work queue, the watch of the API server and the context of the run. They are
  the parameter \<open>run_api\<close>: one function per call, which may answer anything. A watch
  that delivers an object of another type than the operator's untyped ones is \<open>None\<close> in
  the second place of the event; a closed channel is \<open>None\<close>.
\<close>

type_synonym queue_item = "string \<times> string" \<comment> \<open>namespace, name\<close>

record 'w run_api =
  queue_get :: "'w \<Rightarrow> (queue_item \<times> bool) \<times> 'w" \<comment> \<open>the flag: shutting down\<close>
  queue_done :: "queue_item \<Rightarrow> 'w \<Rightarrow> unit \<times> 'w"
  queue_add :: "queue_item \<Rightarrow> 'w \<Rightarrow> unit \<times> 'w"
  queue_add_after :: "queue_item \<Rightarrow> duration \<Rightarrow> 'w \<Rightarrow> unit \<times> 'w"
  queue_shut_down :: "'w \<Rightarrow> unit \<times> 'w"
  ctx_err :: "'w \<Rightarrow> goerr option \<times> 'w"
  ctx_done_before :: "duration \<Rightarrow> 'w \<Rightarrow> bool \<times> 'w" \<comment> \<open>a select on \<open>ctx.Done\<close> and \<open>time.After\<close>\<close>
  watch_open :: "string \<Rightarrow> 'w \<Rightarrow> (goerr + nat) \<times> 'w" \<comment> \<open>the namespace, empty for all\<close>
  watch_next :: "nat \<Rightarrow> 'w \<Rightarrow> (string \<times> json option) option \<times> 'w"

text \<open>
  What the program needs to start: a configuration for the API server, from inside the cluster or
  from a file, the two clients made of it, and the calls that go through them.
\<close>

record 'w start_api =
  in_cluster_config :: "'w \<Rightarrow> (goerr + nat) \<times> 'w"
  file_config :: "string \<Rightarrow> 'w \<Rightarrow> (goerr + nat) \<times> 'w" \<comment> \<open>the path, empty for the default rules\<close>
  typed_client :: "nat \<Rightarrow> 'w \<Rightarrow> (goerr + nat) \<times> 'w"
  dynamic_client :: "nat \<Rightarrow> 'w \<Rightarrow> (goerr + nat) \<times> 'w"
  cluster_calls :: "nat \<Rightarrow> nat \<Rightarrow> 'w kube_api"

datatype run_event =
    QueueGet queue_item bool
  | QueueDone queue_item
  | QueueAdd queue_item
  | QueueAddAfter queue_item duration
  | QueueShutDown
  | CtxErr "goerr option"
  | CtxDoneBefore duration bool
  | WatchOpen string "goerr + nat"
  | WatchNext nat "(string \<times> json option) option"
  | InClusterConfig "goerr + nat" \<comment> \<open>start-up: see \<open>start_api\<close>\<close>
  | KubeConfig string "goerr + nat"
  | TypedClient nat "goerr + nat"
  | DynamicClient nat "goerr + nat"

end
