(* ===== verification/Go_Url.thy ===== *)
theory Go_Url
  imports Go_Strings
begin

text \<open>
  \<open>net/url\<close> as far as the operator uses it: \<open>url.Parse\<close>, reduced to whether it
  succeeds and to the scheme and the host of the result, and \<open>url.QueryEscape\<close>. The steps
  and their order are those of the library (fragment, control bytes, scheme, query, rootless
  and relative references, authority, path).
\<close>

datatype encoding = EncodePath | EncodeUserPassword | EncodeHost | EncodeZone | EncodeQuery | EncodeFragment

record url =
  scheme :: string
  host :: string

section \<open>Characters\<close>

definition is_alpha :: "char \<Rightarrow> bool" where
  "is_alpha c \<longleftrightarrow> (97 \<le> byte c \<and> byte c \<le> 122) \<or> (65 \<le> byte c \<and> byte c \<le> 90)"

definition is_alnum :: "char \<Rightarrow> bool" where
  "is_alnum c \<longleftrightarrow> is_alpha c \<or> is_digit c"

definition is_hex :: "char \<Rightarrow> bool" where
  "is_hex c \<longleftrightarrow> is_digit c \<or> (97 \<le> byte c \<and> byte c \<le> 102) \<or> (65 \<le> byte c \<and> byte c \<le> 70)"

definition unhex :: "char \<Rightarrow> nat" where
  "unhex c = (if is_digit c then byte c - 48
     else if 97 \<le> byte c \<and> byte c \<le> 102 then byte c - 87
     else if 65 \<le> byte c \<and> byte c \<le> 70 then byte c - 55 else 0)"

definition host_sub_delims :: string where
  "host_sub_delims = ''!$&()*+,;=:[]<>'' @ [CHR 0x22, CHR 0x27]"

definition should_escape :: "encoding \<Rightarrow> char \<Rightarrow> bool" where
  "should_escape m c =
     (if is_alnum c then False
      else if (m = EncodeHost \<or> m = EncodeZone) \<and> c \<in> set host_sub_delims then False
      else if c \<in> set ''-_.~'' then False
      else if c \<in> set ''$&+,/:;=?@'' \<and> m = EncodePath then c = CHR ''?''
      else if c \<in> set ''$&+,/:;=?@'' \<and> m = EncodeUserPassword then c \<in> set ''@/?:''
      else if c \<in> set ''$&+,/:;=?@'' \<and> m = EncodeQuery then True
      else if c \<in> set ''$&+,/:;=?@'' \<and> m = EncodeFragment then False
      else if m = EncodeFragment \<and> c \<in> set ''!()*'' then False
      else True)"

section \<open>Escapes\<close>

definition percent :: char where "percent = CHR 0x25"

text \<open>\<open>unescape\<close>: \<open>None\<close> is an \<open>EscapeError\<close> or an \<open>InvalidHostError\<close>.\<close>

fun unescape :: "encoding \<Rightarrow> string \<Rightarrow> string option" where
  "unescape m [] = Some []"
| "unescape m (c # s) =
     (if c = percent then
        (case s of a # b # r \<Rightarrow>
           if \<not> is_hex a \<or> \<not> is_hex b then None
           else if m = EncodeHost \<and> unhex a < 8 \<and> \<not> (a = CHR ''2'' \<and> b = CHR ''5'') then None
           else if m = EncodeZone \<and> \<not> (a = CHR ''2'' \<and> b = CHR ''5'')
                   \<and> unhex a * 16 + unhex b \<noteq> 32
                   \<and> should_escape EncodeHost (char_of (unhex a * 16 + unhex b)) then None
           else map_option ((#) (char_of (unhex a * 16 + unhex b))) (unescape m r)
         | _ \<Rightarrow> None)
      else if c = CHR ''+'' \<and> m = EncodeQuery then map_option ((#) CHR '' '') (unescape m s)
      else if (m = EncodeHost \<or> m = EncodeZone) \<and> byte c < 128 \<and> should_escape m c then None
      else map_option ((#) c) (unescape m s))"

definition upper_hex :: "nat \<Rightarrow> char" where
  "upper_hex n = (if n < 10 then char_of (48 + n) else char_of (55 + n))"

text \<open>\<open>url.QueryEscape\<close>.\<close>

definition query_escape :: "string \<Rightarrow> string" where
  "query_escape s = concat (map (\<lambda>c.
     if c = CHR '' '' then ''+''
     else if should_escape EncodeQuery c then [percent, upper_hex (byte c div 16), upper_hex (byte c mod 16)]
     else [c]) s)"

section \<open>Parsing\<close>

text \<open>\<open>strings.Cut\<close> at the first \<open>c\<close>: the part before, the part after, whether it occurs.\<close>

definition cut :: "char \<Rightarrow> string \<Rightarrow> string \<times> string \<times> bool" where
  "cut c s = (takeWhile (\<lambda>x. x \<noteq> c) s, tl (dropWhile (\<lambda>x. x \<noteq> c) s), c \<in> set s)"

text \<open>The part before and after the last \<open>c\<close>, if there is one.\<close>

definition cut_last :: "char \<Rightarrow> string \<Rightarrow> (string \<times> string) option" where
  "cut_last c s = (if c \<in> set s
     then Some (rev (tl (dropWhile (\<lambda>x. x \<noteq> c) (rev s))), rev (takeWhile (\<lambda>x. x \<noteq> c) (rev s)))
     else None)"

definition has_control_byte :: "string \<Rightarrow> bool" where
  "has_control_byte s \<longleftrightarrow> list_ex (\<lambda>c. byte c < 32 \<or> byte c = 127) s"

text \<open>\<open>getScheme\<close>: \<open>None\<close> is \<open>missing protocol scheme\<close>.\<close>

definition scheme_char :: "char \<Rightarrow> bool" where
  "scheme_char c \<longleftrightarrow> is_alnum c \<or> c \<in> set ''+-.''"

definition get_scheme :: "string \<Rightarrow> (string \<times> string) option" where
  "get_scheme s =
     (let sch = takeWhile scheme_char s; r = dropWhile scheme_char s
      in if s \<noteq> '''' \<and> hd s = CHR '':'' then None
         else if sch \<noteq> '''' \<and> is_alpha (hd sch) \<and> r \<noteq> '''' \<and> hd r = CHR '':'' then Some (sch, tl r)
         else Some ('''', s))"

definition valid_optional_port :: "string \<Rightarrow> bool" where
  "valid_optional_port p \<longleftrightarrow> p = '''' \<or> (hd p = CHR '':'' \<and> list_all is_digit (tl p))"

definition valid_userinfo :: "string \<Rightarrow> bool" where
  "valid_userinfo s \<longleftrightarrow> list_all (\<lambda>c. is_alnum c \<or> c \<in> set (''-._:~!$&()*+,;=@'' @ [percent, CHR 0x27])) s"

definition parse_host :: "string \<Rightarrow> string option" where
  "parse_host h =
     (if h \<noteq> '''' \<and> hd h = CHR ''['' then
        (case cut_last CHR '']'' h of None \<Rightarrow> None | Some (pre, port) \<Rightarrow>
           if \<not> valid_optional_port port then None
           else (case index_of ''%25'' pre of
               None \<Rightarrow> unescape EncodeHost h
             | Some z \<Rightarrow>
                 (case (unescape EncodeHost (take z pre), unescape EncodeZone (drop z pre),
                        unescape EncodeHost ('']'' @ port)) of
                    (Some h1, Some h2, Some h3) \<Rightarrow> Some (h1 @ h2 @ h3)
                  | _ \<Rightarrow> None)))
      else (case cut_last CHR '':'' h of
          Some (pre, port) \<Rightarrow>
            if \<not> valid_optional_port ('':'' @ port) then None else unescape EncodeHost h
        | None \<Rightarrow> unescape EncodeHost h))"

definition valid_user :: "string \<Rightarrow> bool" where
  "valid_user u \<longleftrightarrow> valid_userinfo u \<and>
     (if CHR '':'' \<in> set u
      then unescape EncodeUserPassword (fst (cut CHR '':'' u)) \<noteq> None
           \<and> unescape EncodeUserPassword (fst (snd (cut CHR '':'' u))) \<noteq> None
      else unescape EncodeUserPassword u \<noteq> None)"

definition parse_authority :: "string \<Rightarrow> string option" where
  "parse_authority a = (case cut_last CHR ''@'' a of
       None \<Rightarrow> parse_host a
     | Some (user, h) \<Rightarrow>
         (case parse_host h of None \<Rightarrow> None
          | Some hst \<Rightarrow> if valid_user user then Some hst else None))"

text \<open>The query is cut off at the first question mark; a single trailing one is an empty query.\<close>

definition strip_query :: "string \<Rightarrow> string" where
  "strip_query s = fst (cut CHR ''?'' s)"

definition parse_no_fragment :: "string \<Rightarrow> url option" where
  "parse_no_fragment s =
     (if has_control_byte s then None
      else if s = ''*'' then Some \<lparr>scheme = '''', host = ''''\<rparr>
      else case get_scheme s of None \<Rightarrow> None | Some (sch0, rest0) \<Rightarrow>
        let sch = map lower_byte sch0; rest = strip_query rest0
        in if rest = '''' \<or> hd rest \<noteq> CHR ''/'' then
             (if sch \<noteq> '''' then Some \<lparr>scheme = sch, host = ''''\<rparr>
              else if CHR '':'' \<in> set (fst (cut CHR ''/'' rest)) then None
              else if unescape EncodePath rest = None then None
              else Some \<lparr>scheme = sch, host = ''''\<rparr>)
           else if (sch \<noteq> '''' \<or> \<not> prefix ''///'' rest) \<and> prefix ''//'' rest then
             (let auth = takeWhile (\<lambda>x. x \<noteq> CHR ''/'') (drop 2 rest);
                  path = dropWhile (\<lambda>x. x \<noteq> CHR ''/'') (drop 2 rest)
              in case parse_authority auth of None \<Rightarrow> None | Some h \<Rightarrow>
                   if unescape EncodePath path = None then None
                   else Some \<lparr>scheme = sch, host = h\<rparr>)
           else if unescape EncodePath rest = None then None
           else Some \<lparr>scheme = sch, host = ''''\<rparr>)"

definition url_parse :: "string \<Rightarrow> url option" where
  "url_parse s = (case cut CHR ''#'' s of (u, frag, _) \<Rightarrow>
     case parse_no_fragment u of None \<Rightarrow> None
     | Some r \<Rightarrow> if frag \<noteq> '''' \<and> unescape EncodeFragment frag = None then None else Some r)"

end
