(* ===== verification/Http.thy ===== *)
theory Http
  imports Errors Go_Url Go_Time
begin

text \<open>
  The network and the clock. \<open>http.Client.Do\<close> and \<open>time.Now\<close> are the parameter
  \<open>net_api\<close>; a response is its status, its body and how much of the body a first
  \<open>Read\<close> returns.
\<close>

datatype http_method = GET | POST

record http_request =
  req_method :: http_method
  req_url :: string
  req_headers :: "(string \<times> string) list"
  req_body :: string

record http_response =
  resp_status :: int
  resp_body :: string
  resp_first_read :: nat

record 'w net_api =
  http_do :: "http_request \<Rightarrow> 'w \<Rightarrow> (goerr + http_response) \<times> 'w"
  clock_now :: "'w \<Rightarrow> time \<times> 'w"

datatype net_event =
    HttpDo http_request "goerr + http_response"
  | ClockNow time
  | LogFailure string int string \<comment> \<open>a line in the operator log: path, status, body\<close>

text \<open>\<open>http.NewRequestWithContext\<close> fails when the URL does not parse.\<close>

definition new_request ::
  "go_runtime \<Rightarrow> http_method \<Rightarrow> string \<Rightarrow> string \<Rightarrow> goerr + http_request" where
  "new_request R m u body =
     (if url_parse u = None then Inl (Err (url_error_text R u))
      else Inr \<lparr>req_method = m, req_url = u, req_headers = [], req_body = body\<rparr>)"

definition set_header :: "string \<Rightarrow> string \<Rightarrow> http_request \<Rightarrow> http_request" where
  "set_header k v q = q\<lparr>req_headers := AList.update k v (req_headers q)\<rparr>"

lemma set_header_simps [simp]:
  "req_url (set_header k v q) = req_url q"
  "req_method (set_header k v q) = req_method q"
  "req_body (set_header k v q) = req_body q"
  by (simp_all add: set_header_def)

end
