(* ===== verification/Targets.thy ===== *)
theory Targets
  imports Errors Go_Time
begin

text \<open>
  The systems dynamic credentials are minted on, and the host the operator runs on: SQL
  databases (\<open>database/sql\<close> with its drivers), Cassandra (\<open>gocql\<close>), Redis
  (\<open>go-redis\<close>), AWS (\<open>aws-sdk-go-v2\<close>), temporary files and the random number
  source. They are the parameter \<open>target_api\<close>. A session or an open database is a number
  the parameter hands out; a \<open>nil\<close> pointer to a string in an AWS answer reads as the empty
  string, as \<open>aws.ToString\<close> makes it.
\<close>

record cassandra_cluster =
  ca_hosts :: "string list"
  ca_port :: "int option" \<comment> \<open>\<open>None\<close>: the driver's default\<close>
  ca_localDc :: "string option"
  ca_login :: "(string \<times> string) option"
  ca_keyspace :: string
  ca_tls :: "(bool \<times> string option) option" \<comment> \<open>host verification, CA file\<close>

record redis_options =
  ro_addr :: string
  ro_username :: string
  ro_password :: string
  ro_tls :: "bool option" \<comment> \<open>\<open>Some insecureSkipVerify\<close>\<close>

record aws_credentials =
  ac_accessKeyId :: string
  ac_secretAccessKey :: string
  ac_sessionToken :: string

datatype aws_call =
    AssumeRole string string "int option" \<comment> \<open>role, session name, seconds\<close>
  | GetSessionToken int
  | CreateUser string string "string option" \<comment> \<open>name, path, permissions boundary\<close>
  | PutUserPolicy string string string
  | CreateAccessKey string
  | ListAccessKeys string
  | DeleteAccessKey string string
  | DeleteUserPolicy string string
  | DeleteUser string

text \<open>What an AWS call answers: credentials (STS, a new access key), key ids, or nothing of interest.\<close>

datatype aws_answer = AwsCredentials aws_credentials | AwsKeyIds "string list" | AwsDone

fun aws_credentials_of :: "aws_answer \<Rightarrow> aws_credentials" where
  "aws_credentials_of (AwsCredentials c) = c"
| "aws_credentials_of _ = \<lparr>ac_accessKeyId = '''', ac_secretAccessKey = '''', ac_sessionToken = ''''\<rparr>"

fun aws_key_ids_of :: "aws_answer \<Rightarrow> string list" where
  "aws_key_ids_of (AwsKeyIds ids) = ids"
| "aws_key_ids_of _ = []"

record 'w target_api =
  sql_open :: "string \<Rightarrow> string \<Rightarrow> 'w \<Rightarrow> (goerr + nat) \<times> 'w" \<comment> \<open>driver, data source\<close>
  sql_ping :: "nat \<Rightarrow> 'w \<Rightarrow> goerr option \<times> 'w"
  sql_exec :: "nat \<Rightarrow> string \<Rightarrow> 'w \<Rightarrow> goerr option \<times> 'w"
  sql_close :: "nat \<Rightarrow> 'w \<Rightarrow> unit \<times> 'w"
  oracle_build_url :: "string \<Rightarrow> int \<Rightarrow> string \<Rightarrow> string \<Rightarrow> string \<Rightarrow> (string \<times> string) list \<Rightarrow> string"
  cql_connect :: "cassandra_cluster \<Rightarrow> 'w \<Rightarrow> (goerr + nat) \<times> 'w"
  cql_query :: "nat \<Rightarrow> string \<Rightarrow> 'w \<Rightarrow> goerr option \<times> 'w"
  cql_close :: "nat \<Rightarrow> 'w \<Rightarrow> unit \<times> 'w"
  redis_send :: "redis_options \<Rightarrow> string list \<Rightarrow> 'w \<Rightarrow> goerr option \<times> 'w"
  redis_close :: "redis_options \<Rightarrow> 'w \<Rightarrow> unit \<times> 'w"
  aws_load_config :: "string \<Rightarrow> aws_credentials option \<Rightarrow> 'w \<Rightarrow> (goerr + nat) \<times> 'w"
  aws_do :: "nat \<Rightarrow> aws_call \<Rightarrow> 'w \<Rightarrow> (goerr + aws_answer) \<times> 'w"
  temp_create :: "string \<Rightarrow> 'w \<Rightarrow> (goerr + string) \<times> 'w" \<comment> \<open>the file's name\<close>
  temp_write :: "string \<Rightarrow> string \<Rightarrow> 'w \<Rightarrow> goerr option \<times> 'w"
  temp_close :: "string \<Rightarrow> 'w \<Rightarrow> goerr option \<times> 'w"
  temp_remove :: "string \<Rightarrow> 'w \<Rightarrow> unit \<times> 'w"
  random_block :: "'w \<Rightarrow> string \<times> 'w" \<comment> \<open>64 bytes of \<open>crypto/rand\<close>\<close>
  random_draws :: nat \<comment> \<open>how many blocks one random string may take in the model\<close>

datatype target_event =
    SqlOpen string string "goerr + nat"
  | SqlPing nat "goerr option"
  | SqlExec nat string "goerr option"
  | SqlClose nat
  | CqlConnect cassandra_cluster "goerr + nat"
  | CqlQuery nat string "goerr option"
  | CqlClose nat
  | RedisSend redis_options "string list" "goerr option"
  | RedisClose redis_options
  | AwsLoadConfig string "aws_credentials option" "goerr + nat"
  | AwsCall nat aws_call "goerr + aws_answer"
  | TempCreate string "goerr + string"
  | TempWrite string string "goerr option"
  | TempClose string "goerr option"
  | TempRemove string
  | RandomBlock string
  | Sealed string string string string "goerr + string" \<comment> \<open>key, key id, plaintext, context\<close>

end
