(* ===== verification/World.thy ===== *)
theory World
  imports Workqueue Http Targets
begin

text \<open>
  What a run of the operator does to the outside world: the events of its trace, and the calls
  that make them. Each call asks the parameter for an answer and records it.
\<close>

datatype event = Kube kube_event | Net net_event | Target target_event | Control run_event

type_synonym ('w, 'm, 'a) io = "(('w, event, 'm) io_state_scheme, 'a) state"

definition kube_get_secret :: "'w kube_api \<Rightarrow> string \<Rightarrow> string \<Rightarrow> ('w, 'm, goerr + secret) io" where
  "kube_get_secret K ns name = external (get_secret K ns name) (\<lambda>r. Kube (GetSecret ns name r))"

definition kube_create_secret :: "'w kube_api \<Rightarrow> string \<Rightarrow> secret \<Rightarrow> ('w, 'm, goerr + secret) io" where
  "kube_create_secret K ns sec = external (create_secret K ns sec) (\<lambda>r. Kube (CreateSecret ns sec r))"

definition kube_update_secret :: "'w kube_api \<Rightarrow> string \<Rightarrow> secret \<Rightarrow> ('w, 'm, goerr + secret) io" where
  "kube_update_secret K ns sec = external (update_secret K ns sec) (\<lambda>r. Kube (UpdateSecret ns sec r))"

definition kube_get_resource :: "'w kube_api \<Rightarrow> string \<Rightarrow> string \<Rightarrow> ('w, 'm, goerr + json) io" where
  "kube_get_resource K ns name = external (get_resource K ns name) (\<lambda>r. Kube (GetResource ns name r))"

definition kube_update_resource :: "'w kube_api \<Rightarrow> string \<Rightarrow> json \<Rightarrow> ('w, 'm, goerr + json) io" where
  "kube_update_resource K ns j = external (update_resource K ns j) (\<lambda>r. Kube (UpdateResource ns j r))"

definition kube_update_status :: "'w kube_api \<Rightarrow> string \<Rightarrow> json \<Rightarrow> ('w, 'm, goerr + json) io" where
  "kube_update_status K ns j =
     external (update_resource_status K ns j) (\<lambda>r. Kube (UpdateResourceStatus ns j r))"

definition net_do :: "'w net_api \<Rightarrow> http_request \<Rightarrow> ('w, 'm, goerr + http_response) io" where
  "net_do N q = external (http_do N q) (\<lambda>r. Net (HttpDo q r))"

definition net_now :: "'w net_api \<Rightarrow> ('w, 'm, time) io" where
  "net_now N = external (clock_now N) (\<lambda>t. Net (ClockNow t))"

definition net_log :: "string \<Rightarrow> int \<Rightarrow> string \<Rightarrow> ('w, 'm, unit) io" where
  "net_log path st body = note_event (Net (LogFailure path st body))"

section \<open>Calls of targets\<close>

definition target_sql_open :: "'w target_api \<Rightarrow> string \<Rightarrow> string \<Rightarrow> ('w, 'm, goerr + nat) io" where
  "target_sql_open T driver dsn = external (sql_open T driver dsn) (\<lambda>r. Target (SqlOpen driver dsn r))"

definition target_sql_ping :: "'w target_api \<Rightarrow> nat \<Rightarrow> ('w, 'm, goerr option) io" where
  "target_sql_ping T db = external (sql_ping T db) (\<lambda>r. Target (SqlPing db r))"

definition target_sql_exec :: "'w target_api \<Rightarrow> nat \<Rightarrow> string \<Rightarrow> ('w, 'm, goerr option) io" where
  "target_sql_exec T db stmt = external (sql_exec T db stmt) (\<lambda>r. Target (SqlExec db stmt r))"

definition target_sql_close :: "'w target_api \<Rightarrow> nat \<Rightarrow> ('w, 'm, unit) io" where
  "target_sql_close T db = external (sql_close T db) (\<lambda>_. Target (SqlClose db))"

definition target_cql_connect :: "'w target_api \<Rightarrow> cassandra_cluster \<Rightarrow> ('w, 'm, goerr + nat) io" where
  "target_cql_connect T c = external (cql_connect T c) (\<lambda>r. Target (CqlConnect c r))"

definition target_cql_query :: "'w target_api \<Rightarrow> nat \<Rightarrow> string \<Rightarrow> ('w, 'm, goerr option) io" where
  "target_cql_query T n stmt = external (cql_query T n stmt) (\<lambda>r. Target (CqlQuery n stmt r))"

definition target_cql_close :: "'w target_api \<Rightarrow> nat \<Rightarrow> ('w, 'm, unit) io" where
  "target_cql_close T n = external (cql_close T n) (\<lambda>_. Target (CqlClose n))"

definition target_redis_send :: "'w target_api \<Rightarrow> redis_options \<Rightarrow> string list \<Rightarrow> ('w, 'm, goerr option) io" where
  "target_redis_send T c args = external (redis_send T c args) (\<lambda>r. Target (RedisSend c args r))"

definition target_redis_close :: "'w target_api \<Rightarrow> redis_options \<Rightarrow> ('w, 'm, unit) io" where
  "target_redis_close T c = external (redis_close T c) (\<lambda>_. Target (RedisClose c))"

definition target_aws_load_config ::
  "'w target_api \<Rightarrow> string \<Rightarrow> aws_credentials option \<Rightarrow> ('w, 'm, goerr + nat) io" where
  "target_aws_load_config T region c =
     external (aws_load_config T region c) (\<lambda>r. Target (AwsLoadConfig region c r))"

definition target_aws_do :: "'w target_api \<Rightarrow> nat \<Rightarrow> aws_call \<Rightarrow> ('w, 'm, goerr + aws_answer) io" where
  "target_aws_do T cfg c = external (aws_do T cfg c) (\<lambda>r. Target (AwsCall cfg c r))"

definition target_temp_create :: "'w target_api \<Rightarrow> string \<Rightarrow> ('w, 'm, goerr + string) io" where
  "target_temp_create T pat = external (temp_create T pat) (\<lambda>r. Target (TempCreate pat r))"

definition target_temp_write :: "'w target_api \<Rightarrow> string \<Rightarrow> string \<Rightarrow> ('w, 'm, goerr option) io" where
  "target_temp_write T f s = external (temp_write T f s) (\<lambda>r. Target (TempWrite f s r))"

definition target_temp_close :: "'w target_api \<Rightarrow> string \<Rightarrow> ('w, 'm, goerr option) io" where
  "target_temp_close T f = external (temp_close T f) (\<lambda>r. Target (TempClose f r))"

definition target_temp_remove :: "'w target_api \<Rightarrow> string \<Rightarrow> ('w, 'm, unit) io" where
  "target_temp_remove T f = external (temp_remove T f) (\<lambda>_. Target (TempRemove f))"

definition target_random :: "'w target_api \<Rightarrow> ('w, 'm, string) io" where
  "target_random T = external (random_block T) (\<lambda>r. Target (RandomBlock r))"

lemmas target_defs = target_sql_open_def target_sql_ping_def target_sql_exec_def target_sql_close_def
  target_cql_connect_def target_cql_query_def target_cql_close_def target_redis_send_def
  target_redis_close_def target_aws_load_config_def target_aws_do_def target_temp_create_def
  target_temp_write_def target_temp_close_def target_temp_remove_def target_random_def

lemma emits_targets [emits_rules]:
  "(\<And>r. P (Target (SqlOpen driver dsn r))) \<Longrightarrow> emits P (target_sql_open T driver dsn)"
  "(\<And>r. P (Target (SqlPing db r))) \<Longrightarrow> emits P (target_sql_ping T db)"
  "(\<And>r. P (Target (SqlExec db stmt r))) \<Longrightarrow> emits P (target_sql_exec T db stmt)"
  "P (Target (SqlClose db)) \<Longrightarrow> emits P (target_sql_close T db)"
  "(\<And>r. P (Target (CqlConnect cl r))) \<Longrightarrow> emits P (target_cql_connect T cl)"
  "(\<And>r. P (Target (CqlQuery n stmt r))) \<Longrightarrow> emits P (target_cql_query T n stmt)"
  "P (Target (CqlClose n)) \<Longrightarrow> emits P (target_cql_close T n)"
  "(\<And>r. P (Target (RedisSend o' args r))) \<Longrightarrow> emits P (target_redis_send T o' args)"
  "P (Target (RedisClose o')) \<Longrightarrow> emits P (target_redis_close T o')"
  "(\<And>r. P (Target (AwsLoadConfig region ac r))) \<Longrightarrow> emits P (target_aws_load_config T region ac)"
  "(\<And>r. P (Target (AwsCall cfg ca r))) \<Longrightarrow> emits P (target_aws_do T cfg ca)"
  "(\<And>r. P (Target (TempCreate pat r))) \<Longrightarrow> emits P (target_temp_create T pat)"
  "(\<And>r. P (Target (TempWrite f t r))) \<Longrightarrow> emits P (target_temp_write T f t)"
  "(\<And>r. P (Target (TempClose f r))) \<Longrightarrow> emits P (target_temp_close T f)"
  "P (Target (TempRemove f)) \<Longrightarrow> emits P (target_temp_remove T f)"
  "(\<And>b. P (Target (RandomBlock b))) \<Longrightarrow> emits P (target_random T)"
  unfolding target_defs by (rule emits_external; assumption)+

section \<open>Calls of the queue, the watch and the context\<close>

definition run_queue_get :: "'w run_api \<Rightarrow> ('w, 'm, queue_item \<times> bool) io" where
  "run_queue_get A = external (queue_get A) (\<lambda>r. Control (QueueGet (fst r) (snd r)))"

definition run_queue_done :: "'w run_api \<Rightarrow> queue_item \<Rightarrow> ('w, 'm, unit) io" where
  "run_queue_done A item = external (queue_done A item) (\<lambda>_. Control (QueueDone item))"

definition run_queue_add :: "'w run_api \<Rightarrow> queue_item \<Rightarrow> ('w, 'm, unit) io" where
  "run_queue_add A item = external (queue_add A item) (\<lambda>_. Control (QueueAdd item))"

definition run_queue_add_after :: "'w run_api \<Rightarrow> queue_item \<Rightarrow> duration \<Rightarrow> ('w, 'm, unit) io" where
  "run_queue_add_after A item d = external (queue_add_after A item d) (\<lambda>_. Control (QueueAddAfter item d))"

definition run_queue_shut_down :: "'w run_api \<Rightarrow> ('w, 'm, unit) io" where
  "run_queue_shut_down A = external (queue_shut_down A) (\<lambda>_. Control QueueShutDown)"

definition run_ctx_err :: "'w run_api \<Rightarrow> ('w, 'm, goerr option) io" where
  "run_ctx_err A = external (ctx_err A) (\<lambda>r. Control (CtxErr r))"

definition run_ctx_done_before :: "'w run_api \<Rightarrow> duration \<Rightarrow> ('w, 'm, bool) io" where
  "run_ctx_done_before A d = external (ctx_done_before A d) (\<lambda>r. Control (CtxDoneBefore d r))"

definition run_watch_open :: "'w run_api \<Rightarrow> string \<Rightarrow> ('w, 'm, goerr + nat) io" where
  "run_watch_open A ns = external (watch_open A ns) (\<lambda>r. Control (WatchOpen ns r))"

definition run_watch_next :: "'w run_api \<Rightarrow> nat \<Rightarrow> ('w, 'm, (string \<times> json option) option) io" where
  "run_watch_next A n = external (watch_next A n) (\<lambda>r. Control (WatchNext n r))"

lemmas run_defs = run_queue_get_def run_queue_done_def run_queue_add_def run_queue_add_after_def
  run_queue_shut_down_def run_ctx_err_def run_ctx_done_before_def run_watch_open_def run_watch_next_def

section \<open>Kinds of events\<close>

lemmas call_defs = kube_get_secret_def kube_create_secret_def kube_update_secret_def
  kube_get_resource_def kube_update_resource_def kube_update_status_def
  net_do_def net_now_def net_log_def

lemma emits_calls [emits_rules]:
  "(\<And>r. P (Kube (GetSecret ns n r))) \<Longrightarrow> emits P (kube_get_secret K ns n)"
  "(\<And>r. P (Kube (CreateSecret ns sec r))) \<Longrightarrow> emits P (kube_create_secret K ns sec)"
  "(\<And>r. P (Kube (UpdateSecret ns sec r))) \<Longrightarrow> emits P (kube_update_secret K ns sec)"
  "(\<And>r. P (Kube (GetResource ns n r))) \<Longrightarrow> emits P (kube_get_resource K ns n)"
  "(\<And>r. P (Kube (UpdateResource ns j r))) \<Longrightarrow> emits P (kube_update_resource K ns j)"
  "(\<And>r. P (Kube (UpdateResourceStatus ns j r))) \<Longrightarrow> emits P (kube_update_status K ns j)"
  "(\<And>r. P (Net (HttpDo q r))) \<Longrightarrow> emits P (net_do N q)"
  "(\<And>t. P (Net (ClockNow t))) \<Longrightarrow> emits P (net_now N)"
  "P (Net (LogFailure path st body)) \<Longrightarrow> emits P (net_log path st body)"
  unfolding call_defs by (rule emits_external emits_note_event; assumption)+

definition secret_write :: "event \<Rightarrow> bool" where
  "secret_write e = (case e of Kube k \<Rightarrow> writes_secret k | _ \<Rightarrow> False)"

text \<open>Effects outside the cluster: no call of the Kubernetes API, its watch or the work queue.\<close>

definition off_cluster :: "event \<Rightarrow> bool" where
  "off_cluster e = (case e of Kube _ \<Rightarrow> False | Control _ \<Rightarrow> False | _ \<Rightarrow> True)"

definition is_target :: "event \<Rightarrow> bool" where
  "is_target e = (case e of Target _ \<Rightarrow> True | _ \<Rightarrow> False)"

lemma is_target_simps [simp]: "is_target (Target t)" "\<not> is_target (Kube k)" "\<not> is_target (Net n)"
  "\<not> is_target (Control c)"
  by (simp_all add: is_target_def)

definition is_net :: "event \<Rightarrow> bool" where
  "is_net e = (case e of Net _ \<Rightarrow> True | _ \<Rightarrow> False)"

lemma secret_write_simps [simp]:
  "secret_write (Kube k) = writes_secret k" "\<not> secret_write (Net n)" "\<not> secret_write (Target t)"
  "\<not> secret_write (Control c)"
  by (simp_all add: secret_write_def)

lemma off_cluster_simps [simp]: "\<not> off_cluster (Kube k)" "off_cluster (Net n)" "off_cluster (Target t)"
  "\<not> off_cluster (Control c)"
  by (simp_all add: off_cluster_def)

lemma off_cluster_no_write: "off_cluster e \<Longrightarrow> \<not> secret_write e"
  by (cases e) simp_all

lemma is_net_simps [simp]: "is_net (Net n)" "\<not> is_net (Kube k)" "\<not> is_net (Target t)" "\<not> is_net (Control c)"
  by (simp_all add: is_net_def)

end
