(* ===== verification/Api_Types.thy ===== *)
theory Api_Types
  imports World
begin

text \<open>
  What the controller and the API client share (\<open>krypticapi/client.go\<close>): machine
  credentials, decrypted bundles, and the interface \<open>Fetcher\<close> through which the reconciler
  uses the client. An implementation that is also a \<open>DynamicFetcher\<close> has a value in the
  field \<open>dynamic\<close>; the type assertion of the reconciler is the case distinction on it.
\<close>

record api_credentials =
  cred_BaseURL :: string
  cred_ClientID :: string
  cred_ClientSecret :: string

definition DefaultBaseURL :: string where
  "DefaultBaseURL = ''https://pipelines.kryptic.dev''"

type_synonym Bundle = "string \<rightharpoonup> string"

text \<open>A \<open>map[string]string\<close> of secret keys to lease ids; its order is \<open>range\<close>'s affair.\<close>

type_synonym lease_map = "(string \<times> string) list"

record ('w, 'm) dynamic_fetcher =
  SyncDynamic :: "api_credentials \<Rightarrow> string \<Rightarrow> string \<Rightarrow> lease_map \<Rightarrow> ('w, 'm, goerr + Bundle \<times> lease_map) io"
  RevokeLeases :: "api_credentials \<Rightarrow> string list \<Rightarrow> ('w, 'm, goerr + unit) io"

record ('w, 'm) fetcher =
  Fetch :: "api_credentials \<Rightarrow> string \<Rightarrow> string \<Rightarrow> ('w, 'm, goerr + Bundle) io"
  dynamic :: "('w, 'm) dynamic_fetcher option"

end
