(* ===== verification/Provider.thy ===== *)
theory Provider
  imports World
begin

text \<open>
  The data of dynamic credentials and the rendering of statements (\<open>dynsecret/provider.go\<close>).
  A Go map literal that the code ranges over is an association list; the order of the range is
  \<open>map_order\<close> of the runtime.
\<close>

section \<open>Constants and data\<close>

definition ProviderPostgres :: int where "ProviderPostgres = 0"
definition ProviderMySQL :: int where "ProviderMySQL = 1"
definition ProviderOracle :: int where "ProviderOracle = 2"
definition ProviderCassandra :: int where "ProviderCassandra = 3"
definition ProviderRedis :: int where "ProviderRedis = 4"
definition ProviderAwsIAM :: int where "ProviderAwsIAM = 5"

definition ActionCreate :: int where "ActionCreate = 0"
definition ActionRenew :: int where "ActionRenew = 1"
definition ActionRevoke :: int where "ActionRevoke = 2"

lemmas provider_numbers = ProviderPostgres_def ProviderMySQL_def ProviderOracle_def
  ProviderCassandra_def ProviderRedis_def ProviderAwsIAM_def

lemmas action_numbers = ActionCreate_def ActionRenew_def ActionRevoke_def

record provider_config =
  pc_host :: string
  pc_port :: int
  pc_username :: string
  pc_password :: string
  pc_database :: string
  pc_ssl :: bool
  pc_ca :: string
  pc_sslVerify :: "bool option"
  pc_hosts :: string
  pc_localDc :: string
  pc_keyspace :: string
  pc_tls :: bool
  pc_authMethod :: string
  pc_credentialType :: string
  pc_accessKeyId :: string
  pc_secretAccessKey :: string
  pc_roleArn :: string
  pc_region :: string
  pc_durationSeconds :: int
  pc_policyDocument :: string
  pc_permissionBoundary :: string
  pc_iamUserPath :: string

definition no_config :: provider_config where
  "no_config = \<lparr>pc_host = '''', pc_port = 0, pc_username = '''', pc_password = '''', pc_database = '''',
     pc_ssl = False, pc_ca = '''', pc_sslVerify = None, pc_hosts = '''', pc_localDc = '''',
     pc_keyspace = '''', pc_tls = False, pc_authMethod = '''', pc_credentialType = '''',
     pc_accessKeyId = '''', pc_secretAccessKey = '''', pc_roleArn = '''', pc_region = '''',
     pc_durationSeconds = 0, pc_policyDocument = '''', pc_permissionBoundary = '''', pc_iamUserPath = ''''\<rparr>"

record minted =
  mi_username :: string
  mi_password :: string
  mi_sessionToken :: string
  mi_accessKeyId :: string
  mi_url :: string

definition no_minted :: minted where
  "no_minted = \<lparr>mi_username = '''', mi_password = '''', mi_sessionToken = '''', mi_accessKeyId = '''', mi_url = ''''\<rparr>"

record work_context =
  wk_config :: provider_config
  wk_username :: string
  wk_password :: string
  wk_creation :: string
  wk_revocation :: string
  wk_renew :: string
  wk_urlTemplate :: string
  wk_expiresAt :: time
  wk_entityId :: string

text \<open>The interface \<open>Provider\<close>; an error result is \<open>None\<close> for \<open>nil\<close>.\<close>

record ('w, 'm) provider =
  Mint :: "work_context \<Rightarrow> ('w, 'm, goerr + minted) io"
  Renew :: "work_context \<Rightarrow> ('w, 'm, goerr option) io"
  Revoke :: "work_context \<Rightarrow> ('w, 'm, goerr option) io"

section \<open>The provider's configuration\<close>

definition config_step :: "go_runtime \<Rightarrow> provider_config \<Rightarrow> string \<Rightarrow> json \<Rightarrow> provider_config option" where
  "config_step R c k v =
     (let is = (\<lambda>name. field_matches R name k);
          str = (\<lambda>get upd. map_option (\<lambda>x. upd (\<lambda>_. x) c) (decode_string (get c) v));
          int = (\<lambda>get upd. map_option (\<lambda>x. upd (\<lambda>_. x) c) (decode_int (get c) v));
          bool = (\<lambda>get upd. map_option (\<lambda>x. upd (\<lambda>_. x) c) (decode_bool (get c) v))
      in if is ''host'' then str pc_host pc_host_update
         else if is ''port'' then int pc_port pc_port_update
         else if is ''username'' then str pc_username pc_username_update
         else if is ''password'' then str pc_password pc_password_update
         else if is ''database'' then str pc_database pc_database_update
         else if is ''ssl'' then bool pc_ssl pc_ssl_update
         else if is ''ca'' then str pc_ca pc_ca_update
         else if is ''sslVerify'' then
           map_option (\<lambda>x. c\<lparr>pc_sslVerify := x\<rparr>) (decode_pointer False decode_bool (pc_sslVerify c) v)
         else if is ''hosts'' then str pc_hosts pc_hosts_update
         else if is ''localDc'' then str pc_localDc pc_localDc_update
         else if is ''keyspace'' then str pc_keyspace pc_keyspace_update
         else if is ''tls'' then bool pc_tls pc_tls_update
         else if is ''authMethod'' then str pc_authMethod pc_authMethod_update
         else if is ''credentialType'' then str pc_credentialType pc_credentialType_update
         else if is ''accessKeyId'' then str pc_accessKeyId pc_accessKeyId_update
         else if is ''secretAccessKey'' then str pc_secretAccessKey pc_secretAccessKey_update
         else if is ''roleArn'' then str pc_roleArn pc_roleArn_update
         else if is ''region'' then str pc_region pc_region_update
         else if is ''durationSeconds'' then int pc_durationSeconds pc_durationSeconds_update
         else if is ''policyDocument'' then str pc_policyDocument pc_policyDocument_update
         else if is ''permissionBoundary'' then str pc_permissionBoundary pc_permissionBoundary_update
         else if is ''iamUserPath'' then str pc_iamUserPath pc_iamUserPath_update
         else Some c)"

definition config_error :: "go_runtime \<Rightarrow> string \<Rightarrow> goerr" where
  "config_error R text =
     Wrap ''provider config is not JSON: '' (Err (json_error_text R ''dynsecret.ProviderConfig'' text))"

definition ParseProviderConfig :: "go_runtime \<Rightarrow> string \<Rightarrow> goerr + provider_config" where
  "ParseProviderConfig R plaintext =
     (case json_parse plaintext of
        None \<Rightarrow> Inl (config_error R plaintext)
      | Some j \<Rightarrow> (case decode_struct (config_step R) no_config j of
            None \<Rightarrow> Inl (config_error R plaintext)
          | Some c \<Rightarrow> Inr c))"

section \<open>Rendering\<close>

fun render_vars :: "string \<Rightarrow> (string \<times> string) list \<Rightarrow> string" where
  "render_vars out [] = out"
| "render_vars out ((key, v) # vars) =
     render_vars (replace_all (replace_all out (''{{'' @ key @ ''}}'') v) (''{{ '' @ key @ '' }}'') v) vars"

definition RenderStatements :: "go_runtime \<Rightarrow> string \<Rightarrow> (string \<times> string) list \<Rightarrow> string" where
  "RenderStatements R template vars = render_vars template (map_order R vars)"

fun firstNonEmpty :: "string list \<Rightarrow> string" where
  "firstNonEmpty [] = ''''"
| "firstNonEmpty (v # vs) = (if trim_space v \<noteq> '''' then v else firstNonEmpty vs)"

definition firstHost :: "string \<Rightarrow> string" where
  "firstHost hosts = (case split_on CHR '','' hosts of [] \<Rightarrow> '''' | p # _ \<Rightarrow> trim_space p)"

definition StatementVars :: "work_context \<Rightarrow> (string \<times> string) list" where
  "StatementVars w =
     [(''username'', wk_username w),
      (''password'', wk_password w),
      (''expiration'', format_statement_time (wk_expiresAt w)),
      (''database'', firstNonEmpty [pc_database (wk_config w), pc_keyspace (wk_config w)]),
      (''keyspace'', firstNonEmpty [pc_keyspace (wk_config w), pc_database (wk_config w)])]"

definition url_vars :: "minted \<Rightarrow> provider_config \<Rightarrow> time \<Rightarrow> (string \<times> string) list" where
  "url_vars m cfg expires =
     [(''username'', mi_username m),
      (''password'', mi_password m),
      (''host'', firstNonEmpty [pc_host cfg, firstHost (pc_hosts cfg)]),
      (''port'', itoa (pc_port cfg)),
      (''database'', firstNonEmpty [pc_database cfg, pc_keyspace cfg]),
      (''accessKeyId'', mi_accessKeyId m),
      (''sessionToken'', mi_sessionToken m),
      (''expiration'', format_rfc3339 expires)]"

definition RenderURL :: "go_runtime \<Rightarrow> string \<Rightarrow> minted \<Rightarrow> provider_config \<Rightarrow> time \<Rightarrow> string" where
  "RenderURL R template m cfg expires =
     (if trim_space template = '''' then '''' else RenderStatements R template (url_vars m cfg expires))"

section \<open>The provider that always fails\<close>

definition unavailable_error :: "string \<Rightarrow> string \<Rightarrow> goerr" where
  "unavailable_error name reason = Err (name @ '': '' @ reason)"

definition unavailableProvider :: "string \<Rightarrow> string \<Rightarrow> ('w, 'm) provider" where
  "unavailableProvider name reason =
     \<lparr>Mint = (\<lambda>_. State_Monad.return (Inl (unavailable_error name reason))),
      Renew = (\<lambda>_. State_Monad.return (Some (unavailable_error name reason))),
      Revoke = (\<lambda>_. State_Monad.return (Some (unavailable_error name reason)))\<rparr>"

section \<open>The contract of a provider\<close>

text \<open>
  What the rest of the program relies on: a provider touches nothing but targets (and the host's
  temporary files), and what it mints carries the user name of the work, with no URL yet.
\<close>

locale lease_provider =
  fixes pr :: "('w, 'm) provider"
  assumes mint_target: "emits is_target (Mint pr w)"
    and renew_target: "emits is_target (Renew pr w)"
    and revoke_target: "emits is_target (Revoke pr w)"
    and mint_named: "wp (Mint pr w) s (\<lambda>r s'. case r of
          Inl _ \<Rightarrow> True | Inr m \<Rightarrow> mi_username m = wk_username w \<and> mi_url m = '''')"
begin

lemma mint_result: "run_state (Mint pr w) s = (Inr m, s') \<Longrightarrow> mi_username m = wk_username w"
  using wp_run [OF mint_named [of w s]] by simp

lemma provider_emits:
  assumes "\<And>t. P (Target t)"
  shows "emits P (Mint pr w)" "emits P (Renew pr w)" "emits P (Revoke pr w)"
proof -
  have "is_target e \<Longrightarrow> P e" for e
    using assms by (cases e) simp_all
  then show "emits P (Mint pr w)" "emits P (Renew pr w)" "emits P (Revoke pr w)"
    by (blast intro: emits_mono [OF mint_target] emits_mono [OF renew_target] emits_mono [OF revoke_target])+
qed

end

interpretation unavailable: lease_provider "unavailableProvider name reason" for name reason
  by unfold_locales (simp_all add: unavailableProvider_def emits_return wp_return)

end
