(* ===== verification/Username.thy ===== *)
theory Username
  imports Provider
begin

text \<open>
  User names and passwords (\<open>dynsecret/username.go\<close>). The result of a routine that loops is an
  \<open>option\<close>: \<open>None\<close> means that it has not returned. The pure loops are partial functions;
  the loop of \<open>RandomString\<close> may read \<open>random_draws\<close> blocks, and the loop of
  \<open>replaceRandomN\<close> may run once for every closing brace.
\<close>

section \<open>Random strings\<close>

definition alphabet :: string where
  "alphabet = ''abcdefghijklmnopqrstuvwxyzABCDEFGHIJKLMNOPQRSTUVWXYZ0123456789''"

definition byte_limit :: nat where
  "byte_limit = 256 - 256 mod length alphabet"

text \<open>The inner loop: the bytes of one block, until the string is long enough.\<close>

fun draw_chars :: "nat \<Rightarrow> string \<Rightarrow> string \<Rightarrow> string" where
  "draw_chars n out [] = out"
| "draw_chars n out (b # bs) =
     (if byte_limit \<le> byte b then draw_chars n out bs
      else let out' = out @ [alphabet ! (byte b mod length alphabet)]
           in if length out' = n then out' else draw_chars n out' bs)"

fun random_loop :: "'w target_api \<Rightarrow> nat \<Rightarrow> nat \<Rightarrow> string \<Rightarrow> ('w, 'm, string option) io" where
  "random_loop T n 0 out = State_Monad.return (if length out < n then None else Some out)"
| "random_loop T n (Suc k) out =
     (if length out < n then do {
        buf \<leftarrow> target_random T;
        random_loop T n k (draw_chars n out buf)
      }
      else State_Monad.return (Some out))"

definition RandomString :: "'w target_api \<Rightarrow> int \<Rightarrow> ('w, 'm, string option) io" where
  "RandomString T len = random_loop T (if len < 1 then 1 else nat len) (random_draws T) ''''"

section \<open>Sanitizing\<close>

definition sane_rune :: "rune \<Rightarrow> bool" where
  "sane_rune r \<longleftrightarrow> (97 \<le> r \<and> r \<le> 122) \<or> (65 \<le> r \<and> r \<le> 90) \<or> (48 \<le> r \<and> r \<le> 57) \<or> r = 95"

definition Sanitize :: "string \<Rightarrow> string" where
  "Sanitize v =
     (if trim_space v = '''' then ''kryptic''
      else let b = concat (map (\<lambda>p. if sane_rune (fst p) then encode_rune (fst p) else []) (runes v))
           in if b = '''' then ''kryptic'' else b)"

section \<open>Tokens\<close>

definition replaceToken :: "string \<Rightarrow> string \<Rightarrow> string \<Rightarrow> string" where
  "replaceToken source name v =
     replace_all (replace_all source (''{{'' @ name @ ''}}'') v) (''{{ '' @ name @ '' }}'') v"

fun replace_tokens :: "string \<Rightarrow> (string \<times> string) list \<Rightarrow> string" where
  "replace_tokens source [] = source"
| "replace_tokens source ((name, v) # rest) = replace_tokens (replaceToken source name v) rest"

definition slice :: "string \<Rightarrow> nat \<Rightarrow> nat \<Rightarrow> string" where
  "slice s i j = take (j - i) (drop i s)"

text \<open>How many characters a random token asks for; the first argument is the text between the braces.\<close>

definition random_count :: "string \<Rightarrow> int" where
  "random_count inner =
     (let parts = str_fields inner
      in if length parts = 2 then
           (case atoi (parts ! 1) of
              None \<Rightarrow> 8
            | Some parsed \<Rightarrow>
                (let p = (if parsed < 1 then 1 else parsed) in if 64 < p then 64 else p))
         else 8)"

definition random_start :: "string \<Rightarrow> nat option" where
  "random_start source = (case index_of ''{{random '' source of
       None \<Rightarrow> index_of ''{{ random '' source
     | Some i \<Rightarrow> Some i)"

fun replace_random_loop :: "'w target_api \<Rightarrow> nat \<Rightarrow> string \<Rightarrow> ('w, 'm, string option) io" where
  "replace_random_loop T k source =
     (case random_start source of
        None \<Rightarrow> State_Monad.return (Some source)
      | Some start \<Rightarrow> (case index_of ''}}'' (drop start source) of
            None \<Rightarrow> State_Monad.return (Some source)
          | Some e0 \<Rightarrow> (case k of
                0 \<Rightarrow> State_Monad.return None
              | Suc k' \<Rightarrow> do {
                  let e = e0 + start;
                  r \<leftarrow> RandomString T (random_count (trim_space (slice source (start + 2) e)));
                  case r of
                    None \<Rightarrow> State_Monad.return None
                  | Some fresh \<Rightarrow>
                      replace_random_loop T k' (take start source @ fresh @ drop (e + 2) source)
                })))"

declare replace_random_loop.simps [simp del]

definition replaceRandomN :: "'w target_api \<Rightarrow> string \<Rightarrow> ('w, 'm, string option) io" where
  "replaceRandomN T source = replace_random_loop T (count_list source CHR ''}'') source"

section \<open>Functions\<close>

definition resolveArg :: "string \<Rightarrow> (string \<times> string) list \<Rightarrow> string" where
  "resolveArg v tokens = (case map_of tokens v of Some mapped \<Rightarrow> mapped | None \<Rightarrow> v)"

partial_function (option) applyUnary ::
  "string \<Rightarrow> string \<Rightarrow> (string \<Rightarrow> string) \<Rightarrow> (string \<times> string) list \<Rightarrow> string option" where
  "applyUnary source name apply_fn tokens =
     (let opening = ''{{'' @ name @ '' '' in
      case index_of opening source of
        None \<Rightarrow> Some source
      | Some start \<Rightarrow> (case index_of ''}}'' (drop start source) of
            None \<Rightarrow> Some source
          | Some e0 \<Rightarrow>
              (let e = e0 + start;
                   v = resolveArg (trim_space (slice source (start + length opening) e)) tokens
               in applyUnary (take start source @ apply_fn v @ drop (e + 2) source) name apply_fn tokens)))"

definition truncate_open :: string where "truncate_open = ''{{truncate ''"

definition truncated_arg :: "string list \<Rightarrow> (string \<times> string) list \<Rightarrow> string" where
  "truncated_arg parts tokens =
     (let v = (case parts of [] \<Rightarrow> '''' | p # _ \<Rightarrow> resolveArg p tokens);
          n = (if 1 < length parts
               then (case atoi (last parts) of Some parsed \<Rightarrow> parsed | None \<Rightarrow> int (length v))
               else int (length v));
          n' = (if n < 0 then 0 else n)
      in take (nat (if int (length v) < n' then int (length v) else n')) v)"

partial_function (option) applyTruncate :: "string \<Rightarrow> (string \<times> string) list \<Rightarrow> string option" where
  "applyTruncate source tokens =
     (case index_of truncate_open source of
        None \<Rightarrow> Some source
      | Some start \<Rightarrow> (case index_of ''}}'' (drop start source) of
            None \<Rightarrow> Some source
          | Some e0 \<Rightarrow>
              (let e = e0 + start;
                   inner = trim_space (slice source (start + length truncate_open) e)
               in applyTruncate
                    (take start source @ truncated_arg (str_fields inner) tokens @ drop (e + 2) source) tokens)))"

text \<open>\<open>splitQuoted\<close>: the runes, the part read so far, whether inside quotes.\<close>

fun split_quoted_from :: "(rune \<times> string) list \<Rightarrow> string \<Rightarrow> bool \<Rightarrow> string list" where
  "split_quoted_from [] cur quoted = (if cur \<noteq> '''' then [cur] else [])"
| "split_quoted_from ((ch, b) # rs) cur quoted =
     (if ch = 39 \<or> ch = 34 then split_quoted_from rs cur (\<not> quoted)
      else if \<not> quoted \<and> is_space ch then
        (if cur \<noteq> '''' then cur # split_quoted_from rs '''' quoted else split_quoted_from rs cur quoted)
      else split_quoted_from rs (cur @ encode_rune ch) quoted)"

definition splitQuoted :: "string \<Rightarrow> string list" where
  "splitQuoted input = split_quoted_from (runes input) '''' False"

definition replace_open :: string where "replace_open = ''{{replace ''"

definition replaced_arg :: "string list \<Rightarrow> (string \<times> string) list \<Rightarrow> string" where
  "replaced_arg args tokens =
     replace_all (if 0 < length args then resolveArg (args ! 0) tokens else '''')
       (if 1 < length args then args ! 1 else '''')
       (if 2 < length args then args ! 2 else '''')"

partial_function (option) applyReplace :: "string \<Rightarrow> (string \<times> string) list \<Rightarrow> string option" where
  "applyReplace source tokens =
     (case index_of replace_open source of
        None \<Rightarrow> Some source
      | Some start \<Rightarrow> (case index_of ''}}'' (drop start source) of
            None \<Rightarrow> Some source
          | Some e0 \<Rightarrow>
              (let e = e0 + start;
                   args = splitQuoted (trim_space (slice source (start + length replace_open) e))
               in applyReplace (take start source @ replaced_arg args tokens @ drop (e + 2) source) tokens)))"

definition applyFunctions :: "go_runtime \<Rightarrow> string \<Rightarrow> (string \<times> string) list \<Rightarrow> string option" where
  "applyFunctions R source tokens =
     (case applyUnary source ''uppercase'' (to_upper R) tokens of None \<Rightarrow> None | Some s1 \<Rightarrow>
        (case applyUnary s1 ''lowercase'' (to_lower R) tokens of None \<Rightarrow> None | Some s2 \<Rightarrow>
           (case applyTruncate s2 tokens of None \<Rightarrow> None | Some s3 \<Rightarrow> applyReplace s3 tokens)))"

section \<open>The template\<close>

definition username_tokens :: "string \<Rightarrow> time \<Rightarrow> string \<Rightarrow> string \<Rightarrow> string \<Rightarrow> (string \<times> string) list" where
  "username_tokens randomUsername t identityName dynamicSecretName dynamicSecretType =
     [(''randomUsername'', randomUsername),
      (''unixTimestamp'', itoa (unix_seconds t)),
      (''identity.name'', Sanitize identityName),
      (''dynamicSecret.name'', Sanitize dynamicSecretName),
      (''dynamicSecret.type'', Sanitize dynamicSecretType)]"

definition username_source :: "string \<Rightarrow> string" where
  "username_source template =
     (if trim_space template = '''' then ''{{randomUsername}}'' else trim_space template)"

definition RenderUsername ::
  "'w target_api \<Rightarrow> 'w net_api \<Rightarrow> go_runtime \<Rightarrow> string \<Rightarrow> string \<Rightarrow> string \<Rightarrow> string \<Rightarrow> ('w, 'm, string option) io" where
  "RenderUsername T N R template identityName dynamicSecretName dynamicSecretType = do {
     let source = username_source template;
     drawn \<leftarrow> RandomString T 32;
     case drawn of
       None \<Rightarrow> State_Monad.return None
     | Some randomUsername \<Rightarrow> do {
         t \<leftarrow> net_now N;
         let tokens = username_tokens randomUsername t identityName dynamicSecretName dynamicSecretType;
         filled \<leftarrow> replaceRandomN T (replace_tokens source (map_order R tokens));
         State_Monad.return (case filled of
             None \<Rightarrow> None
           | Some s \<Rightarrow> map_option (\<lambda>rendered. if rendered = '''' then randomUsername else rendered)
                         (applyFunctions R s tokens))
       }
   }"

section \<open>Effects\<close>

lemma random_loop_emits: "(\<And>b. P (Target (RandomBlock b))) \<Longrightarrow> emits P (random_loop T n k out)"
  by (induction T n k out rule: random_loop.induct) (auto intro!: emits_rules)

lemma RandomString_emits [emits_rules]: "(\<And>b. P (Target (RandomBlock b))) \<Longrightarrow> emits P (RandomString T n)"
  unfolding RandomString_def by (rule random_loop_emits)

lemma replace_random_loop_emits:
  assumes "\<And>b. P (Target (RandomBlock b))"
  shows "emits P (replace_random_loop T k source)"
proof (induction k arbitrary: source)
  case 0
  show ?case by (subst replace_random_loop.simps) (auto intro!: emits_rules)
next
  case (Suc k)
  show ?case
    by (subst replace_random_loop.simps) (auto simp: Let_def intro!: emits_rules assms Suc.IH)
qed

lemma RenderUsername_emits [emits_rules]:
  assumes "\<And>b. P (Target (RandomBlock b))" and "\<And>t. P (Net (ClockNow t))"
  shows "emits P (RenderUsername T N R template i n ty)"
  unfolding RenderUsername_def replaceRandomN_def
  by (intro emits_rules replace_random_loop_emits assms)

end
