(* ===== verification/Sql.thy ===== *)
theory Sql
  imports Provider
begin

text \<open>
  The SQL providers (\<open>dynsecret/sql.go\<close>): statements are split at semicolons and executed in
  order on one database; a CA bundle is staged in a temporary file for the time of the call.
  A deferred call of the Go code is the call that follows the body on every path.
\<close>

section \<open>Statements\<close>

fun nonempty_trimmed :: "string list \<Rightarrow> string list" where
  "nonempty_trimmed [] = []"
| "nonempty_trimmed (part # parts) =
     (if trim_space part \<noteq> '''' then trim_space part # nonempty_trimmed parts else nonempty_trimmed parts)"

definition splitStatements :: "string \<Rightarrow> string list" where
  "splitStatements script = nonempty_trimmed (split_on CHR '';'' script)"

definition truncate_text :: "string \<Rightarrow> nat \<Rightarrow> string" where
  "truncate_text s n =
     (let j = join '' '' (str_fields s) in if length j \<le> n then j else take n j @ ''...'')"

section \<open>Running a script\<close>

fun exec_statements :: "'w target_api \<Rightarrow> nat \<Rightarrow> string list \<Rightarrow> ('w, 'm, goerr option) io" where
  "exec_statements T db [] = State_Monad.return None"
| "exec_statements T db (stmt # stmts) = do {
     r \<leftarrow> target_sql_exec T db stmt;
     case r of
       Some e \<Rightarrow> State_Monad.return (Some (Wrap (truncate_text stmt 80 @ '': '') e))
     | None \<Rightarrow> exec_statements T db stmts
   }"

definition runSQL :: "'w target_api \<Rightarrow> string \<Rightarrow> string \<Rightarrow> string \<Rightarrow> ('w, 'm, goerr option) io" where
  "runSQL T driver dsn script = do {
     opened \<leftarrow> target_sql_open T driver dsn;
     case opened of
       Inl e \<Rightarrow> State_Monad.return (Some e)
     | Inr db \<Rightarrow> do {
         ping \<leftarrow> target_sql_ping T db;
         r \<leftarrow> (case ping of
                Some e \<Rightarrow> State_Monad.return (Some e)
              | None \<Rightarrow> exec_statements T db (splitStatements script));
         target_sql_close T db;
         State_Monad.return r
       }
   }"

section \<open>The CA bundle\<close>

text \<open>
  \<open>writeTempCA\<close>: the second component of the result is the file the returned cleanup
  removes, if any.
\<close>

definition temp_ca_pattern :: string where "temp_ca_pattern = ''kryptic-ca-*.pem''"

definition writeTempCA :: "'w target_api \<Rightarrow> string \<Rightarrow> ('w, 'm, goerr + string \<times> string option) io" where
  "writeTempCA T ca =
     (if trim_space ca = '''' then State_Monad.return (Inr ('''', None))
      else do {
        created \<leftarrow> target_temp_create T temp_ca_pattern;
        case created of
          Inl e \<Rightarrow> State_Monad.return (Inl e)
        | Inr name \<Rightarrow> do {
            wrote \<leftarrow> target_temp_write T name ca;
            case wrote of
              Some e \<Rightarrow> do {
                _ \<leftarrow> target_temp_close T name;
                target_temp_remove T name;
                State_Monad.return (Inl e)
              }
            | None \<Rightarrow> do {
                closed \<leftarrow> target_temp_close T name;
                case closed of
                  Some e \<Rightarrow> do { target_temp_remove T name; State_Monad.return (Inl e) }
                | None \<Rightarrow> State_Monad.return (Inr (name, Some name))
              }
          }
      })"

definition cleanup :: "'w target_api \<Rightarrow> string option \<Rightarrow> ('w, 'm, unit) io" where
  "cleanup T f = (case f of None \<Rightarrow> State_Monad.return () | Some name \<Rightarrow> target_temp_remove T name)"

section \<open>Data source names\<close>

text \<open>\<open>url.escape\<close> of the library, for the parts of a URL other than a query.\<close>

definition url_escape :: "encoding \<Rightarrow> string \<Rightarrow> string" where
  "url_escape m s = concat (map (\<lambda>c.
     if should_escape m c then [percent, upper_hex (byte c div 16), upper_hex (byte c mod 16)] else [c]) s)"

text \<open>\<open>url.Values.Encode\<close> of pairs given in the order of their keys.\<close>

definition encode_query :: "(string \<times> string) list \<Rightarrow> string" where
  "encode_query kvs = join ''&'' (map (\<lambda>(k, v). query_escape k @ ''='' @ query_escape v) kvs)"

definition postgres_url :: "provider_config \<Rightarrow> (string \<times> string) list \<Rightarrow> string" where
  "postgres_url cfg q =
     (let port = (if pc_port cfg = 0 then 5432 else pc_port cfg)
      in ''postgres://'' @ url_escape EncodeUserPassword (pc_username cfg) @ '':''
         @ url_escape EncodeUserPassword (pc_password cfg) @ ''@''
         @ url_escape EncodeHost (pc_host cfg @ '':'' @ itoa port)
         @ url_escape EncodePath (''/'' @ pc_database cfg) @ ''?'' @ encode_query q)"

definition postgresDSN :: "'w target_api \<Rightarrow> provider_config \<Rightarrow> ('w, 'm, goerr + string \<times> string option) io" where
  "postgresDSN T cfg =
     (if \<not> pc_ssl cfg then
        State_Monad.return (Inr (postgres_url cfg [(''sslmode'', ''disable'')], None))
      else if pc_sslVerify cfg = Some False then
        State_Monad.return (Inr (postgres_url cfg [(''sslmode'', ''require'')], None))
      else if trim_space (pc_ca cfg) = '''' then
        State_Monad.return (Inr (postgres_url cfg [(''sslmode'', ''verify-full'')], None))
      else do {
        staged \<leftarrow> writeTempCA T (pc_ca cfg);
        State_Monad.return (case staged of
            Inl e \<Rightarrow> Inl (Wrap ''write CA bundle: '' e)
          | Inr x \<Rightarrow> (case x of (path, file) \<Rightarrow>
              Inr (postgres_url cfg [(''sslmode'', ''verify-full''), (''sslrootcert'', path)], file)))
      })"

definition mysqlDSN :: "provider_config \<Rightarrow> string" where
  "mysqlDSN cfg =
     (let port = (if pc_port cfg = 0 then 3306 else pc_port cfg);
          tls = (if pc_ssl cfg then (if pc_sslVerify cfg = Some False then ''skip-verify'' else ''true'')
                 else ''false'')
      in pc_username cfg @ '':'' @ pc_password cfg @ ''@tcp('' @ pc_host cfg @ '':'' @ itoa port @ '')/''
         @ pc_database cfg @ ''?tls='' @ tls @ ''&multiStatements=true&parseTime=true'')"

section \<open>The providers\<close>

definition runPostgres :: "'w target_api \<Rightarrow> provider_config \<Rightarrow> string \<Rightarrow> ('w, 'm, goerr option) io" where
  "runPostgres T cfg script = do {
     prepared \<leftarrow> postgresDSN T cfg;
     case prepared of
       Inl e \<Rightarrow> State_Monad.return (Some e)
     | Inr x \<Rightarrow> (case x of (dsn, file) \<Rightarrow> do {
         r \<leftarrow> runSQL T ''pgx'' dsn script;
         cleanup T file;
         State_Monad.return r
       })
   }"

text \<open>What every provider but AWS answers after its creation statement has run.\<close>

definition minted_login :: "work_context \<Rightarrow> goerr option \<Rightarrow> goerr + minted" where
  "minted_login w r = (case r of
       Some e \<Rightarrow> Inl e
     | None \<Rightarrow> Inr (no_minted\<lparr>mi_username := wk_username w, mi_password := wk_password w\<rparr>))"

definition postgresProvider :: "'w target_api \<Rightarrow> go_runtime \<Rightarrow> ('w, 'm) provider" where
  "postgresProvider T R =
     \<lparr>Mint = (\<lambda>w. do {
        r \<leftarrow> runPostgres T (wk_config w) (RenderStatements R (wk_creation w) (StatementVars w));
        State_Monad.return (minted_login w r)
      }),
      Renew = (\<lambda>w. if trim_space (wk_renew w) = '''' then State_Monad.return None
        else runPostgres T (wk_config w) (RenderStatements R (wk_renew w) (StatementVars w))),
      Revoke = (\<lambda>w. runPostgres T (wk_config w) (RenderStatements R (wk_revocation w) (StatementVars w)))\<rparr>"

definition mysqlProvider :: "'w target_api \<Rightarrow> go_runtime \<Rightarrow> ('w, 'm) provider" where
  "mysqlProvider T R =
     \<lparr>Mint = (\<lambda>w. do {
        r \<leftarrow> runSQL T ''mysql'' (mysqlDSN (wk_config w)) (RenderStatements R (wk_creation w) (StatementVars w));
        State_Monad.return (minted_login w r)
      }),
      Renew = (\<lambda>w. if trim_space (wk_renew w) = '''' then State_Monad.return None
        else runSQL T ''mysql'' (mysqlDSN (wk_config w)) (RenderStatements R (wk_renew w) (StatementVars w))),
      Revoke = (\<lambda>w. runSQL T ''mysql'' (mysqlDSN (wk_config w))
        (RenderStatements R (wk_revocation w) (StatementVars w)))\<rparr>"

section \<open>The contract\<close>

lemma exec_statements_emits [emits_rules]: "emits is_target (exec_statements T db stmts)"
  by (induction stmts) (auto intro!: emits_rules)

lemma runSQL_emits [emits_rules]: "emits is_target (runSQL T driver dsn script)"
  unfolding runSQL_def by (intro emits_rules) simp_all

lemma writeTempCA_emits [emits_rules]: "emits is_target (writeTempCA T ca)"
  unfolding writeTempCA_def by (intro emits_rules) simp_all

lemma cleanup_emits [emits_rules]: "emits is_target (cleanup T f)"
  unfolding cleanup_def by (intro emits_rules) simp_all

lemma runPostgres_emits [emits_rules]: "emits is_target (runPostgres T cfg script)"
  unfolding runPostgres_def postgresDSN_def by (intro emits_rules)

lemma minted_login_named:
  "case minted_login w r of Inl _ \<Rightarrow> True | Inr m \<Rightarrow> mi_username m = wk_username w \<and> mi_url m = ''''"
  by (simp add: minted_login_def no_minted_def split: option.splits)

text \<open>A provider that mints by running a script fulfils the contract.\<close>

lemma script_mint_named:
  "wp (do { r \<leftarrow> m; State_Monad.return (minted_login w r) }) s
     (\<lambda>r s'. case r of Inl _ \<Rightarrow> True | Inr m \<Rightarrow> mi_username m = wk_username w \<and> mi_url m = '''')"
  by (simp add: wp_rules minted_login_named) (simp add: wp_def split: prod.splits)

interpretation postgres: lease_provider "postgresProvider T R" for T R
  by unfold_locales (auto simp: postgresProvider_def script_mint_named intro!: emits_rules)

interpretation mysql: lease_provider "mysqlProvider T R" for T R
  by unfold_locales (auto simp: mysqlProvider_def script_mint_named intro!: emits_rules)

end
