(* ===== verification/Other_Providers.thy ===== *)
theory Other_Providers
  imports Sql
begin

text \<open>
  The Oracle, Cassandra and Redis providers (\<open>dynsecret/oracle.go\<close>,
  \<open>dynsecret/cassandra.go\<close>, \<open>dynsecret/redis.go\<close>).
\<close>

section \<open>Oracle\<close>

definition oracleDSN :: "'w target_api \<Rightarrow> provider_config \<Rightarrow> string" where
  "oracleDSN T cfg =
     (let port = (if pc_port cfg = 0 then 1521 else pc_port cfg);
          opts = (if pc_ssl cfg
                  then (''SSL'', ''enable'') # (if pc_sslVerify cfg = Some False then [(''SSL Verify'', ''false'')] else [])
                  else [])
      in oracle_build_url T (pc_host cfg) port (pc_database cfg) (pc_username cfg) (pc_password cfg) opts)"

definition oracleProvider :: "'w target_api \<Rightarrow> go_runtime \<Rightarrow> ('w, 'm) provider" where
  "oracleProvider T R =
     \<lparr>Mint = (\<lambda>w. do {
        r \<leftarrow> runSQL T ''oracle'' (oracleDSN T (wk_config w)) (RenderStatements R (wk_creation w) (StatementVars w));
        State_Monad.return (minted_login w r)
      }),
      Renew = (\<lambda>w. if trim_space (wk_renew w) = '''' then State_Monad.return None
        else runSQL T ''oracle'' (oracleDSN T (wk_config w)) (RenderStatements R (wk_renew w) (StatementVars w))),
      Revoke = (\<lambda>w. runSQL T ''oracle'' (oracleDSN T (wk_config w))
        (RenderStatements R (wk_revocation w) (StatementVars w)))\<rparr>"

section \<open>Cassandra\<close>

definition cassandra_hosts :: "provider_config \<Rightarrow> string list" where
  "cassandra_hosts cfg =
     (let hosts = split_on CHR '','' (pc_hosts cfg)
      in map trim_space
           (if length hosts = 1 \<and> trim_space (hd hosts) = '''' \<and> pc_host cfg \<noteq> '''' then [pc_host cfg]
            else hosts))"

definition cassandra_cluster_of :: "provider_config \<Rightarrow> (bool \<times> string option) option \<Rightarrow> cassandra_cluster" where
  "cassandra_cluster_of cfg tls =
     \<lparr>ca_hosts = cassandra_hosts cfg,
      ca_port = (if 0 < pc_port cfg then Some (pc_port cfg) else None),
      ca_localDc = (if pc_localDc cfg \<noteq> '''' then Some (pc_localDc cfg) else None),
      ca_login = (if pc_username cfg \<noteq> '''' then Some (pc_username cfg, pc_password cfg) else None),
      ca_keyspace = (if pc_keyspace cfg \<noteq> '''' then pc_keyspace cfg else pc_database cfg),
      ca_tls = tls\<rparr>"

definition cassandra_connect ::
  "'w target_api \<Rightarrow> provider_config \<Rightarrow> (bool \<times> string option) option \<Rightarrow> string option
     \<Rightarrow> ('w, 'm, goerr + nat \<times> string option) io" where
  "cassandra_connect T cfg tls file = do {
     r \<leftarrow> target_cql_connect T (cassandra_cluster_of cfg tls);
     case r of
       Inl e \<Rightarrow> do { cleanup T file; State_Monad.return (Inl e) }
     | Inr session \<Rightarrow> State_Monad.return (Inr (session, file))
   }"

definition cassandraSession :: "'w target_api \<Rightarrow> provider_config \<Rightarrow> ('w, 'm, goerr + nat \<times> string option) io" where
  "cassandraSession T cfg =
     (if pc_tls cfg \<or> pc_ssl cfg then
        (if trim_space (pc_ca cfg) \<noteq> '''' then do {
           staged \<leftarrow> writeTempCA T (pc_ca cfg);
           case staged of
             Inl e \<Rightarrow> State_Monad.return (Inl e)
           | Inr x \<Rightarrow> (case x of (path, file) \<Rightarrow>
               cassandra_connect T cfg (Some (pc_sslVerify cfg \<noteq> Some False, Some path)) file)
         }
         else cassandra_connect T cfg (Some (pc_sslVerify cfg \<noteq> Some False, None)) None)
      else cassandra_connect T cfg None None)"

fun cql_statements :: "'w target_api \<Rightarrow> nat \<Rightarrow> string list \<Rightarrow> ('w, 'm, goerr option) io" where
  "cql_statements T session [] = State_Monad.return None"
| "cql_statements T session (stmt # stmts) = do {
     r \<leftarrow> target_cql_query T session stmt;
     case r of Some e \<Rightarrow> State_Monad.return (Some e) | None \<Rightarrow> cql_statements T session stmts
   }"

definition cqlExec :: "'w target_api \<Rightarrow> nat \<Rightarrow> string \<Rightarrow> ('w, 'm, goerr option) io" where
  "cqlExec T session script = cql_statements T session (splitStatements script)"

text \<open>Both \<open>Mint\<close> and \<open>Revoke\<close> run one script in a session of their own.\<close>

definition cassandra_run :: "'w target_api \<Rightarrow> provider_config \<Rightarrow> string \<Rightarrow> ('w, 'm, goerr option) io" where
  "cassandra_run T cfg script = do {
     got \<leftarrow> cassandraSession T cfg;
     case got of
       Inl e \<Rightarrow> State_Monad.return (Some e)
     | Inr x \<Rightarrow> (case x of (session, file) \<Rightarrow> do {
         r \<leftarrow> cqlExec T session script;
         target_cql_close T session;
         cleanup T file;
         State_Monad.return r
       })
   }"

definition cassandraProvider :: "'w target_api \<Rightarrow> go_runtime \<Rightarrow> ('w, 'm) provider" where
  "cassandraProvider T R =
     \<lparr>Mint = (\<lambda>w. do {
        r \<leftarrow> cassandra_run T (wk_config w) (RenderStatements R (wk_creation w) (StatementVars w));
        State_Monad.return (minted_login w r)
      }),
      Renew = (\<lambda>_. State_Monad.return None),
      Revoke = (\<lambda>w. cassandra_run T (wk_config w) (RenderStatements R (wk_revocation w) (StatementVars w)))\<rparr>"

section \<open>Redis\<close>

definition redisClient :: "provider_config \<Rightarrow> redis_options" where
  "redisClient cfg =
     \<lparr>ro_addr = pc_host cfg @ '':'' @ itoa (if pc_port cfg = 0 then 6379 else pc_port cfg),
      ro_username = pc_username cfg, ro_password = pc_password cfg,
      ro_tls = (if pc_tls cfg \<or> pc_ssl cfg then Some (pc_sslVerify cfg = Some False) else None)\<rparr>"

fun redis_lines :: "'w target_api \<Rightarrow> redis_options \<Rightarrow> string list \<Rightarrow> ('w, 'm, goerr option) io" where
  "redis_lines T client [] = State_Monad.return None"
| "redis_lines T client (raw # lines) =
     (let line = trim_space raw in
      if line = '''' then redis_lines T client lines
      else do {
        r \<leftarrow> target_redis_send T client (str_fields line);
        case r of
          Some e \<Rightarrow> State_Monad.return (Some (Wrap (line @ '': '') e))
        | None \<Rightarrow> redis_lines T client lines
      })"

definition redisDo :: "'w target_api \<Rightarrow> redis_options \<Rightarrow> string \<Rightarrow> ('w, 'm, goerr option) io" where
  "redisDo T client script = redis_lines T client (split_on (CHR 0x0A) script)"

definition redis_run :: "'w target_api \<Rightarrow> provider_config \<Rightarrow> string \<Rightarrow> ('w, 'm, goerr option) io" where
  "redis_run T cfg script = do {
     let client = redisClient cfg;
     r \<leftarrow> redisDo T client script;
     target_redis_close T client;
     State_Monad.return r
   }"

definition redisProvider :: "'w target_api \<Rightarrow> go_runtime \<Rightarrow> ('w, 'm) provider" where
  "redisProvider T R =
     \<lparr>Mint = (\<lambda>w. do {
        r \<leftarrow> redis_run T (wk_config w) (RenderStatements R (wk_creation w) (StatementVars w));
        State_Monad.return (minted_login w r)
      }),
      Renew = (\<lambda>_. State_Monad.return None),
      Revoke = (\<lambda>w. redis_run T (wk_config w) (RenderStatements R (wk_revocation w) (StatementVars w)))\<rparr>"

section \<open>The contract\<close>

lemma cql_statements_emits [emits_rules]: "emits is_target (cql_statements T n stmts)"
  by (induction stmts) (auto intro!: emits_rules)

lemma redis_lines_emits [emits_rules]: "emits is_target (redis_lines T c ls)"
  by (induction ls) (auto simp: Let_def intro!: emits_rules)

lemma cassandra_run_emits [emits_rules]: "emits is_target (cassandra_run T cfg script)"
  unfolding cassandra_run_def cassandraSession_def cassandra_connect_def cqlExec_def
  by (intro emits_rules) simp_all

lemma redis_run_emits [emits_rules]: "emits is_target (redis_run T cfg script)"
  unfolding redis_run_def redisDo_def by (intro emits_rules) simp_all

interpretation oracle_db: lease_provider "oracleProvider T R" for T R
  by unfold_locales (auto simp: oracleProvider_def script_mint_named intro!: emits_rules)

interpretation cassandra: lease_provider "cassandraProvider T R" for T R
  by unfold_locales (auto simp: cassandraProvider_def script_mint_named intro!: emits_rules)

interpretation redis: lease_provider "redisProvider T R" for T R
  by unfold_locales (auto simp: redisProvider_def script_mint_named intro!: emits_rules)

end
