(* ===== verification/Aws_Iam.thy ===== *)
theory Aws_Iam
  imports Provider "HOL-Library.Word"
begin

text \<open>
  The AWS provider (\<open>dynsecret/awsiam.go\<close>): temporary STS credentials or an IAM user with an
  access key. The duration of a session is converted to 32 bits before it is clamped, as in the
  code.
\<close>

definition static_credentials :: "provider_config \<Rightarrow> aws_credentials" where
  "static_credentials cfg =
     \<lparr>ac_accessKeyId = pc_accessKeyId cfg, ac_secretAccessKey = pc_secretAccessKey cfg, ac_sessionToken = ''''\<rparr>"

definition aws_region :: "provider_config \<Rightarrow> string" where
  "aws_region cfg = (if pc_region cfg = '''' then ''us-east-1'' else pc_region cfg)"

definition awsConfig :: "'w target_api \<Rightarrow> go_runtime \<Rightarrow> provider_config \<Rightarrow> ('w, 'm, goerr + nat) io" where
  "awsConfig T R cfg =
     (let region = aws_region cfg;
          method = to_lower R (pc_authMethod cfg)
      in if method = '''' \<or> method = ''access_key'' \<or> method = ''accesskey'' then
           target_aws_load_config T region (Some (static_credentials cfg))
         else if method = ''assume_role'' \<or> method = ''assumerole'' then do {
           base \<leftarrow> target_aws_load_config T region (Some (static_credentials cfg));
           case base of
             Inl e \<Rightarrow> State_Monad.return (Inl e)
           | Inr b \<Rightarrow> do {
               out \<leftarrow> target_aws_do T b (AssumeRole (pc_roleArn cfg) ''kryptic-connector'' None);
               case out of
                 Inl e \<Rightarrow> State_Monad.return (Inl e)
               | Inr a \<Rightarrow> target_aws_load_config T region (Some (aws_credentials_of a))
             }
         }
         else target_aws_load_config T region None)"

text \<open>\<open>int32(work.Config.DurationSeconds)\<close>.\<close>

definition to_int32 :: "int \<Rightarrow> int" where
  "to_int32 n = sint (word_of_int n :: 32 word)"

definition sts_duration :: "provider_config \<Rightarrow> int" where
  "sts_duration cfg =
     (let d0 = to_int32 (pc_durationSeconds cfg);
          d = (if d0 \<le> 0 then 3600 else d0)
      in if pc_roleArn cfg \<noteq> '''' then (if 3600 < d then 3600 else d)
         else (if 43200 < d then 43200 else d))"

definition sts_minted :: "work_context \<Rightarrow> aws_credentials \<Rightarrow> minted" where
  "sts_minted w c = no_minted\<lparr>mi_username := wk_username w, mi_accessKeyId := ac_accessKeyId c,
     mi_password := ac_secretAccessKey c, mi_sessionToken := ac_sessionToken c\<rparr>"

definition mintSTS :: "'w target_api \<Rightarrow> nat \<Rightarrow> work_context \<Rightarrow> ('w, 'm, goerr + minted) io" where
  "mintSTS T cfg w = do {
     let duration = sts_duration (wk_config w);
     out \<leftarrow> (if pc_roleArn (wk_config w) \<noteq> ''''
             then target_aws_do T cfg (AssumeRole (pc_roleArn (wk_config w)) (wk_username w) (Some duration))
             else target_aws_do T cfg (GetSessionToken duration));
     State_Monad.return (case out of
         Inl e \<Rightarrow> Inl e
       | Inr a \<Rightarrow> Inr (sts_minted w (aws_credentials_of a)))
   }"

definition lease_policy :: string where "lease_policy = ''kryptic-lease''"

definition iam_access_key :: "'w target_api \<Rightarrow> nat \<Rightarrow> work_context \<Rightarrow> ('w, 'm, goerr + minted) io" where
  "iam_access_key T cfg w = do {
     key \<leftarrow> target_aws_do T cfg (CreateAccessKey (wk_username w));
     State_Monad.return (case key of
         Inl e \<Rightarrow> Inl e
       | Inr a \<Rightarrow> Inr (no_minted\<lparr>mi_username := wk_username w,
           mi_accessKeyId := ac_accessKeyId (aws_credentials_of a),
           mi_password := ac_secretAccessKey (aws_credentials_of a)\<rparr>))
   }"

definition mintIAMUser :: "'w target_api \<Rightarrow> nat \<Rightarrow> work_context \<Rightarrow> ('w, 'm, goerr + minted) io" where
  "mintIAMUser T cfg w = do {
     let path = (if pc_iamUserPath (wk_config w) = '''' then ''/'' else pc_iamUserPath (wk_config w));
     let boundary = (if pc_permissionBoundary (wk_config w) \<noteq> ''''
                     then Some (pc_permissionBoundary (wk_config w)) else None);
     created \<leftarrow> target_aws_do T cfg (CreateUser (wk_username w) path boundary);
     case created of
       Inl e \<Rightarrow> State_Monad.return (Inl e)
     | Inr _ \<Rightarrow>
         if pc_policyDocument (wk_config w) \<noteq> '''' then do {
           put \<leftarrow> target_aws_do T cfg
             (PutUserPolicy (wk_username w) lease_policy (pc_policyDocument (wk_config w)));
           case put of
             Inl e \<Rightarrow> State_Monad.return (Inl e)
           | Inr _ \<Rightarrow> iam_access_key T cfg w
         }
         else iam_access_key T cfg w
   }"

definition aws_mint :: "'w target_api \<Rightarrow> go_runtime \<Rightarrow> work_context \<Rightarrow> ('w, 'm, goerr + minted) io" where
  "aws_mint T R w = do {
     loaded \<leftarrow> awsConfig T R (wk_config w);
     case loaded of
       Inl e \<Rightarrow> State_Monad.return (Inl e)
     | Inr cfg \<Rightarrow>
         (let kind = to_lower R (pc_credentialType (wk_config w))
          in if kind = ''temporary'' \<or> kind = ''sts'' then mintSTS T cfg w else mintIAMUser T cfg w)
   }"

text \<open>The loop of \<open>Revoke\<close> ignores the errors of its calls.\<close>

fun delete_keys :: "'w target_api \<Rightarrow> nat \<Rightarrow> string \<Rightarrow> string list \<Rightarrow> ('w, 'm, unit) io" where
  "delete_keys T cfg name [] = State_Monad.return ()"
| "delete_keys T cfg name (k # ks) = do {
     _ \<leftarrow> target_aws_do T cfg (DeleteAccessKey name k);
     delete_keys T cfg name ks
   }"

definition revoke_name :: "work_context \<Rightarrow> string" where
  "revoke_name w = (if wk_entityId w = '''' then wk_username w else wk_entityId w)"

definition aws_delete_user :: "'w target_api \<Rightarrow> nat \<Rightarrow> string \<Rightarrow> string list \<Rightarrow> ('w, 'm, goerr option) io" where
  "aws_delete_user T cfg name keys = do {
     delete_keys T cfg name keys;
     _ \<leftarrow> target_aws_do T cfg (DeleteUserPolicy name lease_policy);
     deleted \<leftarrow> target_aws_do T cfg (DeleteUser name);
     State_Monad.return (case deleted of
         Inl e \<Rightarrow> if is_no_such_entity e then None else Some e
       | Inr _ \<Rightarrow> None)
   }"

definition aws_revoke :: "'w target_api \<Rightarrow> go_runtime \<Rightarrow> work_context \<Rightarrow> ('w, 'm, goerr option) io" where
  "aws_revoke T R w =
     (if equal_fold R (pc_credentialType (wk_config w)) ''temporary''
         \<or> equal_fold R (pc_credentialType (wk_config w)) ''sts''
      then State_Monad.return None
      else do {
        loaded \<leftarrow> awsConfig T R (wk_config w);
        case loaded of
          Inl e \<Rightarrow> State_Monad.return (Some e)
        | Inr cfg \<Rightarrow> do {
            keys \<leftarrow> target_aws_do T cfg (ListAccessKeys (revoke_name w));
            case keys of
              Inl e \<Rightarrow> State_Monad.return (if is_no_such_entity e then None else Some e)
            | Inr a \<Rightarrow> aws_delete_user T cfg (revoke_name w) (aws_key_ids_of a)
          }
      })"

definition awsProvider :: "'w target_api \<Rightarrow> go_runtime \<Rightarrow> ('w, 'm) provider" where
  "awsProvider T R =
     \<lparr>Mint = aws_mint T R, Renew = (\<lambda>_. State_Monad.return None), Revoke = aws_revoke T R\<rparr>"

section \<open>The contract\<close>

lemma awsConfig_emits [emits_rules]: "emits is_target (awsConfig T R cfg)"
  unfolding awsConfig_def by (intro emits_rules) simp_all

lemma delete_keys_emits [emits_rules]: "emits is_target (delete_keys T cfg name ks)"
  by (induction ks) (auto intro!: emits_rules)

lemma aws_mint_emits: "emits is_target (aws_mint T R w)"
  unfolding aws_mint_def mintSTS_def mintIAMUser_def iam_access_key_def by (intro emits_rules) simp_all

lemma aws_revoke_emits: "emits is_target (aws_revoke T R w)"
  unfolding aws_revoke_def aws_delete_user_def by (intro emits_rules) simp_all

abbreviation named_minted :: "work_context \<Rightarrow> goerr + minted \<Rightarrow> bool" where
  "named_minted w r \<equiv> (case r of
     Inl _ \<Rightarrow> True | Inr m \<Rightarrow> mi_username m = wk_username w \<and> mi_url m = '''')"

lemma mintSTS_named: "wp (mintSTS T cfg w) s (\<lambda>r s'. named_minted w r)"
  unfolding mintSTS_def Let_def wp_rules
  by (rule wp_mono [where Q = "\<lambda>_ _. True"])
    (simp_all add: wp_def sts_minted_def no_minted_def split: sum.splits prod.splits)

lemma iam_access_key_named: "wp (iam_access_key T cfg w) s (\<lambda>r s'. named_minted w r)"
  unfolding iam_access_key_def wp_rules
  by (rule wp_mono [where Q = "\<lambda>_ _. True"])
    (simp_all add: wp_def no_minted_def split: sum.splits prod.splits)

lemma mintIAMUser_named: "wp (mintIAMUser T cfg w) s (\<lambda>r s'. named_minted w r)"
  unfolding mintIAMUser_def Let_def target_defs
  by (auto simp: wp_rules iam_access_key_named split: sum.splits prod.splits)

lemma aws_mint_named: "wp (aws_mint T R w) s (\<lambda>r s'. named_minted w r)"
  unfolding aws_mint_def Let_def wp_rules
  by (rule wp_mono [where Q = "\<lambda>_ _. True"])
    (auto simp: wp_rules mintSTS_named mintIAMUser_named wp_def [of "awsConfig T R (wk_config w)"]
      split: sum.splits prod.splits)

interpretation aws: lease_provider "awsProvider T R" for T R
  by unfold_locales (simp_all add: awsProvider_def aws_mint_emits aws_revoke_emits aws_mint_named emits_return)

end
