(* ===== verification/Crypto.thy ===== *)
theory Crypto
  imports World "HOL-Library.Word"
begin

unbundle bit_operations_syntax

text \<open>
  The encryption library (\<open>Kryptic.Encryption.Go\<close>, not part of the repository) is the
  parameter \<open>crypto\<close>: the key derivations, the envelope and the sealed box. What the code
  takes from Go's standard library is modelled: unpadded URL-safe base64 and SHA-256.
\<close>

record 'w crypto =
  kdf_for_version :: "int \<Rightarrow> string \<Rightarrow> string \<Rightarrow> goerr + string" \<comment> \<open>\<open>kdf.ForVersion\<close>: version, secret, salt\<close>
  machine_auth_secret :: "string \<Rightarrow> goerr + string" \<comment> \<open>\<open>kdf.MachineAuthSecret\<close>\<close>
  secret_context :: "string \<Rightarrow> string \<Rightarrow> string" \<comment> \<open>\<open>envelope.SecretContext\<close>\<close>
  envelope_open :: "string \<Rightarrow> string \<Rightarrow> string option \<Rightarrow> goerr + string" \<comment> \<open>key, envelope, associated data\<close>
  envelope_seal :: "string \<Rightarrow> string \<Rightarrow> string \<Rightarrow> string \<Rightarrow> 'w \<Rightarrow> (goerr + string) \<times> 'w" \<comment> \<open>key, key id, plaintext, associated data\<close>
  sealedbox_parse :: "string \<Rightarrow> goerr + string"
  sealedbox_open :: "string \<Rightarrow> string \<Rightarrow> string \<Rightarrow> goerr + string" \<comment> \<open>public key, private key, box\<close>

definition crypto_seal ::
  "'w crypto \<Rightarrow> string \<Rightarrow> string \<Rightarrow> string \<Rightarrow> string \<Rightarrow> ('w, 'm, goerr + string) io" where
  "crypto_seal C key keyId plain ad =
     external (envelope_seal C key keyId plain ad) (\<lambda>r. Target (Sealed key keyId plain ad r))"

lemma emits_seal [emits_rules]:
  "(\<And>r. P (Target (Sealed key keyId plain ad r))) \<Longrightarrow> emits P (crypto_seal C key keyId plain ad)"
  unfolding crypto_seal_def by (rule emits_external)

section \<open>Base64\<close>

definition base64_value :: "char \<Rightarrow> nat option" where
  "base64_value c =
     (if 65 \<le> byte c \<and> byte c \<le> 90 then Some (byte c - 65)
      else if 97 \<le> byte c \<and> byte c \<le> 122 then Some (byte c - 71)
      else if 48 \<le> byte c \<and> byte c \<le> 57 then Some (byte c + 4)
      else if c = CHR ''-'' then Some 62
      else if c = CHR ''_'' then Some 63
      else None)"

definition base64_bytes :: "nat list \<Rightarrow> string" where
  "base64_bytes q = (case q of
       [a, b] \<Rightarrow> [char_of (a * 4 + b div 16)]
     | [a, b, c] \<Rightarrow> [char_of (a * 4 + b div 16), char_of (b mod 16 * 16 + c div 4)]
     | [a, b, c, d] \<Rightarrow> [char_of (a * 4 + b div 16), char_of (b mod 16 * 16 + c div 4),
                        char_of (c mod 4 * 64 + d)]
     | _ \<Rightarrow> [])"

definition corrupt_input :: "nat \<Rightarrow> goerr" where
  "corrupt_input n = Err (''illegal base64 data at input byte '' @ itoa (int n))"

text \<open>The decoder: how many bytes were read, the digits of the current quantum, the rest.\<close>

fun base64_from :: "nat \<Rightarrow> nat list \<Rightarrow> string \<Rightarrow> goerr + string" where
  "base64_from i q [] = (if length q = 1 then Inl (corrupt_input (i - 1)) else Inr (base64_bytes q))"
| "base64_from i q (c # s) =
     (case base64_value c of
        Some v \<Rightarrow>
          if length q = 3 then
            (case base64_from (Suc i) [] s of Inl e \<Rightarrow> Inl e | Inr t \<Rightarrow> Inr (base64_bytes (q @ [v]) @ t))
          else base64_from (Suc i) (q @ [v]) s
      | None \<Rightarrow>
          if byte c = 10 \<or> byte c = 13 then base64_from (Suc i) q s
          else Inl (corrupt_input i))"

text \<open>\<open>base64.RawURLEncoding.DecodeString\<close>.\<close>

definition base64_decode :: "string \<Rightarrow> goerr + string" where
  "base64_decode s = base64_from 0 [] s"

section \<open>SHA-256\<close>

definition sha_rotr :: "nat \<Rightarrow> 32 word \<Rightarrow> 32 word" where
  "sha_rotr n x = drop_bit n x OR push_bit (32 - n) x"

text \<open>
  The constants of the standard are the first 32 bits of the fractional parts of roots of the
  first primes: cube roots for the rounds, square roots for the initial state. They are computed,
  bit by bit, in integers.
\<close>

definition integer_root :: "nat \<Rightarrow> nat \<Rightarrow> int \<Rightarrow> int" where
  "integer_root k bits n =
     foldr (\<lambda>b acc. if (acc + 2 ^ b) ^ k \<le> n then acc + 2 ^ b else acc) [0..<bits] 0"

definition small_prime :: "nat \<Rightarrow> bool" where
  "small_prime p \<longleftrightarrow> list_all (\<lambda>d. p mod d \<noteq> 0) [2..<p]"

definition first_primes :: "nat \<Rightarrow> nat list" where
  "first_primes n = take n (filter small_prime [2..<312])"

definition sha_k :: "32 word list" where
  "sha_k = map (\<lambda>p. word_of_int (integer_root 3 36 (int p * 2 ^ 96))) (first_primes 64)"

definition sha_h0 :: "32 word list" where
  "sha_h0 = map (\<lambda>p. word_of_int (integer_root 2 36 (int p * 2 ^ 64))) (first_primes 8)"

fun big_endian :: "nat \<Rightarrow> nat \<Rightarrow> string" where
  "big_endian 0 n = []"
| "big_endian (Suc k) n = big_endian k (n div 256) @ [char_of (n mod 256)]"

definition sha_pad :: "string \<Rightarrow> string" where
  "sha_pad s = s @ [char_of (128 :: nat)] @ replicate ((119 - length s mod 64) mod 64) (char_of (0 :: nat))
     @ big_endian 8 (8 * length s)"

fun sha_words :: "string \<Rightarrow> 32 word list" where
  "sha_words (a # b # c # d # s) =
     word_of_nat (byte a * 16777216 + byte b * 65536 + byte c * 256 + byte d) # sha_words s"
| "sha_words _ = []"

text \<open>The message schedule, latest word first.\<close>

fun sha_schedule :: "nat \<Rightarrow> 32 word list \<Rightarrow> 32 word list" where
  "sha_schedule 0 w = w"
| "sha_schedule (Suc n) w =
     (let w15 = w ! 14; w2 = w ! 1;
          s0 = sha_rotr 7 w15 XOR sha_rotr 18 w15 XOR drop_bit 3 w15;
          s1 = sha_rotr 17 w2 XOR sha_rotr 19 w2 XOR drop_bit 10 w2
      in sha_schedule n ((w ! 15 + s0 + w ! 6 + s1) # w))"

definition sha_round :: "32 word list \<Rightarrow> 32 word \<times> 32 word \<Rightarrow> 32 word list" where
  "sha_round st kw = (case st of
       [a, b, c, d, e, f, g, h] \<Rightarrow>
         (let s1 = sha_rotr 6 e XOR sha_rotr 11 e XOR sha_rotr 25 e;
              ch = (e AND f) XOR (NOT e AND g);
              t1 = h + s1 + ch + fst kw + snd kw;
              s0 = sha_rotr 2 a XOR sha_rotr 13 a XOR sha_rotr 22 a;
              maj = (a AND b) XOR (a AND c) XOR (b AND c)
          in [t1 + (s0 + maj), a, b, c, d + t1, e, f, g])
     | _ \<Rightarrow> st)"

definition sha_block :: "32 word list \<Rightarrow> 32 word list \<Rightarrow> 32 word list" where
  "sha_block st w16 =
     map2 (+) st (foldl sha_round st (zip sha_k (rev (sha_schedule 48 (rev w16)))))"

fun sha_blocks :: "nat \<Rightarrow> 32 word list \<Rightarrow> 32 word list \<Rightarrow> 32 word list" where
  "sha_blocks 0 st ws = st"
| "sha_blocks (Suc n) st ws = sha_blocks n (sha_block st (take 16 ws)) (drop 16 ws)"

text \<open>\<open>sha256.Sum256\<close>.\<close>

definition sha256 :: "string \<Rightarrow> string" where
  "sha256 s =
     (let p = sha_pad s
      in concat (map (\<lambda>x. big_endian 4 (unat x)) (sha_blocks (length p div 64) sha_h0 (sha_words p))))"

end
