(* ===== verification/Apply.thy ===== *)
theory Apply
  imports Username Other_Providers Aws_Iam Crypto
begin

text \<open>
  One piece of lease work (\<open>dynsecret/apply.go\<close>, and \<open>Lookup\<close> of
  \<open>provider.go\<close>): open the provider's configuration, mint, renew or revoke on the target, seal
  the result and report it to the control plane.
\<close>

section \<open>Data\<close>

record work_item =
  wi_leaseId :: string
  wi_definitionId :: string
  wi_environmentId :: string
  wi_key :: string
  wi_provider :: int
  wi_action :: int
  wi_usernameTemplate :: string
  wi_creation :: string
  wi_revocation :: string
  wi_renew :: string
  wi_urlTemplate :: string
  wi_providerEnvelope :: string
  wi_identityName :: string
  wi_dynamicSecretName :: string
  wi_expiresAt :: string
  wi_entityId :: string

definition no_item :: work_item where
  "no_item = \<lparr>wi_leaseId = '''', wi_definitionId = '''', wi_environmentId = '''', wi_key = '''',
     wi_provider = 0, wi_action = 0, wi_usernameTemplate = '''', wi_creation = '''',
     wi_revocation = '''', wi_renew = '''', wi_urlTemplate = '''', wi_providerEnvelope = '''',
     wi_identityName = '''', wi_dynamicSecretName = '''', wi_expiresAt = '''', wi_entityId = ''''\<rparr>"

definition item_step :: "go_runtime \<Rightarrow> work_item \<Rightarrow> string \<Rightarrow> json \<Rightarrow> work_item option" where
  "item_step R c k v =
     (let is = (\<lambda>name. field_matches R name k);
          str = (\<lambda>get upd. map_option (\<lambda>x. upd (\<lambda>_. x) c) (decode_string (get c) v));
          int = (\<lambda>get upd. map_option (\<lambda>x. upd (\<lambda>_. x) c) (decode_int (get c) v))
      in if is ''leaseId'' then str wi_leaseId wi_leaseId_update
         else if is ''definitionId'' then str wi_definitionId wi_definitionId_update
         else if is ''environmentId'' then str wi_environmentId wi_environmentId_update
         else if is ''key'' then str wi_key wi_key_update
         else if is ''provider'' then int wi_provider wi_provider_update
         else if is ''action'' then int wi_action wi_action_update
         else if is ''usernameTemplate'' then str wi_usernameTemplate wi_usernameTemplate_update
         else if is ''creationStatement'' then str wi_creation wi_creation_update
         else if is ''revocationStatement'' then str wi_revocation wi_revocation_update
         else if is ''renewStatement'' then str wi_renew wi_renew_update
         else if is ''urlTemplate'' then str wi_urlTemplate wi_urlTemplate_update
         else if is ''providerEnvelope'' then str wi_providerEnvelope wi_providerEnvelope_update
         else if is ''identityName'' then str wi_identityName wi_identityName_update
         else if is ''dynamicSecretName'' then str wi_dynamicSecretName wi_dynamicSecretName_update
         else if is ''expiresAt'' then str wi_expiresAt wi_expiresAt_update
         else if is ''entityId'' then str wi_entityId wi_entityId_update
         else Some c)"

record complete_lease =
  co_leaseId :: string
  co_ok :: bool
  co_error :: string
  co_entityId :: string
  co_mintedEnvelope :: string
  co_expiresAt :: "string option"

definition no_completion :: complete_lease where
  "no_completion = \<lparr>co_leaseId = '''', co_ok = False, co_error = '''', co_entityId = '''',
     co_mintedEnvelope = '''', co_expiresAt = None\<rparr>"

text \<open>A field with \<open>omitempty\<close> is left out when it is empty.\<close>

definition omit_empty :: "string \<Rightarrow> string \<Rightarrow> (string \<times> json) list" where
  "omit_empty k v = (if v = '''' then [] else [(k, JStr v)])"

definition completion_json :: "complete_lease \<Rightarrow> json" where
  "completion_json c = JObj
     ([(''leaseId'', JStr (co_leaseId c)), (''ok'', JBool (co_ok c))]
      @ omit_empty ''error'' (co_error c)
      @ omit_empty ''entityId'' (co_entityId c)
      @ omit_empty ''mintedEnvelope'' (co_mintedEnvelope c)
      @ (case co_expiresAt c of None \<Rightarrow> [] | Some t \<Rightarrow> [(''expiresAt'', JStr t)]))"

definition minted_json :: "minted \<Rightarrow> json" where
  "minted_json m = JObj
     (omit_empty ''username'' (mi_username m)
      @ omit_empty ''password'' (mi_password m)
      @ omit_empty ''sessionToken'' (mi_sessionToken m)
      @ omit_empty ''accessKeyId'' (mi_accessKeyId m)
      @ omit_empty ''url'' (mi_url m))"

definition minted_step :: "go_runtime \<Rightarrow> minted \<Rightarrow> string \<Rightarrow> json \<Rightarrow> minted option" where
  "minted_step R c k v =
     (let is = (\<lambda>name. field_matches R name k);
          str = (\<lambda>get upd. map_option (\<lambda>x. upd (\<lambda>_. x) c) (decode_string (get c) v))
      in if is ''username'' then str mi_username mi_username_update
         else if is ''password'' then str mi_password mi_password_update
         else if is ''sessionToken'' then str mi_sessionToken mi_sessionToken_update
         else if is ''accessKeyId'' then str mi_accessKeyId mi_accessKeyId_update
         else if is ''url'' then str mi_url mi_url_update
         else Some c)"

section \<open>Providers by number\<close>

definition Lookup :: "'w target_api \<Rightarrow> go_runtime \<Rightarrow> int \<Rightarrow> goerr + ('w, 'm) provider" where
  "Lookup T R p =
     (if p = ProviderPostgres then Inr (postgresProvider T R)
      else if p = ProviderMySQL then Inr (mysqlProvider T R)
      else if p = ProviderOracle then Inr (oracleProvider T R)
      else if p = ProviderCassandra then Inr (cassandraProvider T R)
      else if p = ProviderRedis then Inr (redisProvider T R)
      else if p = ProviderAwsIAM then Inr (awsProvider T R)
      else Inl (Err (''unknown dynamic secret provider '' @ itoa p)))"

definition ProviderName :: "int \<Rightarrow> string" where
  "ProviderName p =
     (if p = ProviderPostgres then ''postgres''
      else if p = ProviderMySQL then ''mysql''
      else if p = ProviderOracle then ''oracle''
      else if p = ProviderCassandra then ''cassandra''
      else if p = ProviderRedis then ''redis''
      else if p = ProviderAwsIAM then ''aws-iam''
      else ''dynamic'')"

section \<open>Applying work\<close>

text \<open>What the operator runs with: the outside systems and the libraries.\<close>

record 'w env =
  en_target :: "'w target_api"
  en_net :: "'w net_api"
  en_crypto :: "'w crypto"
  en_runtime :: go_runtime

type_synonym ('w, 'm) completer = "complete_lease \<Rightarrow> ('w, 'm, goerr option) io"

definition work_username :: "'w env \<Rightarrow> work_item \<Rightarrow> ('w, 'm, string option) io" where
  "work_username X item =
     (if wi_entityId item \<noteq> '''' then State_Monad.return (Some (wi_entityId item))
      else RenderUsername (en_target X) (en_net X) (en_runtime X) (wi_usernameTemplate item)
        (wi_identityName item) (wi_dynamicSecretName item) (ProviderName (wi_provider item)))"

definition work_expiry :: "'w env \<Rightarrow> work_item \<Rightarrow> ('w, 'm, time) io" where
  "work_expiry X item =
     (let t = (case parse_rfc3339 (wi_expiresAt item) of Some t \<Rightarrow> t | None \<Rightarrow> zero_time)
      in if t = zero_time then do { now \<leftarrow> net_now (en_net X); State_Monad.return (now + hour) }
         else State_Monad.return t)"

definition work_of :: "work_item \<Rightarrow> provider_config \<Rightarrow> string \<Rightarrow> string \<Rightarrow> time \<Rightarrow> work_context" where
  "work_of item cfg username password expiresAt =
     \<lparr>wk_config = cfg, wk_username = username, wk_password = password,
      wk_creation = wi_creation item, wk_revocation = wi_revocation item, wk_renew = wi_renew item,
      wk_urlTemplate = wi_urlTemplate item, wk_expiresAt = expiresAt, wk_entityId = wi_entityId item\<rparr>"

definition create_lease ::
  "'w env \<Rightarrow> string \<Rightarrow> string \<Rightarrow> work_item \<Rightarrow> ('w, 'm) completer \<Rightarrow> ('w, 'm) provider \<Rightarrow> work_context
     \<Rightarrow> ('w, 'm, goerr option) io" where
  "create_lease X orgKey orgKeyId item complete provider w = do {
     got \<leftarrow> Mint provider w;
     case got of
       Inl e \<Rightarrow> State_Monad.return (Some e)
     | Inr m0 \<Rightarrow> do {
         let m1 = (if mi_username m0 = '''' then m0\<lparr>mi_username := wk_username w\<rparr> else m0);
         let m = m1\<lparr>mi_url := RenderURL (en_runtime X) (wi_urlTemplate item) m1 (wk_config w) (wk_expiresAt w)\<rparr>;
         sealed \<leftarrow> crypto_seal (en_crypto X) orgKey orgKeyId (json_encode (minted_json m))
           (secret_context (en_crypto X) (wi_definitionId item) (wi_environmentId item));
         case sealed of
           Inl e \<Rightarrow> State_Monad.return (Some e)
         | Inr env \<Rightarrow> complete (no_completion\<lparr>co_leaseId := wi_leaseId item, co_ok := True,
             co_entityId := mi_username m, co_mintedEnvelope := env,
             co_expiresAt := Some (format_rfc3339 (wk_expiresAt w))\<rparr>)
       }
   }"

definition run_action ::
  "'w env \<Rightarrow> string \<Rightarrow> string \<Rightarrow> work_item \<Rightarrow> ('w, 'm) completer \<Rightarrow> ('w, 'm) provider \<Rightarrow> work_context
     \<Rightarrow> ('w, 'm, goerr option) io" where
  "run_action X orgKey orgKeyId item complete provider w =
     (if wi_action item = ActionCreate then create_lease X orgKey orgKeyId item complete provider w
      else if wi_action item = ActionRenew then do {
        r \<leftarrow> Renew provider w;
        case r of
          Some e \<Rightarrow> State_Monad.return (Some e)
        | None \<Rightarrow> complete (no_completion\<lparr>co_leaseId := wi_leaseId item, co_ok := True,
            co_entityId := wk_username w, co_expiresAt := Some (format_rfc3339 (wk_expiresAt w))\<rparr>)
      }
      else if wi_action item = ActionRevoke then do {
        r \<leftarrow> Revoke provider w;
        case r of
          Some e \<Rightarrow> State_Monad.return (Some e)
        | None \<Rightarrow> complete (no_completion\<lparr>co_leaseId := wi_leaseId item, co_ok := True,
            co_entityId := wk_username w\<rparr>)
      }
      else State_Monad.return (Some (Err (''unknown lease action '' @ itoa (wi_action item)))))"

definition apply_work ::
  "'w env \<Rightarrow> string \<Rightarrow> string \<Rightarrow> work_item \<Rightarrow> ('w, 'm) completer \<Rightarrow> ('w, 'm, goerr option) io" where
  "apply_work X orgKey orgKeyId item complete =
     (case envelope_open (en_crypto X) orgKey (wi_providerEnvelope item)
             (Some (secret_context (en_crypto X) (wi_definitionId item) (wi_environmentId item))) of
        Inl e \<Rightarrow> State_Monad.return (Some (Wrap ''decrypt provider config: '' e))
      | Inr plaintext \<Rightarrow> (case ParseProviderConfig (en_runtime X) plaintext of
            Inl e \<Rightarrow> State_Monad.return (Some e)
          | Inr cfg \<Rightarrow> (case Lookup (en_target X) (en_runtime X) (wi_provider item) of
                Inl e \<Rightarrow> State_Monad.return (Some e)
              | Inr provider \<Rightarrow> do {
                  named \<leftarrow> work_username X item;
                  case named of
                    None \<Rightarrow> State_Monad.return (Some Hang)
                  | Some username \<Rightarrow> do {
                      drawn \<leftarrow> RandomString (en_target X) 32;
                      case drawn of
                        None \<Rightarrow> State_Monad.return (Some Hang)
                      | Some password \<Rightarrow> do {
                          expiresAt \<leftarrow> work_expiry X item;
                          run_action X orgKey orgKeyId item complete provider
                            (work_of item cfg username password expiresAt)
                        }
                    }
                })))"

text \<open>\<open>Apply\<close> reports a failure too; whether that report arrives does not matter.\<close>

definition Apply ::
  "'w env \<Rightarrow> string \<Rightarrow> string \<Rightarrow> work_item \<Rightarrow> ('w, 'm) completer \<Rightarrow> ('w, 'm, goerr option) io" where
  "Apply X orgKey orgKeyId item complete = do {
     r \<leftarrow> apply_work X orgKey orgKeyId item complete;
     case r of
       None \<Rightarrow> State_Monad.return None
     | Some e \<Rightarrow>
         if e = Hang then State_Monad.return (Some Hang)
         else do {
           _ \<leftarrow> complete (no_completion\<lparr>co_leaseId := wi_leaseId item, co_error := err_text e\<rparr>);
           State_Monad.return (Some e)
         }
   }"

section \<open>Effects and the contract\<close>

lemma Lookup_contract:
  assumes "Lookup T R p = Inr pr"
  shows "lease_provider pr"
  using assms postgres.lease_provider_axioms mysql.lease_provider_axioms oracle_db.lease_provider_axioms
    cassandra.lease_provider_axioms redis.lease_provider_axioms aws.lease_provider_axioms
  by (auto simp: Lookup_def split: if_splits)

lemma create_lease_emits:
  assumes "lease_provider pr" and "\<And>t. P (Target t)" and "\<And>c. emits P (complete c)"
  shows "emits P (create_lease X orgKey keyId item complete pr w)"
  unfolding create_lease_def Let_def
  by (intro emits_rules lease_provider.provider_emits [OF assms(1)] assms(2,3))

lemma run_action_emits:
  assumes "lease_provider pr" and "\<And>t. P (Target t)" and "\<And>c. emits P (complete c)"
  shows "emits P (run_action X orgKey keyId item complete pr w)"
  unfolding run_action_def
  by (intro emits_rules create_lease_emits lease_provider.provider_emits [OF assms(1)] assms)

lemma apply_work_emits:
  assumes t: "\<And>t. P (Target t)" and n: "\<And>t. P (Net (ClockNow t))" and c: "\<And>c. emits P (complete c)"
  shows "emits P (apply_work X orgKey keyId item complete)"
  unfolding apply_work_def work_username_def work_expiry_def Let_def
  by (intro emits_case_sum_eq emits_return)
    (intro emits_rules run_action_emits t n c, erule Lookup_contract)

lemma Apply_emits [emits_rules]:
  assumes "\<And>t. P (Target t)" and "\<And>t. P (Net (ClockNow t))" and "\<And>c. emits P (complete c)"
  shows "emits P (Apply X orgKey keyId item complete)"
  unfolding Apply_def by (intro emits_rules apply_work_emits assms)

end
