(* ===== verification/Client.thy ===== *)
theory Client
  imports Api_Types Apply
begin

text \<open>
  The API client (\<open>krypticapi/client.go\<close>): exchange the machine credentials for a token, pull
  the ciphertext bundle, decrypt it. The client's own state is the two caches, which every run
  carries; the mutex around them is not modelled, a run has them to itself. The request helper
  \<open>get\<close> takes the Go variable it decodes into as a decoder and its zero value.
\<close>

section \<open>State\<close>

record cached_token =
  tk_value :: string
  tk_expiresAt :: time

record ('w, 'e) client_state = "('w, 'e) io_state" +
  tokens :: "string \<rightharpoonup> cached_token"
  unwrap_keys :: "string \<rightharpoonup> string"

type_synonym ('w, 'm, 'a) client_io = "(('w, event, 'm) client_state_scheme, 'a) state"

section \<open>Answers of the API\<close>

record machine_keys =
  mk_publicKey :: string
  mk_wrappedPrivateKey :: string
  mk_kdfSalt :: string
  mk_kdfParametersVersion :: int

record bundle_entry =
  be_key :: string
  be_envelope :: string
  be_definitionId :: string
  be_environmentId :: string

record dynamic_hint =
  dh_key :: string
  dh_definitionId :: string
  dh_environmentId :: string
  dh_provider :: int

record cipher_bundle =
  cb_orgKeyId :: string
  cb_wrappedOrgKey :: string
  cb_secrets :: "bundle_entry list"
  cb_dynamicSecrets :: "dynamic_hint list"

record token_answer =
  ta_accessToken :: string
  ta_expiresInSeconds :: int

definition no_keys :: machine_keys where
  "no_keys = \<lparr>mk_publicKey = '''', mk_wrappedPrivateKey = '''', mk_kdfSalt = '''', mk_kdfParametersVersion = 0\<rparr>"

definition no_entry :: bundle_entry where
  "no_entry = \<lparr>be_key = '''', be_envelope = '''', be_definitionId = '''', be_environmentId = ''''\<rparr>"

definition no_hint :: dynamic_hint where
  "no_hint = \<lparr>dh_key = '''', dh_definitionId = '''', dh_environmentId = '''', dh_provider = 0\<rparr>"

definition no_bundle :: cipher_bundle where
  "no_bundle = \<lparr>cb_orgKeyId = '''', cb_wrappedOrgKey = '''', cb_secrets = [], cb_dynamicSecrets = []\<rparr>"

definition no_token :: token_answer where
  "no_token = \<lparr>ta_accessToken = '''', ta_expiresInSeconds = 0\<rparr>"

definition keys_step :: "go_runtime \<Rightarrow> machine_keys \<Rightarrow> string \<Rightarrow> json \<Rightarrow> machine_keys option" where
  "keys_step R c k v =
     (if field_matches R ''publicKey'' k then
        map_option (\<lambda>x. c\<lparr>mk_publicKey := x\<rparr>) (decode_string (mk_publicKey c) v)
      else if field_matches R ''wrappedPrivateKey'' k then
        map_option (\<lambda>x. c\<lparr>mk_wrappedPrivateKey := x\<rparr>) (decode_string (mk_wrappedPrivateKey c) v)
      else if field_matches R ''kdfSalt'' k then
        map_option (\<lambda>x. c\<lparr>mk_kdfSalt := x\<rparr>) (decode_string (mk_kdfSalt c) v)
      else if field_matches R ''kdfParametersVersion'' k then
        map_option (\<lambda>x. c\<lparr>mk_kdfParametersVersion := x\<rparr>) (decode_int (mk_kdfParametersVersion c) v)
      else Some c)"

definition entry_step :: "go_runtime \<Rightarrow> bundle_entry \<Rightarrow> string \<Rightarrow> json \<Rightarrow> bundle_entry option" where
  "entry_step R c k v =
     (if field_matches R ''key'' k then map_option (\<lambda>x. c\<lparr>be_key := x\<rparr>) (decode_string (be_key c) v)
      else if field_matches R ''envelope'' k then
        map_option (\<lambda>x. c\<lparr>be_envelope := x\<rparr>) (decode_string (be_envelope c) v)
      else if field_matches R ''definitionId'' k then
        map_option (\<lambda>x. c\<lparr>be_definitionId := x\<rparr>) (decode_string (be_definitionId c) v)
      else if field_matches R ''environmentId'' k then
        map_option (\<lambda>x. c\<lparr>be_environmentId := x\<rparr>) (decode_string (be_environmentId c) v)
      else Some c)"

definition hint_step :: "go_runtime \<Rightarrow> dynamic_hint \<Rightarrow> string \<Rightarrow> json \<Rightarrow> dynamic_hint option" where
  "hint_step R c k v =
     (if field_matches R ''key'' k then map_option (\<lambda>x. c\<lparr>dh_key := x\<rparr>) (decode_string (dh_key c) v)
      else if field_matches R ''definitionId'' k then
        map_option (\<lambda>x. c\<lparr>dh_definitionId := x\<rparr>) (decode_string (dh_definitionId c) v)
      else if field_matches R ''environmentId'' k then
        map_option (\<lambda>x. c\<lparr>dh_environmentId := x\<rparr>) (decode_string (dh_environmentId c) v)
      else if field_matches R ''provider'' k then
        map_option (\<lambda>x. c\<lparr>dh_provider := x\<rparr>) (decode_int (dh_provider c) v)
      else Some c)"

definition bundle_step :: "go_runtime \<Rightarrow> cipher_bundle \<Rightarrow> string \<Rightarrow> json \<Rightarrow> cipher_bundle option" where
  "bundle_step R c k v =
     (if field_matches R ''orgKeyId'' k then
        map_option (\<lambda>x. c\<lparr>cb_orgKeyId := x\<rparr>) (decode_string (cb_orgKeyId c) v)
      else if field_matches R ''wrappedOrgKey'' k then
        map_option (\<lambda>x. c\<lparr>cb_wrappedOrgKey := x\<rparr>) (decode_string (cb_wrappedOrgKey c) v)
      else if field_matches R ''secrets'' k then
        map_option (\<lambda>x. c\<lparr>cb_secrets := x\<rparr>)
          (decode_slice no_entry (decode_struct (entry_step R)) (cb_secrets c) v)
      else if field_matches R ''dynamicSecrets'' k then
        map_option (\<lambda>x. c\<lparr>cb_dynamicSecrets := x\<rparr>)
          (decode_slice no_hint (decode_struct (hint_step R)) (cb_dynamicSecrets c) v)
      else Some c)"

definition token_step :: "go_runtime \<Rightarrow> token_answer \<Rightarrow> string \<Rightarrow> json \<Rightarrow> token_answer option" where
  "token_step R c k v =
     (if field_matches R ''accessToken'' k then
        map_option (\<lambda>x. c\<lparr>ta_accessToken := x\<rparr>) (decode_string (ta_accessToken c) v)
      else if field_matches R ''expiresInSeconds'' k then
        map_option (\<lambda>x. c\<lparr>ta_expiresInSeconds := x\<rparr>) (decode_int (ta_expiresInSeconds c) v)
      else Some c)"

section \<open>Requests\<close>

definition invalidate :: "string \<Rightarrow> ('w, 'm, unit) client_io" where
  "invalidate clientID = modify (\<lambda>s. s\<lparr>tokens := (tokens s)(clientID := None)\<rparr>)"

text \<open>What a single \<open>Read\<close> into a buffer of 512 bytes returns.\<close>

definition readBody :: "http_response \<Rightarrow> string" where
  "readBody r = trim_space (take (min 512 (resp_first_read r)) (resp_body r))"

definition logFailure :: "string \<Rightarrow> int \<Rightarrow> string \<Rightarrow> ('w, 'm, unit) client_io" where
  "logFailure path st body = net_log path st body"

definition base_url :: "api_credentials \<Rightarrow> string" where
  "base_url creds = trim_suffix (cred_BaseURL creds) ''/''"

text \<open>\<open>json.NewDecoder(body).Decode(&out)\<close>; \<open>what\<close> names the Go type in the error.\<close>

definition decode_body :: "go_runtime \<Rightarrow> string \<Rightarrow> 'a decoder \<Rightarrow> 'a \<Rightarrow> string \<Rightarrow> goerr + 'a" where
  "decode_body R what dec zero body =
     (case json_parse_prefix body of
        None \<Rightarrow> Inl (Err (json_error_text R what body))
      | Some j \<Rightarrow> (case dec zero j of
            None \<Rightarrow> Inl (Err (json_error_text R what body))
          | Some x \<Rightarrow> Inr x))"

text \<open>A status other than 200: drop the token on 401, log the body, report the status alone.\<close>

definition refused :: "api_credentials \<Rightarrow> string \<Rightarrow> http_response \<Rightarrow> ('w, 'm, goerr) client_io" where
  "refused creds path r = do {
     (if resp_status r = StatusUnauthorized then invalidate (cred_ClientID creds)
      else State_Monad.return ());
     logFailure path (resp_status r) (readBody r);
     State_Monad.return (ApiError (resp_status r))
   }"

definition bearer :: "string \<Rightarrow> string" where
  "bearer t = ''Bearer '' @ t"

definition get ::
  "'w env \<Rightarrow> api_credentials \<Rightarrow> string \<Rightarrow> string \<Rightarrow> string \<Rightarrow> 'a decoder \<Rightarrow> 'a \<Rightarrow> ('w, 'm, goerr + 'a) client_io" where
  "get X creds token path what dec zero =
     (case new_request (en_runtime X) GET (base_url creds @ path) '''' of
        Inl e \<Rightarrow> State_Monad.return (Inl e)
      | Inr request \<Rightarrow> do {
          answer \<leftarrow> net_do (en_net X) (set_header ''Authorization'' (bearer token) request);
          case answer of
            Inl e \<Rightarrow> State_Monad.return (Inl e)
          | Inr response \<Rightarrow>
              if resp_status response \<noteq> StatusOK then do {
                e \<leftarrow> refused creds path response;
                State_Monad.return (Inl e)
              }
              else State_Monad.return (case decode_body (en_runtime X) what dec zero (resp_body response) of
                  Inl e \<Rightarrow> Inl (Wrap ''decoding response: '' e)
                | Inr x \<Rightarrow> Inr x)
        })"

section \<open>The token\<close>

text \<open>\<open>time.Duration(n) * time.Second\<close>: the product wraps at 64 bits.\<close>

definition seconds_duration :: "int \<Rightarrow> duration" where
  "seconds_duration n = sint (word_of_int (n * second) :: 64 word)"

definition token_payload :: "string \<Rightarrow> string \<Rightarrow> string" where
  "token_payload clientID authSecret =
     json_encode (JObj [(''clientId'', JStr clientID), (''clientSecret'', JStr authSecret)])"

definition request_token :: "'w env \<Rightarrow> api_credentials \<Rightarrow> string \<Rightarrow> ('w, 'm, goerr + string) client_io" where
  "request_token X creds authSecret =
     (case new_request (en_runtime X) POST (base_url creds @ ''/api/token'')
             (token_payload (cred_ClientID creds) authSecret) of
        Inl e \<Rightarrow> State_Monad.return (Inl e)
      | Inr request \<Rightarrow> do {
          answer \<leftarrow> net_do (en_net X) (set_header ''Content-Type'' ''application/json'' request);
          case answer of
            Inl e \<Rightarrow> State_Monad.return (Inl e)
          | Inr response \<Rightarrow>
              if resp_status response \<noteq> StatusOK then do {
                logFailure ''/api/token'' (resp_status response) (readBody response);
                State_Monad.return (Inl (ApiError (resp_status response)))
              }
              else (case decode_body (en_runtime X) ''token'' (decode_struct (token_step (en_runtime X)))
                           no_token (resp_body response) of
                  Inl e \<Rightarrow> State_Monad.return (Inl (Wrap ''decoding token: '' e))
                | Inr t \<Rightarrow> do {
                    now \<leftarrow> net_now (en_net X);
                    modify (\<lambda>s. s\<lparr>tokens := (tokens s)(cred_ClientID creds \<mapsto>
                      \<lparr>tk_value = ta_accessToken t,
                       tk_expiresAt = now + seconds_duration (ta_expiresInSeconds t)\<rparr>)\<rparr>);
                    State_Monad.return (Inr (ta_accessToken t))
                  })
        })"

definition new_token :: "'w env \<Rightarrow> api_credentials \<Rightarrow> ('w, 'm, goerr + string) client_io" where
  "new_token X creds =
     (case machine_auth_secret (en_crypto X) (cred_ClientSecret creds) of
        Inl e \<Rightarrow> State_Monad.return (Inl e)
      | Inr authSecret \<Rightarrow> request_token X creds authSecret)"

definition token :: "'w env \<Rightarrow> api_credentials \<Rightarrow> ('w, 'm, goerr + string) client_io" where
  "token X creds = do {
     cached \<leftarrow> gets (\<lambda>s. tokens s (cred_ClientID creds));
     case cached of
       None \<Rightarrow> new_token X creds
     | Some c \<Rightarrow> do {
         now \<leftarrow> net_now (en_net X);
         if minute < tk_expiresAt c - now then State_Monad.return (Inr (tk_value c))
         else new_token X creds
       }
   }"

section \<open>Decryption\<close>

definition cache_key :: "api_credentials \<Rightarrow> machine_keys \<Rightarrow> string" where
  "cache_key creds keys = sha256 (cred_ClientSecret creds @ '':'' @ mk_kdfSalt keys)"

definition deriveUnwrapKey :: "'w env \<Rightarrow> api_credentials \<Rightarrow> machine_keys \<Rightarrow> ('w, 'm, goerr + string) client_io" where
  "deriveUnwrapKey X creds keys = do {
     cached \<leftarrow> gets (\<lambda>s. unwrap_keys s (cache_key creds keys));
     case cached of
       Some k \<Rightarrow> State_Monad.return (Inr k)
     | None \<Rightarrow>
         (case base64_decode (mk_kdfSalt keys) of
            Inl e \<Rightarrow> State_Monad.return (Inl (Wrap ''invalid KDF salt encoding: '' e))
          | Inr salt \<Rightarrow>
              (case kdf_for_version (en_crypto X) (mk_kdfParametersVersion keys) (cred_ClientSecret creds) salt of
                 Inl e \<Rightarrow> State_Monad.return (Inl e)
               | Inr derived \<Rightarrow> do {
                   modify (\<lambda>s. s\<lparr>unwrap_keys := (unwrap_keys s)(cache_key creds keys \<mapsto> derived)\<rparr>);
                   State_Monad.return (Inr derived)
                 }))
   }"

text \<open>The rest of \<open>openOrgKey\<close>, once the unwrap key is known.\<close>

definition unseal_org_key :: "'w env \<Rightarrow> machine_keys \<Rightarrow> string \<Rightarrow> string \<Rightarrow> goerr + string" where
  "unseal_org_key X keys wrapped unwrapKey =
     (case envelope_open (en_crypto X) unwrapKey (mk_wrappedPrivateKey keys) None of
        Inl _ \<Rightarrow> Inl (Err ''could not unwrap the machine private key - wrong client secret?'')
      | Inr privateKey \<Rightarrow> (case base64_decode (mk_publicKey keys) of
            Inl e \<Rightarrow> Inl (Wrap ''invalid machine public key encoding: '' e)
          | Inr publicKey \<Rightarrow> (case sealedbox_parse (en_crypto X) wrapped of
                Inl e \<Rightarrow> Inl (Wrap ''invalid wrapped org key: '' e)
              | Inr box \<Rightarrow> (case sealedbox_open (en_crypto X) publicKey privateKey box of
                    Inl _ \<Rightarrow> Inl (Err (''could not unwrap the org key - the machine grant ''
                               @ ''may be stale, rotate the identity''))
                  | Inr orgKey \<Rightarrow> Inr orgKey))))"

definition openOrgKey ::
  "'w env \<Rightarrow> api_credentials \<Rightarrow> machine_keys \<Rightarrow> string \<Rightarrow> ('w, 'm, goerr + string) client_io" where
  "openOrgKey X creds keys wrapped = do {
     derived \<leftarrow> deriveUnwrapKey X creds keys;
     State_Monad.return (case derived of
         Inl e \<Rightarrow> Inl e
       | Inr unwrapKey \<Rightarrow> unseal_org_key X keys wrapped unwrapKey)
   }"

fun decrypt_entries :: "'w env \<Rightarrow> string \<Rightarrow> bundle_entry list \<Rightarrow> Bundle \<Rightarrow> goerr + Bundle" where
  "decrypt_entries X orgKey [] pairs = Inr pairs"
| "decrypt_entries X orgKey (entry # es) pairs =
     (case envelope_open (en_crypto X) orgKey (be_envelope entry)
             (Some (secret_context (en_crypto X) (be_definitionId entry) (be_environmentId entry))) of
        Inl e \<Rightarrow> Inl (Wrap (''decrypt '' @ quote (en_runtime X) (be_key entry) @ '': '') e)
      | Inr plaintext \<Rightarrow> decrypt_entries X orgKey es (pairs(be_key entry \<mapsto> plaintext)))"

definition decrypt ::
  "'w env \<Rightarrow> api_credentials \<Rightarrow> machine_keys \<Rightarrow> cipher_bundle \<Rightarrow> ('w, 'm, goerr + Bundle) client_io" where
  "decrypt X creds keys cb = do {
     opened \<leftarrow> openOrgKey X creds keys (cb_wrappedOrgKey cb);
     State_Monad.return (case opened of
         Inl e \<Rightarrow> Inl e
       | Inr orgKey \<Rightarrow> decrypt_entries X orgKey (cb_secrets cb) Map.empty)
   }"

section \<open>Fetch\<close>

text \<open>\<open>url.Values.Encode\<close> sorts by key.\<close>

definition fetch_path :: "string \<Rightarrow> string \<Rightarrow> string" where
  "fetch_path projectID environment =
     ''/api/secrets/bundle?'' @ encode_query [(''environment'', environment), (''projectPublicId'', projectID)]"

definition client_fetch ::
  "'w env \<Rightarrow> api_credentials \<Rightarrow> string \<Rightarrow> string \<Rightarrow> ('w, 'm, goerr + Bundle) client_io" where
  "client_fetch X creds projectID environment = do {
     got \<leftarrow> token X creds;
     case got of
       Inl e \<Rightarrow> State_Monad.return (Inl e)
     | Inr tok \<Rightarrow> do {
         ks \<leftarrow> get X creds tok ''/api/keys/me'' ''krypticapi.machineKeys''
                 (decode_struct (keys_step (en_runtime X))) no_keys;
         case ks of
           Inl e \<Rightarrow> State_Monad.return (Inl (Wrap ''fetching machine keys: '' e))
         | Inr keys \<Rightarrow> do {
             cb \<leftarrow> get X creds tok (fetch_path projectID environment) ''krypticapi.cipherBundle''
                     (decode_struct (bundle_step (en_runtime X))) no_bundle;
             case cb of
               Inl e \<Rightarrow> State_Monad.return (Inl e)
             | Inr c \<Rightarrow> decrypt X creds keys c
           }
       }
   }"

end
