(* ===== verification/Leases.thy ===== *)
theory Leases
  imports Client
begin

text \<open>
  Dynamic leases (\<open>krypticapi/leases.go\<close>): apply the work the control plane has for this
  machine, mint or reuse one lease for every hint of the bundle, revoke the leases no hint
  asks for. \<open>client_fetcher\<close> is the client as the reconciler sees it.
\<close>

section \<open>Data\<close>

record work_batch =
  wb_orgKeyId :: string
  wb_wrappedOrgKey :: string
  wb_items :: "work_item list"

record lease_dto =
  ld_id :: string
  ld_status :: int
  ld_hasMintedEnvelope :: bool

record secret_envelope =
  se_key :: string
  se_definitionId :: string
  se_environmentId :: string
  se_envelope :: string

definition no_batch :: work_batch where
  "no_batch = \<lparr>wb_orgKeyId = '''', wb_wrappedOrgKey = '''', wb_items = []\<rparr>"

definition no_lease :: lease_dto where
  "no_lease = \<lparr>ld_id = '''', ld_status = 0, ld_hasMintedEnvelope = False\<rparr>"

definition no_envelope :: secret_envelope where
  "no_envelope = \<lparr>se_key = '''', se_definitionId = '''', se_environmentId = '''', se_envelope = ''''\<rparr>"

definition batch_step :: "go_runtime \<Rightarrow> work_batch \<Rightarrow> string \<Rightarrow> json \<Rightarrow> work_batch option" where
  "batch_step R c k v =
     (if field_matches R ''orgKeyId'' k then
        map_option (\<lambda>x. c\<lparr>wb_orgKeyId := x\<rparr>) (decode_string (wb_orgKeyId c) v)
      else if field_matches R ''wrappedOrgKey'' k then
        map_option (\<lambda>x. c\<lparr>wb_wrappedOrgKey := x\<rparr>) (decode_string (wb_wrappedOrgKey c) v)
      else if field_matches R ''items'' k then
        map_option (\<lambda>x. c\<lparr>wb_items := x\<rparr>) (decode_slice no_item (decode_struct (item_step R)) (wb_items c) v)
      else Some c)"

definition lease_step :: "go_runtime \<Rightarrow> lease_dto \<Rightarrow> string \<Rightarrow> json \<Rightarrow> lease_dto option" where
  "lease_step R c k v =
     (if field_matches R ''id'' k then map_option (\<lambda>x. c\<lparr>ld_id := x\<rparr>) (decode_string (ld_id c) v)
      else if field_matches R ''status'' k then
        map_option (\<lambda>x. c\<lparr>ld_status := x\<rparr>) (decode_int (ld_status c) v)
      else if field_matches R ''hasMintedEnvelope'' k then
        map_option (\<lambda>x. c\<lparr>ld_hasMintedEnvelope := x\<rparr>) (decode_bool (ld_hasMintedEnvelope c) v)
      else Some c)"

definition envelope_step :: "go_runtime \<Rightarrow> secret_envelope \<Rightarrow> string \<Rightarrow> json \<Rightarrow> secret_envelope option" where
  "envelope_step R c k v =
     (if field_matches R ''key'' k then map_option (\<lambda>x. c\<lparr>se_key := x\<rparr>) (decode_string (se_key c) v)
      else if field_matches R ''definitionId'' k then
        map_option (\<lambda>x. c\<lparr>se_definitionId := x\<rparr>) (decode_string (se_definitionId c) v)
      else if field_matches R ''environmentId'' k then
        map_option (\<lambda>x. c\<lparr>se_environmentId := x\<rparr>) (decode_string (se_environmentId c) v)
      else if field_matches R ''envelope'' k then
        map_option (\<lambda>x. c\<lparr>se_envelope := x\<rparr>) (decode_string (se_envelope c) v)
      else Some c)"

section \<open>Requests\<close>

text \<open>
  \<open>do\<close> up to the status check; \<open>do_decode\<close> adds the decoding into a variable,
  \<open>do_ignore\<close> is a call whose \<open>out\<close> is \<open>nil\<close>.
\<close>

definition do_request ::
  "'w env \<Rightarrow> api_credentials \<Rightarrow> string \<Rightarrow> http_method \<Rightarrow> string \<Rightarrow> json option
     \<Rightarrow> ('w, 'm, goerr + http_response) client_io" where
  "do_request X creds tok meth path payload =
     (let sends = (payload \<noteq> None \<and> meth \<noteq> GET);
          body = (if sends then json_encode (the payload) else '''')
      in case new_request (en_runtime X) meth (base_url creds @ path) body of
           Inl e \<Rightarrow> State_Monad.return (Inl e)
         | Inr request0 \<Rightarrow> do {
             let request1 = set_header ''Authorization'' (bearer tok) request0;
             let request = (if sends then set_header ''Content-Type'' ''application/json'' request1 else request1);
             answer \<leftarrow> net_do (en_net X) request;
             case answer of
               Inl e \<Rightarrow> State_Monad.return (Inl e)
             | Inr response \<Rightarrow>
                 if resp_status response \<noteq> StatusOK then do {
                   e \<leftarrow> refused creds path response;
                   State_Monad.return (Inl e)
                 }
                 else State_Monad.return (Inr response)
           })"

definition do_decode ::
  "'w env \<Rightarrow> api_credentials \<Rightarrow> string \<Rightarrow> http_method \<Rightarrow> string \<Rightarrow> json option \<Rightarrow> string \<Rightarrow> 'a decoder \<Rightarrow> 'a
     \<Rightarrow> ('w, 'm, goerr + 'a) client_io" where
  "do_decode X creds tok meth path payload what dec zero = do {
     answer \<leftarrow> do_request X creds tok meth path payload;
     State_Monad.return (case answer of
         Inl e \<Rightarrow> Inl e
       | Inr response \<Rightarrow> (case decode_body (en_runtime X) what dec zero (resp_body response) of
             Inl e \<Rightarrow> Inl (Wrap ''decoding response: '' e)
           | Inr x \<Rightarrow> Inr x))
   }"

definition do_ignore ::
  "'w env \<Rightarrow> api_credentials \<Rightarrow> string \<Rightarrow> http_method \<Rightarrow> string \<Rightarrow> json option \<Rightarrow> ('w, 'm, goerr option) client_io" where
  "do_ignore X creds tok meth path payload = do {
     answer \<leftarrow> do_request X creds tok meth path payload;
     State_Monad.return (case answer of Inl e \<Rightarrow> Some e | Inr _ \<Rightarrow> None)
   }"

definition get_batch ::
  "'w env \<Rightarrow> api_credentials \<Rightarrow> string \<Rightarrow> string \<Rightarrow> ('w, 'm, goerr + work_batch) client_io" where
  "get_batch X creds tok path =
     do_decode X creds tok GET path None ''krypticapi.workBatch''
       (decode_struct (batch_step (en_runtime X))) no_batch"

definition lease_path :: "string \<Rightarrow> string \<Rightarrow> string" where
  "lease_path leaseID part = ''/api/dynamic-secrets/leases/'' @ leaseID @ part"

definition client_machineKeys :: "'w env \<Rightarrow> api_credentials \<Rightarrow> string \<Rightarrow> ('w, 'm, goerr + machine_keys) client_io" where
  "client_machineKeys X creds tok = do {
     got \<leftarrow> do_decode X creds tok GET ''/api/keys/me'' None ''krypticapi.machineKeys''
              (decode_struct (keys_step (en_runtime X))) no_keys;
     State_Monad.return (case got of
         Inl e \<Rightarrow> Inl (Wrap ''fetching machine keys: '' e)
       | Inr keys \<Rightarrow> Inr keys)
   }"

definition bundle_path :: "string \<Rightarrow> string \<Rightarrow> string" where
  "bundle_path projectID environment =
     ''/api/secrets/bundle?projectPublicId='' @ query_escape projectID @ ''&environment='' @ query_escape environment"

definition bundleAndKeys ::
  "'w env \<Rightarrow> api_credentials \<Rightarrow> string \<Rightarrow> string \<Rightarrow> string \<Rightarrow> ('w, 'm, goerr + machine_keys \<times> cipher_bundle) client_io" where
  "bundleAndKeys X creds tok projectID environment = do {
     ks \<leftarrow> client_machineKeys X creds tok;
     case ks of
       Inl e \<Rightarrow> State_Monad.return (Inl e)
     | Inr keys \<Rightarrow> do {
         cb \<leftarrow> do_decode X creds tok GET (bundle_path projectID environment) None
                 ''krypticapi.cipherBundle'' (decode_struct (bundle_step (en_runtime X))) no_bundle;
         State_Monad.return (case cb of Inl e \<Rightarrow> Inl e | Inr c \<Rightarrow> Inr (keys, c))
       }
   }"

definition client_orgKey ::
  "'w env \<Rightarrow> api_credentials \<Rightarrow> machine_keys \<Rightarrow> string \<Rightarrow> ('w, 'm, goerr + string) client_io" where
  "client_orgKey X creds keys wrapped = openOrgKey X creds keys wrapped"

section \<open>Work\<close>

definition complete_call :: "'w env \<Rightarrow> api_credentials \<Rightarrow> string \<Rightarrow> complete_lease \<Rightarrow> ('w, 'm, goerr option) client_io" where
  "complete_call X creds tok c =
     do_ignore X creds tok POST ''/api/dynamic-secrets/work/complete'' (Some (completion_json c))"

definition applyItem ::
  "'w env \<Rightarrow> api_credentials \<Rightarrow> string \<Rightarrow> string \<Rightarrow> string \<Rightarrow> work_item \<Rightarrow> ('w, 'm, goerr option) client_io" where
  "applyItem X creds tok orgKey orgKeyId item = Apply X orgKey orgKeyId item (complete_call X creds tok)"

fun apply_items ::
  "'w env \<Rightarrow> api_credentials \<Rightarrow> string \<Rightarrow> string \<Rightarrow> string \<Rightarrow> work_item list \<Rightarrow> ('w, 'm, goerr option) client_io" where
  "apply_items X creds tok orgKey orgKeyId [] = State_Monad.return None"
| "apply_items X creds tok orgKey orgKeyId (item # items) = do {
     r \<leftarrow> applyItem X creds tok orgKey orgKeyId item;
     case r of
       Some e \<Rightarrow> State_Monad.return (Some e)
     | None \<Rightarrow> apply_items X creds tok orgKey orgKeyId items
   }"

definition applyOwnWork :: "'w env \<Rightarrow> api_credentials \<Rightarrow> string \<Rightarrow> string \<Rightarrow> ('w, 'm, goerr option) client_io" where
  "applyOwnWork X creds tok orgKey = do {
     got \<leftarrow> get_batch X creds tok ''/api/dynamic-secrets/work'';
     case got of
       Inl e \<Rightarrow> State_Monad.return (if direct_api_error e = Some StatusNotFound then None else Some e)
     | Inr batch \<Rightarrow> apply_items X creds tok orgKey (wb_orgKeyId batch) (wb_items batch)
   }"

definition applyLeaseWork ::
  "'w env \<Rightarrow> api_credentials \<Rightarrow> string \<Rightarrow> string \<Rightarrow> string \<Rightarrow> ('w, 'm, goerr option) client_io" where
  "applyLeaseWork X creds tok orgKey leaseID = do {
     got \<leftarrow> get_batch X creds tok (lease_path leaseID ''/work'');
     case got of
       Inl e \<Rightarrow> State_Monad.return (Some e)
     | Inr batch \<Rightarrow>
         (case wb_items batch of
            [] \<Rightarrow> State_Monad.return (Some (Err (''no work for lease '' @ leaseID)))
          | item # _ \<Rightarrow> applyItem X creds tok orgKey (wb_orgKeyId batch) item)
   }"

definition revokeOne ::
  "'w env \<Rightarrow> api_credentials \<Rightarrow> string \<Rightarrow> machine_keys \<Rightarrow> string \<Rightarrow> ('w, 'm, goerr option) client_io" where
  "revokeOne X creds tok keys leaseID = do {
     revoked \<leftarrow> do_ignore X creds tok POST (lease_path leaseID ''/revoke'') (Some (JObj []));
     case revoked of
       Some e \<Rightarrow> State_Monad.return (Some e)
     | None \<Rightarrow> do {
         got \<leftarrow> get_batch X creds tok (lease_path leaseID ''/work'');
         case got of
           Inl e \<Rightarrow> State_Monad.return (if direct_api_error e = Some StatusNotFound then None else Some e)
         | Inr batch \<Rightarrow>
             (case wb_items batch of
                [] \<Rightarrow> State_Monad.return None
              | item # _ \<Rightarrow> do {
                  opened \<leftarrow> client_orgKey X creds keys (wb_wrappedOrgKey batch);
                  case opened of
                    Inl e \<Rightarrow> State_Monad.return (Some e)
                  | Inr orgKey \<Rightarrow> applyItem X creds tok orgKey (wb_orgKeyId batch) item
                })
       }
   }"

fun revoke_each ::
  "'w env \<Rightarrow> api_credentials \<Rightarrow> string \<Rightarrow> machine_keys \<Rightarrow> string list \<Rightarrow> ('w, 'm, goerr option) client_io" where
  "revoke_each X creds tok keys [] = State_Monad.return None"
| "revoke_each X creds tok keys (i # ids) =
     (if trim_space i = '''' then revoke_each X creds tok keys ids
      else do {
        r \<leftarrow> revokeOne X creds tok keys i;
        case r of
          Some e \<Rightarrow> State_Monad.return (Some e)
        | None \<Rightarrow> revoke_each X creds tok keys ids
      })"

definition client_RevokeLeases :: "'w env \<Rightarrow> api_credentials \<Rightarrow> string list \<Rightarrow> ('w, 'm, goerr option) client_io" where
  "client_RevokeLeases X creds leaseIDs =
     (if leaseIDs = [] then State_Monad.return None
      else do {
        got \<leftarrow> token X creds;
        case got of
          Inl e \<Rightarrow> State_Monad.return (Some e)
        | Inr tok \<Rightarrow> do {
            ks \<leftarrow> client_machineKeys X creds tok;
            case ks of
              Inl e \<Rightarrow> State_Monad.return (Some e)
            | Inr keys \<Rightarrow> revoke_each X creds tok keys leaseIDs
          }
      })"

section \<open>Minted credentials\<close>

definition expandMinted :: "string \<Rightarrow> minted \<Rightarrow> (string \<times> string) list" where
  "expandMinted key m =
     [(key @ ''_USERNAME'', mi_username m), (key @ ''_PASSWORD'', mi_password m)]
     @ (if mi_sessionToken m \<noteq> '''' then [(key @ ''_SESSION_TOKEN'', mi_sessionToken m)] else [])
     @ (if mi_accessKeyId m \<noteq> '''' then [(key @ ''_ACCESS_KEY_ID'', mi_accessKeyId m)] else [])
     @ (if trim_space (mi_url m) \<noteq> '''' then [(key, mi_url m)] else [])"

definition minted_pairs :: "'w env \<Rightarrow> string \<Rightarrow> secret_envelope \<Rightarrow> Bundle option" where
  "minted_pairs X orgKey env =
     (case envelope_open (en_crypto X) orgKey (se_envelope env)
             (Some (secret_context (en_crypto X) (se_definitionId env) (se_environmentId env))) of
        Inl _ \<Rightarrow> None
      | Inr plaintext \<Rightarrow> (case json_parse plaintext of
            None \<Rightarrow> None
          | Some j \<Rightarrow> (case decode_struct (minted_step (en_runtime X)) no_minted j of
                None \<Rightarrow> None
              | Some m \<Rightarrow> Some (foldl (\<lambda>out p. out(fst p \<mapsto> snd p)) Map.empty (expandMinted (se_key env) m)))))"

definition readMinted ::
  "'w env \<Rightarrow> api_credentials \<Rightarrow> string \<Rightarrow> string \<Rightarrow> string \<Rightarrow> ('w, 'm, Bundle option) client_io" where
  "readMinted X creds tok orgKey leaseID = do {
     got \<leftarrow> do_decode X creds tok GET (lease_path leaseID ''/envelope'') None
              ''krypticapi.secretEnvelope'' (decode_struct (envelope_step (en_runtime X))) no_envelope;
     State_Monad.return (case got of Inl _ \<Rightarrow> None | Inr env \<Rightarrow> minted_pairs X orgKey env)
   }"

section \<open>Leases\<close>

definition request_lease_path :: "string \<Rightarrow> string \<Rightarrow> string \<Rightarrow> string" where
  "request_lease_path projectID environment key =
     ''/api/dynamic-secrets/leases?projectPublicId='' @ query_escape projectID
       @ ''&environment='' @ query_escape environment @ ''&key='' @ query_escape key"

definition mint_lease ::
  "'w env \<Rightarrow> api_credentials \<Rightarrow> string \<Rightarrow> string \<Rightarrow> string \<Rightarrow> string \<Rightarrow> dynamic_hint
     \<Rightarrow> ('w, 'm, goerr + Bundle \<times> string) client_io" where
  "mint_lease X creds tok orgKey projectID environment hint = do {
     requested \<leftarrow> do_decode X creds tok POST (request_lease_path projectID environment (dh_key hint))
       (Some (JObj [])) ''krypticapi.leaseDTO'' (decode_struct (lease_step (en_runtime X))) no_lease;
     case requested of
       Inl e \<Rightarrow> State_Monad.return (Inl (Wrap (''request lease '' @ dh_key hint @ '': '') e))
     | Inr lease \<Rightarrow> do {
         applied \<leftarrow> applyLeaseWork X creds tok orgKey (ld_id lease);
         case applied of
           Some e \<Rightarrow> State_Monad.return (Inl (Wrap (''mint '' @ dh_key hint @ '': '') e))
         | None \<Rightarrow> do {
             read \<leftarrow> readMinted X creds tok orgKey (ld_id lease);
             State_Monad.return (case read of
                 None \<Rightarrow> Inl (Err (''mint '' @ dh_key hint @ '': envelope missing after complete''))
               | Some pairs \<Rightarrow> Inr (pairs, ld_id lease))
           }
       }
   }"

definition ensureLease ::
  "'w env \<Rightarrow> api_credentials \<Rightarrow> string \<Rightarrow> string \<Rightarrow> string \<Rightarrow> string \<Rightarrow> dynamic_hint \<Rightarrow> string
     \<Rightarrow> ('w, 'm, goerr + Bundle \<times> string) client_io" where
  "ensureLease X creds tok orgKey projectID environment hint existingID =
     (if existingID \<noteq> '''' then do {
        read \<leftarrow> readMinted X creds tok orgKey existingID;
        case read of
          Some pairs \<Rightarrow> State_Monad.return (Inr (pairs, existingID))
        | None \<Rightarrow> mint_lease X creds tok orgKey projectID environment hint
      }
      else mint_lease X creds tok orgKey projectID environment hint)"

text \<open>The loop over the hints; the bundle and the leases gathered so far are arguments.\<close>

fun ensure_all ::
  "'w env \<Rightarrow> api_credentials \<Rightarrow> string \<Rightarrow> string \<Rightarrow> string \<Rightarrow> string \<Rightarrow> lease_map \<Rightarrow> dynamic_hint list
     \<Rightarrow> Bundle \<Rightarrow> lease_map \<Rightarrow> ('w, 'm, goerr + Bundle \<times> lease_map) client_io" where
  "ensure_all X creds tok orgKey projectID environment existing [] out leases =
     State_Monad.return (Inr (out, leases))"
| "ensure_all X creds tok orgKey projectID environment existing (hint # hints) out leases = do {
     got \<leftarrow> ensureLease X creds tok orgKey projectID environment hint
              (get_or_empty (map_of existing) (dh_key hint));
     case got of
       Inl e \<Rightarrow> State_Monad.return (Inl e)
     | Inr x \<Rightarrow> (case x of (pairs, newID) \<Rightarrow>
         ensure_all X creds tok orgKey projectID environment existing hints (out ++ pairs)
           (if newID \<noteq> '''' then AList.update (dh_key hint) newID leases else leases))
   }"

definition stale_leases :: "go_runtime \<Rightarrow> lease_map \<Rightarrow> lease_map \<Rightarrow> string list" where
  "stale_leases R existing leases =
     map snd (filter (\<lambda>(key, i). get_or_empty (map_of leases) key \<noteq> i) (map_order R existing))"

definition sync_leases ::
  "'w env \<Rightarrow> api_credentials \<Rightarrow> string \<Rightarrow> string \<Rightarrow> string \<Rightarrow> string \<Rightarrow> lease_map \<Rightarrow> dynamic_hint list
     \<Rightarrow> ('w, 'm, goerr + Bundle \<times> lease_map) client_io" where
  "sync_leases X creds tok orgKey projectID environment existing hints = do {
     ensured \<leftarrow> ensure_all X creds tok orgKey projectID environment existing hints Map.empty [];
     case ensured of
       Inl e \<Rightarrow> State_Monad.return (Inl e)
     | Inr x \<Rightarrow> do {
         revoked \<leftarrow> client_RevokeLeases X creds (stale_leases (en_runtime X) existing (snd x));
         State_Monad.return (case revoked of Some e \<Rightarrow> Inl e | None \<Rightarrow> Inr x)
       }
   }"

definition client_SyncDynamic ::
  "'w env \<Rightarrow> api_credentials \<Rightarrow> string \<Rightarrow> string \<Rightarrow> lease_map \<Rightarrow> ('w, 'm, goerr + Bundle \<times> lease_map) client_io" where
  "client_SyncDynamic X creds projectID environment existing = do {
     got \<leftarrow> token X creds;
     case got of
       Inl e \<Rightarrow> State_Monad.return (Inl e)
     | Inr tok \<Rightarrow> do {
         kb \<leftarrow> bundleAndKeys X creds tok projectID environment;
         case kb of
           Inl e \<Rightarrow> State_Monad.return (Inl e)
         | Inr x \<Rightarrow> (case x of (keys, cb) \<Rightarrow>
             if cb_dynamicSecrets cb = [] \<and> existing = [] then State_Monad.return (Inr (Map.empty, []))
             else do {
               opened \<leftarrow> client_orgKey X creds keys (cb_wrappedOrgKey cb);
               case opened of
                 Inl e \<Rightarrow> State_Monad.return (Inl e)
               | Inr orgKey \<Rightarrow> do {
                   own \<leftarrow> applyOwnWork X creds tok orgKey;
                   case own of
                     Some e \<Rightarrow> State_Monad.return (Inl e)
                   | None \<Rightarrow> sync_leases X creds tok orgKey projectID environment existing
                               (cb_dynamicSecrets cb)
                 }
             })
       }
   }"

text \<open>\<open>Client\<close> implements \<open>DynamicFetcher\<close>.\<close>

definition client_revoke_result :: "goerr option \<Rightarrow> goerr + unit" where
  "client_revoke_result r = (case r of Some e \<Rightarrow> Inl e | None \<Rightarrow> Inr ())"

definition client_dynamic :: "'w env \<Rightarrow> ('w, ('m) client_state_ext) dynamic_fetcher" where
  "client_dynamic X =
     \<lparr>SyncDynamic = client_SyncDynamic X,
      RevokeLeases = (\<lambda>creds ids. do {
        r \<leftarrow> client_RevokeLeases X creds ids;
        State_Monad.return (client_revoke_result r)
      })\<rparr>"

definition client_fetcher :: "'w env \<Rightarrow> ('w, 'm client_state_ext) fetcher" where
  "client_fetcher X = \<lparr>Fetch = client_fetch X, dynamic = Some (client_dynamic X)\<rparr>"

end
