(* ===== verification/Types.thy ===== *)
theory Types
  imports Api_Types
begin

text \<open>
  The custom resource (\<open>controller/types.go\<close>): its spec, its status, the defaults of the
  spec, and the names the operator writes into the objects it manages.
\<close>

section \<open>Constants\<close>

definition APIVersion :: string where "APIVersion = ''kryptic.dev/v1''"
definition Kind :: string where "Kind = ''KrypticSecret''"
definition ManagedByLabel :: string where "ManagedByLabel = ''app.kubernetes.io/managed-by''"
definition ManagedByValue :: string where "ManagedByValue = ''kryptic-operator''"
definition LeaseIDsAnnotation :: string where "LeaseIDsAnnotation = ''kryptic.dev/dynamic-lease-ids''"
definition LeaseFinalizer :: string where "LeaseFinalizer = ''kryptic.dev/dynamic-leases''"
definition DefaultRefreshInterval :: duration where "DefaultRefreshInterval = 5 * minute"
definition MinRefreshInterval :: duration where "MinRefreshInterval = 30 * second"

section \<open>The resource\<close>

record kryptic_secret_template =
  tp_type :: string
  tp_labels :: "string \<rightharpoonup> string"
  tp_annotations :: "string \<rightharpoonup> string"

record kryptic_secret_ref =
  ref_name :: string

record kryptic_secret_auth =
  au_secretRef :: kryptic_secret_ref

record kryptic_secret_spec =
  sp_projectID :: string
  sp_environment :: string
  sp_secretName :: string
  sp_refreshInterval :: string
  sp_keys :: "string list"
  sp_auth :: "kryptic_secret_auth option"
  sp_template :: kryptic_secret_template

text \<open>\<open>metav1.Condition\<close>; its status is one of the strings of \<open>ConditionStatus\<close>.\<close>

record condition =
  cd_type :: string
  cd_status :: string
  cd_observedGeneration :: int
  cd_lastTransitionTime :: time
  cd_reason :: string
  cd_message :: string

definition ConditionTrue :: string where "ConditionTrue = ''True''"
definition ConditionFalse :: string where "ConditionFalse = ''False''"

record kryptic_secret_status =
  st_conditions :: "condition list"
  st_lastSyncTime :: "time option"
  st_syncedKeyCount :: int
  st_observedGeneration :: int

text \<open>Of the object's metadata, the fields the operator reads.\<close>

record kryptic_secret =
  cr_name :: string
  cr_namespace :: string
  cr_uid :: string
  cr_generation :: int
  cr_deletionTimestamp :: "time option"
  cr_finalizers :: "string list"
  cr_spec :: kryptic_secret_spec
  cr_status :: kryptic_secret_status

section \<open>Defaults\<close>

definition AuthSecretName :: "kryptic_secret_spec \<Rightarrow> string" where
  "AuthSecretName s = (case sp_auth s of None \<Rightarrow> '''' | Some a \<Rightarrow> ref_name (au_secretRef a))"

definition RefreshIntervalOrDefault :: "go_runtime \<Rightarrow> kryptic_secret_spec \<Rightarrow> duration" where
  "RefreshIntervalOrDefault R s =
     (if sp_refreshInterval s = '''' then DefaultRefreshInterval
      else case parse_duration R (sp_refreshInterval s) of
          None \<Rightarrow> DefaultRefreshInterval
        | Some parsed \<Rightarrow> if parsed < MinRefreshInterval then DefaultRefreshInterval else parsed)"

definition TargetSecretName :: "kryptic_secret \<Rightarrow> string" where
  "TargetSecretName k =
     (if sp_secretName (cr_spec k) \<noteq> '''' then sp_secretName (cr_spec k) else cr_name k)"

section \<open>Facts\<close>

lemma DefaultRefreshInterval_floor: "MinRefreshInterval \<le> DefaultRefreshInterval"
  by (simp add: MinRefreshInterval_def DefaultRefreshInterval_def minute_def second_def)

lemma MinRefreshInterval_pos: "0 < MinRefreshInterval"
  by (simp add: MinRefreshInterval_def second_def)

lemma RefreshIntervalOrDefault_floor: "MinRefreshInterval \<le> RefreshIntervalOrDefault R s"
  using DefaultRefreshInterval_floor
  by (auto simp: RefreshIntervalOrDefault_def split: option.splits)

text \<open>A \<open>time.Duration\<close> is 64 bits wide.\<close>

definition representable :: "duration \<Rightarrow> bool" where
  "representable d \<longleftrightarrow> - (2 ^ 63) \<le> d \<and> d < 2 ^ 63"

lemma representable_default: "representable DefaultRefreshInterval"
  by (simp add: representable_def DefaultRefreshInterval_def minute_def second_def)

lemma representable_floor: "representable MinRefreshInterval"
  by (simp add: representable_def MinRefreshInterval_def second_def)

lemma representable_parsed: "parse_duration R s = Some d \<Longrightarrow> representable d"
  unfolding representable_def using parse_duration_bounds by blast

lemma RefreshIntervalOrDefault_bound: "representable (RefreshIntervalOrDefault R s)"
  using representable_default representable_parsed
  by (auto simp: RefreshIntervalOrDefault_def split: option.splits)

text \<open>The effective interval is the parsed one exactly when that is at least the floor.\<close>

lemma RefreshIntervalOrDefault_cases:
  "RefreshIntervalOrDefault R s =
     (case parse_duration R (sp_refreshInterval s) of
        Some d \<Rightarrow> if sp_refreshInterval s \<noteq> '''' \<and> MinRefreshInterval \<le> d then d else DefaultRefreshInterval
      | None \<Rightarrow> DefaultRefreshInterval)"
  by (auto simp: RefreshIntervalOrDefault_def split: option.splits)

section \<open>The refresh interval\<close>

lemma parse_duration_empty [simp]: "parse_duration R [] = None"
  by (simp add: parse_duration_def)

text \<open>
  The refresh interval is the parsed one when that is at least the floor of 30 seconds, and
  otherwise the default of five minutes: a value below the floor is replaced by the default, not
  raised to the floor. It is never below the floor and fits a \<open>time.Duration\<close>.
\<close>

lemma refresh_interval_effective:
  "RefreshIntervalOrDefault R s =
     (case parse_duration R (sp_refreshInterval s) of
        Some d \<Rightarrow> if MinRefreshInterval \<le> d then d else DefaultRefreshInterval
      | None \<Rightarrow> DefaultRefreshInterval) \<and>
   MinRefreshInterval \<le> RefreshIntervalOrDefault R s \<and> representable (RefreshIntervalOrDefault R s)"
proof (intro conjI RefreshIntervalOrDefault_floor RefreshIntervalOrDefault_bound)
  show "RefreshIntervalOrDefault R s =
     (case parse_duration R (sp_refreshInterval s) of
        Some d \<Rightarrow> if MinRefreshInterval \<le> d then d else DefaultRefreshInterval
      | None \<Rightarrow> DefaultRefreshInterval)"
    unfolding RefreshIntervalOrDefault_cases
    by (cases "sp_refreshInterval s = []") (simp_all split: option.split)
qed

end
