(* ===== verification/Cluster_Credentials.thy ===== *)
theory Cluster_Credentials
  imports Api_Types
begin

text \<open>
  The optional operator-wide machine identity (\<open>controller/cluster_credentials.go\<close>). The
  process environment is a function from names to values; an unset variable reads as the
  empty string.
\<close>

definition EnvClientID :: string where "EnvClientID = ''KRYPTIC_CLIENT_ID''"
definition EnvClientSecret :: string where "EnvClientSecret = ''KRYPTIC_CLIENT_SECRET''"
definition EnvAPIURL :: string where "EnvAPIURL = ''KRYPTIC_API_URL''"
definition EnvClusterNamespaces :: string where "EnvClusterNamespaces = ''KRYPTIC_CLUSTER_NAMESPACES''"

record cluster_credentials =
  cc_ClientID :: string
  cc_ClientSecret :: string
  cc_BaseURL :: string
  cc_Namespaces :: "string list"

definition Configured :: "cluster_credentials \<Rightarrow> bool" where
  "Configured c \<longleftrightarrow> cc_ClientID c \<noteq> '''' \<and> cc_ClientSecret c \<noteq> ''''"

fun allows_in :: "string list \<Rightarrow> string \<Rightarrow> bool" where
  "allows_in [] namespace = False"
| "allows_in (allowed # rest) namespace =
     (if allowed = ''*'' \<or> allowed = namespace then True else allows_in rest namespace)"

definition AllowsNamespace :: "cluster_credentials \<Rightarrow> string \<Rightarrow> bool" where
  "AllowsNamespace c namespace = allows_in (cc_Namespaces c) namespace"

definition Credentials :: "cluster_credentials \<Rightarrow> api_credentials" where
  "Credentials c = \<lparr>cred_BaseURL = (if cc_BaseURL c = '''' then DefaultBaseURL else cc_BaseURL c),
                    cred_ClientID = cc_ClientID c, cred_ClientSecret = cc_ClientSecret c\<rparr>"

text \<open>\<open>splitList\<close>.\<close>

fun keep_entries :: "string list \<Rightarrow> string list" where
  "keep_entries [] = []"
| "keep_entries (entry # rest) =
     (if trim_space entry \<noteq> '''' then trim_space entry # keep_entries rest else keep_entries rest)"

definition splitList :: "string \<Rightarrow> string list" where
  "splitList raw = keep_entries (split_on CHR '','' raw)"

definition ClusterCredentialsFromEnv :: "(string \<Rightarrow> string) \<Rightarrow> cluster_credentials" where
  "ClusterCredentialsFromEnv env =
     \<lparr>cc_ClientID = env EnvClientID, cc_ClientSecret = env EnvClientSecret,
      cc_BaseURL = env EnvAPIURL, cc_Namespaces = splitList (env EnvClusterNamespaces)\<rparr>"

section \<open>Facts\<close>

lemma allows_in_iff: "allows_in ns n \<longleftrightarrow> ''*'' \<in> set ns \<or> n \<in> set ns"
  by (induction ns) auto

lemma AllowsNamespace_iff:
  "AllowsNamespace c n \<longleftrightarrow> ''*'' \<in> set (cc_Namespaces c) \<or> n \<in> set (cc_Namespaces c)"
  by (simp add: AllowsNamespace_def allows_in_iff)

lemma set_keep_entries: "set (keep_entries es) = {trim_space e | e. e \<in> set es \<and> trim_space e \<noteq> ''''}"
  by (induction es) auto

lemma set_splitList:
  "set (splitList raw) = {trim_space e | e. e \<in> set (split_on CHR '','' raw) \<and> trim_space e \<noteq> ''''}"
  by (simp add: splitList_def set_keep_entries)

lemma splitList_nonempty_entries: "'''' \<notin> set (splitList raw)"
  by (auto simp: set_splitList)

lemma Credentials_simps [simp]:
  "cred_ClientID (Credentials c) = cc_ClientID c"
  "cred_ClientSecret (Credentials c) = cc_ClientSecret c"
  by (simp_all add: Credentials_def)

lemma Credentials_base: "cred_BaseURL (Credentials c) \<noteq> ''''"
  by (simp add: Credentials_def DefaultBaseURL_def)

lemma cluster_env_simps [simp]:
  "cc_ClientID (ClusterCredentialsFromEnv env) = env EnvClientID"
  "cc_ClientSecret (ClusterCredentialsFromEnv env) = env EnvClientSecret"
  "cc_BaseURL (ClusterCredentialsFromEnv env) = env EnvAPIURL"
  "cc_Namespaces (ClusterCredentialsFromEnv env) = splitList (env EnvClusterNamespaces)"
  by (simp_all add: ClusterCredentialsFromEnv_def)

section \<open>Opting in\<close>

lemma either_image:
  "a \<in> {f e | e. e \<in> A \<and> P (f e)} \<or> b \<in> {f e | e. e \<in> A \<and> P (f e)}
     \<longleftrightarrow> (\<exists>e \<in> A. P (f e) \<and> f e \<in> {a, b})"
  by blast

text \<open>
  C33. A namespace may use the operator's identity exactly when the comma-separated variable has
  an entry that, trimmed, is not blank and is an asterisk or the namespace itself; so an unset
  variable admits no namespace.
\<close>

theorem namespaces_opt_in:
  "AllowsNamespace (ClusterCredentialsFromEnv getenv) n \<longleftrightarrow>
     (\<exists>e \<in> set (split_on CHR '','' (getenv EnvClusterNamespaces)).
        trim_space e \<noteq> [] \<and> trim_space e \<in> {''*'', n})"
  unfolding AllowsNamespace_iff cluster_env_simps set_splitList by (rule either_image)

end
