(* ===== verification/Api_Url_Policy.thy ===== *)
theory Api_Url_Policy
  imports Cluster_Credentials
begin

text \<open>
  The gate in front of the \<open>apiUrl\<close> of user-supplied credentials
  (\<open>controller/api_url_policy.go\<close>).
\<close>

definition EnvAllowInsecureAPIURL :: string where
  "EnvAllowInsecureAPIURL = ''KRYPTIC_ALLOW_INSECURE_API_URL''"
definition EnvAPIURLAllowlist :: string where
  "EnvAPIURLAllowlist = ''KRYPTIC_API_URL_ALLOWLIST''"

record api_url_policy =
  AllowInsecure :: bool
  AllowedHosts :: "string list"

definition APIURLPolicyFromEnv :: "(string \<Rightarrow> string) \<Rightarrow> api_url_policy" where
  "APIURLPolicyFromEnv env =
     \<lparr>AllowInsecure = (env EnvAllowInsecureAPIURL = ''true''),
      AllowedHosts = splitList (env EnvAPIURLAllowlist)\<rparr>"

definition allowed_hosts :: "go_runtime \<Rightarrow> api_url_policy \<Rightarrow> goerr + string list" where
  "allowed_hosts R p =
     (if AllowedHosts p = [] then
        (case url_parse DefaultBaseURL of
           None \<Rightarrow> Inl (Err (url_error_text R DefaultBaseURL))
         | Some d \<Rightarrow> Inr [host d])
      else Inr (AllowedHosts p))"

fun host_allowed :: "go_runtime \<Rightarrow> string \<Rightarrow> string list \<Rightarrow> bool" where
  "host_allowed R h [] = False"
| "host_allowed R h (a # as) = (if equal_fold R h a then True else host_allowed R h as)"

text \<open>\<open>Validate\<close>: \<open>None\<close> is the \<open>nil\<close> error.\<close>

definition Validate :: "go_runtime \<Rightarrow> api_url_policy \<Rightarrow> string \<Rightarrow> goerr option" where
  "Validate R p raw =
     (case url_parse raw of
        None \<Rightarrow> Some (Err (''invalid apiUrl '' @ quote R raw))
      | Some parsed \<Rightarrow>
          if host parsed = '''' then Some (Err (''invalid apiUrl '' @ quote R raw))
          else if scheme parsed = ''http'' \<and> \<not> AllowInsecure p then
            Some (Err (''apiUrl '' @ quote R raw @ '' must use https (set '' @ EnvAllowInsecureAPIURL
                       @ ''=true on the operator to allow http for development)''))
          else if scheme parsed \<noteq> ''https'' \<and> scheme parsed \<noteq> ''http'' then
            Some (Err (''apiUrl '' @ quote R raw @ '' must use https''))
          else (case allowed_hosts R p of
              Inl e \<Rightarrow> Some e
            | Inr allowed \<Rightarrow>
                if host_allowed R (host parsed) allowed then None
                else Some (Err (''apiUrl host '' @ quote R (host parsed)
                       @ '' is not allowed: add it to '' @ EnvAPIURLAllowlist @ '' on the operator''))))"

section \<open>Facts\<close>

lemma host_allowed_iff: "host_allowed R h as \<longleftrightarrow> (\<exists>a \<in> set as. equal_fold R h a)"
  by (induction as) auto

definition default_host :: string where "default_host = ''pipelines.kryptic.dev''"

lemma url_parse_DefaultBaseURL:
  "url_parse DefaultBaseURL = Some \<lparr>scheme = ''https'', host = default_host\<rparr>"
  by code_simp

text \<open>The hosts a policy admits.\<close>

definition admitted_hosts :: "api_url_policy \<Rightarrow> string list" where
  "admitted_hosts p = (if AllowedHosts p = [] then [default_host] else AllowedHosts p)"

lemma allowed_hosts_eq: "allowed_hosts R p = Inr (admitted_hosts p)"
  by (simp add: allowed_hosts_def admitted_hosts_def url_parse_DefaultBaseURL)

text \<open>What a policy promises of the URLs it lets pass.\<close>

definition url_admitted :: "go_runtime \<Rightarrow> api_url_policy \<Rightarrow> url \<Rightarrow> bool" where
  "url_admitted R p u \<longleftrightarrow>
     host u \<noteq> '''' \<and> (scheme u = ''https'' \<or> (scheme u = ''http'' \<and> AllowInsecure p))
     \<and> (\<exists>a \<in> set (admitted_hosts p). equal_fold R (host u) a)"

lemma Validate_none_iff:
  "Validate R p raw = None \<longleftrightarrow> (\<exists>u. url_parse raw = Some u \<and> url_admitted R p u)"
  by (auto simp: Validate_def allowed_hosts_eq host_allowed_iff url_admitted_def split: option.splits)

section \<open>The policy\<close>

text \<open>
  C27. The policy lets a base URL pass exactly when it parses, names a host, uses https (or http
  where the operator allows it), and its host equals, up to case, an entry of the allowlist; with
  an empty allowlist, the host of the hosted service is the only one.
\<close>

theorem validate_accepts_exactly:
  "Validate R p raw = None \<longleftrightarrow>
     (\<exists>u. url_parse raw = Some u \<and> host u \<noteq> [] \<and>
        (scheme u = ''https'' \<or> (scheme u = ''http'' \<and> AllowInsecure p)) \<and>
        (\<exists>a \<in> set (if AllowedHosts p = [] then [default_host] else AllowedHosts p). equal_fold R (host u) a))"
  unfolding Validate_none_iff url_admitted_def admitted_hosts_def by (rule refl)

end
