(* ===== verification/Reconcile.thy ===== *)
theory Reconcile
  imports Types Api_Url_Policy "HOL-Library.List_Lexorder" "HOL-Library.Char_ord"
begin

text \<open>
  One pass of the reconciler (\<open>controller/reconcile.go\<close>): find the credentials, fetch and
  decrypt the bundle, bring the dynamic leases up to date, write the target Secret, report a
  condition and the time of the next pass. \<open>reconciler\<close> is the receiver of the methods; the
  Kubernetes API and the fetcher in it are parameters of the model.
\<close>

section \<open>Constants and results\<close>

definition ConditionReady :: string where "ConditionReady = ''Ready''"
definition ReasonSynced :: string where "ReasonSynced = ''Synced''"
definition ReasonAuthSecret :: string where "ReasonAuthSecret = ''AuthSecretInvalid''"
definition ReasonFetchFailed :: string where "ReasonFetchFailed = ''FetchFailed''"
definition ReasonPermanentError :: string where "ReasonPermanentError = ''ConfigurationError''"
definition ReasonSecretWriteFail :: string where "ReasonSecretWriteFail = ''SecretWriteFailed''"

record ('w, 'm) reconciler =
  rc_kube :: "'w kube_api"
  rc_fetcher :: "('w, 'm) fetcher"
  rc_cluster :: cluster_credentials
  rc_apiurl :: api_url_policy
  rc_runtime :: go_runtime

record result =
  rs_requeueAfter :: duration
  rs_syncedKeys :: int
  rs_condition :: condition

text \<open>A condition as the reconciler builds it: the time and the generation are set later.\<close>

definition new_condition :: "string \<Rightarrow> string \<Rightarrow> string \<Rightarrow> condition" where
  "new_condition st reason message =
     \<lparr>cd_type = ConditionReady, cd_status = st, cd_observedGeneration = 0,
      cd_lastTransitionTime = zero_time, cd_reason = reason, cd_message = message\<rparr>"

definition failed :: "string \<Rightarrow> string \<Rightarrow> duration \<Rightarrow> int \<Rightarrow> result" where
  "failed reason message requeueAfter syncedKeys =
     \<lparr>rs_requeueAfter = requeueAfter, rs_syncedKeys = syncedKeys,
      rs_condition = new_condition ConditionFalse reason message\<rparr>"

definition shortBackoff :: "duration \<Rightarrow> duration" where
  "shortBackoff interval =
     (if interval div 4 < MinRefreshInterval then MinRefreshInterval else interval div 4)"

definition longBackoff :: "duration \<Rightarrow> duration" where
  "longBackoff interval = (if interval < 10 * minute then 10 * minute else interval)"

section \<open>Credentials\<close>

text \<open>What a credentials Secret says, once read.\<close>

definition secret_credentials ::
  "go_runtime \<Rightarrow> api_url_policy \<Rightarrow> string \<Rightarrow> secret \<Rightarrow> goerr + api_credentials" where
  "secret_credentials R p name sec =
     (let clientID = get_or_empty (s_data sec) ''clientId'';
          clientSecret = get_or_empty (s_data sec) ''clientSecret'';
          baseURL = get_or_empty (s_data sec) ''apiUrl''
      in if clientID = '''' \<or> clientSecret = '''' then
           Inl (Err (''credentials secret '' @ quote R name
                     @ '' must contain non-empty clientId and clientSecret keys''))
         else if baseURL = '''' then
           Inr \<lparr>cred_BaseURL = DefaultBaseURL, cred_ClientID = clientID, cred_ClientSecret = clientSecret\<rparr>
         else (case Validate R p baseURL of
             Some e \<Rightarrow> Inl (Wrap (''credentials secret '' @ quote R name @ '': '') e)
           | None \<Rightarrow>
               Inr \<lparr>cred_BaseURL = baseURL, cred_ClientID = clientID, cred_ClientSecret = clientSecret\<rparr>))"

definition credentialsFromSecret ::
  "('w, 'm) reconciler \<Rightarrow> string \<Rightarrow> string \<Rightarrow> ('w, 'm, goerr + api_credentials) io" where
  "credentialsFromSecret rc namespace name = do {
     got \<leftarrow> kube_get_secret (rc_kube rc) namespace name;
     State_Monad.return (case got of
         Inl e \<Rightarrow> Inl (Wrap (''reading credentials secret '' @ quote (rc_runtime rc) name @ '': '') e)
       | Inr sec \<Rightarrow> secret_credentials (rc_runtime rc) (rc_apiurl rc) name sec)
   }"

definition credentials :: "('w, 'm) reconciler \<Rightarrow> kryptic_secret \<Rightarrow> ('w, 'm, goerr + api_credentials) io" where
  "credentials rc cr =
     (let name = AuthSecretName (cr_spec cr)
      in if name \<noteq> '''' then credentialsFromSecret rc (cr_namespace cr) name
         else if Configured (rc_cluster rc) then
           (if \<not> AllowsNamespace (rc_cluster rc) (cr_namespace cr) then
              State_Monad.return (Inl (Err (''namespace '' @ quote (rc_runtime rc) (cr_namespace cr)
                @ '' may not use the operator'' @ [CHR 0x27] @ ''s cluster credentials: ''
                @ ''add it to KRYPTIC_CLUSTER_NAMESPACES on the operator, or set spec.auth'')))
            else State_Monad.return (Inr (Credentials (rc_cluster rc))))
         else State_Monad.return (Inl (Err
           (''spec.auth.secretRef.name is empty and the operator has no cluster credentials ''
            @ ''(set KRYPTIC_CLIENT_ID and KRYPTIC_CLIENT_SECRET, or add spec.auth)''))))"

section \<open>The target Secret\<close>

fun select_listed :: "Bundle \<Rightarrow> string list \<Rightarrow> (string \<rightharpoonup> string) \<Rightarrow> (string \<rightharpoonup> string)" where
  "select_listed b [] data = data"
| "select_listed b (key # keys) data =
     select_listed b keys (case b key of Some v \<Rightarrow> data(key \<mapsto> v) | None \<Rightarrow> data)"

definition selectKeys :: "Bundle \<Rightarrow> string list \<Rightarrow> (string \<rightharpoonup> string)" where
  "selectKeys b keys = (if keys = [] then b else select_listed b keys Map.empty)"

definition ownedByThisCR :: "secret \<Rightarrow> kryptic_secret \<Rightarrow> bool" where
  "ownedByThisCR sec cr \<longleftrightarrow> list_ex (\<lambda>ow. or_kind ow = Kind \<and> or_name ow = cr_name cr) (s_owners sec)"

definition mergeLabels :: "(string \<rightharpoonup> string) \<Rightarrow> (string \<rightharpoonup> string)" where
  "mergeLabels extra = [ManagedByLabel \<mapsto> ManagedByValue] ++ extra"

definition mergeInto :: "(string \<rightharpoonup> string) \<Rightarrow> (string \<rightharpoonup> string) \<Rightarrow> (string \<rightharpoonup> string)" where
  "mergeInto target source = target ++ source"

text \<open>\<open>json.Marshal\<close> writes the keys of a map in order.\<close>

definition lease_json :: "lease_map \<Rightarrow> json" where
  "lease_json ids = JObj (map (\<lambda>(k, v). (k, JStr v)) (sort_key fst ids))"

definition withLeaseIDs :: "(string \<rightharpoonup> string) \<Rightarrow> lease_map \<Rightarrow> (string \<rightharpoonup> string)" where
  "withLeaseIDs base leaseIDs =
     (if leaseIDs = [] then base(LeaseIDsAnnotation := None)
      else base(LeaseIDsAnnotation \<mapsto> json_encode (lease_json leaseIDs)))"

definition secretType :: "string \<Rightarrow> string" where
  "secretType raw = (if raw = '''' then ''Opaque'' else raw)"

definition cr_owner :: "kryptic_secret \<Rightarrow> owner_reference" where
  "cr_owner cr = \<lparr>or_apiVersion = APIVersion, or_kind = Kind, or_name = cr_name cr, or_uid = cr_uid cr,
                  or_controller = Some True, or_blockOwnerDeletion = Some True\<rparr>"

definition desired_secret :: "kryptic_secret \<Rightarrow> (string \<rightharpoonup> string) \<Rightarrow> lease_map \<Rightarrow> secret" where
  "desired_secret cr data leaseIDs =
     \<lparr>s_name = TargetSecretName cr, s_namespace = cr_namespace cr, s_version = '''',
      s_labels = mergeLabels (tp_labels (sp_template (cr_spec cr))),
      s_annotations = withLeaseIDs (tp_annotations (sp_template (cr_spec cr))) leaseIDs,
      s_owners = [cr_owner cr],
      s_type = secretType (tp_type (sp_template (cr_spec cr))),
      s_data = data\<rparr>"

definition updated_secret :: "secret \<Rightarrow> secret \<Rightarrow> secret" where
  "updated_secret existing desired = existing\<lparr>
     s_data := s_data desired, s_type := s_type desired,
     s_labels := mergeInto (s_labels existing) (s_labels desired),
     s_annotations := mergeInto (s_annotations existing) (s_annotations desired),
     s_owners := s_owners desired\<rparr>"

definition applySecret ::
  "('w, 'm) reconciler \<Rightarrow> kryptic_secret \<Rightarrow> (string \<rightharpoonup> string) \<Rightarrow> lease_map \<Rightarrow> ('w, 'm, goerr option) io" where
  "applySecret rc cr data leaseIDs = do {
     let name = TargetSecretName cr;
     let desired = desired_secret cr data leaseIDs;
     got \<leftarrow> kube_get_secret (rc_kube rc) (cr_namespace cr) name;
     case got of
       Inl e \<Rightarrow>
         if is_not_found e then do {
           created \<leftarrow> kube_create_secret (rc_kube rc) (cr_namespace cr) desired;
           State_Monad.return (case created of Inl e' \<Rightarrow> Some e' | Inr _ \<Rightarrow> None)
         }
         else State_Monad.return (Some e)
     | Inr existing \<Rightarrow>
         if \<not> ownedByThisCR existing cr then
           State_Monad.return (Some (Err (''secret '' @ quote (rc_runtime rc) name
             @ '' already exists and is not owned by this KrypticSecret'')))
         else do {
           updated \<leftarrow> kube_update_secret (rc_kube rc) (cr_namespace cr) (updated_secret existing desired);
           State_Monad.return (case updated of Inl e' \<Rightarrow> Some e' | Inr _ \<Rightarrow> None)
         }
   }"

section \<open>Lease ids\<close>

text \<open>The ids an annotation value holds; anything unreadable is no ids.\<close>

definition decode_lease_ids :: "string \<Rightarrow> lease_map" where
  "decode_lease_ids raw =
     (if raw = '''' then []
      else (case json_parse raw of None \<Rightarrow> []
            | Some j \<Rightarrow> (case decode_alist [] j of None \<Rightarrow> [] | Some m \<Rightarrow> m)))"

definition readLeaseIDs :: "('w, 'm) reconciler \<Rightarrow> kryptic_secret \<Rightarrow> ('w, 'm, lease_map) io" where
  "readLeaseIDs rc cr = do {
     got \<leftarrow> kube_get_secret (rc_kube rc) (cr_namespace cr) (TargetSecretName cr);
     State_Monad.return (case got of
         Inl _ \<Rightarrow> []
       | Inr sec \<Rightarrow> decode_lease_ids (get_or_empty (s_annotations sec) LeaseIDsAnnotation))
   }"

definition RevokeCRLeases :: "('w, 'm) reconciler \<Rightarrow> kryptic_secret \<Rightarrow> ('w, 'm, goerr + unit) io" where
  "RevokeCRLeases rc cr =
     (case dynamic (rc_fetcher rc) of
        None \<Rightarrow> State_Monad.return (Inr ())
      | Some dyn \<Rightarrow> do {
          ids \<leftarrow> readLeaseIDs rc cr;
          if ids = [] then State_Monad.return (Inr ())
          else do {
            creds \<leftarrow> credentials rc cr;
            case creds of
              Inl e \<Rightarrow> State_Monad.return (Inl e)
            | Inr c \<Rightarrow> RevokeLeases dyn c (map snd (map_order (rc_runtime rc) ids))
          }
        })"

section \<open>The pass\<close>

definition fetch_failure :: "duration \<Rightarrow> int \<Rightarrow> (int \<Rightarrow> string) \<Rightarrow> goerr \<Rightarrow> result" where
  "fetch_failure interval syncedKeys permanentText e =
     (case as_api_error e of
        Some st \<Rightarrow>
          if permanent st then failed ReasonPermanentError (permanentText st) (longBackoff interval) syncedKeys
          else failed ReasonFetchFailed (err_text e) (shortBackoff interval) syncedKeys
      | None \<Rightarrow> failed ReasonFetchFailed (err_text e) (shortBackoff interval) syncedKeys)"

definition synced :: "go_runtime \<Rightarrow> kryptic_secret \<Rightarrow> duration \<Rightarrow> (string \<rightharpoonup> string) \<Rightarrow> result" where
  "synced R cr interval data =
     \<lparr>rs_requeueAfter = interval, rs_syncedKeys = int (card (dom data)),
      rs_condition = new_condition ConditionTrue ReasonSynced
        (''Synced '' @ itoa (int (card (dom data))) @ '' key(s) into secret '' @ quote R (TargetSecretName cr))\<rparr>"

text \<open>The last phase: write what was fetched.\<close>

definition finish_pass ::
  "('w, 'm) reconciler \<Rightarrow> kryptic_secret \<Rightarrow> duration \<Rightarrow> Bundle \<Rightarrow> lease_map \<Rightarrow> ('w, 'm, result) io" where
  "finish_pass rc cr interval b leaseIDs = do {
     let data = selectKeys b (sp_keys (cr_spec cr));
     applied \<leftarrow> applySecret rc cr data leaseIDs;
     State_Monad.return (case applied of
         Some e \<Rightarrow> failed ReasonSecretWriteFail (err_text e) (shortBackoff interval)
                     (st_syncedKeyCount (cr_status cr))
       | None \<Rightarrow> synced (rc_runtime rc) cr interval data)
   }"

definition Reconcile :: "('w, 'm) reconciler \<Rightarrow> kryptic_secret \<Rightarrow> ('w, 'm, result) io" where
  "Reconcile rc cr = do {
     let interval = RefreshIntervalOrDefault (rc_runtime rc) (cr_spec cr);
     let kept = st_syncedKeyCount (cr_status cr);
     let projectID = sp_projectID (cr_spec cr);
     let environment = sp_environment (cr_spec cr);
     creds \<leftarrow> credentials rc cr;
     case creds of
       Inl e \<Rightarrow> State_Monad.return (failed ReasonAuthSecret (err_text e) interval kept)
     | Inr c \<Rightarrow> do {
         fetched \<leftarrow> Fetch (rc_fetcher rc) c projectID environment;
         case fetched of
           Inl e \<Rightarrow> State_Monad.return (fetch_failure interval kept api_error_text e)
         | Inr b \<Rightarrow> do {
             leaseIDs \<leftarrow> readLeaseIDs rc cr;
             case dynamic (rc_fetcher rc) of
               None \<Rightarrow> finish_pass rc cr interval b leaseIDs
             | Some dyn \<Rightarrow> do {
                 got \<leftarrow> SyncDynamic dyn c projectID environment leaseIDs;
                 case got of
                   Inl e \<Rightarrow> State_Monad.return (fetch_failure interval kept (\<lambda>_. err_text e) e)
                 | Inr x \<Rightarrow> (case x of (extra, next_ids) \<Rightarrow> finish_pass rc cr interval (b ++ extra) next_ids)
               }
           }
       }
   }"

text \<open>\<open>SortedKeys\<close>: a Secret's keys in order.\<close>

definition SortedKeys :: "(string \<rightharpoonup> string) \<Rightarrow> string list" where
  "SortedKeys data = sorted_list_of_set (dom data)"

section \<open>Facts about the pure parts\<close>

lemma select_listed_eq: "select_listed b keys data = data ++ (b |` set keys)"
proof (induction keys arbitrary: data)
  case (Cons key keys)
  then show ?case
    by (auto simp: map_add_def restrict_map_def fun_eq_iff split: option.splits)
qed (simp add: map_add_def restrict_map_def)

lemma selectKeys_eq: "selectKeys b keys = (if keys = [] then b else b |` set keys)"
  by (simp add: selectKeys_def select_listed_eq)

lemma backoff_bounds:
  "MinRefreshInterval \<le> shortBackoff i" "10 * minute \<le> longBackoff i" "i \<le> longBackoff i"
  by (simp_all add: shortBackoff_def longBackoff_def)

lemma shortBackoff_le: "MinRefreshInterval \<le> i \<Longrightarrow> shortBackoff i \<le> i"
  using MinRefreshInterval_pos unfolding shortBackoff_def by presburger

lemma longBackoff_bound: "representable i \<Longrightarrow> representable (longBackoff i)"
  by (simp add: longBackoff_def representable_def minute_def second_def)

lemma long_floor: "MinRefreshInterval \<le> longBackoff i"
  using backoff_bounds(2) [of i] by (simp add: MinRefreshInterval_def minute_def second_def)

lemma failed_simps [simp]:
  "rs_requeueAfter (failed re m q k) = q"
  "rs_syncedKeys (failed re m q k) = k"
  "rs_condition (failed re m q k) = new_condition ConditionFalse re m"
  by (simp_all add: failed_def)

lemma new_condition_simps [simp]:
  "cd_status (new_condition st re m) = st"
  "cd_reason (new_condition st re m) = re"
  "cd_message (new_condition st re m) = m"
  "cd_type (new_condition st re m) = ConditionReady"
  by (simp_all add: new_condition_def)

lemma synced_simps [simp]:
  "rs_requeueAfter (synced R cr i data) = i"
  "rs_syncedKeys (synced R cr i data) = int (card (dom data))"
  "cd_status (rs_condition (synced R cr i data)) = ConditionTrue"
  "cd_type (rs_condition (synced R cr i data)) = ConditionReady"
  "cd_reason (rs_condition (synced R cr i data)) = ReasonSynced"
  by (simp_all add: synced_def)

lemma condition_status_distinct [simp]:
  "ConditionTrue \<noteq> ConditionFalse" "ConditionFalse \<noteq> ConditionTrue"
  by (simp_all add: ConditionTrue_def ConditionFalse_def)

lemma fetch_failure_simps [simp]:
  "cd_status (rs_condition (fetch_failure i k t e)) = ConditionFalse"
  "cd_type (rs_condition (fetch_failure i k t e)) = ConditionReady"
  "rs_syncedKeys (fetch_failure i k t e) = k"
  "rs_requeueAfter (fetch_failure i k t e) = (if is_permanent e then longBackoff i else shortBackoff i)"
  "cd_reason (rs_condition (fetch_failure i k t e))
     = (if is_permanent e then ReasonPermanentError else ReasonFetchFailed)"
  by (auto simp: fetch_failure_def is_permanent_def split: option.splits)

lemma mergeLabels_managed:
  "extra ManagedByLabel = None \<Longrightarrow> mergeLabels extra ManagedByLabel = Some ManagedByValue"
  by (simp add: mergeLabels_def map_add_def)

lemma updated_secret_simps [simp]:
  "s_data (updated_secret ex d) = s_data d"
  "s_type (updated_secret ex d) = s_type d"
  "s_owners (updated_secret ex d) = s_owners d"
  "s_name (updated_secret ex d) = s_name ex"
  "s_namespace (updated_secret ex d) = s_namespace ex"
  "s_version (updated_secret ex d) = s_version ex"
  "s_labels (updated_secret ex d) = s_labels ex ++ s_labels d"
  "s_annotations (updated_secret ex d) = s_annotations ex ++ s_annotations d"
  by (simp_all add: updated_secret_def mergeInto_def)

lemma desired_secret_simps [simp]:
  "s_data (desired_secret cr data ids) = data"
  "s_owners (desired_secret cr data ids) = [cr_owner cr]"
  "s_name (desired_secret cr data ids) = TargetSecretName cr"
  "s_namespace (desired_secret cr data ids) = cr_namespace cr"
  by (simp_all add: desired_secret_def)

lemma owned_cr_owner: "cr_owner cr \<in> set (s_owners sec) \<Longrightarrow> ownedByThisCR sec cr"
  unfolding ownedByThisCR_def list_ex_iff by (erule bexI [rotated]) (simp add: cr_owner_def)

section \<open>What writing the Secret may do\<close>

text \<open>
  The specification of \<open>applySecret\<close>: one look at the Secret, then at most one write, which
  creates a missing Secret or replaces the data of one the resource owns. \<open>answer_error\<close> is
  the error of a write.
\<close>

definition answer_error :: "goerr + secret \<Rightarrow> goerr option" where
  "answer_error a = (case a of Inl e \<Rightarrow> Some e | Inr _ \<Rightarrow> None)"

lemma answer_error_simps [simp]: "answer_error (Inl e) = Some e" "answer_error (Inr x) = None"
  by (simp_all add: answer_error_def)

inductive apply_outcome ::
  "kryptic_secret \<Rightarrow> (string \<rightharpoonup> string) \<Rightarrow> lease_map \<Rightarrow> event list \<Rightarrow> goerr option \<Rightarrow> bool"
  for cr data ids where
  created: "is_not_found e \<Longrightarrow> apply_outcome cr data ids
     [Kube (GetSecret (cr_namespace cr) (TargetSecretName cr) (Inl e)),
      Kube (CreateSecret (cr_namespace cr) (desired_secret cr data ids) ans)] (answer_error ans)"
| unreadable: "\<not> is_not_found e \<Longrightarrow> apply_outcome cr data ids
     [Kube (GetSecret (cr_namespace cr) (TargetSecretName cr) (Inl e))] (Some e)"
| foreign: "\<not> ownedByThisCR ex cr \<Longrightarrow> apply_outcome cr data ids
     [Kube (GetSecret (cr_namespace cr) (TargetSecretName cr) (Inr ex))] (Some e)"
| updated: "ownedByThisCR ex cr \<Longrightarrow> apply_outcome cr data ids
     [Kube (GetSecret (cr_namespace cr) (TargetSecretName cr) (Inr ex)),
      Kube (UpdateSecret (cr_namespace cr) (updated_secret ex (desired_secret cr data ids)) ans)]
     (answer_error ans)"

inductive_cases apply_outcome_elim: "apply_outcome cr data ids es r"

lemma applySecret_outcome:
  "wp (applySecret rc cr data ids) s
     (\<lambda>r s'. \<exists>es. trace s' = trace s @ es \<and> apply_outcome cr data ids es r)"
  unfolding applySecret_def call_defs
  by (auto simp: wp_rules Let_def answer_error_def [symmetric]
      split: prod.splits sum.splits intro: apply_outcome.intros)

text \<open>What the specification implies.\<close>

definition accepted_write :: "event \<Rightarrow> bool" where
  "accepted_write e = (case e of
       Kube (CreateSecret _ _ a) \<Rightarrow> (case a of Inl _ \<Rightarrow> False | Inr _ \<Rightarrow> True)
     | Kube (UpdateSecret _ _ a) \<Rightarrow> (case a of Inl _ \<Rightarrow> False | Inr _ \<Rightarrow> True)
     | _ \<Rightarrow> False)"

lemma accepted_write_simps [simp]:
  "accepted_write (Kube (CreateSecret ns sec a)) \<longleftrightarrow> answer_error a = None"
  "accepted_write (Kube (UpdateSecret ns sec a)) \<longleftrightarrow> answer_error a = None"
  "\<not> accepted_write (Kube (GetSecret ns n g))"
  "\<not> accepted_write (Net e)"
  "\<not> accepted_write (Target t)"
  by (auto simp: accepted_write_def answer_error_def split: sum.splits)

lemma accepted_is_write: "accepted_write e \<Longrightarrow> secret_write e"
  by (cases e; cases "case e of Kube k \<Rightarrow> k | _ \<Rightarrow> undefined") (auto simp: accepted_write_def)

lemma apply_outcome_writes:
  assumes "apply_outcome cr data ids es r"
  shows "length (filter secret_write es) \<le> 1"
    and "length (filter accepted_write es) = (if r = None then 1 else 0)"
  using assms by (cases; simp)+

text \<open>The Secret a write stores.\<close>

fun stored_secret :: "event \<Rightarrow> (string \<times> secret) option" where
  "stored_secret (Kube (CreateSecret ns sec _)) = Some (ns, sec)"
| "stored_secret (Kube (UpdateSecret ns sec _)) = Some (ns, sec)"
| "stored_secret _ = None"

lemma apply_outcome_stored:
  assumes "apply_outcome cr data ids es r" and "e \<in> set es" and "stored_secret e = Some (ns, sec)"
  shows "ns = cr_namespace cr" "s_data sec = data" "s_owners sec = [cr_owner cr]"
    "s_type sec = secretType (tp_type (sp_template (cr_spec cr)))"
  using assms by (auto elim!: apply_outcome_elim simp: desired_secret_def)

section \<open>Credentials\<close>

definition auth_lookup :: "kryptic_secret \<Rightarrow> event \<Rightarrow> bool" where
  "auth_lookup cr e \<longleftrightarrow> (\<exists>got. e = Kube (GetSecret (cr_namespace cr) (AuthSecretName (cr_spec cr)) got))"

lemma credentials_emits [emits_rules]: "emits (auth_lookup cr) (credentials rc cr)"
  unfolding credentials_def credentialsFromSecret_def Let_def
  by (intro emits_rules) (auto simp: auth_lookup_def)

lemma auth_lookup_quiet: "auth_lookup cr e \<Longrightarrow> \<not> secret_write e"
  by (auto simp: auth_lookup_def)

lemma credentials_quiet [emits_rules]: "emits (\<lambda>e. \<not> secret_write e) (credentials rc cr)"
  by (rule emits_mono [OF credentials_emits auth_lookup_quiet])

lemma readLeaseIDs_quiet [emits_rules]: "emits (\<lambda>e. \<not> secret_write e) (readLeaseIDs rc cr)"
  unfolding readLeaseIDs_def by (intro emits_rules) simp_all

text \<open>A credentials Secret yields its own two values, and a base URL that is the hosted one or passes the policy.\<close>

lemma secret_credentials_cases:
  "secret_credentials R p name sec = Inr c \<longleftrightarrow>
     cred_ClientID c = get_or_empty (s_data sec) ''clientId'' \<and> cred_ClientID c \<noteq> '''' \<and>
     cred_ClientSecret c = get_or_empty (s_data sec) ''clientSecret'' \<and> cred_ClientSecret c \<noteq> '''' \<and>
     (if get_or_empty (s_data sec) ''apiUrl'' = '''' then cred_BaseURL c = DefaultBaseURL
      else cred_BaseURL c = get_or_empty (s_data sec) ''apiUrl'' \<and> Validate R p (cred_BaseURL c) = None)"
  by (cases c) (auto simp: secret_credentials_def Let_def split: option.splits)

text \<open>Where the credentials of a resource come from.\<close>

definition credentials_from :: "('w, 'm) reconciler \<Rightarrow> kryptic_secret \<Rightarrow> event list \<Rightarrow> goerr + api_credentials \<Rightarrow> bool" where
  "credentials_from rc cr es r \<longleftrightarrow>
     (if AuthSecretName (cr_spec cr) \<noteq> '''' then
        (\<exists>got. es = [Kube (GetSecret (cr_namespace cr) (AuthSecretName (cr_spec cr)) got)] \<and>
          r = (case got of
                 Inl e \<Rightarrow> Inl (Wrap (''reading credentials secret ''
                            @ quote (rc_runtime rc) (AuthSecretName (cr_spec cr)) @ '': '') e)
               | Inr sec \<Rightarrow> secret_credentials (rc_runtime rc) (rc_apiurl rc) (AuthSecretName (cr_spec cr)) sec))
      else es = [] \<and>
        (if Configured (rc_cluster rc) \<and> AllowsNamespace (rc_cluster rc) (cr_namespace cr)
         then r = Inr (Credentials (rc_cluster rc))
         else isl r))"

lemma credentials_source:
  "wp (credentials rc cr) s (\<lambda>r s'. \<exists>es. trace s' = trace s @ es \<and> credentials_from rc cr es r)"
  unfolding credentials_def credentialsFromSecret_def credentials_from_def call_defs
  by (auto simp: wp_rules Let_def split: prod.splits sum.splits)

lemma credentials_from_named:
  assumes "credentials_from rc cr es (Inr c)" and "AuthSecretName (cr_spec cr) \<noteq> []"
  obtains sec where
    "es = [Kube (GetSecret (cr_namespace cr) (AuthSecretName (cr_spec cr)) (Inr sec))]"
    "secret_credentials (rc_runtime rc) (rc_apiurl rc) (AuthSecretName (cr_spec cr)) sec = Inr c"
proof -
  from assms obtain got where
    "es = [Kube (GetSecret (cr_namespace cr) (AuthSecretName (cr_spec cr)) got)]"
    "Inr c = (case got of
       Inl e \<Rightarrow> Inl (Wrap (''reading credentials secret ''
                  @ quote (rc_runtime rc) (AuthSecretName (cr_spec cr)) @ '': '') e)
     | Inr sec \<Rightarrow> secret_credentials (rc_runtime rc) (rc_apiurl rc) (AuthSecretName (cr_spec cr)) sec)"
    unfolding credentials_from_def by auto
  then show thesis using that by (cases got) auto
qed

section \<open>What a pass may do\<close>

abbreviation quiet :: "event list \<Rightarrow> bool" where
  "quiet \<equiv> list_all (\<lambda>e. \<not> secret_write e)"

text \<open>
  The specification of \<open>Reconcile\<close>: it stops before it has written anything, or it ends with
  \<open>applySecret\<close> and reports what that did.
\<close>

definition finish_result ::
  "go_runtime \<Rightarrow> kryptic_secret \<Rightarrow> (string \<rightharpoonup> string) \<Rightarrow> goerr option \<Rightarrow> result" where
  "finish_result R cr data applied =
     (let interval = RefreshIntervalOrDefault R (cr_spec cr) in
      case applied of
        Some e \<Rightarrow> failed ReasonSecretWriteFail (err_text e) (shortBackoff interval)
                    (st_syncedKeyCount (cr_status cr))
      | None \<Rightarrow> synced R cr interval data)"

inductive pass_outcome :: "go_runtime \<Rightarrow> kryptic_secret \<Rightarrow> event list \<Rightarrow> result \<Rightarrow> bool"
  for R cr where
  stopped: "quiet es \<Longrightarrow> MinRefreshInterval \<le> q \<Longrightarrow> representable q \<Longrightarrow>
     pass_outcome R cr es (failed reason m q (st_syncedKeyCount (cr_status cr)))"
| finished: "quiet pre \<Longrightarrow> apply_outcome cr (selectKeys b (sp_keys (cr_spec cr))) ids es applied \<Longrightarrow>
     pass_outcome R cr (pre @ es) (finish_result R cr (selectKeys b (sp_keys (cr_spec cr))) applied)"

inductive_cases pass_outcome_elim: "pass_outcome R cr es r"

lemma shortBackoff_bound: "representable i \<Longrightarrow> representable (shortBackoff i)"
  using representable_floor unfolding shortBackoff_def representable_def by presburger

lemma fetch_failure_failed:
  assumes "representable i"
  obtains reason m q where "fetch_failure i k t e = failed reason m q k"
    and "MinRefreshInterval \<le> q" and "representable q"
proof (cases "is_permanent e")
  case True
  with assms show ?thesis
    by (intro that [of ReasonPermanentError "t (the (as_api_error e))" "longBackoff i"])
      (auto simp: fetch_failure_def is_permanent_def long_floor longBackoff_bound split: option.splits)
next
  case False
  with assms show ?thesis
    by (intro that [of ReasonFetchFailed "err_text e" "shortBackoff i"])
      (auto simp: fetch_failure_def is_permanent_def backoff_bounds shortBackoff_bound split: option.splits)
qed

lemma fetch_failure_stopped:
  "quiet es \<Longrightarrow> pass_outcome R cr es
     (fetch_failure (RefreshIntervalOrDefault R (cr_spec cr)) (st_syncedKeyCount (cr_status cr)) t e)"
  using fetch_failure_failed [OF RefreshIntervalOrDefault_bound, of R "cr_spec cr" "st_syncedKeyCount (cr_status cr)" t e]
  by (metis pass_outcome.stopped)

lemma finish_pass_outcome:
  assumes "trace s = t0 @ pre" and "quiet pre"
  shows "wp (finish_pass rc cr (RefreshIntervalOrDefault (rc_runtime rc) (cr_spec cr)) b ids) s
     (\<lambda>r s'. \<exists>es. trace s' = t0 @ es \<and> pass_outcome (rc_runtime rc) cr es r)"
  unfolding finish_pass_def Let_def wp_rules
proof (rule wp_mono [OF applySecret_outcome], elim exE conjE)
  fix applied s' es
  assume t: "trace s' = trace s @ es"
    and o: "apply_outcome cr (selectKeys b (sp_keys (cr_spec cr))) ids es applied"
  show "\<exists>es. trace s' = t0 @ es \<and> pass_outcome (rc_runtime rc) cr es
      (case applied of
         None \<Rightarrow> synced (rc_runtime rc) cr (RefreshIntervalOrDefault (rc_runtime rc) (cr_spec cr))
                   (selectKeys b (sp_keys (cr_spec cr)))
       | Some e \<Rightarrow> failed ReasonSecretWriteFail (err_text e)
           (shortBackoff (RefreshIntervalOrDefault (rc_runtime rc) (cr_spec cr)))
           (st_syncedKeyCount (cr_status cr)))"
    using pass_outcome.finished [OF assms(2) o, of "rc_runtime rc"] t assms(1)
    by (intro exI [of _ "pre @ es"]) (simp add: finish_result_def Let_def)
qed

text \<open>
  The interface: a fetcher may talk to whatever it likes, but not to the Kubernetes API. The
  reconciler's guarantees hold for every such fetcher.
\<close>

locale off_cluster_fetcher =
  fixes F :: "('w, 'm) fetcher"
  assumes fetch_off: "emits off_cluster (Fetch F c p env)"
    and sync_off: "dynamic F = Some d \<Longrightarrow> emits off_cluster (SyncDynamic d c p env ids)"
    and revoke_off: "dynamic F = Some d \<Longrightarrow> emits off_cluster (RevokeLeases d c list)"
begin

lemma fetch_quiet: "emits (\<lambda>e. \<not> secret_write e) (Fetch F c p env)"
  by (rule emits_mono [OF fetch_off off_cluster_no_write])

lemma sync_quiet: "dynamic F = Some d \<Longrightarrow> emits (\<lambda>e. \<not> secret_write e) (SyncDynamic d c p env ids)"
  by (rule emits_mono [OF sync_off off_cluster_no_write])

lemma pass:
  assumes F: "rc_fetcher rc = F"
  shows "wp (Reconcile rc cr) s (\<lambda>r s'. \<exists>es. trace s' = trace s @ es \<and> pass_outcome (rc_runtime rc) cr es r)"
  unfolding Reconcile_def Let_def F wp_rules
proof (rule wp_emits [OF credentials_quiet], goal_cases)
  case (1 creds s1 e1)
  show ?case
  proof (cases creds)
    case (Inl e)
    with 1 show ?thesis
      by (auto simp: wp_rules RefreshIntervalOrDefault_floor RefreshIntervalOrDefault_bound
          intro!: pass_outcome.stopped)
  next
    case (Inr c)
    show ?thesis unfolding Inr sum.case wp_rules
    proof (rule wp_emits [OF fetch_quiet], goal_cases)
      case (1 fetched s2 e2)
      with \<open>trace s1 = _\<close> \<open>quiet e1\<close> have t2: "trace s2 = trace s @ (e1 @ e2)" "quiet (e1 @ e2)"
        by simp_all
      show ?case
      proof (cases fetched)
        case (Inl e)
        with t2 show ?thesis by (auto simp: wp_rules intro!: fetch_failure_stopped)
      next
        case (Inr b)
        show ?thesis unfolding Inr sum.case wp_rules
        proof (rule wp_emits [OF readLeaseIDs_quiet], goal_cases)
          case (1 ids s3 e3)
          with t2 have t3: "trace s3 = trace s @ (e1 @ e2 @ e3)" "quiet (e1 @ e2 @ e3)"
            by simp_all
          show ?case
          proof (cases "dynamic F")
            case None
            with finish_pass_outcome [OF t3] show ?thesis by simp
          next
            case (Some d)
            show ?thesis unfolding Some option.case wp_rules
            proof (rule wp_emits [OF sync_quiet [OF Some]], goal_cases)
              case (1 got s4 e4)
              with t3 have t4: "trace s4 = trace s @ (e1 @ e2 @ e3 @ e4)" "quiet (e1 @ e2 @ e3 @ e4)"
                by simp_all
              show ?case
              proof (cases got)
                case (Inl e)
                with t4 show ?thesis by (auto simp: wp_rules intro!: fetch_failure_stopped)
              next
                case (Inr x)
                with finish_pass_outcome [OF t4] show ?thesis by (cases x) simp
              qed
            qed
          qed
        qed
      qed
    qed
  qed
qed

end

section \<open>Consequences of the specification of a pass\<close>

lemma finish_result_simps [simp]:
  "cd_status (rs_condition (finish_result R cr data applied))
     = (if applied = None then ConditionTrue else ConditionFalse)"
  "rs_syncedKeys (finish_result R cr data applied)
     = (if applied = None then int (card (dom data)) else st_syncedKeyCount (cr_status cr))"
  by (auto simp: finish_result_def Let_def split: option.splits)

lemma quiet_no_write: "quiet es \<Longrightarrow> filter secret_write es = []" "quiet es \<Longrightarrow> filter accepted_write es = []"
  using accepted_is_write by (auto simp: filter_empty_conv list_all_iff)

lemma pass_outcome_writes:
  assumes "pass_outcome R cr es r"
  shows "length (filter secret_write es) \<le> 1 \<and>
     length (filter accepted_write es) = (if cd_status (rs_condition r) = ConditionTrue then 1 else 0)"
  using assms
proof cases
  case (stopped q reason m)
  then show ?thesis by (simp add: quiet_no_write)
next
  case (finished pre b ids es' applied)
  then show ?thesis using apply_outcome_writes [OF finished(4)] by (simp add: quiet_no_write)
qed

section \<open>Credentials, exactly\<close>

text \<open>
  C17. Credentials: a resource that names a credentials Secret uses that Secret or none, and its
  base URL is the hosted one or has passed the policy; the operator's own identity serves only a
  resource that names no Secret, and only in an allowed namespace. Reading the named Secret is all
  that is asked of the API.
\<close>

theorem credentials_precedence:
  "wp (credentials rc cr) s (\<lambda>r s'.
     if AuthSecretName (cr_spec cr) \<noteq> []
     then (\<exists>got. trace s' = trace s @ [Kube (GetSecret (cr_namespace cr) (AuthSecretName (cr_spec cr)) got)] \<and>
       (case r of Inl _ \<Rightarrow> True | Inr c \<Rightarrow>
          (case got of Inl _ \<Rightarrow> False | Inr sec \<Rightarrow>
             cred_ClientID c = get_or_empty (s_data sec) ''clientId'' \<and> cred_ClientID c \<noteq> [] \<and>
             cred_ClientSecret c = get_or_empty (s_data sec) ''clientSecret'' \<and> cred_ClientSecret c \<noteq> [] \<and>
             (cred_BaseURL c = DefaultBaseURL \<or> Validate (rc_runtime rc) (rc_apiurl rc) (cred_BaseURL c) = None))))
     else trace s' = trace s \<and>
       (if Configured (rc_cluster rc) \<and> AllowsNamespace (rc_cluster rc) (cr_namespace cr)
        then r = Inr (Credentials (rc_cluster rc)) else isl r))"
proof (rule wp_mono [OF credentials_source], elim exE conjE, goal_cases)
  case (1 r s' es)
  show ?case
  proof (cases "AuthSecretName (cr_spec cr) = []")
    case True
    with 1 show ?thesis by (simp add: credentials_from_def)
  next
    case named: False
    show ?thesis
    proof (cases r)
      case (Inl e)
      with 1 named show ?thesis by (auto simp: credentials_from_def)
    next
      case (Inr c)
      with 1 named obtain sec where
        "es = [Kube (GetSecret (cr_namespace cr) (AuthSecretName (cr_spec cr)) (Inr sec))]"
        "secret_credentials (rc_runtime rc) (rc_apiurl rc) (AuthSecretName (cr_spec cr)) sec = Inr c"
        by (auto elim: credentials_from_named)
      with 1(1) named Inr show ?thesis by (auto simp: secret_credentials_cases split: if_splits)
    qed
  qed
qed

end
