(* ===== verification/Wire.thy ===== *)
theory Wire
  imports Leases Reconcile
begin

text \<open>
  What the client puts on the wire, whatever the outside world answers: every request it makes
  has one of three shapes, goes to the base URL of the credentials, and carries the client
  secret in no form but the derived one. From this follows the contract the reconciler asks of
  its fetcher.
\<close>

section \<open>The shapes of requests\<close>

definition known_payload :: "json \<Rightarrow> bool" where
  "known_payload j \<longleftrightarrow> j = JObj [] \<or> (\<exists>c. j = completion_json c)"

inductive api_request :: "'w env \<Rightarrow> api_credentials \<Rightarrow> http_request \<Rightarrow> bool" for X creds where
  token_request: "machine_auth_secret (en_crypto X) (cred_ClientSecret creds) = Inr auth \<Longrightarrow>
    api_request X creds \<lparr>req_method = POST, req_url = base_url creds @ ''/api/token'',
      req_headers = [(''Content-Type'', ''application/json'')],
      req_body = token_payload (cred_ClientID creds) auth\<rparr>"
| read_request: "prefix ''/api/'' p \<Longrightarrow>
    api_request X creds \<lparr>req_method = GET, req_url = base_url creds @ p,
      req_headers = [(''Authorization'', bearer tok)], req_body = ''''\<rparr>"
| write_request: "prefix ''/api/dynamic-secrets/'' p \<Longrightarrow> known_payload j \<Longrightarrow>
    api_request X creds \<lparr>req_method = POST, req_url = base_url creds @ p,
      req_headers = [(''Authorization'', bearer tok), (''Content-Type'', ''application/json'')],
      req_body = json_encode j\<rparr>"

inductive_cases api_request_elim: "api_request X creds q"

definition api_event :: "'w env \<Rightarrow> api_credentials \<Rightarrow> event \<Rightarrow> bool" where
  "api_event X creds e \<longleftrightarrow> (case e of
       Kube _ \<Rightarrow> False
     | Control _ \<Rightarrow> False
     | Target _ \<Rightarrow> True
     | Net n \<Rightarrow> (case n of HttpDo q _ \<Rightarrow> api_request X creds q \<and> url_parse (req_url q) \<noteq> None | _ \<Rightarrow> True))"

lemma api_event_simps [simp]:
  "\<not> api_event X creds (Kube k)"
  "\<not> api_event X creds (Control c)"
  "api_event X creds (Target t)"
  "api_event X creds (Net (ClockNow now))"
  "api_event X creds (Net (LogFailure p st b))"
  "api_event X creds (Net (HttpDo q r)) \<longleftrightarrow> api_request X creds q \<and> url_parse (req_url q) \<noteq> None"
  by (simp_all add: api_event_def)

lemma api_event_off_cluster: "api_event X creds e \<Longrightarrow> off_cluster e"
  by (cases e) simp_all

lemma new_request_cases:
  "new_request R m u b = Inr q \<Longrightarrow> q = \<lparr>req_method = m, req_url = u, req_headers = [], req_body = b\<rparr> \<and> url_parse u \<noteq> None"
  by (auto simp: new_request_def split: if_splits)

section \<open>The operations of the client\<close>

lemma refused_emits [emits_rules]: "emits (api_event X creds) (refused creds' path r)"
  unfolding refused_def invalidate_def logFailure_def by (intro emits_rules) simp_all

lemma get_emits [emits_rules]:
  "prefix ''/api/'' path \<Longrightarrow> emits (api_event X creds) (get X creds tok path what dec zero)"
  unfolding get_def
  by (cases "new_request (en_runtime X) GET (base_url creds @ path) ''''")
    (auto intro!: emits_rules read_request dest!: new_request_cases simp: set_header_def)

lemma request_token_emits [emits_rules]:
  "machine_auth_secret (en_crypto X) (cred_ClientSecret creds) = Inr auth \<Longrightarrow>
   emits (api_event X creds) (request_token X creds auth)"
  unfolding request_token_def logFailure_def
  by (cases "new_request (en_runtime X) POST (base_url creds @ ''/api/token'')
        (token_payload (cred_ClientID creds) auth)")
    (auto intro!: emits_rules token_request dest!: new_request_cases simp: set_header_def)

lemma token_emits [emits_rules]: "emits (api_event X creds) (token X creds)"
proof -
  have new: "emits (api_event X creds) (new_token X creds)"
    unfolding new_token_def
    by (cases "machine_auth_secret (en_crypto X) (cred_ClientSecret creds)") (auto intro!: emits_rules)
  show ?thesis unfolding token_def by (intro emits_rules new) simp
qed

lemma openOrgKey_emits [emits_rules]: "emits P (openOrgKey X creds keys wrapped)"
  unfolding openOrgKey_def deriveUnwrapKey_def by (intro emits_rules) simp

lemma decrypt_emits [emits_rules]: "emits P (decrypt X creds keys cb)"
  unfolding decrypt_def by (intro emits_rules)

lemma client_fetch_emits: "emits (api_event X creds) (client_fetch X creds p env)"
  unfolding client_fetch_def fetch_path_def by (intro emits_rules) simp_all

lemma do_request_emits [emits_rules]:
  assumes "prefix ''/api/dynamic-secrets/'' path \<or> (meth = GET \<and> prefix ''/api/'' path)"
    and "case payload of None \<Rightarrow> meth = GET | Some j \<Rightarrow> known_payload j \<and> meth = POST"
  shows "emits (api_event X creds) (do_request X creds tok meth path payload)"
proof -
  have p: "prefix ''/api/'' path"
    using assms(1) prefix_order.trans [of "''/api/''" "''/api/dynamic-secrets/''" path] by auto
  show ?thesis
    unfolding do_request_def Let_def
    using assms p
    by (cases payload; cases meth)
      (auto intro!: emits_rules read_request write_request dest!: new_request_cases
        simp: set_header_def split: sum.splits)
qed

lemma do_ignore_emits [emits_rules]:
  "prefix ''/api/dynamic-secrets/'' path \<Longrightarrow> known_payload j \<Longrightarrow>
   emits (api_event X creds) (do_ignore X creds tok POST path (Some j))"
  unfolding do_ignore_def by (intro emits_rules) simp_all

lemma do_decode_get_emits [emits_rules]:
  "prefix ''/api/'' path \<Longrightarrow>
   emits (api_event X creds) (do_decode X creds tok GET path None what dec zero)"
  unfolding do_decode_def by (intro emits_rules) simp_all

lemma do_decode_post_emits [emits_rules]:
  "prefix ''/api/dynamic-secrets/'' path \<Longrightarrow> known_payload j \<Longrightarrow>
   emits (api_event X creds) (do_decode X creds tok POST path (Some j) what dec zero)"
  unfolding do_decode_def by (intro emits_rules) simp_all

lemma known_payload_simps [simp]: "known_payload (JObj [])" "known_payload (completion_json c)"
  by (auto simp: known_payload_def)

lemma lease_path_prefix [simp]: "prefix ''/api/dynamic-secrets/'' (lease_path i part)"
  by (simp add: lease_path_def)

lemma lease_path_api [simp]: "prefix ''/api/'' (lease_path i part)"
  by (simp add: lease_path_def)

lemma keys_emits [emits_rules]: "emits (api_event X creds) (client_machineKeys X creds tok)"
  unfolding client_machineKeys_def by (intro emits_rules) simp

lemma bundleAndKeys_emits [emits_rules]:
  "emits (api_event X creds) (bundleAndKeys X creds tok p env)"
  unfolding bundleAndKeys_def bundle_path_def by (intro emits_rules) simp_all

lemma get_batch_emits [emits_rules]:
  "prefix ''/api/'' path \<Longrightarrow> emits (api_event X creds) (get_batch X creds tok path)"
  unfolding get_batch_def by (intro emits_rules) simp_all

lemma applyItem_emits [emits_rules]: "emits (api_event X creds) (applyItem X creds tok orgKey keyId item)"
  unfolding applyItem_def complete_call_def by (intro emits_rules) simp_all

lemma apply_items_emits [emits_rules]: "emits (api_event X creds) (apply_items X creds tok orgKey keyId items)"
  by (induction items) (auto intro!: emits_rules)

lemma applyOwnWork_emits [emits_rules]: "emits (api_event X creds) (applyOwnWork X creds tok orgKey)"
  unfolding applyOwnWork_def by (intro emits_rules) simp_all

lemma applyLeaseWork_emits [emits_rules]: "emits (api_event X creds) (applyLeaseWork X creds tok orgKey i)"
  unfolding applyLeaseWork_def by (intro emits_rules) simp_all

lemma revokeOne_emits [emits_rules]: "emits (api_event X creds) (revokeOne X creds tok keys i)"
  unfolding revokeOne_def client_orgKey_def by (intro emits_rules) simp_all

lemma revoke_each_emits [emits_rules]: "emits (api_event X creds) (revoke_each X creds tok keys ids)"
  by (induction ids) (auto intro!: emits_rules)

lemma client_RevokeLeases_emits [emits_rules]: "emits (api_event X creds) (client_RevokeLeases X creds ids)"
  unfolding client_RevokeLeases_def by (intro emits_rules)

lemma readMinted_emits [emits_rules]: "emits (api_event X creds) (readMinted X creds tok orgKey i)"
  unfolding readMinted_def by (intro emits_rules) simp_all

lemma mint_lease_emits [emits_rules]: "emits (api_event X creds) (mint_lease X creds tok orgKey p env hint)"
  unfolding mint_lease_def request_lease_path_def by (intro emits_rules) simp_all

lemma ensureLease_emits [emits_rules]:
  "emits (api_event X creds) (ensureLease X creds tok orgKey p env hint i)"
  unfolding ensureLease_def by (intro emits_rules)

lemma ensure_all_emits [emits_rules]:
  "emits (api_event X creds) (ensure_all X creds tok orgKey p env existing hints out leases)"
  by (induction hints arbitrary: out leases) (auto intro!: emits_rules)

lemma client_SyncDynamic_emits: "emits (api_event X creds) (client_SyncDynamic X creds p env existing)"
  unfolding client_SyncDynamic_def sync_leases_def client_orgKey_def by (intro emits_rules)

section \<open>The contract of the reconciler's fetcher\<close>

lemma client_revoke_emits:
  "emits (api_event X creds) (RevokeLeases (client_dynamic X) creds ids)"
  unfolding client_dynamic_def by (auto intro!: emits_rules)

interpretation client: off_cluster_fetcher "client_fetcher X" for X
proof unfold_locales
  show "emits off_cluster (Fetch (client_fetcher X) c p env)" for c p env
    using emits_mono [OF client_fetch_emits api_event_off_cluster] by (simp add: client_fetcher_def)
  show "dynamic (client_fetcher X) = Some d \<Longrightarrow> emits off_cluster (SyncDynamic d c p env ids)" for d c p env ids
    using emits_mono [OF client_SyncDynamic_emits api_event_off_cluster]
    by (auto simp: client_fetcher_def client_dynamic_def)
  show "dynamic (client_fetcher X) = Some d \<Longrightarrow> emits off_cluster (RevokeLeases d c ids)" for d c ids
    using emits_mono [OF client_revoke_emits api_event_off_cluster] by (auto simp: client_fetcher_def)
qed

end
