(* ===== verification/Manager.thy ===== *)
theory Manager
  imports Reconcile Client
begin

text \<open>
  The manager (\<open>controller/manager.go\<close>): from a queue item to a reconciled resource. It adds
  to the state of a run what it remembers of its own status writes, so that the watch can drop
  their echo. A resource as the dynamic client returns it is a \<open>json\<close> value. Log lines are
  left out.
\<close>

section \<open>State\<close>

record ('w, 'e) manager_state = "('w, 'e) client_state" +
  lastStatusWrite :: "queue_item \<rightharpoonup> string"
  statusWriteInFlight :: "queue_item \<rightharpoonup> bool"

type_synonym ('w, 'm, 'a) manager_io = "(('w, event, 'm) manager_state_scheme, 'a) state"

record ('w, 'm) manager =
  mg_reconciler :: "('w, 'm manager_state_ext client_state_ext) reconciler"
  mg_net :: "'w net_api"
  mg_namespace :: string

definition rememberStatusWrite :: "queue_item \<Rightarrow> string \<Rightarrow> ('w, 'm, unit) manager_io" where
  "rememberStatusWrite item v = modify (\<lambda>s. s\<lparr>lastStatusWrite := (lastStatusWrite s)(item \<mapsto> v)\<rparr>)"

definition isOwnStatusWrite :: "queue_item \<Rightarrow> string \<Rightarrow> ('w, 'm, bool) manager_io" where
  "isOwnStatusWrite item v = gets (\<lambda>s.
     if statusWriteInFlight s item = Some True then True
     else v \<noteq> '''' \<and> get_or_empty (lastStatusWrite s) item = v)"

definition forgetStatusWrite :: "queue_item \<Rightarrow> ('w, 'm, unit) manager_io" where
  "forgetStatusWrite item = modify (\<lambda>s. s\<lparr>lastStatusWrite := (lastStatusWrite s)(item := None),
     statusWriteInFlight := (statusWriteInFlight s)(item := None)\<rparr>)"

definition markStatusWriteInFlight :: "queue_item \<Rightarrow> ('w, 'm, unit) manager_io" where
  "markStatusWriteInFlight item =
     modify (\<lambda>s. s\<lparr>statusWriteInFlight := (statusWriteInFlight s)(item \<mapsto> True)\<rparr>)"

definition clearStatusWriteInFlight :: "queue_item \<Rightarrow> ('w, 'm, unit) manager_io" where
  "clearStatusWriteInFlight item =
     modify (\<lambda>s. s\<lparr>statusWriteInFlight := (statusWriteInFlight s)(item := None)\<rparr>)"

definition accepts :: "('w, 'm) manager \<Rightarrow> string \<Rightarrow> bool" where
  "accepts m namespace \<longleftrightarrow> mg_namespace m = '''' \<or> mg_namespace m = namespace"

section \<open>Untyped objects\<close>

fun members :: "json \<Rightarrow> (string \<times> json) list" where
  "members (JObj kvs) = kvs"
| "members _ = []"

definition member :: "string \<Rightarrow> json \<Rightarrow> json option" where
  "member k j = map_of (members j) k"

definition set_member :: "string \<Rightarrow> json \<Rightarrow> json \<Rightarrow> json" where
  "set_member k v j = JObj (AList.update k v (members j))"

definition nested_string :: "string \<Rightarrow> json \<Rightarrow> string" where
  "nested_string k j = (case member ''metadata'' j of
       Some md \<Rightarrow> (case member k md of Some (JStr s) \<Rightarrow> s | _ \<Rightarrow> '''')
     | None \<Rightarrow> '''')"

definition GetNamespace :: "json \<Rightarrow> string" where "GetNamespace j = nested_string ''namespace'' j"
definition GetName :: "json \<Rightarrow> string" where "GetName j = nested_string ''name'' j"
definition GetResourceVersion :: "json \<Rightarrow> string" where
  "GetResourceVersion j = nested_string ''resourceVersion'' j"

text \<open>An array with an element that is no string counts as absent.\<close>

fun json_strings :: "json list \<Rightarrow> string list option" where
  "json_strings [] = Some []"
| "json_strings (JStr s # js) = map_option ((#) s) (json_strings js)"
| "json_strings (_ # js) = None"

definition GetFinalizers :: "json \<Rightarrow> string list" where
  "GetFinalizers j = (case member ''metadata'' j of
       Some md \<Rightarrow> (case member ''finalizers'' md of
           Some (JArr js) \<Rightarrow> (case json_strings js of Some fs \<Rightarrow> fs | None \<Rightarrow> [])
         | _ \<Rightarrow> [])
     | None \<Rightarrow> [])"

text \<open>\<open>SetFinalizers\<close> creates the metadata when there is none, and does nothing when it is no object.\<close>

definition SetFinalizers :: "string list \<Rightarrow> json \<Rightarrow> json" where
  "SetFinalizers fs j = (case member ''metadata'' j of
       None \<Rightarrow> set_member ''metadata'' (JObj [(''finalizers'', JArr (map JStr fs))]) j
     | Some (JObj md) \<Rightarrow> set_member ''metadata'' (set_member ''finalizers'' (JArr (map JStr fs)) (JObj md)) j
     | Some _ \<Rightarrow> j)"

section \<open>Decoding a resource\<close>

text \<open>\<open>metav1.Time\<close> reads a null as the zero time.\<close>

definition decode_time :: "time decoder" where
  "decode_time old j = (case j of
       JNull \<Rightarrow> Some zero_time | JStr s \<Rightarrow> parse_rfc3339 s | _ \<Rightarrow> None)"

definition no_template :: kryptic_secret_template where
  "no_template = \<lparr>tp_type = '''', tp_labels = Map.empty, tp_annotations = Map.empty\<rparr>"

definition no_auth :: kryptic_secret_auth where
  "no_auth = \<lparr>au_secretRef = \<lparr>ref_name = ''''\<rparr>\<rparr>"

definition no_spec :: kryptic_secret_spec where
  "no_spec = \<lparr>sp_projectID = '''', sp_environment = '''', sp_secretName = '''', sp_refreshInterval = '''',
     sp_keys = [], sp_auth = None, sp_template = no_template\<rparr>"

definition no_condition :: condition where
  "no_condition = \<lparr>cd_type = '''', cd_status = '''', cd_observedGeneration = 0,
     cd_lastTransitionTime = zero_time, cd_reason = '''', cd_message = ''''\<rparr>"

definition no_status :: kryptic_secret_status where
  "no_status = \<lparr>st_conditions = [], st_lastSyncTime = None, st_syncedKeyCount = 0, st_observedGeneration = 0\<rparr>"

definition no_resource :: kryptic_secret where
  "no_resource = \<lparr>cr_name = '''', cr_namespace = '''', cr_uid = '''', cr_generation = 0,
     cr_deletionTimestamp = None, cr_finalizers = [], cr_spec = no_spec, cr_status = no_status\<rparr>"

definition ref_step :: "go_runtime \<Rightarrow> kryptic_secret_ref \<Rightarrow> string \<Rightarrow> json \<Rightarrow> kryptic_secret_ref option" where
  "ref_step R c k v =
     (if field_matches R ''name'' k then map_option (\<lambda>x. c\<lparr>ref_name := x\<rparr>) (decode_string (ref_name c) v)
      else Some c)"

definition auth_step :: "go_runtime \<Rightarrow> kryptic_secret_auth \<Rightarrow> string \<Rightarrow> json \<Rightarrow> kryptic_secret_auth option" where
  "auth_step R c k v =
     (if field_matches R ''secretRef'' k then
        map_option (\<lambda>x. c\<lparr>au_secretRef := x\<rparr>) (decode_struct (ref_step R) (au_secretRef c) v)
      else Some c)"

definition template_step :: "go_runtime \<Rightarrow> kryptic_secret_template \<Rightarrow> string \<Rightarrow> json \<Rightarrow> kryptic_secret_template option" where
  "template_step R c k v =
     (if field_matches R ''type'' k then map_option (\<lambda>x. c\<lparr>tp_type := x\<rparr>) (decode_string (tp_type c) v)
      else if field_matches R ''labels'' k then
        map_option (\<lambda>x. c\<lparr>tp_labels := x\<rparr>) (decode_map (tp_labels c) v)
      else if field_matches R ''annotations'' k then
        map_option (\<lambda>x. c\<lparr>tp_annotations := x\<rparr>) (decode_map (tp_annotations c) v)
      else Some c)"

definition spec_step :: "go_runtime \<Rightarrow> kryptic_secret_spec \<Rightarrow> string \<Rightarrow> json \<Rightarrow> kryptic_secret_spec option" where
  "spec_step R c k v =
     (if field_matches R ''projectId'' k then
        map_option (\<lambda>x. c\<lparr>sp_projectID := x\<rparr>) (decode_string (sp_projectID c) v)
      else if field_matches R ''environment'' k then
        map_option (\<lambda>x. c\<lparr>sp_environment := x\<rparr>) (decode_string (sp_environment c) v)
      else if field_matches R ''secretName'' k then
        map_option (\<lambda>x. c\<lparr>sp_secretName := x\<rparr>) (decode_string (sp_secretName c) v)
      else if field_matches R ''refreshInterval'' k then
        map_option (\<lambda>x. c\<lparr>sp_refreshInterval := x\<rparr>) (decode_string (sp_refreshInterval c) v)
      else if field_matches R ''keys'' k then
        map_option (\<lambda>x. c\<lparr>sp_keys := x\<rparr>) (decode_slice '''' decode_string (sp_keys c) v)
      else if field_matches R ''auth'' k then
        map_option (\<lambda>x. c\<lparr>sp_auth := x\<rparr>) (decode_pointer no_auth (decode_struct (auth_step R)) (sp_auth c) v)
      else if field_matches R ''template'' k then
        map_option (\<lambda>x. c\<lparr>sp_template := x\<rparr>) (decode_struct (template_step R) (sp_template c) v)
      else Some c)"

definition condition_step :: "go_runtime \<Rightarrow> condition \<Rightarrow> string \<Rightarrow> json \<Rightarrow> condition option" where
  "condition_step R c k v =
     (if field_matches R ''type'' k then map_option (\<lambda>x. c\<lparr>cd_type := x\<rparr>) (decode_string (cd_type c) v)
      else if field_matches R ''status'' k then
        map_option (\<lambda>x. c\<lparr>cd_status := x\<rparr>) (decode_string (cd_status c) v)
      else if field_matches R ''observedGeneration'' k then
        map_option (\<lambda>x. c\<lparr>cd_observedGeneration := x\<rparr>) (decode_int (cd_observedGeneration c) v)
      else if field_matches R ''lastTransitionTime'' k then
        map_option (\<lambda>x. c\<lparr>cd_lastTransitionTime := x\<rparr>) (decode_time (cd_lastTransitionTime c) v)
      else if field_matches R ''reason'' k then
        map_option (\<lambda>x. c\<lparr>cd_reason := x\<rparr>) (decode_string (cd_reason c) v)
      else if field_matches R ''message'' k then
        map_option (\<lambda>x. c\<lparr>cd_message := x\<rparr>) (decode_string (cd_message c) v)
      else Some c)"

definition status_step :: "go_runtime \<Rightarrow> kryptic_secret_status \<Rightarrow> string \<Rightarrow> json \<Rightarrow> kryptic_secret_status option" where
  "status_step R c k v =
     (if field_matches R ''conditions'' k then
        map_option (\<lambda>x. c\<lparr>st_conditions := x\<rparr>)
          (decode_slice no_condition (decode_struct (condition_step R)) (st_conditions c) v)
      else if field_matches R ''lastSyncTime'' k then
        map_option (\<lambda>x. c\<lparr>st_lastSyncTime := x\<rparr>) (decode_pointer zero_time decode_time (st_lastSyncTime c) v)
      else if field_matches R ''syncedKeyCount'' k then
        map_option (\<lambda>x. c\<lparr>st_syncedKeyCount := x\<rparr>) (decode_int (st_syncedKeyCount c) v)
      else if field_matches R ''observedGeneration'' k then
        map_option (\<lambda>x. c\<lparr>st_observedGeneration := x\<rparr>) (decode_int (st_observedGeneration c) v)
      else Some c)"

definition meta_step :: "go_runtime \<Rightarrow> kryptic_secret \<Rightarrow> string \<Rightarrow> json \<Rightarrow> kryptic_secret option" where
  "meta_step R c k v =
     (if field_matches R ''name'' k then map_option (\<lambda>x. c\<lparr>cr_name := x\<rparr>) (decode_string (cr_name c) v)
      else if field_matches R ''namespace'' k then
        map_option (\<lambda>x. c\<lparr>cr_namespace := x\<rparr>) (decode_string (cr_namespace c) v)
      else if field_matches R ''uid'' k then map_option (\<lambda>x. c\<lparr>cr_uid := x\<rparr>) (decode_string (cr_uid c) v)
      else if field_matches R ''generation'' k then
        map_option (\<lambda>x. c\<lparr>cr_generation := x\<rparr>) (decode_int (cr_generation c) v)
      else if field_matches R ''deletionTimestamp'' k then
        map_option (\<lambda>x. c\<lparr>cr_deletionTimestamp := x\<rparr>)
          (decode_pointer zero_time decode_time (cr_deletionTimestamp c) v)
      else if field_matches R ''finalizers'' k then
        map_option (\<lambda>x. c\<lparr>cr_finalizers := x\<rparr>) (decode_slice '''' decode_string (cr_finalizers c) v)
      else Some c)"

definition resource_step :: "go_runtime \<Rightarrow> kryptic_secret \<Rightarrow> string \<Rightarrow> json \<Rightarrow> kryptic_secret option" where
  "resource_step R c k v =
     (if field_matches R ''metadata'' k then decode_struct (meta_step R) c v
      else if field_matches R ''spec'' k then
        map_option (\<lambda>x. c\<lparr>cr_spec := x\<rparr>) (decode_struct (spec_step R) (cr_spec c) v)
      else if field_matches R ''status'' k then
        map_option (\<lambda>x. c\<lparr>cr_status := x\<rparr>) (decode_struct (status_step R) (cr_status c) v)
      else Some c)"

text \<open>\<open>json.Marshal\<close> of untyped maps writes the members of every object in the order of their keys.\<close>

fun sort_members :: "json \<Rightarrow> json" where
  "sort_members (JObj kvs) = JObj (sort_key fst (map (\<lambda>(k, v). (k, sort_members v)) kvs))"
| "sort_members (JArr js) = JArr (map sort_members js)"
| "sort_members j = j"

definition fromUnstructured :: "go_runtime \<Rightarrow> json \<Rightarrow> kryptic_secret option" where
  "fromUnstructured R raw =
     (case json_parse (json_encode (sort_members raw)) of
        None \<Rightarrow> None
      | Some j \<Rightarrow> decode_struct (resource_step R) no_resource j)"

section \<open>Finalizers\<close>

definition hasFinalizer :: "kryptic_secret \<Rightarrow> bool" where
  "hasFinalizer cr \<longleftrightarrow> list_ex (\<lambda>name. name = LeaseFinalizer) (cr_finalizers cr)"

definition next_finalizers :: "bool \<Rightarrow> string list \<Rightarrow> string list" where
  "next_finalizers add fs =
     filter (\<lambda>name. name \<noteq> LeaseFinalizer) fs @ (if add then [LeaseFinalizer] else [])"

fun sameStrings :: "string list \<Rightarrow> string list \<Rightarrow> bool" where
  "sameStrings [] [] = True"
| "sameStrings (x # xs) (y # ys) = (if x \<noteq> y then False else sameStrings xs ys)"
| "sameStrings _ _ = False"

definition setFinalizer ::
  "('w, 'm) manager \<Rightarrow> json \<Rightarrow> kryptic_secret \<Rightarrow> bool \<Rightarrow> ('w, 'm, goerr option) manager_io" where
  "setFinalizer m raw cr add =
     (let finalizers = GetFinalizers raw;
          wanted = next_finalizers add finalizers
      in if sameStrings finalizers wanted then State_Monad.return None
         else do {
           r \<leftarrow> kube_update_resource (rc_kube (mg_reconciler m)) (cr_namespace cr) (SetFinalizers wanted raw);
           State_Monad.return (case r of Inl e \<Rightarrow> Some e | Inr _ \<Rightarrow> None)
         })"

section \<open>Status\<close>

fun readyCondition :: "condition list \<Rightarrow> condition option" where
  "readyCondition [] = None"
| "readyCondition (c # cs) = (if cd_type c = ConditionReady then Some c else readyCondition cs)"

definition statusUnchanged :: "kryptic_secret \<Rightarrow> result \<Rightarrow> bool" where
  "statusUnchanged cr r =
     (if st_observedGeneration (cr_status cr) \<noteq> cr_generation cr then False
      else if st_syncedKeyCount (cr_status cr) \<noteq> rs_syncedKeys r then False
      else (case readyCondition (st_conditions (cr_status cr)) of
          None \<Rightarrow> False
        | Some existing \<Rightarrow>
            cd_status existing = cd_status (rs_condition r) \<and>
            cd_reason existing = cd_reason (rs_condition r) \<and>
            cd_message existing = cd_message (rs_condition r)))"

definition transition_time :: "kryptic_secret \<Rightarrow> result \<Rightarrow> time \<Rightarrow> time" where
  "transition_time cr r now =
     (case readyCondition (st_conditions (cr_status cr)) of
        Some existing \<Rightarrow>
          if cd_status existing = cd_status (rs_condition r) then cd_lastTransitionTime existing else now
      | None \<Rightarrow> now)"

definition status_json :: "kryptic_secret \<Rightarrow> result \<Rightarrow> time \<Rightarrow> json" where
  "status_json cr r now = JObj
     ([(''observedGeneration'', JInt (cr_generation cr)),
       (''syncedKeyCount'', JInt (rs_syncedKeys r)),
       (''conditions'', JArr [JObj
          [(''type'', JStr (cd_type (rs_condition r))),
           (''status'', JStr (cd_status (rs_condition r))),
           (''reason'', JStr (cd_reason (rs_condition r))),
           (''message'', JStr (cd_message (rs_condition r))),
           (''lastTransitionTime'', JStr (format_rfc3339 (transition_time cr r now))),
           (''observedGeneration'', JInt (cr_generation cr))]])]
      @ (if cd_status (rs_condition r) = ConditionTrue
         then [(''lastSyncTime'', JStr (format_rfc3339 now))]
         else (case st_lastSyncTime (cr_status cr) of
             None \<Rightarrow> []
           | Some t \<Rightarrow> [(''lastSyncTime'', JStr (format_rfc3339 t))])))"

text \<open>The write, with one retry on the fresh object when the first one conflicts.\<close>

definition write_status ::
  "'w kube_api \<Rightarrow> string \<Rightarrow> string \<Rightarrow> json \<Rightarrow> json \<Rightarrow> ('w, 'm, goerr + json) manager_io" where
  "write_status K ns name status raw = do {
     first_try \<leftarrow> kube_update_status K ns (set_member ''status'' status raw);
     case first_try of
       Inr written \<Rightarrow> State_Monad.return (Inr written)
     | Inl e \<Rightarrow>
         if is_conflict e then do {
           got \<leftarrow> kube_get_resource K ns name;
           case got of
             Inl _ \<Rightarrow> State_Monad.return (Inl e)
           | Inr fresh \<Rightarrow> kube_update_status K ns (set_member ''status'' status fresh)
         }
         else State_Monad.return (Inl e)
   }"

definition updateStatus ::
  "('w, 'm) manager \<Rightarrow> json \<Rightarrow> kryptic_secret \<Rightarrow> result \<Rightarrow> ('w, 'm, goerr option) manager_io" where
  "updateStatus m raw cr r = do {
     let item = (cr_namespace cr, cr_name cr);
     now \<leftarrow> net_now (mg_net m);
     markStatusWriteInFlight item;
     answer \<leftarrow> write_status (rc_kube (mg_reconciler m)) (cr_namespace cr) (cr_name cr) (status_json cr r now) raw;
     (case answer of
        Inl _ \<Rightarrow> State_Monad.return ()
      | Inr written \<Rightarrow> rememberStatusWrite item (GetResourceVersion written));
     clearStatusWriteInFlight item;
     State_Monad.return (case answer of Inl e \<Rightarrow> Some e | Inr _ \<Rightarrow> None)
   }"

section \<open>One item\<close>

definition being_deleted :: "kryptic_secret \<Rightarrow> bool" where
  "being_deleted cr \<longleftrightarrow> (case cr_deletionTimestamp cr of None \<Rightarrow> False | Some t \<Rightarrow> t \<noteq> zero_time)"

definition retry_soon :: duration where
  "retry_soon = shortBackoff DefaultRefreshInterval"

definition finalize_resource ::
  "('w, 'm) manager \<Rightarrow> json \<Rightarrow> kryptic_secret \<Rightarrow> ('w, 'm, duration) manager_io" where
  "finalize_resource m raw cr = do {
     revoked \<leftarrow> RevokeCRLeases (mg_reconciler m) cr;
     case revoked of
       Inl _ \<Rightarrow> State_Monad.return retry_soon
     | Inr _ \<Rightarrow> do {
         r \<leftarrow> setFinalizer m raw cr False;
         State_Monad.return (case r of Some _ \<Rightarrow> retry_soon | None \<Rightarrow> 0)
       }
   }"

definition reconcile_and_report ::
  "('w, 'm) manager \<Rightarrow> json \<Rightarrow> kryptic_secret \<Rightarrow> ('w, 'm, duration) manager_io" where
  "reconcile_and_report m raw cr = do {
     r \<leftarrow> Reconcile (mg_reconciler m) cr;
     if statusUnchanged cr r then State_Monad.return (rs_requeueAfter r)
     else do {
       _ \<leftarrow> updateStatus m raw cr r;
       State_Monad.return (rs_requeueAfter r)
     }
   }"

definition sync_resource ::
  "('w, 'm) manager \<Rightarrow> json \<Rightarrow> kryptic_secret \<Rightarrow> ('w, 'm, duration) manager_io" where
  "sync_resource m raw cr =
     (if \<not> hasFinalizer cr then do {
        r \<leftarrow> setFinalizer m raw cr True;
        case r of
          Some _ \<Rightarrow> State_Monad.return retry_soon
        | None \<Rightarrow> reconcile_and_report m raw cr
      }
      else reconcile_and_report m raw cr)"

definition reconcileOne :: "('w, 'm) manager \<Rightarrow> queue_item \<Rightarrow> ('w, 'm, duration) manager_io" where
  "reconcileOne m item =
     (if \<not> accepts m (fst item) then State_Monad.return 0
      else do {
        got \<leftarrow> kube_get_resource (rc_kube (mg_reconciler m)) (fst item) (snd item);
        case got of
          Inl _ \<Rightarrow> State_Monad.return 0
        | Inr raw \<Rightarrow>
            (case fromUnstructured (rc_runtime (mg_reconciler m)) raw of
               None \<Rightarrow> State_Monad.return minute
             | Some cr \<Rightarrow>
                 if being_deleted cr then finalize_resource m raw cr
                 else sync_resource m raw cr)
      })"

section \<open>The watch\<close>

text \<open>
  The loop body of \<open>watch\<close>: what one event of the API server does. The result is the item
  added to the queue, if any.
\<close>

definition watch_event :: "('w, 'm) manager \<Rightarrow> string \<Rightarrow> json \<Rightarrow> ('w, 'm, queue_item option) manager_io" where
  "watch_event m kind obj = do {
     let item = (GetNamespace obj, GetName obj);
     if kind = ''DELETED'' then do { forgetStatusWrite item; State_Monad.return None }
     else if \<not> accepts m (GetNamespace obj) then State_Monad.return None
     else if kind = ''MODIFIED'' then do {
       own \<leftarrow> isOwnStatusWrite item (GetResourceVersion obj);
       State_Monad.return (if own then None else Some item)
     }
     else State_Monad.return (Some item)
   }"

end
