(* ===== verification/Url_Facts.thy ===== *)
theory Url_Facts
  imports Go_Url
begin

text \<open>
  What \<open>url.Parse\<close> takes for the scheme and the host of an absolute URL depends on the
  text up to the end of the authority alone. So appending a path to a base URL changes neither.
\<close>

section \<open>The shape of an absolute URL\<close>

definition ends_authority :: "string \<Rightarrow> bool" where
  "ends_authority t \<longleftrightarrow> t = '''' \<or> hd t \<in> set ''/?#''"

definition absolute :: "string \<Rightarrow> string \<Rightarrow> string \<Rightarrow> string \<Rightarrow> bool" where
  "absolute s sch auth tail \<longleftrightarrow>
     s = sch @ ''://'' @ auth @ tail \<and>
     sch \<noteq> '''' \<and> is_alpha (hd sch) \<and> list_all scheme_char sch \<and>
     list_all (\<lambda>c. c \<notin> set ''/?#'') auth \<and> ends_authority tail"

lemma scheme_char_colon [simp]: "\<not> scheme_char CHR '':''"
  by (simp add: scheme_char_def is_alnum_def is_alpha_def is_digit_def)

lemma scheme_char_hash [simp]: "\<not> scheme_char CHR ''#''"
  by (simp add: scheme_char_def is_alnum_def is_alpha_def is_digit_def)

lemma scheme_not_special: "scheme_char c \<Longrightarrow> c \<noteq> CHR '':'' \<and> c \<noteq> CHR ''#''"
  by auto

lemma takeWhile_prefix_all:
  "list_all P xs \<Longrightarrow> ys = [] \<or> \<not> P (hd ys) \<Longrightarrow> takeWhile P (xs @ ys) = xs"
  by (induction xs) (auto simp: takeWhile_eq_Nil_iff)

lemma dropWhile_prefix_all:
  "list_all P xs \<Longrightarrow> ys = [] \<or> \<not> P (hd ys) \<Longrightarrow> dropWhile P (xs @ ys) = ys"
  by (induction xs) (auto simp: dropWhile_eq_self_iff)

lemma list_all_takeWhile: "list_all P (takeWhile P xs)"
  by (auto simp: list_all_iff dest: set_takeWhileD)

section \<open>From the result to the shape\<close>

lemma get_scheme_nonempty:
  assumes "get_scheme s = Some (sch, rest)" and "sch \<noteq> ''''"
  shows "s = sch @ '':'' @ rest" and "is_alpha (hd sch)" and "list_all scheme_char sch"
proof -
  let ?t = "takeWhile scheme_char s" and ?d = "dropWhile scheme_char s"
  from assms have t: "sch = ?t" "is_alpha (hd ?t)" "?d \<noteq> ''''" "hd ?d = CHR '':''" "rest = tl ?d"
    by (auto simp: get_scheme_def Let_def split: if_splits)
  then have "?d = '':'' @ rest" by (cases ?d) auto
  then show "s = sch @ '':'' @ rest" using t(1) takeWhile_dropWhile_id [of scheme_char s] by simp
  show "is_alpha (hd sch)" "list_all scheme_char sch" using t by (auto simp: list_all_takeWhile)
qed

lemma parse_no_fragment_host:
  assumes "parse_no_fragment s = Some u" and "host u \<noteq> ''''"
  obtains sch rest0 where "get_scheme s = Some (sch, rest0)"
    and "prefix ''//'' (strip_query rest0)"
    and "scheme u = map lower_byte sch"
    and "parse_authority (takeWhile (\<lambda>x. x \<noteq> CHR ''/'') (drop 2 (strip_query rest0))) = Some (host u)"
proof -
  from assms obtain sch rest0 where gs: "get_scheme s = Some (sch, rest0)"
    by (cases "get_scheme s") (auto simp: parse_no_fragment_def split: if_splits)
  let ?rest = "strip_query rest0"
  have "\<exists>h. prefix ''//'' ?rest \<and> u = \<lparr>scheme = map lower_byte sch, host = h\<rparr> \<and>
      parse_authority (takeWhile (\<lambda>x. x \<noteq> CHR ''/'') (drop 2 ?rest)) = Some h"
    using assms unfolding parse_no_fragment_def gs Let_def option.case prod.case
    by (simp split: if_split_asm option.splits) auto
  then show thesis using that [OF gs] by auto
qed

lemma ends_dropWhile:
  assumes "c \<in> set ''/?#''" and "ends_authority t"
  shows "ends_authority (dropWhile (\<lambda>x. x \<noteq> c) s @ t)"
proof (cases "dropWhile (\<lambda>x. x \<noteq> c) s")
  case (Cons d r)
  then have "d = c" using hd_dropWhile [of "\<lambda>x. x \<noteq> c" s] by simp
  with assms(1) show ?thesis unfolding Cons by (simp add: ends_authority_def)
next
  case Nil
  show ?thesis unfolding Nil append_Nil by (rule assms(2))
qed

lemma set_takeWhile_neq: "c \<notin> set (takeWhile (\<lambda>x. x \<noteq> c) s)"
  using set_takeWhileD [of c "\<lambda>x. x \<noteq> c" s] by blast

lemma set_takeWhile_sub: "set (takeWhile P s) \<subseteq> set s"
  using set_takeWhileD [of _ P s] by blast

lemma set_auth_sub: "set (takeWhile P (drop n (strip_query r))) \<subseteq> set r"
proof -
  have "set (takeWhile P (drop n (strip_query r))) \<subseteq> set (drop n (strip_query r))"
    by (rule set_takeWhile_sub)
  also have "\<dots> \<subseteq> set (strip_query r)" by (rule set_drop_subset)
  also have "\<dots> \<subseteq> set r" unfolding strip_query_def cut_def fst_conv by (rule set_takeWhile_sub)
  finally show ?thesis .
qed

lemma url_parse_absolute:
  assumes "url_parse s = Some u" and "host u \<noteq> ''''" and "scheme u \<noteq> ''''"
  obtains sch auth tail where "absolute s sch auth tail"
    and "scheme u = map lower_byte sch" and "parse_authority auth = Some (host u)"
proof -
  define f where "f = takeWhile (\<lambda>x. x \<noteq> CHR ''#'') s"
  define frag where "frag = dropWhile (\<lambda>x. x \<noteq> CHR ''#'') s"
  from assms(1) have "parse_no_fragment f = Some u"
    unfolding f_def url_parse_def cut_def by (simp split: option.splits if_split_asm)
  from parse_no_fragment_host [OF this assms(2)] obtain sch rest0 where
    gs: "get_scheme f = Some (sch, rest0)" and sl: "prefix ''//'' (strip_query rest0)" and
    sc: "scheme u = map lower_byte sch" and
    au: "parse_authority (takeWhile (\<lambda>x. x \<noteq> CHR ''/'') (drop 2 (strip_query rest0))) = Some (host u)"
    by blast
  define q where "q = dropWhile (\<lambda>x. x \<noteq> CHR ''?'') rest0"
  define auth where "auth = takeWhile (\<lambda>x. x \<noteq> CHR ''/'') (drop 2 (strip_query rest0))"
  define path where "path = dropWhile (\<lambda>x. x \<noteq> CHR ''/'') (drop 2 (strip_query rest0))"
  from sc assms(3) have ne: "sch \<noteq> ''''" by auto
  note g = get_scheme_nonempty [OF gs ne]
  from sl obtain r where r: "strip_query rest0 = ''//'' @ r" unfolding prefix_def by blast
  have ap: "strip_query rest0 = ''//'' @ auth @ path" unfolding auth_def path_def r by simp
  have rq: "rest0 = strip_query rest0 @ q" unfolding strip_query_def cut_def q_def by simp
  have "s = f @ frag" unfolding f_def frag_def by simp
  also have "f = sch @ '':'' @ rest0" by (rule g(1))
  also have "rest0 = (''//'' @ auth @ path) @ q" by (subst rq) (simp only: ap)
  finally have s: "s = sch @ ''://'' @ auth @ (path @ q @ frag)" by simp
  have "set rest0 \<subseteq> set f" unfolding g(1) by auto
  then have "CHR ''#'' \<notin> set auth"
    using set_auth_sub [of "\<lambda>x. x \<noteq> CHR ''/''" 2 rest0] set_takeWhile_neq [of "CHR ''#''" s]
    unfolding auth_def f_def by blast
  moreover have "CHR ''?'' \<notin> set auth"
    using set_takeWhile_sub [of "\<lambda>x. x \<noteq> CHR ''/''" "drop 2 (strip_query rest0)"]
      set_drop_subset [of 2 "strip_query rest0"] set_takeWhile_neq [of "CHR ''?''" rest0]
    unfolding auth_def strip_query_def cut_def fst_conv by blast
  moreover have "CHR ''/'' \<notin> set auth" unfolding auth_def by (rule set_takeWhile_neq)
  ultimately have na: "list_all (\<lambda>c. c \<notin> set ''/?#'') auth" unfolding list_all_iff by auto
  have "ends_authority ''''" by (simp add: ends_authority_def)
  then have "ends_authority (path @ q @ frag @ '''')"
    unfolding path_def q_def frag_def by (intro ends_dropWhile) simp_all
  then have "absolute s sch auth (path @ q @ frag)"
    using s g(2,3) ne na by (simp add: absolute_def)
  from that [OF this sc] au show thesis unfolding auth_def by blast
qed

section \<open>From the shape to the result\<close>

lemma parse_no_fragment_authority:
  assumes "get_scheme s = Some (sch, rest0)" and "sch \<noteq> []" and "s \<noteq> ''*''"
    and "strip_query rest0 = ''//'' @ r"
  shows "parse_no_fragment s =
    (if has_control_byte s then None
     else case parse_authority (takeWhile (\<lambda>x. x \<noteq> CHR ''/'') r) of None \<Rightarrow> None | Some h \<Rightarrow>
       if unescape EncodePath (dropWhile (\<lambda>x. x \<noteq> CHR ''/'') r) = None then None
       else Some \<lparr>scheme = map lower_byte sch, host = h\<rparr>)"
  unfolding parse_no_fragment_def assms(1,4) Let_def option.case prod.case using assms(2,3) by (simp split: option.split)

lemma get_scheme_absolute:
  assumes "sch \<noteq> []" and "is_alpha (hd sch)" and "list_all scheme_char sch"
  shows "get_scheme (sch @ '':'' @ r) = Some (sch, r)"
proof -
  have "takeWhile scheme_char (sch @ '':'' @ r) = sch"
    by (rule takeWhile_prefix_all [OF assms(3)]) simp
  moreover have "dropWhile scheme_char (sch @ '':'' @ r) = '':'' @ r"
    by (rule dropWhile_prefix_all [OF assms(3)]) simp
  moreover have "hd (sch @ '':'' @ r) \<noteq> CHR '':''" using assms(1,3) by (cases sch) auto
  ultimately show ?thesis using assms(1,2) unfolding get_scheme_def Let_def by simp
qed

lemma absolute_url_parse:
  assumes a: "absolute s sch auth tail" and p: "url_parse s = Some u"
  shows "scheme u = map lower_byte sch \<and> parse_authority auth = Some (host u)"
proof -
  from a have s: "s = (sch @ ''://'' @ auth) @ tail" and ne: "sch \<noteq> []" and al: "is_alpha (hd sch)"
    and sc: "list_all scheme_char sch" and na: "list_all (\<lambda>c. c \<notin> set ''/?#'') auth"
    and en: "ends_authority tail"
    by (simp_all add: absolute_def)
  define tf where "tf = takeWhile (\<lambda>x. x \<noteq> CHR ''#'') tail"
  define tq where "tq = takeWhile (\<lambda>x. x \<noteq> CHR ''?'') tf"
  have "CHR ''#'' \<notin> set sch" "CHR ''#'' \<notin> set auth"
    using sc na scheme_char_hash unfolding list_all_iff by fastforce+
  then have nh: "\<And>x. x \<in> set (sch @ ''://'' @ auth) \<Longrightarrow> x \<noteq> CHR ''#''" by auto
  have f: "takeWhile (\<lambda>x. x \<noteq> CHR ''#'') s = (sch @ ''://'' @ auth) @ tf"
    unfolding s tf_def using nh by (rule takeWhile_append2)
  have pf: "parse_no_fragment ((sch @ ''://'' @ auth) @ tf) = Some u"
    using p unfolding url_parse_def cut_def f by (simp split: option.splits if_split_asm)
  have gs: "get_scheme ((sch @ ''://'' @ auth) @ tf) = Some (sch, ''//'' @ auth @ tf)"
    using get_scheme_absolute [OF ne al sc, of "''//'' @ auth @ tf"] by simp
  have nq: "\<And>x. x \<in> set (''//'' @ auth) \<Longrightarrow> x \<noteq> CHR ''?''" using na by (auto simp: list_all_iff)
  have "takeWhile (\<lambda>x. x \<noteq> CHR ''?'') ((''//'' @ auth) @ tf) = (''//'' @ auth) @ tq"
    unfolding tq_def using nq by (rule takeWhile_append2)
  then have sq: "strip_query (''//'' @ auth @ tf) = ''//'' @ auth @ tq"
    unfolding strip_query_def cut_def fst_conv by simp
  have tq: "tq = [] \<or> hd tq = CHR ''/''"
    using en unfolding ends_authority_def tq_def tf_def by (cases tail) auto
  have au: "takeWhile (\<lambda>x. x \<noteq> CHR ''/'') (auth @ tq) = auth"
    using na tq by (intro takeWhile_prefix_all) (auto simp: list_all_iff)
  have ns: "(sch @ ''://'' @ auth) @ tf \<noteq> ''*''" using ne by (cases sch) auto
  have "\<exists>h. parse_authority auth = Some h \<and> u = \<lparr>scheme = map lower_byte sch, host = h\<rparr>"
    using pf unfolding parse_no_fragment_authority [OF gs ne ns sq] au
    by (simp split: if_split_asm option.splits)
  then show ?thesis by auto
qed

lemma suffix_singleton: "suffix [c] s \<longleftrightarrow> s \<noteq> [] \<and> last s = c"
  by (cases s rule: rev_cases) (auto simp: suffix_def)

section \<open>Appending a path\<close>

text \<open>\<open>strings.TrimSuffix(base, "/") + path\<close> is a URL of the same scheme and host, if it is one at all.\<close>

lemma base_path_same_host:
  assumes base: "url_parse base = Some u" "host u \<noteq> ''''" "scheme u \<noteq> ''''"
    and path: "prefix ''/'' p"
    and parsed: "url_parse (trim_suffix base ''/'' @ p) = Some v"
  shows "scheme v = scheme u" and "host v = host u"
proof -
  from url_parse_absolute [OF base] obtain sch auth tail where
    ab: "absolute base sch auth tail" and sc: "scheme u = map lower_byte sch"
    and au: "parse_authority auth = Some (host u)" by blast
  have b: "base = sch @ ''://'' @ auth @ tail" and na: "list_all (\<lambda>c. c \<notin> set ''/?#'') auth"
    and en: "ends_authority tail"
    using ab by (simp_all add: absolute_def)
  have "auth \<noteq> []" using au base(2) by (auto simp: parse_authority_def cut_last_def parse_host_def)
  have hp: "p \<noteq> ''''" "hd p = CHR ''/''" using path by (auto simp: prefix_def)
  obtain tail' where t': "trim_suffix base ''/'' @ p = sch @ ''://'' @ auth @ tail'" "ends_authority tail'"
  proof (cases "tail = ''''")
    case True
    have "last auth \<noteq> CHR ''/''" using na \<open>auth \<noteq> []\<close> by (auto simp: list_all_iff)
    then have "last base \<noteq> CHR ''/''" using b True \<open>auth \<noteq> []\<close> by simp
    then have "trim_suffix base ''/'' = base" by (simp add: trim_suffix_def suffix_singleton)
    then show ?thesis using that [of p] b True hp by (simp add: ends_authority_def)
  next
    case False
    show ?thesis
    proof (cases "last tail = CHR ''/''")
      case True
      then have "suffix ''/'' base" using b False by (simp add: suffix_singleton)
      then have "trim_suffix base ''/'' = butlast base" by (simp add: trim_suffix_def butlast_conv_take)
      then have "trim_suffix base ''/'' = sch @ ''://'' @ auth @ butlast tail"
        using b False by (simp add: butlast_append)
      moreover have "ends_authority (butlast tail @ p)"
        using en False hp by (cases tail) (auto simp: ends_authority_def)
      ultimately show ?thesis using that [of "butlast tail @ p"] by simp
    next
      case f: False
      then have "\<not> suffix ''/'' base" using b False by (simp add: suffix_singleton)
      then show ?thesis using that [of "tail @ p"] b en False by (simp add: trim_suffix_def ends_authority_def)
    qed
  qed
  have "absolute (trim_suffix base ''/'' @ p) sch auth tail'"
    using ab t' by (simp add: absolute_def)
  from absolute_url_parse [OF this parsed] sc au show "scheme v = scheme u" "host v = host u" by simp_all
qed

end
