(* ===== verification/Operator.thy ===== *)
theory Operator
  imports Wire Manager Url_Facts
begin

text \<open>
  The program as \<open>cmd/kryptic-operator/main.go\<close> puts it together: the manager, its
  reconciler, the API client as the fetcher, and the two policies read from the environment.
  Here the guarantees of the parts are joined: where requests go to, and what one pass writes.
\<close>

definition operator_reconciler ::
  "'w env \<Rightarrow> 'w kube_api \<Rightarrow> (string \<Rightarrow> string) \<Rightarrow> ('w, 'm client_state_ext) reconciler" where
  "operator_reconciler X K getenv =
     \<lparr>rc_kube = K, rc_fetcher = client_fetcher X, rc_cluster = ClusterCredentialsFromEnv getenv,
      rc_apiurl = APIURLPolicyFromEnv getenv, rc_runtime = en_runtime X\<rparr>"

definition operator ::
  "'w env \<Rightarrow> 'w kube_api \<Rightarrow> (string \<Rightarrow> string) \<Rightarrow> string \<Rightarrow> ('w, 'm) manager" where
  "operator X K getenv namespace =
     \<lparr>mg_reconciler = operator_reconciler X K getenv, mg_net = en_net X, mg_namespace = namespace\<rparr>"

lemma operator_reconciler_simps [simp]:
  "rc_kube (operator_reconciler X K getenv) = K"
  "rc_fetcher (operator_reconciler X K getenv) = client_fetcher X"
  "rc_cluster (operator_reconciler X K getenv) = ClusterCredentialsFromEnv getenv"
  "rc_apiurl (operator_reconciler X K getenv) = APIURLPolicyFromEnv getenv"
  "rc_runtime (operator_reconciler X K getenv) = en_runtime X"
  by (simp_all add: operator_reconciler_def)

lemma operator_simps [simp]:
  "mg_reconciler (operator X K getenv namespace) = operator_reconciler X K getenv"
  "mg_net (operator X K getenv namespace) = en_net X"
  "mg_namespace (operator X K getenv namespace) = namespace"
  by (simp_all add: operator_def)

section \<open>What one pass writes\<close>

lemma operator_pass:
  "wp (Reconcile (operator_reconciler X K getenv) cr) s
     (\<lambda>r s'. \<exists>es. trace s' = trace s @ es \<and> pass_outcome (en_runtime X) cr es r)"
  using client.pass [of "operator_reconciler X K getenv" X cr s] by simp

section \<open>Where requests go\<close>

text \<open>
  A URL the policy lets pass, or the hosted service. Requests are what is handed to
  \<open>http.Client.Do\<close>; redirects it follows are not events, and the calls of the lease providers
  to their targets are not restricted.
\<close>

definition trusted_url :: "go_runtime \<Rightarrow> api_url_policy \<Rightarrow> url \<Rightarrow> bool" where
  "trusted_url R p u \<longleftrightarrow> url_admitted R p u \<or> (scheme u = ''https'' \<and> host u = default_host)"

definition trusted_request :: "go_runtime \<Rightarrow> api_url_policy \<Rightarrow> event \<Rightarrow> bool" where
  "trusted_request R p e \<longleftrightarrow> (case e of
       Net (HttpDo q _) \<Rightarrow> (case url_parse (req_url q) of None \<Rightarrow> False | Some u \<Rightarrow> trusted_url R p u)
     | _ \<Rightarrow> True)"

definition trusted_base :: "go_runtime \<Rightarrow> api_url_policy \<Rightarrow> string \<Rightarrow> bool" where
  "trusted_base R p base \<longleftrightarrow> (\<exists>u. url_parse base = Some u \<and> trusted_url R p u)"

lemma trusted_url_nonempty: "trusted_url R p u \<Longrightarrow> host u \<noteq> [] \<and> scheme u \<noteq> []"
  by (auto simp: trusted_url_def url_admitted_def default_host_def)

lemma trusted_url_cong: "scheme v = scheme u \<Longrightarrow> host v = host u \<Longrightarrow> trusted_url R p v = trusted_url R p u"
  by (simp add: trusted_url_def url_admitted_def)

lemma api_request_path:
  assumes "api_request X creds q"
  obtains p where "prefix ''/'' p" and "req_url q = base_url creds @ p"
  using assms
proof (cases rule: api_request.cases)
  case (token_request auth)
  then show ?thesis using that [of "''/api/token''"] by simp
next
  case (read_request pa tok)
  then show ?thesis using that [of pa] prefix_order.trans [of "''/''" "''/api/''" pa] by simp
next
  case (write_request pa j tok)
  then show ?thesis using that [of pa] prefix_order.trans [of "''/''" "''/api/dynamic-secrets/''" pa] by simp
qed

lemma api_event_trusted:
  assumes "trusted_base R p (cred_BaseURL creds)" and e: "api_event X creds e"
  shows "trusted_request R p e"
proof (cases "\<exists>q a. e = Net (HttpDo q a)")
  case True
  then obtain q a where q: "e = Net (HttpDo q a)" by blast
  with e obtain v where ar: "api_request X creds q" and v: "url_parse (req_url q) = Some v" by auto
  from api_request_path [OF ar] obtain pa where pa: "prefix ''/'' pa" "req_url q = base_url creds @ pa" .
  from assms(1) obtain u where u: "url_parse (cred_BaseURL creds) = Some u" "trusted_url R p u"
    by (auto simp: trusted_base_def)
  note ne = trusted_url_nonempty [OF u(2)]
  from v pa(2) have "url_parse (trim_suffix (cred_BaseURL creds) ''/'' @ pa) = Some v"
    by (simp add: base_url_def)
  from base_path_same_host [OF u(1) _ _ pa(1) this] ne
  have "scheme v = scheme u" "host v = host u" by simp_all
  with u(2) trusted_url_cong [of v u R p] v q show ?thesis by (simp add: trusted_request_def)
next
  case False
  then show ?thesis by (auto simp: trusted_request_def split: event.splits net_event.splits)
qed

lemma trusted_request_kube [simp]: "trusted_request R p (Kube k)"
  by (simp add: trusted_request_def)

lemma secret_credentials_trusted:
  "secret_credentials R p name sec = Inr c \<Longrightarrow> trusted_base R p (cred_BaseURL c)"
  unfolding secret_credentials_cases trusted_base_def trusted_url_def
  by (auto simp: url_parse_DefaultBaseURL Validate_none_iff split: if_splits)

lemma named_credentials_trusted:
  assumes "AuthSecretName (cr_spec cr) \<noteq> []"
  shows "wp (credentials rc cr) s (\<lambda>r s'. case r of Inl _ \<Rightarrow> True
           | Inr c \<Rightarrow> trusted_base (rc_runtime rc) (rc_apiurl rc) (cred_BaseURL c))"
  by (rule wp_mono [OF credentials_source])
    (auto elim!: credentials_from_named [OF _ assms] dest: secret_credentials_trusted split: sum.splits)

lemma trusted_emits:
  assumes "trusted_base R p (cred_BaseURL c)"
  shows "emits (trusted_request R p) (Fetch (client_fetcher X) c pr env)"
    and "emits (trusted_request R p) (SyncDynamic (client_dynamic X) c pr env ids)"
    and "emits (trusted_request R p) (RevokeLeases (client_dynamic X) c list)"
proof -
  show "emits (trusted_request R p) (Fetch (client_fetcher X) c pr env)"
    unfolding client_fetcher_def fetcher.simps
    by (rule emits_mono [OF client_fetch_emits]) (rule api_event_trusted [OF assms])
  show "emits (trusted_request R p) (SyncDynamic (client_dynamic X) c pr env ids)"
    unfolding client_dynamic_def dynamic_fetcher.simps
    by (rule emits_mono [OF client_SyncDynamic_emits]) (rule api_event_trusted [OF assms])
  show "emits (trusted_request R p) (RevokeLeases (client_dynamic X) c list)"
    by (rule emits_mono [OF client_revoke_emits]) (rule api_event_trusted [OF assms])
qed

lemma applySecret_trusted [emits_rules]: "emits (trusted_request R p) (applySecret rc cr data ids)"
  unfolding applySecret_def Let_def by (intro emits_rules) simp_all

lemma credentials_trusted [emits_rules]: "emits (trusted_request R p) (credentials rc cr)"
  by (rule emits_mono [OF credentials_emits]) (auto simp: auth_lookup_def)

lemma readLeaseIDs_trusted [emits_rules]: "emits (trusted_request R p) (readLeaseIDs rc cr)"
  unfolding readLeaseIDs_def by (intro emits_rules) simp

lemma operator_reconcile_trusted:
  assumes named: "AuthSecretName (cr_spec cr) \<noteq> []"
  shows "emits (trusted_request (en_runtime X) (APIURLPolicyFromEnv getenv))
           (Reconcile (operator_reconciler X K getenv) cr)"
  unfolding Reconcile_def Let_def
proof (rule emits_bind_wp [OF credentials_trusted named_credentials_trusted [OF named]], goal_cases)
  case (1 r)
  show ?case
  proof (cases r)
    case (Inl e)
    then show ?thesis by (simp add: emits_return)
  next
    case (Inr c)
    with 1 have "trusted_base (en_runtime X) (APIURLPolicyFromEnv getenv) (cred_BaseURL c)" by simp
    note t = trusted_emits [OF this]
    have d: "dynamic (client_fetcher X) = Some (client_dynamic X)" by (simp add: client_fetcher_def)
    show ?thesis
      unfolding Inr sum.case operator_reconciler_simps finish_pass_def Let_def d option.case
      by (intro emits_rules t)
  qed
qed

end
