(* ===== verification/Pass_Facts.thy ===== *)
theory Pass_Facts
  imports Operator
begin

text \<open>
  One pass in two parts: what it gathers (credentials, bundle, dynamic values) and what it makes of
  that. The second part is pinned here against the resource as the user wrote it: which Secret is
  written and with what, and how long the operator waits.
\<close>

section \<open>What a pass gathers\<close>

datatype gathered =
    Refused goerr \<comment> \<open>no credentials\<close>
  | FetchFailed goerr
  | SyncFailed goerr
  | Gathered Bundle Bundle lease_map \<comment> \<open>stored values, dynamic values, lease ids\<close>

inductive gathers ::
  "('w, 'm) reconciler \<Rightarrow> kryptic_secret \<Rightarrow> ('w, event, 'm) io_state_scheme \<Rightarrow> gathered
     \<Rightarrow> ('w, event, 'm) io_state_scheme \<Rightarrow> bool" for rc cr s where
  refused: "run_state (credentials rc cr) s = (Inl e, s1) \<Longrightarrow> gathers rc cr s (Refused e) s1"
| fetch_failed: "run_state (credentials rc cr) s = (Inr c, s1) \<Longrightarrow>
    run_state (Fetch (rc_fetcher rc) c (sp_projectID (cr_spec cr)) (sp_environment (cr_spec cr))) s1 = (Inl e, s2) \<Longrightarrow>
    gathers rc cr s (FetchFailed e) s2"
| static_only: "run_state (credentials rc cr) s = (Inr c, s1) \<Longrightarrow>
    run_state (Fetch (rc_fetcher rc) c (sp_projectID (cr_spec cr)) (sp_environment (cr_spec cr))) s1 = (Inr b, s2) \<Longrightarrow>
    run_state (readLeaseIDs rc cr) s2 = (ids, s3) \<Longrightarrow> dynamic (rc_fetcher rc) = None \<Longrightarrow>
    gathers rc cr s (Gathered b Map.empty ids) s3"
| sync_failed: "run_state (credentials rc cr) s = (Inr c, s1) \<Longrightarrow>
    run_state (Fetch (rc_fetcher rc) c (sp_projectID (cr_spec cr)) (sp_environment (cr_spec cr))) s1 = (Inr b, s2) \<Longrightarrow>
    run_state (readLeaseIDs rc cr) s2 = (ids, s3) \<Longrightarrow> dynamic (rc_fetcher rc) = Some d \<Longrightarrow>
    run_state (SyncDynamic d c (sp_projectID (cr_spec cr)) (sp_environment (cr_spec cr)) ids) s3 = (Inl e, s4) \<Longrightarrow>
    gathers rc cr s (SyncFailed e) s4"
| with_dynamic: "run_state (credentials rc cr) s = (Inr c, s1) \<Longrightarrow>
    run_state (Fetch (rc_fetcher rc) c (sp_projectID (cr_spec cr)) (sp_environment (cr_spec cr))) s1 = (Inr b, s2) \<Longrightarrow>
    run_state (readLeaseIDs rc cr) s2 = (ids, s3) \<Longrightarrow> dynamic (rc_fetcher rc) = Some d \<Longrightarrow>
    run_state (SyncDynamic d c (sp_projectID (cr_spec cr)) (sp_environment (cr_spec cr)) ids) s3
      = (Inr (extra, next_ids), s4) \<Longrightarrow>
    gathers rc cr s (Gathered b extra next_ids) s4"

text \<open>What the pass makes of it.\<close>

definition conclude ::
  "('w, 'm) reconciler \<Rightarrow> kryptic_secret \<Rightarrow> gathered \<Rightarrow> ('w, 'm, result) io" where
  "conclude rc cr g =
     (let interval = RefreshIntervalOrDefault (rc_runtime rc) (cr_spec cr);
          kept = st_syncedKeyCount (cr_status cr)
      in case g of
           Refused e \<Rightarrow> State_Monad.return (failed ReasonAuthSecret (err_text e) interval kept)
         | FetchFailed e \<Rightarrow> State_Monad.return (fetch_failure interval kept api_error_text e)
         | SyncFailed e \<Rightarrow> State_Monad.return (fetch_failure interval kept (\<lambda>_. err_text e) e)
         | Gathered b extra ids \<Rightarrow> finish_pass rc cr interval (b ++ extra) ids)"

lemma Reconcile_gathers:
  "\<exists>g s'. gathers rc cr s g s' \<and> run_state (Reconcile rc cr) s = run_state (conclude rc cr g) s'"
proof -
  obtain creds s1 where c: "run_state (credentials rc cr) s = (creds, s1)" by fastforce
  show ?thesis
  proof (cases creds)
    case (Inl e)
    with c show ?thesis
      by (intro exI [of _ "Refused e"] exI [of _ s1]) (auto simp: Reconcile_def conclude_def Let_def intro: gathers.refused)
  next
    case creds: (Inr cd)
    obtain f s2 where f: "run_state (Fetch (rc_fetcher rc) cd (sp_projectID (cr_spec cr)) (sp_environment (cr_spec cr))) s1
        = (f, s2)" by fastforce
    show ?thesis
    proof (cases f)
      case (Inl e)
      with c f creds show ?thesis
        by (intro exI [of _ "FetchFailed e"] exI [of _ s2])
          (auto simp: Reconcile_def conclude_def Let_def intro: gathers.fetch_failed)
    next
      case fetched: (Inr b)
      obtain ids s3 where r: "run_state (readLeaseIDs rc cr) s2 = (ids, s3)" by fastforce
      show ?thesis
      proof (cases "dynamic (rc_fetcher rc)")
        case None
        with c f r creds fetched show ?thesis
          by (intro exI [of _ "Gathered b Map.empty ids"] exI [of _ s3])
            (auto simp: Reconcile_def conclude_def Let_def intro: gathers.static_only)
      next
        case (Some d)
        obtain y s4 where y: "run_state (SyncDynamic d cd (sp_projectID (cr_spec cr)) (sp_environment (cr_spec cr)) ids) s3
            = (y, s4)" by fastforce
        show ?thesis
        proof (cases y)
          case (Inl e)
          with c f r y creds fetched Some show ?thesis
            by (intro exI [of _ "SyncFailed e"] exI [of _ s4])
              (auto simp: Reconcile_def conclude_def Let_def intro: gathers.sync_failed)
        next
          case (Inr x)
          obtain extra ids' where "x = (extra, ids')" by fastforce
          with c f r y creds fetched Some Inr show ?thesis
            by (intro exI [of _ "Gathered b extra ids'"] exI [of _ s4])
              (auto simp: Reconcile_def conclude_def Let_def intro: gathers.with_dynamic)
        qed
      qed
    qed
  qed
qed

lemma Reconcile_concludes:
  assumes "\<And>g s'. gathers rc cr s g s' \<Longrightarrow> wp (conclude rc cr g) s' (\<lambda>r s''. Q g s' r s'')"
  shows "wp (Reconcile rc cr) s (\<lambda>r s''. \<exists>g s'. gathers rc cr s g s' \<and> Q g s' r s'')"
proof -
  from Reconcile_gathers obtain g s' where "gathers rc cr s g s'"
    "run_state (Reconcile rc cr) s = run_state (conclude rc cr g) s'" by blast
  with assms [of g s'] show ?thesis by (auto simp: wp_def split: prod.splits)
qed

section \<open>How long the operator waits\<close>

text \<open>Errors only a human can mend: the platform answered 401, 403 or 404.\<close>

definition needs_human :: "gathered \<Rightarrow> bool" where
  "needs_human g \<longleftrightarrow> (case g of
       FetchFailed e \<Rightarrow> as_api_error e \<in> {Some 401, Some 403, Some 404}
     | SyncFailed e \<Rightarrow> as_api_error e \<in> {Some 401, Some 403, Some 404}
     | _ \<Rightarrow> False)"

lemma is_permanent_iff: "is_permanent e \<longleftrightarrow> as_api_error e \<in> {Some 401, Some 403, Some 404}"
  by (auto simp: is_permanent_def permanent_def StatusUnauthorized_def StatusForbidden_def StatusNotFound_def
      split: option.split)

lemma reasons_distinct [simp]:
  "ReasonAuthSecret \<noteq> ReasonPermanentError" "ReasonFetchFailed \<noteq> ReasonPermanentError"
  "ReasonSecretWriteFail \<noteq> ReasonPermanentError" "ReasonSynced \<noteq> ReasonPermanentError"
  by (simp_all add: ReasonAuthSecret_def ReasonPermanentError_def ReasonFetchFailed_def
      ReasonSecretWriteFail_def ReasonSynced_def)

definition paced :: "go_runtime \<Rightarrow> kryptic_secret \<Rightarrow> bool \<Rightarrow> result \<Rightarrow> bool" where
  "paced R cr human r \<longleftrightarrow> 30 * second \<le> rs_requeueAfter r \<and> representable (rs_requeueAfter r) \<and>
     (if human then cd_reason (rs_condition r) = ReasonPermanentError \<and> 10 * minute \<le> rs_requeueAfter r
      else cd_reason (rs_condition r) \<noteq> ReasonPermanentError \<and>
        rs_requeueAfter r \<le> RefreshIntervalOrDefault R (cr_spec cr))"

lemma interval_facts:
  "30 * second \<le> RefreshIntervalOrDefault R sp" "representable (RefreshIntervalOrDefault R sp)"
  "30 * second \<le> shortBackoff i" "30 * second \<le> longBackoff i"
  using RefreshIntervalOrDefault_floor backoff_bounds(1) long_floor
  by (simp_all add: RefreshIntervalOrDefault_bound MinRefreshInterval_def)

lemma paced_failure:
  "paced R cr (is_permanent e) (fetch_failure (RefreshIntervalOrDefault R (cr_spec cr)) k t e)"
  using interval_facts shortBackoff_le [OF RefreshIntervalOrDefault_floor]
  by (simp add: paced_def backoff_bounds longBackoff_bound shortBackoff_bound)

lemma paced_end:
  "paced R cr False (failed ReasonSecretWriteFail m (shortBackoff (RefreshIntervalOrDefault R (cr_spec cr))) k)"
  "paced R cr False (synced R' cr' (RefreshIntervalOrDefault R (cr_spec cr)) data)"
  "paced R cr False (failed ReasonAuthSecret m (RefreshIntervalOrDefault R (cr_spec cr)) k)"
  using interval_facts shortBackoff_le [OF RefreshIntervalOrDefault_floor]
  by (simp_all add: paced_def shortBackoff_bound)

lemma conclude_paced:
  "wp (conclude rc cr g) s (\<lambda>r s'. paced (rc_runtime rc) cr (needs_human g) r)"
proof (cases g)
  case (Gathered b extra ids)
  show ?thesis
    unfolding Gathered conclude_def finish_pass_def Let_def needs_human_def gathered.case wp_bind wp_return
    by (rule wp_any) (simp add: paced_end split: option.split)
qed (use paced_failure [of "rc_runtime rc" cr] in
  \<open>simp_all add: conclude_def Let_def wp_return needs_human_def paced_end is_permanent_iff\<close>)

text \<open>
  C18. The next pass is never less than thirty seconds away and the delay fits a
  \<open>time.Duration\<close>. When the platform has answered the fetch or the lease work with 401, 403 or
  404, the pass reports a permanent error and the delay is ten minutes or more; in every other case
  it reports none and the delay is at most the refresh interval.
\<close>

theorem passes_are_paced:
  "wp (Reconcile rc cr) s (\<lambda>r s'. \<exists>g s1. gathers rc cr s g s1 \<and>
     30 * second \<le> rs_requeueAfter r \<and> representable (rs_requeueAfter r) \<and>
     (if needs_human g
      then cd_reason (rs_condition r) = ReasonPermanentError \<and> 10 * minute \<le> rs_requeueAfter r
      else cd_reason (rs_condition r) \<noteq> ReasonPermanentError \<and>
        rs_requeueAfter r \<le> RefreshIntervalOrDefault (rc_runtime rc) (cr_spec cr)))"
  using Reconcile_concludes [of rc cr s "\<lambda>g s1 r s'. paced (rc_runtime rc) cr (needs_human g) r"] conclude_paced
  unfolding paced_def by blast

section \<open>Which Secret is written\<close>

text \<open>The name the user asked for: the one in the spec, or that of the resource.\<close>

definition asked_name :: "kryptic_secret \<Rightarrow> string" where
  "asked_name cr = (if sp_secretName (cr_spec cr) = '''' then cr_name cr else sp_secretName (cr_spec cr))"

lemma asked_name: "TargetSecretName cr = asked_name cr"
  by (simp add: TargetSecretName_def asked_name_def)

text \<open>
  A write that the read right before it allows. A Secret is created in the namespace and under the
  name that were read, and only when nothing was found there. A Secret is updated only when the one
  found has an owner of the kind and the name of the resource, and it is that Secret which is
  written: same name, same namespace and the version that was read, so that a change in between is
  a conflict.
\<close>

definition allowed_write :: "kryptic_secret \<Rightarrow> goerr + secret \<Rightarrow> event \<Rightarrow> bool" where
  "allowed_write cr got e \<longleftrightarrow> (case e of
       Kube (CreateSecret ns sec _) \<Rightarrow> ns = cr_namespace cr \<and> s_namespace sec = cr_namespace cr \<and>
         s_name sec = asked_name cr \<and> (\<exists>err. got = Inl err \<and> is_not_found err)
     | Kube (UpdateSecret ns sec _) \<Rightarrow> ns = cr_namespace cr \<and> (\<exists>found. got = Inr found \<and>
         (\<exists>owner \<in> set (s_owners found). or_kind owner = ''KrypticSecret'' \<and> or_name owner = cr_name cr) \<and>
         s_name sec = s_name found \<and> s_namespace sec = s_namespace found \<and> s_version sec = s_version found)
     | _ \<Rightarrow> False)"

definition looked_before :: "kryptic_secret \<Rightarrow> event list \<Rightarrow> bool" where
  "looked_before cr es \<longleftrightarrow> (\<forall>pre e post. es = pre @ e # post \<longrightarrow> secret_write e \<longrightarrow>
     (\<exists>pre' got. pre = pre' @ [Kube (GetSecret (cr_namespace cr) (asked_name cr) got)] \<and> allowed_write cr got e))"

lemma looked_before_quiet: "quiet es \<Longrightarrow> looked_before cr es"
  by (auto simp: looked_before_def)

lemma apply_outcome_looked: "apply_outcome cr data ids es r \<Longrightarrow> looked_before cr es"
  by (erule apply_outcome_elim)
    (auto simp: looked_before_def Cons_eq_append_conv allowed_write_def asked_name ownedByThisCR_def list_ex_iff Kind_def)

lemma looked_before_append:
  assumes "quiet pre" and "looked_before cr es"
  shows "looked_before cr (pre @ es)"
  unfolding looked_before_def
proof (intro allI impI)
  fix p e q assume eq: "pre @ es = p @ e # q" and w: "secret_write e"
  from assms(1) w have "e \<notin> set pre" by (auto simp: list_all_iff)
  with eq obtain p' where p: "p = pre @ p'" "es = p' @ e # q"
    by (auto simp: append_eq_append_conv2 append_eq_Cons_conv Cons_eq_append_conv)
  from assms(2) p(2) w obtain pre' got where
    "p' = pre' @ [Kube (GetSecret (cr_namespace cr) (asked_name cr) got)]" "allowed_write cr got e"
    unfolding looked_before_def by blast
  with p(1) show "\<exists>pre' got. p = pre' @ [Kube (GetSecret (cr_namespace cr) (asked_name cr) got)] \<and> allowed_write cr got e"
    by (intro exI [of _ "pre @ pre'"] exI [of _ got]) simp
qed

lemma pass_outcome_looked: "pass_outcome R cr es r \<Longrightarrow> looked_before cr es"
  by (erule pass_outcome_elim)
    (auto intro: looked_before_quiet looked_before_append dest: apply_outcome_looked)

section \<open>What is written\<close>

text \<open>
  The data the user asked for: of everything gathered the listed keys, or all when none is listed,
  and a dynamic value before a stored one of the same key.
\<close>

definition asked_data :: "kryptic_secret \<Rightarrow> gathered \<Rightarrow> string \<rightharpoonup> string" where
  "asked_data cr g k = (case g of
       Gathered b extra ids \<Rightarrow>
         if sp_keys (cr_spec cr) = [] \<or> k \<in> set (sp_keys (cr_spec cr))
         then (case extra k of Some v \<Rightarrow> Some v | None \<Rightarrow> b k) else None
     | _ \<Rightarrow> None)"

lemma selected_is_asked: "selectKeys (b ++ extra) (sp_keys (cr_spec cr)) = asked_data cr (Gathered b extra ids)"
  by (rule ext) (auto simp: selectKeys_eq asked_data_def restrict_map_def map_add_def)

text \<open>A write of what was asked for, after everything was gathered.\<close>

definition written_as_asked :: "kryptic_secret \<Rightarrow> gathered \<Rightarrow> event \<Rightarrow> bool" where
  "written_as_asked cr g e \<longleftrightarrow> (case stored_secret e of
       None \<Rightarrow> True
     | Some (ns, sec) \<Rightarrow> (\<exists>b extra ids. g = Gathered b extra ids) \<and> ns = cr_namespace cr \<and>
         s_data sec = asked_data cr g \<and>
         s_type sec = (if tp_type (sp_template (cr_spec cr)) = '''' then ''Opaque'' else tp_type (sp_template (cr_spec cr))) \<and>
         (\<exists>owner. s_owners sec = [owner] \<and> or_apiVersion owner = ''kryptic.dev/v1'' \<and> or_kind owner = ''KrypticSecret'' \<and>
            or_name owner = cr_name cr \<and> or_uid owner = cr_uid cr \<and> or_controller owner = Some True))"

lemma stored_is_write: "stored_secret e \<noteq> None \<Longrightarrow> secret_write e"
  by (cases e rule: stored_secret.cases) simp_all

lemma quiet_as_asked: "quiet es \<Longrightarrow> list_all (written_as_asked cr g) es"
  using stored_is_write by (fastforce simp: list_all_iff written_as_asked_def split: option.split)

lemma apply_outcome_as_asked:
  assumes "apply_outcome cr (asked_data cr (Gathered b extra ids)) ids' es r"
  shows "list_all (written_as_asked cr (Gathered b extra ids)) es"
  using apply_outcome_stored [OF assms]
  by (fastforce simp: list_all_iff written_as_asked_def secretType_def cr_owner_def APIVersion_def Kind_def
      split: option.split)

definition written_right :: "kryptic_secret \<Rightarrow> gathered \<Rightarrow> event list \<Rightarrow> result \<Rightarrow> bool" where
  "written_right cr g es r \<longleftrightarrow> list_all (written_as_asked cr g) es \<and>
     rs_syncedKeys r = (if cd_status (rs_condition r) = ConditionTrue then int (card (dom (asked_data cr g)))
       else st_syncedKeyCount (cr_status cr))"

lemma conclude_right:
  "wp (conclude rc cr g) s (\<lambda>r s'. \<exists>es. trace s' = trace s @ es \<and> written_right cr g es r)"
proof (cases g)
  case (Gathered b extra ids)
  show ?thesis
    unfolding Gathered conclude_def finish_pass_def Let_def gathered.case wp_bind wp_return selected_is_asked [of b extra _ ids]
  proof (rule wp_mono [OF applySecret_outcome], elim exE conjE, goal_cases)
    case (1 applied s' es)
    then show ?case
      using apply_outcome_as_asked [OF 1(2)] by (auto simp: written_right_def split: option.split)
  qed
qed (auto simp: conclude_def Let_def wp_return written_right_def)

text \<open>Gathering writes no Secret.\<close>

lemma quiet_trace: "emits (\<lambda>e. \<not> secret_write e) m \<Longrightarrow> run_state m s = (a, s') \<Longrightarrow> \<exists>es. trace s' = trace s @ es \<and> quiet es"
  by (rule emits_trace)

lemma quiet_then:
  "\<exists>es. t1 = t0 @ es \<and> quiet es \<Longrightarrow> \<exists>es. t2 = t1 @ es \<and> quiet es \<Longrightarrow> \<exists>es. t2 = t0 @ es \<and> quiet es"
  by auto

lemma gathers_quiet:
  assumes "gathers (operator_reconciler X K getenv) cr s g s'"
  shows "\<exists>es. trace s' = trace s @ es \<and> quiet es"
proof -
  have quiet_steps:
    "emits (\<lambda>e. \<not> secret_write e) (Fetch (rc_fetcher (operator_reconciler X K getenv)) c p env)"
    "dynamic (rc_fetcher (operator_reconciler X K getenv)) = Some d \<Longrightarrow>
       emits (\<lambda>e. \<not> secret_write e) (SyncDynamic d c p env ids)" for c p env d ids
    by (simp_all add: client.fetch_quiet client.sync_quiet)
  from assms show ?thesis
  proof cases
    case refused
    then show ?thesis by (blast intro: quiet_trace [OF credentials_quiet])
  next
    case fetch_failed
    from quiet_trace [OF credentials_quiet fetch_failed(2)] quiet_trace [OF quiet_steps(1) fetch_failed(3)]
    show ?thesis by (rule quiet_then)
  next
    case static_only
    from quiet_then [OF quiet_trace [OF credentials_quiet static_only(2)] quiet_trace [OF quiet_steps(1) static_only(3)]]
      quiet_trace [OF readLeaseIDs_quiet static_only(4)]
    show ?thesis by (rule quiet_then)
  next
    case sync_failed
    from quiet_then [OF quiet_then [OF quiet_trace [OF credentials_quiet sync_failed(2)] quiet_trace [OF quiet_steps(1) sync_failed(3)]]
      quiet_trace [OF readLeaseIDs_quiet sync_failed(4)]] quiet_trace [OF quiet_steps(2) [OF sync_failed(5)] sync_failed(6)]
    show ?thesis by (rule quiet_then)
  next
    case with_dynamic
    from quiet_then [OF quiet_then [OF quiet_trace [OF credentials_quiet with_dynamic(2)] quiet_trace [OF quiet_steps(1) with_dynamic(3)]]
      quiet_trace [OF readLeaseIDs_quiet with_dynamic(4)]] quiet_trace [OF quiet_steps(2) [OF with_dynamic(5)] with_dynamic(6)]
    show ?thesis by (rule quiet_then)
  qed
qed

lemma operator_writes_right:
  "wp (Reconcile (operator_reconciler X K getenv) cr) s (\<lambda>r s'. \<exists>g s1. gathers (operator_reconciler X K getenv) cr s g s1 \<and>
     (\<exists>es. trace s' = trace s @ es \<and> written_right cr g es r))"
proof (rule Reconcile_concludes)
  fix g s' assume "gathers (operator_reconciler X K getenv) cr s g s'"
  from gathers_quiet [OF this] obtain pre where "trace s' = trace s @ pre" "quiet pre" by blast
  then show "wp (conclude (operator_reconciler X K getenv) cr g) s'
      (\<lambda>r s''. \<exists>es. trace s'' = trace s @ es \<and> written_right cr g es r)"
    by (intro wp_mono [OF conclude_right]) (auto simp: written_right_def quiet_as_asked)
qed

end
