(* ===== verification/Samples.thy ===== *)
theory Samples
  imports Apply Types
begin

text \<open>
  Concrete parameters, for the theorems that show a statement at work: a runtime with tables for
  ASCII only, an encryption library whose envelopes are plain text, a network and targets that
  answer the same to everything. The outside world is the list of what was asked of it.
\<close>

definition sample_runtime :: go_runtime where
  "sample_runtime =
     \<lparr>to_upper_rune = (\<lambda>r. r), to_lower_rune = (\<lambda>r. r), same_fold = (\<lambda>a b. a = b),
      is_print = (\<lambda>r. False), float_fraction = (\<lambda>f unit scale. f * unit div scale),
      json_error_text = (\<lambda>what text. ''invalid JSON''), url_error_text = (\<lambda>u. ''invalid URL''),
      map_order = (\<lambda>m. m)\<rparr>"

definition sample_crypto :: "unit crypto" where
  "sample_crypto =
     \<lparr>kdf_for_version = (\<lambda>v secret salt. Inr (secret @ salt)),
      machine_auth_secret = (\<lambda>secret. Inr (''derived-'' @ secret)),
      secret_context = (\<lambda>d e. d @ '':'' @ e),
      envelope_open = (\<lambda>k e ad. Inr e),
      envelope_seal = (\<lambda>k i plain ad w. (Inr plain, w)),
      sealedbox_parse = (\<lambda>s. Inr s),
      sealedbox_open = (\<lambda>pub priv box. Inr box)\<rparr>"

definition sample_target :: "unit target_api" where
  "sample_target =
     \<lparr>sql_open = (\<lambda>d s w. (Inr 0, w)), sql_ping = (\<lambda>n w. (None, w)), sql_exec = (\<lambda>n s w. (None, w)),
      sql_close = (\<lambda>n w. ((), w)),
      oracle_build_url = (\<lambda>h p s u pw o'. h),
      cql_connect = (\<lambda>c w. (Inr 0, w)), cql_query = (\<lambda>n s w. (None, w)), cql_close = (\<lambda>n w. ((), w)),
      redis_send = (\<lambda>c args w. (None, w)), redis_close = (\<lambda>c w. ((), w)),
      aws_load_config = (\<lambda>r c w. (Inr 0, w)), aws_do = (\<lambda>n c w. (Inr AwsDone, w)),
      temp_create = (\<lambda>p w. (Inr ''ca.pem'', w)), temp_write = (\<lambda>f s w. (None, w)),
      temp_close = (\<lambda>f w. (None, w)), temp_remove = (\<lambda>f w. ((), w)),
      random_block = (\<lambda>w. (replicate 64 CHR ''b'', w)), random_draws = 64\<rparr>"

definition sample_response :: "int \<Rightarrow> http_response" where
  "sample_response st = \<lparr>resp_status = st, resp_body = ''{}'', resp_first_read = 2\<rparr>"

definition sample_net :: "int \<Rightarrow> unit net_api" where
  "sample_net st = \<lparr>http_do = (\<lambda>q w. (Inr (sample_response st), w)), clock_now = (\<lambda>w. (0, w))\<rparr>"

definition sample_env :: "int \<Rightarrow> unit env" where
  "sample_env st = \<lparr>en_target = sample_target, en_net = sample_net st, en_crypto = sample_crypto,
     en_runtime = sample_runtime\<rparr>"

lemmas sample_defs = sample_runtime_def sample_crypto_def sample_target_def sample_response_def
  sample_net_def sample_env_def

definition sample_secret :: secret where
  "sample_secret = \<lparr>s_name = ''app'', s_namespace = ''team'', s_version = ''1'', s_labels = Map.empty,
     s_annotations = Map.empty, s_owners = [], s_type = ''Opaque'',
     s_data = [''clientId'' \<mapsto> ''id'', ''clientSecret'' \<mapsto> ''s3cret'']\<rparr>"

definition sample_kube :: "unit kube_api" where
  "sample_kube =
     \<lparr>get_secret = (\<lambda>ns n w. (Inr sample_secret, w)), create_secret = (\<lambda>ns sec w. (Inr sec, w)),
      update_secret = (\<lambda>ns sec w. (Inr sec, w)), get_resource = (\<lambda>ns n w. (Inr (JObj []), w)),
      update_resource = (\<lambda>ns j w. (Inr j, w)), update_resource_status = (\<lambda>ns j w. (Inr j, w))\<rparr>"

definition sample_spec :: kryptic_secret_spec where
  "sample_spec = \<lparr>sp_projectID = ''proj'', sp_environment = ''production'', sp_secretName = ''app'',
     sp_refreshInterval = '''', sp_keys = [], sp_auth = Some \<lparr>au_secretRef = \<lparr>ref_name = ''creds''\<rparr>\<rparr>,
     sp_template = \<lparr>tp_type = '''', tp_labels = Map.empty, tp_annotations = Map.empty\<rparr>\<rparr>"

definition sample_cr :: kryptic_secret where
  "sample_cr = \<lparr>cr_name = ''app'', cr_namespace = ''team'', cr_uid = ''u1'', cr_generation = 1,
     cr_deletionTimestamp = None, cr_finalizers = [LeaseFinalizer], cr_spec = sample_spec,
     cr_status = \<lparr>st_conditions = [], st_lastSyncTime = None, st_syncedKeyCount = 0, st_observedGeneration = 0\<rparr>\<rparr>"

definition sample_creds :: api_credentials where
  "sample_creds = \<lparr>cred_BaseURL = DefaultBaseURL, cred_ClientID = ''id'', cred_ClientSecret = ''s3cret''\<rparr>"

lemma sample_auth: "AuthSecretName (cr_spec sample_cr) = ''creds''"
  by (simp add: AuthSecretName_def sample_cr_def sample_spec_def)

end
