(* ===== verification/Username_Facts.thy ===== *)
theory Username_Facts
  imports Username
begin

text \<open>
  What user names and random strings are made of, and that rendering a template always ends: the
  unary functions and \<open>truncate\<close> use up closing braces, \<open>replace\<close> uses up quotes
  and, where there are none, spaces.
\<close>

section \<open>Slices and positions\<close>

lemma index_of_Some:
  "index_of pat s = Some i \<Longrightarrow> prefix pat (drop i s) \<and> i + length pat \<le> length s"
proof (induction pat s arbitrary: i rule: index_of.induct)
  case (1 pat)
  then show ?case by (simp split: if_splits)
next
  case (2 pat c s)
  then show ?case by (auto split: if_splits dest: prefix_length_le)
qed

lemma index_of_split:
  assumes "index_of pat s = Some i"
  shows "s = take i s @ pat @ drop (i + length pat) s"
  using index_of_Some [OF assms] by (metis append_take_drop_id drop_drop prefix_def append_eq_conv_conj add.commute)

text \<open>The three parts of a source around a token: before, inside with its opening, after.\<close>

lemma token_split:
  assumes "index_of ''}}'' (drop i s) = Some e0"
  shows "s = take i s @ slice s i (e0 + i) @ ''}}'' @ drop (e0 + i + 2) s"
proof -
  have "drop i s = take e0 (drop i s) @ ''}}'' @ drop (e0 + i + 2) s"
    using index_of_split [OF assms] by (simp add: add.commute add.left_commute)
  then show ?thesis by (metis append_take_drop_id slice_def diff_add_inverse2)
qed

lemma slice_suffix: "\<exists>p. slice s i e = p @ slice s (i + n) e \<or> slice s (i + n) e = []"
proof (cases "i + n \<le> e")
  case True
  then have "take (e - i) (drop i s) = take n (drop i s) @ take (e - (i + n)) (drop (i + n) s)"
    by (metis add.commute add_diff_inverse_nat diff_diff_left drop_drop le_add_diff_inverse2 nat_add_left_cancel_le
        not_le take_add add_le_imp_le_diff)
  then show ?thesis by (auto simp: slice_def)
qed (simp add: slice_def)

lemma set_slice: "set (slice s (i + n) e) \<subseteq> set (slice s i e)"
  using slice_suffix [of s i e n] by (metis Un_upper2 empty_subsetI list.set(1) set_append)

lemma count_slice: "count_list (slice s (i + n) e) c \<le> count_list (slice s i e) c"
  using slice_suffix [of s i e n] by (metis count_list.simps(1) count_list_append le_add2 le0)

section \<open>Trimming and fields\<close>

lemma trim_space_part: "\<exists>a b. s = a @ trim_space s @ b"
proof -
  let ?P = "is_space \<circ> fst"
  let ?d = "dropWhile ?P (runes s)"
  have "runes s = takeWhile ?P (runes s) @ ?d" by simp
  moreover have "?d = rev (dropWhile ?P (rev ?d)) @ rev (takeWhile ?P (rev ?d))"
    by (metis rev_append rev_rev_ident takeWhile_dropWhile_id)
  ultimately have "concat (map snd (runes s)) = concat (map snd (takeWhile ?P (runes s))) @ trim_space s
      @ concat (map snd (rev (takeWhile ?P (rev ?d))))"
    unfolding trim_space_def by (metis append_assoc concat_append map_append)
  then show ?thesis by auto
qed

lemma count_trim: "count_list (trim_space s) c \<le> count_list s c"
proof -
  obtain a b where "s = a @ trim_space s @ b" using trim_space_part by blast
  then have "count_list s c = count_list a c + (count_list (trim_space s) c + count_list b c)"
    by (metis count_list_append)
  then show ?thesis by simp
qed

lemma set_trim: "set (trim_space s) \<subseteq> set s"
  using trim_space_part [of s] by (metis Un_upper1 Un_upper2 set_append subset_trans)

lemma count_fields_from:
  "p \<in> set (str_fields_from rs cur) \<Longrightarrow> count_list p c \<le> count_list (cur @ concat (map snd rs)) c"
proof (induction rs cur arbitrary: p rule: str_fields_from.induct)
  case (2 r b rs cur)
  then show ?case
    by (cases "is_space r") (auto split: if_splits simp: add_increasing add_increasing2 intro: le_trans)
qed (auto split: if_splits)

lemma count_fields: "p \<in> set (str_fields s) \<Longrightarrow> count_list p c \<le> count_list s c"
  unfolding str_fields_def by (drule count_fields_from) simp

section \<open>Low runes\<close>

text \<open>A byte below 128 stands for itself, in a string and in the encoding of a rune.\<close>

lemma encode_rune_low: "c \<in> set (encode_rune r) \<Longrightarrow> byte c < 128 \<Longrightarrow> byte c = r"
proof -
  have high: "128 \<le> (128 + x) mod (256::nat)" if "x < 64" for x using that by simp
  have h2: "128 \<le> (192 + x) mod (256::nat)" if "x < 32" for x using that by simp
  have h3: "128 \<le> (224 + x) mod (256::nat)" if "x < 16" for x using that by simp
  have h4: "128 \<le> (240 + x) mod (256::nat)" if "x < 8" for x using that by simp
  assume c: "c \<in> set (encode_rune r)" "byte c < 128"
  define q where "q = (if 1114111 < r \<or> (55296 \<le> r \<and> r \<le> 57343) then rune_error else r)"
  have q: "q \<le> 1114111" by (simp add: q_def rune_error_def)
  consider "q < 128" | "128 \<le> q" "q < 2048" | "2048 \<le> q" "q < 65536" | "65536 \<le> q" by linarith
  then show ?thesis
  proof cases
    case 1
    then have "q = r" by (auto simp: q_def rune_error_def split: if_splits)
    with 1 c show ?thesis by (simp add: encode_rune_def q_def [symmetric])
  next
    case 2
    then have "q div 64 < 32" by (simp add: less_mult_imp_div_less)
    with 2 c show ?thesis
      using high [of "q mod 64"] h2 [of "q div 64"]
      by (auto simp: encode_rune_def Let_def q_def [symmetric])
  next
    case 3
    then have "q div 4096 < 16" by (simp add: less_mult_imp_div_less)
    with 3 c show ?thesis
      using high [of "q mod 64"] high [of "q div 64 mod 64"] h3 [of "q div 4096"]
      by (auto simp: encode_rune_def Let_def q_def [symmetric])
  next
    case 4
    have "q div 262144 < 8" using q by (simp add: less_mult_imp_div_less)
    with 4 c show ?thesis
      using high [of "q mod 64"] high [of "q div 64 mod 64"] high [of "q div 4096 mod 64"] h4 [of "q div 262144"]
      by (auto simp: encode_rune_def Let_def q_def [symmetric])
  qed
qed

lemma encode_rune_ascii: "r < 128 \<Longrightarrow> encode_rune r = [char_of r]"
  by (simp add: encode_rune_def)

lemma decode_rune_low: "decode_rune s = (r, n) \<Longrightarrow> r < 128 \<Longrightarrow> s \<noteq> [] \<Longrightarrow> n = 1 \<and> byte (hd s) = r"
  by (cases s) (auto simp: decode_rune_def is_cont_def rune_error_def split: if_splits list.splits)

lemma runes_low: "(r, b) \<in> set (runes s) \<Longrightarrow> r < 128 \<Longrightarrow> b = [char_of r]"
proof (induction s rule: runes.induct)
  case (2 c s)
  obtain r' n where d: "decode_rune (c # s) = (r', n)" by fastforce
  with 2 show ?case using decode_rune_low [OF d] by auto
qed simp

lemma runes_low_set: "(r, b) \<in> set (runes s) \<Longrightarrow> r < 128 \<Longrightarrow> char_of r \<in> set s"
  using runes_low concat_runes [of s] by (metis list.set_intros(1) UN_I set_concat set_map imageI snd_conv)

section \<open>Random strings\<close>

lemma alphabet_length [simp]: "length alphabet = 62"
  by (simp add: alphabet_def)

lemma byte_limit_eq [simp]: "byte_limit = 248"
  by (simp add: byte_limit_def)

lemma alphabet_nth: "alphabet ! (n mod 62) \<in> set alphabet"
  by (rule nth_mem) simp

definition useful :: "char \<Rightarrow> bool" where
  "useful b \<longleftrightarrow> byte b < byte_limit"

lemma draw_chars_set: "set (draw_chars n out bs) \<subseteq> set out \<union> set alphabet"
proof (induction n out bs rule: draw_chars.induct)
  case (2 n out b bs)
  show ?case
  proof (cases "byte_limit \<le> byte b \<or> length (out @ [alphabet ! (byte b mod length alphabet)]) = n")
    case True
    with 2 show ?thesis using alphabet_nth by (auto simp: Let_def)
  next
    case False
    with 2 have "set (draw_chars n (out @ [alphabet ! (byte b mod 62)]) bs)
        \<subseteq> set (out @ [alphabet ! (byte b mod 62)]) \<union> set alphabet" by simp
    with False show ?thesis using alphabet_nth [of "byte b"] by (auto simp: Let_def)
  qed
qed simp

lemma draw_chars_bound: "length out < n \<Longrightarrow> length (draw_chars n out bs) \<le> n"
  by (induction n out bs rule: draw_chars.induct) (auto simp: Let_def)

lemma draw_chars_grows:
  "length out < n \<Longrightarrow> min n (length out + length (filter useful bs)) \<le> length (draw_chars n out bs)"
  by (induction n out bs rule: draw_chars.induct) (auto simp: Let_def useful_def)

lemma random_loop_result:
  "length out \<le> n \<Longrightarrow> set out \<subseteq> set alphabet \<Longrightarrow>
   wp (random_loop T n k out) s (\<lambda>r s'. case r of None \<Rightarrow> True | Some x \<Rightarrow> length x = n \<and> set x \<subseteq> set alphabet)"
proof (induction k arbitrary: out s)
  case (Suc k)
  show ?case
  proof (cases "length out < n")
    case True
    have "set (draw_chars n out b) \<subseteq> set alphabet" for b
      using Suc.prems(2) draw_chars_set [of n out b] by auto
    then show ?thesis
      unfolding random_loop.simps if_P [OF True] wp_bind
      by (intro wp_any Suc.IH draw_chars_bound True)
  qed (use Suc.prems in \<open>simp add: wp_return\<close>)
qed (auto simp: wp_return)

lemma random_string_chars:
  "wp (RandomString T len) s (\<lambda>r s'. case r of None \<Rightarrow> True
     | Some x \<Rightarrow> int (length x) = max 1 len \<and> set x \<subseteq> set alphabet)"
  unfolding RandomString_def
  by (rule wp_mono [OF random_loop_result]) (auto split: option.splits)

text \<open>
  C25. A random string has exactly the length asked for (one character at least), and every
  character is one of the 62 letters and digits.
\<close>

theorem random_string_shape:
  "wp (RandomString T len) s (\<lambda>r s'. case r of None \<Rightarrow> True
     | Some x \<Rightarrow> int (length x) = max 1 len \<and> set x \<subseteq> set alphabet)"
  by (rule random_string_chars)

lemma filter_mod_blocks:
  "length (filter (\<lambda>n. P (n mod m)) [0..<k * m]) = k * length (filter P [0..<m])"
proof (induction k)
  case (Suc k)
  have "[0..<Suc k * m] = [0..<k * m] @ map (\<lambda>i. i + k * m) [0..<m]"
    using upt_add_eq_append [of 0 "k * m" m] by (simp add: map_add_upt add.commute)
  moreover have "length (filter (\<lambda>n. P (n mod m)) (map (\<lambda>i. i + k * m) [0..<m])) = length (filter P [0..<m])"
    by (simp add: filter_map o_def) (rule arg_cong [of _ _ length], rule filter_cong, simp_all)
  ultimately show ?case using Suc by simp
qed simp

lemma alphabet_once: "length (filter (\<lambda>i. alphabet ! i = c) [0..<62]) = (if c \<in> set alphabet then 1 else 0)"
proof -
  have "length (filter (\<lambda>i. alphabet ! i = c) [0..<62])
      = length (filter ((=) c) (map ((!) alphabet) [0..<length alphabet]))"
    by (simp add: filter_map o_def eq_commute)
  also have "\<dots> = count_list alphabet c"
    unfolding map_nth by (simp add: count_list_eq_length_filter)
  also have "\<dots> = (if c \<in> set alphabet then 1 else 0)"
    using distinct_count_atmost_1 [of alphabet] by (simp add: alphabet_def)
  finally show ?thesis .
qed

text \<open>
  C26. No character is favoured: of the 256 values of a byte exactly four are turned into any given
  character of the alphabet, and the eight that are left over are rejected.
\<close>

theorem random_characters_uniform:
  "length (filter (\<lambda>b. draw_chars 1 [] [b] = [c]) (map char_of [0..<256::nat]))
     = (if c \<in> set alphabet then 4 else 0)"
proof -
  have draw: "draw_chars 1 [] [char_of n] = [c] \<longleftrightarrow> n < 248 \<and> alphabet ! (n mod 62) = c" if "n < 256" for n :: nat
    using that by (simp add: Let_def)
  have "filter (\<lambda>n. draw_chars 1 [] [char_of n] = [c]) [0..<256::nat]
      = filter (\<lambda>n. n < 248 \<and> alphabet ! (n mod 62) = c) ([0..<248] @ [248..<256])"
  proof (rule filter_cong)
    show "[0..<256] = [0..<248] @ [248..<256::nat]" using upt_add_eq_append [of 0 248 8] by simp
  qed (auto simp: draw)
  also have "\<dots> = filter (\<lambda>n. alphabet ! (n mod 62) = c) [0..<4 * 62]"
    by (auto simp: filter_empty_conv intro!: filter_cong)
  finally have "length (filter (\<lambda>n. draw_chars 1 [] [char_of n] = [c]) [0..<256::nat])
      = 4 * length (filter (\<lambda>i. alphabet ! i = c) [0..<62])"
    using filter_mod_blocks [of "\<lambda>i. alphabet ! i = c" 62 4] by simp
  then show ?thesis unfolding alphabet_once by (simp add: filter_map o_def)
qed

text \<open>A source of randomness that makes progress: no block consists of rejected bytes only.\<close>

definition productive :: "'w target_api \<Rightarrow> bool" where
  "productive T \<longleftrightarrow> (\<forall>w. list_ex useful (fst (random_block T w)))"

lemma random_loop_returns:
  assumes "productive T"
  shows "length out \<le> n \<Longrightarrow> n \<le> length out + k \<Longrightarrow> wp (random_loop T n k out) s (\<lambda>r s'. r \<noteq> None)"
proof (induction k arbitrary: out s)
  case 0
  then show ?case by (simp add: wp_return)
next
  case (Suc k)
  show ?case
  proof (cases "length out < n")
    case True
    obtain b w where b: "random_block T (world s) = (b, w)" by fastforce
    with assms have "list_ex useful b" unfolding productive_def by (metis fst_conv)
    then have "0 < length (filter useful b)" by (auto simp: list_ex_iff filter_empty_conv)
    with draw_chars_grows [OF True, of b] True have "length out + 1 \<le> length (draw_chars n out b)"
      by linarith
    with Suc.prems have "n \<le> length (draw_chars n out b) + k" by simp
    then show ?thesis
      unfolding random_loop.simps if_P [OF True] wp_bind target_random_def wp_external b prod.case
      by (intro Suc.IH draw_chars_bound True)
  qed (use Suc.prems in \<open>simp add: wp_return\<close>)
qed

lemma random_string_returns:
  assumes "productive T" and "max 1 len \<le> int (random_draws T)"
  shows "wp (RandomString T len) s (\<lambda>r s'. r \<noteq> None)"
  unfolding RandomString_def using assms by (intro random_loop_returns) auto

section \<open>Sanitizing\<close>

lemma sane_low: "sane_rune r \<Longrightarrow> r < 128"
  by (auto simp: sane_rune_def)

lemma Sanitize_chars: "list_all (\<lambda>c. sane_rune (byte c)) (Sanitize v) \<and> Sanitize v \<noteq> []"
proof -
  let ?b = "concat (map (\<lambda>p. if sane_rune (fst p) then encode_rune (fst p) else []) (runes v))"
  have "sane_rune (byte c)" if "c \<in> set ?b" for c
  proof -
    from that obtain r where r: "sane_rune r" "c \<in> set (encode_rune r)" by (auto split: if_splits)
    with sane_low [OF r(1)] have "c = char_of r" by (auto simp: encode_rune_def Let_def)
    with r sane_low [OF r(1)] show ?thesis by simp
  qed
  moreover have "list_all (\<lambda>c. sane_rune (byte c)) ''kryptic''" by (simp add: sane_rune_def)
  ultimately show ?thesis by (auto simp: Sanitize_def Let_def list_all_iff)
qed

section \<open>The loops over a template end\<close>

abbreviation braces :: "string \<Rightarrow> nat" where
  "braces s \<equiv> count_list s CHR ''}''"

text \<open>Replacing a token by a text without more closing braces than were inside it uses two of them up.\<close>

lemma token_replaced:
  assumes "index_of ''}}'' (drop i s) = Some e0" and "braces v \<le> braces (slice s i (e0 + i))"
  shows "braces (take i s @ v @ drop (e0 + i + 2) s) < braces s"
proof -
  have "braces s = braces (take i s @ slice s i (e0 + i) @ ''}}'' @ drop (e0 + i + 2) s)"
    using token_split [OF assms(1)] by simp
  with assms(2) show ?thesis by simp
qed

definition plain :: "char \<Rightarrow> bool" where
  "plain c \<longleftrightarrow> sane_rune (byte c) \<or> c = CHR ''-''"

definition plain_tokens :: "(string \<times> string) list \<Rightarrow> bool" where
  "plain_tokens tokens \<longleftrightarrow> list_all (\<lambda>kv. list_all plain (snd kv)) tokens"

lemma plain_not:
  "list_all plain s \<Longrightarrow> \<not> plain c \<Longrightarrow> c \<notin> set s"
  by (auto simp: list_all_iff)

lemma not_plain [simp]: "\<not> plain CHR ''}''" "\<not> plain CHR '' ''" "\<not> plain CHR 0x22" "\<not> plain CHR 0x27"
  by (simp_all add: plain_def sane_rune_def)

lemma resolveArg_cases: "plain_tokens tokens \<Longrightarrow> resolveArg v tokens = v \<or> list_all plain (resolveArg v tokens)"
  by (auto simp: resolveArg_def plain_tokens_def list_all_iff dest!: map_of_SomeD split: option.split)

lemma braces_resolve: "plain_tokens tokens \<Longrightarrow> braces (resolveArg v tokens) \<le> braces v"
  using resolveArg_cases [of tokens v] plain_not [of "resolveArg v tokens" "CHR ''}''"]
  by (auto simp: count_list_0_iff [symmetric])

lemma applyUnary_returns:
  assumes "\<And>v. braces (f v) \<le> braces v" and "plain_tokens tokens"
  shows "\<exists>r. applyUnary source name f tokens = Some r"
proof (induction "braces source" arbitrary: source rule: less_induct)
  case less
  let ?open = "''{{'' @ name @ '' ''"
  show ?case
  proof (cases "index_of ?open source")
    case None
    then show ?thesis by (subst applyUnary.simps) simp
  next
    case (Some i)
    show ?thesis
    proof (cases "index_of ''}}'' (drop i source)")
      case None
      with Some show ?thesis by (subst applyUnary.simps) simp
    next
      case e0: (Some e0)
      let ?v = "resolveArg (trim_space (slice source (i + length ?open) (e0 + i))) tokens"
      have "braces (f ?v) \<le> braces (slice source i (e0 + i))"
        by (rule order_trans [OF assms(1) order_trans [OF braces_resolve [OF assms(2)]
              order_trans [OF count_trim count_slice]]])
      from less [OF token_replaced [OF e0 this]] Some e0 show ?thesis
        by (subst applyUnary.simps) (simp add: Let_def)
    qed
  qed
qed

lemma count_take: "count_list (take n xs) c \<le> count_list xs c"
  using count_list_take_drop [of n xs c] by simp

lemma braces_truncated: "plain_tokens tokens \<Longrightarrow> braces (truncated_arg (str_fields v) tokens) \<le> braces v"
proof -
  assume t: "plain_tokens tokens"
  show ?thesis
  proof (cases "str_fields v")
    case Nil
    then show ?thesis by (simp add: truncated_arg_def Let_def)
  next
    case (Cons p ps)
    then have "braces p \<le> braces v" using count_fields [of p v] by simp
    with braces_resolve [OF t, of p] have "braces (resolveArg p tokens) \<le> braces v" by simp
    then show ?thesis unfolding truncated_arg_def Let_def Cons list.case
      by (intro order_trans [OF count_take])
  qed
qed

lemma applyTruncate_returns:
  assumes "plain_tokens tokens"
  shows "\<exists>r. applyTruncate source tokens = Some r"
proof (induction "braces source" arbitrary: source rule: less_induct)
  case less
  show ?case
  proof (cases "index_of truncate_open source")
    case None
    then show ?thesis by (subst applyTruncate.simps) simp
  next
    case (Some i)
    show ?thesis
    proof (cases "index_of ''}}'' (drop i source)")
      case None
      with Some show ?thesis by (subst applyTruncate.simps) simp
    next
      case e0: (Some e0)
      let ?v = "truncated_arg (str_fields (trim_space (slice source (i + length truncate_open) (e0 + i)))) tokens"
      have "braces ?v \<le> braces (slice source i (e0 + i))"
        by (rule order_trans [OF braces_truncated [OF assms] order_trans [OF count_trim count_slice]])
      note less [OF token_replaced [OF e0 this]]
      moreover have "applyTruncate source tokens
          = applyTruncate (take i source @ ?v @ drop (e0 + i + 2) source) tokens"
        by (subst applyTruncate.simps) (simp only: Some e0 option.case Let_def)
      ultimately show ?thesis by simp
    qed
  qed
qed

section \<open>\<open>replace\<close>\<close>

definition is_quote :: "char \<Rightarrow> bool" where
  "is_quote c \<longleftrightarrow> c = CHR 0x22 \<or> c = CHR 0x27"

definition quotes :: "string \<Rightarrow> nat" where
  "quotes s = length (filter is_quote s)"

abbreviation spaces :: "string \<Rightarrow> nat" where
  "spaces s \<equiv> count_list s CHR '' ''"

lemma quotes_append [simp]: "quotes (s @ t) = quotes s + quotes t"
  by (simp add: quotes_def)

lemma quotes_none: "(\<And>c. c \<in> set s \<Longrightarrow> \<not> is_quote c) \<Longrightarrow> quotes s = 0"
  by (simp add: quotes_def filter_empty_conv)

lemma quote_byte: "is_quote c \<longleftrightarrow> byte c = 34 \<or> byte c = 39"
proof -
  have "byte c = byte d \<longleftrightarrow> c = d" for d :: char by simp
  from this [of "CHR 0x22"] this [of "CHR 0x27"] show ?thesis by (auto simp: is_quote_def)
qed

lemma space_byte: "c = CHR '' '' \<longleftrightarrow> byte c = 32"
proof -
  have "byte c = byte d \<longleftrightarrow> c = d" for d :: char by simp
  from this [of "CHR '' ''"] show ?thesis by auto
qed

lemma encoded_quote: "c \<in> set (encode_rune r) \<Longrightarrow> is_quote c \<Longrightarrow> r = 34 \<or> r = 39"
  using encode_rune_low [of c r] by (auto simp: quote_byte)

lemma encoded_space: "CHR '' '' \<in> set (encode_rune r) \<Longrightarrow> r = 32"
  using encode_rune_low [of "CHR '' ''" r] by simp

lemma split_quoted_quotes:
  "p \<in> set (split_quoted_from rs cur q) \<Longrightarrow> (\<And>c. c \<in> set cur \<Longrightarrow> \<not> is_quote c) \<Longrightarrow> c \<in> set p \<Longrightarrow> \<not> is_quote c"
proof (induction rs cur q rule: split_quoted_from.induct)
  case (1 cur q)
  then show ?case by (auto split: if_splits)
next
  case (2 ch b rs cur q)
  show ?case
  proof (cases "ch = 39 \<or> ch = 34")
    case True
    with 2 show ?thesis by simp
  next
    case False
    then have "\<not> is_quote d" if "d \<in> set (encode_rune ch)" for d using encoded_quote [OF that] by auto
    with False 2 show ?thesis by (auto split: if_splits)
  qed
qed

lemma split_quoted_spaces:
  "p \<in> set (split_quoted_from rs cur False) \<Longrightarrow> list_all (\<lambda>x. fst x \<noteq> 39 \<and> fst x \<noteq> 34) rs \<Longrightarrow>
   CHR '' '' \<notin> set cur \<Longrightarrow> CHR '' '' \<notin> set p"
proof (induction rs arbitrary: cur)
  case (Cons x rs)
  obtain ch b where x: "x = (ch, b)" by fastforce
  have "is_space 32" by (simp add: is_space_def)
  then have "CHR '' '' \<notin> set (encode_rune ch)" if "\<not> is_space ch" using encoded_space that by blast
  with Cons.prems x have "ch \<noteq> 39" "ch \<noteq> 34" "list_all (\<lambda>x. fst x \<noteq> 39 \<and> fst x \<noteq> 34) rs"
    "\<not> is_space ch \<Longrightarrow> CHR '' '' \<notin> set (cur @ encode_rune ch)" by auto
  with Cons.prems x show ?case
    using Cons.IH [of cur] Cons.IH [of "[]"] Cons.IH [of "cur @ encode_rune ch"]
    by (cases "is_space ch"; cases "cur = []") auto
qed (auto split: if_splits)

lemma runes_no_quotes: "(\<And>c. c \<in> set s \<Longrightarrow> \<not> is_quote c) \<Longrightarrow> list_all (\<lambda>x. fst x \<noteq> 39 \<and> fst x \<noteq> 34) (runes s)"
proof -
  assume s: "\<And>c. c \<in> set s \<Longrightarrow> \<not> is_quote c"
  have "r \<noteq> 39 \<and> r \<noteq> 34" if "(r, b) \<in> set (runes s)" for r b
  proof (rule ccontr)
    assume "\<not> (r \<noteq> 39 \<and> r \<noteq> 34)"
    then have "r < 128" "is_quote (char_of r)" by (auto simp: quote_byte)
    with runes_low_set [OF that] s show False by blast
  qed
  then show ?thesis by (auto simp: list_all_iff)
qed

lemma set_replace_nonempty: "set (replace_nonempty old new s) \<subseteq> set s \<union> set new"
  by (induction old new s rule: replace_nonempty.induct) (auto dest: in_set_dropD)

lemma set_replace_all: "set (replace_all s old new) \<subseteq> set s \<union> set new"
proof (cases "old = []")
  case True
  have "set (concat (map (\<lambda>p. snd p @ new) rs)) \<subseteq> set (concat (map snd rs)) \<union> set new" for rs :: "(rune \<times> string) list"
    by (induction rs) auto
  from this [of "runes s"] True show ?thesis by (auto simp: replace_all_def)
next
  case False
  with set_replace_nonempty show ?thesis by (simp add: replace_all_def)
qed

lemma replaced_arg_chars:
  assumes "plain_tokens tokens" and "\<And>p. p \<in> set args \<Longrightarrow> c \<notin> set p" and "\<not> plain c"
  shows "c \<notin> set (replaced_arg args tokens)"
proof -
  have "c \<notin> set (resolveArg p tokens)" if "p \<in> set args" for p
    using resolveArg_cases [OF assms(1), of p] assms(2) [OF that] plain_not [OF _ assms(3)] by auto
  with assms(2) have "c \<notin> set (if 0 < length args then resolveArg (args ! 0) tokens else [])"
    "c \<notin> set (if 2 < length args then args ! 2 else [])"
    by auto
  then show ?thesis unfolding replaced_arg_def
    using set_replace_all [of "if 0 < length args then resolveArg (args ! 0) tokens else []"
        "if 1 < length args then args ! 1 else []" "if 2 < length args then args ! 2 else []"] by blast
qed

lemma opening_inside:
  assumes "index_of replace_open s = Some i" and "index_of ''}}'' (drop i s) = Some e0"
  shows "0 < spaces (slice s i (e0 + i))"
proof -
  have p: "take 10 (drop i s) = replace_open"
    using index_of_Some [OF assms(1)] by (auto simp: prefix_def replace_open_def)
  have q: "drop i s ! e0 = CHR ''}''"
  proof -
    from index_of_Some [OF assms(2)] obtain t where "drop e0 (drop i s) = ''}}'' @ t" "e0 < length (drop i s)"
      by (auto simp: prefix_def)
    then show ?thesis using hd_drop_conv_nth [of e0 "drop i s"] by simp
  qed
  have "10 \<le> e0"
  proof (rule ccontr)
    assume "\<not> 10 \<le> e0"
    then have "replace_open ! e0 = CHR ''}''" using p q nth_take [of e0 10 "drop i s"] by simp
    moreover have "list_all (\<lambda>c. c \<noteq> CHR ''}'') replace_open" "length replace_open = 10"
      by (simp_all add: replace_open_def)
    ultimately show False using \<open>\<not> 10 \<le> e0\<close> by (simp add: list_all_length)
  qed
  then have "slice s i (e0 + i) = replace_open @ take (e0 - 10) (drop 10 (drop i s))"
    unfolding slice_def using p by (metis add_diff_cancel_right' le_add_diff_inverse take_add)
  then show ?thesis by (simp add: replace_open_def)
qed

lemma quotes_le: "(\<And>c. c \<in> set v \<Longrightarrow> \<not> is_quote c) \<Longrightarrow> quotes v \<le> n"
  by (simp add: quotes_none)

lemma quotes_slice: "quotes (slice s (i + n) e) \<le> quotes (slice s i e)"
  using slice_suffix [of s i e n] by (metis quotes_append le_add2 le0 quotes_def filter.simps(1) list.size(3))

text \<open>
  One step of \<open>replace\<close>: it removes the quotes between its braces; when there are none, its
  arguments hold no space, so that the space of the opening is gone.
\<close>

lemma replace_step:
  assumes "plain_tokens tokens"
    and "index_of replace_open s = Some i" and "index_of ''}}'' (drop i s) = Some e0"
    and v: "v = replaced_arg (splitQuoted (trim_space (slice s (i + length replace_open) (e0 + i)))) tokens"
  shows "quotes (take i s @ v @ drop (e0 + i + 2) s) < quotes s \<or>
    quotes (take i s @ v @ drop (e0 + i + 2) s) = quotes s \<and>
    spaces (take i s @ v @ drop (e0 + i + 2) s) < spaces s"
proof -
  let ?sl = "slice s i (e0 + i)" and ?inner = "trim_space (slice s (i + length replace_open) (e0 + i))"
  have split: "s = take i s @ ?sl @ ''}}'' @ drop (e0 + i + 2) s" by (rule token_split [OF assms(3)])
  have q: "quotes s = quotes (take i s) + quotes ?sl + quotes (drop (e0 + i + 2) s)"
    by (subst split) (simp add: quotes_def is_quote_def)
  have sp: "spaces s = spaces (take i s) + spaces ?sl + spaces (drop (e0 + i + 2) s)"
    by (subst split) simp
  have nq: "quotes v = 0"
  proof (rule quotes_none)
    fix c assume "c \<in> set v"
    have "d \<notin> set v" if "is_quote d" for d
      unfolding v using assms(1) that
      by (intro replaced_arg_chars)
        (auto simp: splitQuoted_def is_quote_def dest: split_quoted_quotes)
    with \<open>c \<in> set v\<close> show "\<not> is_quote c" by blast
  qed
  show ?thesis
  proof (cases "quotes ?sl = 0")
    case False
    with q nq show ?thesis by simp
  next
    case True
    have "\<not> is_quote c" if "c \<in> set ?inner" for c
      using that set_trim set_slice True by (fastforce simp: quotes_def filter_empty_conv)
    then have "list_all (\<lambda>x. fst x \<noteq> 39 \<and> fst x \<noteq> 34) (runes ?inner)" by (rule runes_no_quotes)
    then have "CHR '' '' \<notin> set v"
      unfolding v using assms(1)
      by (intro replaced_arg_chars) (auto simp: splitQuoted_def dest: split_quoted_spaces)
    then have "spaces v = 0" by (simp add: count_list_0_iff)
    with opening_inside [OF assms(2,3)] sp q nq True show ?thesis by simp
  qed
qed

lemma applyReplace_returns:
  assumes "plain_tokens tokens"
  shows "\<exists>r. applyReplace source tokens = Some r"
proof (induction source rule: wf_induct_rule [OF wf_measures [of "[quotes, \<lambda>s. spaces s]"]])
  case (1 s)
  show ?case
  proof (cases "index_of replace_open s")
    case None
    then show ?thesis by (subst applyReplace.simps) simp
  next
    case (Some i)
    show ?thesis
    proof (cases "index_of ''}}'' (drop i s)")
      case None
      with Some show ?thesis by (subst applyReplace.simps) simp
    next
      case e0: (Some e0)
      define v where "v = replaced_arg (splitQuoted
        (trim_space (slice s (i + length replace_open) (e0 + i)))) tokens"
      have "(take i s @ v @ drop (e0 + i + 2) s, s) \<in> measures [quotes, \<lambda>s. spaces s]"
        using replace_step [OF assms Some e0 v_def] by auto
      note 1 [OF this]
      moreover have "applyReplace s tokens = applyReplace (take i s @ v @ drop (e0 + i + 2) s) tokens"
        by (subst applyReplace.simps) (simp only: Some e0 option.case Let_def v_def)
      ultimately show ?thesis by simp
    qed
  qed
qed

section \<open>A template always renders\<close>

text \<open>
  What is asked of the Unicode tables: only the closing brace itself has it as its upper or lower
  case.
\<close>

definition brace_safe :: "go_runtime \<Rightarrow> bool" where
  "brace_safe R \<longleftrightarrow> (\<forall>r. (to_upper_rune R r = 125 \<longrightarrow> r = 125) \<and> (to_lower_rune R r = 125 \<longrightarrow> r = 125))"

lemma brace_byte: "byte c = 125 \<longleftrightarrow> c = CHR ''}''"
  using of_char_eq_iff [of c "CHR ''}''", where ?'a = nat] by simp

lemma brace_char: "char_of (125::nat) = CHR ''}''"
  by (simp add: brace_byte [symmetric])

lemma braces_cased_runes:
  fixes f :: "rune \<Rightarrow> rune" and rs :: "(rune \<times> string) list"
  assumes "\<And>r. f r = 125 \<Longrightarrow> r = 125"
  shows "braces (concat (map (\<lambda>p. encode_rune (f (fst p))) rs)) \<le> length (filter (\<lambda>p. fst p = 125) rs)"
proof (induction rs)
  case (Cons p rs)
  have "braces (encode_rune (f (fst p))) \<le> (if fst p = 125 then 1 else 0)"
  proof (cases "CHR ''}'' \<in> set (encode_rune (f (fst p)))")
    case True
    then have "f (fst p) = 125" using encode_rune_low [of "CHR ''}''"] by fastforce
    with assms show ?thesis by (simp add: encode_rune_def brace_char)
  next
    case False
    then show ?thesis by (simp add: count_list_0_iff)
  qed
  with Cons show ?case by (cases "fst p = 125") simp_all
qed simp

lemma braces_runes: "length (filter (\<lambda>p. fst p = 125) (runes s)) \<le> braces s"
proof -
  have "length (filter (\<lambda>p. fst p = 125) rs) \<le> braces (concat (map snd rs))"
    if "set rs \<subseteq> set (runes s)" for rs
    using that
  proof (induction rs)
    case (Cons p rs)
    then have "fst p = 125 \<Longrightarrow> snd p = [char_of (125::nat)]" using runes_low [of 125 "snd p" s] by (cases p) auto
    with Cons show ?case by (auto simp: brace_char)
  qed simp
  from this [of "runes s"] show ?thesis by simp
qed

lemma braces_ascii: "(\<And>c. f c = CHR ''}'' \<Longrightarrow> c = CHR ''}'') \<Longrightarrow> braces (map f s) \<le> braces s"
  by (induction s) auto

lemma cased_byte:
  "upper_byte c = CHR ''}'' \<Longrightarrow> c = CHR ''}''" "lower_byte c = CHR ''}'' \<Longrightarrow> c = CHR ''}''"
proof -
  have u: "byte (upper_byte c) = (if 97 \<le> byte c \<and> byte c \<le> 122 then byte c - 32 else byte c)"
    and l: "byte (lower_byte c) = (if 65 \<le> byte c \<and> byte c \<le> 90 then byte c + 32 else byte c)"
    by (auto simp: upper_byte_def lower_byte_def intro!: mod_less)
  have "byte (upper_byte c) = 125 \<Longrightarrow> byte c = 125"
  proof (cases "97 \<le> byte c \<and> byte c \<le> 122")
    case True
    assume "byte (upper_byte c) = 125"
    with u True have "byte c - 32 = 125" by simp
    with True show ?thesis by linarith
  qed (simp add: u)
  moreover have "byte (lower_byte c) = 125 \<Longrightarrow> byte c = 125"
  proof (cases "65 \<le> byte c \<and> byte c \<le> 90")
    case True
    assume "byte (lower_byte c) = 125"
    with l True have "byte c + 32 = 125" by simp
    with True show ?thesis by linarith
  qed (simp add: l)
  ultimately show "upper_byte c = CHR ''}'' \<Longrightarrow> c = CHR ''}''" "lower_byte c = CHR ''}'' \<Longrightarrow> c = CHR ''}''"
    unfolding brace_byte [symmetric] by blast+
qed

lemma braces_case:
  assumes "brace_safe R"
  shows "braces (to_upper R s) \<le> braces s" "braces (to_lower R s) \<le> braces s"
proof -
  from assms have r: "to_upper_rune R r = 125 \<Longrightarrow> r = 125" "to_lower_rune R r = 125 \<Longrightarrow> r = 125" for r
    unfolding brace_safe_def by blast+
  have u: "braces (concat (map (\<lambda>p. encode_rune (to_upper_rune R (fst p))) (runes s))) \<le> braces s"
    by (rule order_trans [OF braces_cased_runes [where f = "to_upper_rune R", OF r(1)] braces_runes])
  have l: "braces (concat (map (\<lambda>p. encode_rune (to_lower_rune R (fst p))) (runes s))) \<le> braces s"
    by (rule order_trans [OF braces_cased_runes [where f = "to_lower_rune R", OF r(2)] braces_runes])
  have a: "braces (map upper_byte s) \<le> braces s" "braces (map lower_byte s) \<le> braces s"
    using braces_ascii [of upper_byte s] braces_ascii [of lower_byte s] cased_byte by blast+
  show "braces (to_upper R s) \<le> braces s"
    by (cases "ascii s") (simp_all only: to_upper_def if_True if_False a u)
  show "braces (to_lower R s) \<le> braces s"
    by (cases "ascii s") (simp_all only: to_lower_def if_True if_False a l)
qed

lemma applyFunctions_returns:
  assumes "brace_safe R" and "plain_tokens tokens"
  shows "\<exists>r. applyFunctions R source tokens = Some r"
proof -
  obtain s1 where s1: "applyUnary source ''uppercase'' (to_upper R) tokens = Some s1"
    using applyUnary_returns [OF braces_case(1) [OF assms(1)] assms(2)] by blast
  obtain s2 where s2: "applyUnary s1 ''lowercase'' (to_lower R) tokens = Some s2"
    using applyUnary_returns [OF braces_case(2) [OF assms(1)] assms(2)] by blast
  obtain s3 where s3: "applyTruncate s2 tokens = Some s3"
    using applyTruncate_returns [OF assms(2)] by blast
  from applyReplace_returns [OF assms(2)] show ?thesis
    unfolding applyFunctions_def s1 s2 s3 option.case .
qed

lemma random_string_total:
  assumes "productive T" and "64 \<le> random_draws T" and "len \<le> 64"
  shows "wp (RandomString T len) s (\<lambda>r s'. \<exists>x. r = Some x \<and> x \<noteq> [] \<and> set x \<subseteq> set alphabet)"
proof -
  have "wp (RandomString T len) s (\<lambda>r s'. r \<noteq> None \<and> (case r of None \<Rightarrow> True
     | Some x \<Rightarrow> int (length x) = max 1 len \<and> set x \<subseteq> set alphabet))"
    unfolding wp_conj using assms
    by (intro conjI random_string_returns random_string_chars) auto
  then show ?thesis by (rule wp_mono) auto
qed

lemma alphabet_plain: "set x \<subseteq> set alphabet \<Longrightarrow> list_all plain x"
proof -
  have "list_all plain alphabet" by (simp add: alphabet_def plain_def sane_rune_def)
  then show "set x \<subseteq> set alphabet \<Longrightarrow> list_all plain x" by (auto simp: list_all_iff)
qed

lemma random_count_le: "random_count inner \<le> 64"
  by (auto simp: random_count_def Let_def split: option.split)

lemma replace_random_returns:
  assumes "productive T" and "64 \<le> random_draws T"
  shows "braces source \<le> k \<Longrightarrow> wp (replace_random_loop T k source) s (\<lambda>r s'. r \<noteq> None)"
proof (induction k arbitrary: source s)
  case 0
  have "random_start source = None \<or> index_of ''}}'' (drop (the (random_start source)) source) = None"
  proof (rule ccontr)
    assume "\<not> ?thesis"
    then obtain i e0 where "index_of ''}}'' (drop i source) = Some e0" by auto
    from token_replaced [OF this, of "[]"] 0 show False by simp
  qed
  then show ?case by (subst replace_random_loop.simps) (auto simp: wp_return split: option.split)
next
  case (Suc k)
  show ?case
  proof (cases "random_start source")
    case None
    then show ?thesis by (subst replace_random_loop.simps) (simp add: wp_return)
  next
    case (Some i)
    show ?thesis
    proof (cases "index_of ''}}'' (drop i source)")
      case None
      with Some show ?thesis by (subst replace_random_loop.simps) (simp add: wp_return)
    next
      case e0: (Some e0)
      show ?thesis
        unfolding replace_random_loop.simps [of T "Suc k" source] Some e0 option.case nat.case Let_def wp_bind
      proof (rule wp_mono [OF random_string_total [OF assms random_count_le]], elim exE conjE, goal_cases)
        case (1 r s' x)
        have "braces x = 0" using plain_not [OF alphabet_plain [OF 1(3)]] by (simp add: count_list_0_iff)
        then have "braces (take i source @ x @ drop (e0 + i + 2) source) < braces source"
          by (intro token_replaced [OF e0]) simp
        with Suc.prems show ?case
          unfolding 1(1) option.case by (intro Suc.IH) simp
      qed
    qed
  qed
qed

lemma nat_digits_digit: "list_all is_digit (nat_digits n)"
proof (induction n rule: nat_digits.induct)
  case (1 n)
  have "is_digit (char_of (48 + m))" if "m < 10" for m :: nat
    using that by (simp add: is_digit_def)
  with 1 show ?case by (subst nat_digits.simps) simp
qed

lemma itoa_plain: "list_all plain (itoa n)"
proof -
  have "list_all plain (nat_digits m)" for m
    using nat_digits_digit [of m] by (auto simp: list_all_iff plain_def sane_rune_def is_digit_def)
  then show ?thesis by (simp add: itoa_def plain_def)
qed

lemma sane_plain: "list_all plain (Sanitize v)"
  using Sanitize_chars [of v] by (auto simp: list_all_iff plain_def)

lemma username_tokens_plain:
  "set x \<subseteq> set alphabet \<Longrightarrow> plain_tokens (username_tokens x t i n ty)"
  by (simp add: plain_tokens_def username_tokens_def alphabet_plain itoa_plain sane_plain)

section \<open>What sanitizing keeps\<close>

definition name_letters :: string where
  "name_letters = ''abcdefghijklmnopqrstuvwxyzABCDEFGHIJKLMNOPQRSTUVWXYZ0123456789_''"

lemma sane_letter: "sane_rune (byte c) \<longleftrightarrow> c \<in> set name_letters"
proof -
  have "map byte name_letters = [97..<123] @ [65..<91] @ [48..<58] @ [95]"
    by (simp add: name_letters_def upt_rec)
  then have "byte ` set name_letters = {97..<123} \<union> {65..<91} \<union> {48..<58} \<union> {95}"
    by (metis (no_types) set_map set_append set_upt list.set(1,2) Un_assoc)
  moreover have "c \<in> set name_letters \<longleftrightarrow> byte c \<in> byte ` set name_letters"
    by (simp add: inj_image_mem_iff inj_on_def)
  ultimately show ?thesis by (auto simp: sane_rune_def)
qed

lemma rune_high_bytes: "(r, b) \<in> set (runes s) \<Longrightarrow> 128 \<le> r \<Longrightarrow> c \<in> set b \<Longrightarrow> 128 \<le> byte c"
proof (induction s rule: runes.induct)
  case (2 x s)
  obtain r' n where d: "decode_rune (x # s) = (r', n)" by fastforce
  have "128 \<le> byte y" if "128 \<le> r'" "y \<in> set (x # take (n - 1) s)" for y
    using d that by (auto simp: decode_rune_def is_cont_def split: if_splits list.splits)
  with 2 d show ?case by auto
qed simp

lemma sane_pieces:
  "concat (map (\<lambda>p. if sane_rune (fst p) then encode_rune (fst p) else []) (runes v)) =
     filter (\<lambda>c. c \<in> set name_letters) v"
proof -
  have "(if sane_rune r then encode_rune r else []) = filter (\<lambda>c. c \<in> set name_letters) b"
    if "(r, b) \<in> set (runes v)" for r b
  proof (cases "r < 128")
    case True
    then have "b = [char_of r]" "encode_rune r = [char_of r]" and "byte (char_of r) = r"
      using runes_low [OF that] encode_rune_ascii by simp_all
    then show ?thesis using sane_letter [of "char_of r"] by simp
  next
    case False
    then have "\<not> sane_rune r" using sane_low by auto
    moreover have "c \<notin> set name_letters" if "c \<in> set b" for c
      using rune_high_bytes [OF \<open>(r, b) \<in> _\<close> _ that] False sane_low [of "byte c"] sane_letter [of c] by auto
    ultimately show ?thesis by (auto simp: filter_empty_conv)
  qed
  then have "map (\<lambda>p. if sane_rune (fst p) then encode_rune (fst p) else []) (runes v) =
      map (filter (\<lambda>c. c \<in> set name_letters)) (map snd (runes v))"
    by auto
  then show ?thesis by (metis filter_concat concat_runes)
qed

lemma runes_nonempty: "(r, []) \<notin> set (runes s)"
  by (induction s rule: runes.induct) (auto simp: Let_def split: prod.splits)

lemma blank_runes:
  assumes "trim_space v = []"
  shows "list_all (\<lambda>p. is_space (fst p)) (runes v)"
proof -
  let ?d = "dropWhile (is_space \<circ> fst) (runes v)"
  have "snd p \<noteq> []" if "p \<in> set (runes v)" for p
    using that runes_nonempty by (metis prod.collapse)
  moreover have "set (dropWhile (is_space \<circ> fst) (rev ?d)) \<subseteq> set (runes v)"
    by (auto dest!: set_dropWhileD)
  ultimately have "dropWhile (is_space \<circ> fst) (rev ?d) = []"
    using assms unfolding trim_space_def by (cases "dropWhile (is_space \<circ> fst) (rev ?d)") auto
  then have "\<forall>p \<in> set ?d. is_space (fst p)" by (simp add: dropWhile_eq_Nil_conv)
  then have "?d = []" using hd_dropWhile [of "is_space \<circ> fst" "runes v"] by (metis comp_apply list.set_sel(1))
  then show ?thesis by (simp add: dropWhile_eq_Nil_conv list_all_iff)
qed

text \<open>
  C32. Sanitizing keeps, in order, exactly the ASCII letters, the digits and the underscores of a
  text, whatever its bytes are, and puts \<open>kryptic\<close> in the place of a text without any. So a
  sanitized name is never empty, and sanitizing it again changes nothing.
\<close>

theorem sanitized_names:
  "let letters = ''abcdefghijklmnopqrstuvwxyzABCDEFGHIJKLMNOPQRSTUVWXYZ0123456789_'';
       kept = filter (\<lambda>c. c \<in> set letters) v
   in Sanitize v = (if kept = [] then ''kryptic'' else kept) \<and> Sanitize v \<noteq> [] \<and> Sanitize (Sanitize v) = Sanitize v"
proof -
  have san: "Sanitize x = (if filter (\<lambda>c. c \<in> set name_letters) x = [] then ''kryptic''
      else filter (\<lambda>c. c \<in> set name_letters) x)" for x
  proof (cases "trim_space x = []")
    case True
    have "\<not> sane_rune r" if "is_space r" for r using that by (auto simp: is_space_def sane_rune_def)
    with blank_runes [OF True] have "concat (map (\<lambda>p. if sane_rune (fst p) then encode_rune (fst p) else []) (runes x)) = []"
      by (auto simp: list_all_iff)
    with True show ?thesis unfolding sane_pieces by (simp add: Sanitize_def)
  next
    case False
    then show ?thesis unfolding Sanitize_def Let_def sane_pieces by simp
  qed
  have "filter (\<lambda>c. c \<in> set name_letters) ''kryptic'' = ''kryptic''" by (simp add: name_letters_def)
  then have "Sanitize v \<noteq> [] \<and> Sanitize (Sanitize v) = Sanitize v" by (simp add: san)
  with san [of v] show ?thesis unfolding name_letters_def Let_def by blast
qed

text \<open>
  C24. Every template renders: whatever the template and the names are, \<open>RenderUsername\<close>
  returns, with a user name that is not empty, provided that no block of random bytes is
  useless and case mapping makes no closing braces. This covers the loops over random tokens,
  \<open>uppercase\<close>, \<open>lowercase\<close>, \<open>truncate\<close> and \<open>replace\<close>, whose results
  may contain new openings.
\<close>

theorem username_always_renders:
  assumes "productive T" and "64 \<le> random_draws T" and "brace_safe R"
  shows "wp (RenderUsername T N R template i n ty) s (\<lambda>r s'. \<exists>name. r = Some name \<and> name \<noteq> [])"
  unfolding RenderUsername_def Let_def wp_bind
proof (rule wp_mono [OF random_string_total [OF assms(1,2)]], simp, elim exE conjE, goal_cases)
  case (1 r s1 x)
  show ?case unfolding 1(1) option.case wp_bind
  proof (rule wp_any, rule wp_mono [OF replace_random_returns [OF assms(1,2) order_refl, folded replaceRandomN_def]],
      goal_cases)
    case (1 t s2 filled s3)
    then obtain u where "filled = Some u" by blast
    moreover obtain v where "applyFunctions R u (username_tokens x t i n ty) = Some v"
      using applyFunctions_returns [OF assms(3) username_tokens_plain [OF \<open>set x \<subseteq> set alphabet\<close>]] by blast
    ultimately show ?case using \<open>x \<noteq> []\<close> by (simp add: wp_return)
  qed
qed

end
