(* ===== verification/Mint_Facts.thy ===== *)
theory Mint_Facts
  imports Wire Samples Username_Facts
begin

text \<open>
  What the providers do to their targets: scripts run in order and stop at the first failure,
  nothing a provider opens is left open (databases, sessions, staged files), AWS users are removed
  only after their keys, and session durations stay in the range AWS accepts.
\<close>

section \<open>Handles\<close>

datatype handle = Database nat | Session nat | Staged string | Descriptor string

datatype handle_use = Opens "handle list" | Closes handle | Neither

fun target_use :: "target_event \<Rightarrow> handle_use" where
  "target_use (SqlOpen _ _ (Inr db)) = Opens [Database db]"
| "target_use (SqlClose db) = Closes (Database db)"
| "target_use (CqlConnect _ (Inr n)) = Opens [Session n]"
| "target_use (CqlClose n) = Closes (Session n)"
| "target_use (TempCreate _ (Inr f)) = Opens [Descriptor f, Staged f]"
| "target_use (TempClose f _) = Closes (Descriptor f)"
| "target_use (TempRemove f) = Closes (Staged f)"
| "target_use _ = Neither"

definition handle_use_of :: "event \<Rightarrow> handle_use" where
  "handle_use_of e = (case e of Target t \<Rightarrow> target_use t | _ \<Rightarrow> Neither)"

lemma handle_use_simps [simp]:
  "handle_use_of (Target t) = target_use t" "handle_use_of (Net n) = Neither" "handle_use_of (Kube k) = Neither"
  "handle_use_of (Control c) = Neither"
  by (simp_all add: handle_use_of_def)

text \<open>The handles open after a list of events; closing what is not open is an error (\<open>None\<close>).\<close>

fun handles :: "handle list \<Rightarrow> event list \<Rightarrow> handle list option" where
  "handles hs [] = Some hs"
| "handles hs (e # es) = (case handle_use_of e of
     Opens new \<Rightarrow> handles (new @ hs) es
   | Closes h \<Rightarrow> if h \<in> set hs then handles (remove1 h hs) es else None
   | Neither \<Rightarrow> handles hs es)"

lemma handles_append: "handles hs (es @ fs) = Option.bind (handles hs es) (\<lambda>hs'. handles hs' fs)"
  by (induction hs es rule: handles.induct) (simp_all split: handle_use.split)

text \<open>A run takes the open handles from \<open>hs\<close> to \<open>f r\<close>, where \<open>r\<close> is its result.\<close>

definition shifts :: "handle list \<Rightarrow> ('a \<Rightarrow> handle list) \<Rightarrow> ('w, 'm, 'a) io \<Rightarrow> bool" where
  "shifts hs f m \<longleftrightarrow> (\<forall>s. wp m s (\<lambda>r s'. \<exists>es. trace s' = trace s @ es \<and> handles hs es = Some (f r)))"

named_theorems shifts_rules "how runs change the open handles"

lemma shifts_return [shifts_rules]: "f r = hs \<Longrightarrow> shifts hs f (State_Monad.return r)"
  by (simp add: shifts_def wp_return)

lemma shifts_bind [shifts_rules]:
  assumes "shifts hs f m" and "\<And>r. shifts (f r) g (k r)"
  shows "shifts hs g (State_Monad.bind m k)"
  unfolding shifts_def wp_bind
proof (rule allI, rule wp_mono, rule assms(1) [unfolded shifts_def, rule_format], elim exE conjE, goal_cases)
  case (1 s r s1 es1)
  show ?case
  proof (rule wp_mono, rule assms(2) [unfolded shifts_def, rule_format], elim exE conjE, goal_cases)
    case (1 a s' es2)
    with \<open>trace s1 = _\<close> \<open>handles hs es1 = _\<close> show ?case
      by (intro exI [of _ "es1 @ es2"]) (simp add: handles_append)
  qed
qed

lemma shifts_if [shifts_rules]: "shifts hs f m \<Longrightarrow> shifts hs f n \<Longrightarrow> shifts hs f (if b then m else n)"
  by simp

lemma shifts_sum [shifts_rules]:
  "(\<And>e. r = Inl e \<Longrightarrow> shifts hs f (m e)) \<Longrightarrow> (\<And>x. r = Inr x \<Longrightarrow> shifts hs f (n x)) \<Longrightarrow>
   shifts hs f (case r of Inl e \<Rightarrow> m e | Inr x \<Rightarrow> n x)"
  by (cases r) simp_all

lemma shifts_option [shifts_rules]:
  "(r = None \<Longrightarrow> shifts hs f m) \<Longrightarrow> (\<And>x. r = Some x \<Longrightarrow> shifts hs f (n x)) \<Longrightarrow>
   shifts hs f (case r of None \<Rightarrow> m | Some x \<Rightarrow> n x)"
  by (cases r) simp_all

lemma shifts_prod [shifts_rules]:
  "(\<And>x y. r = (x, y) \<Longrightarrow> shifts hs f (n x y)) \<Longrightarrow> shifts hs f (case r of (x, y) \<Rightarrow> n x y)"
  by (cases r) simp_all

lemma shifts_external:
  "(\<And>r. handles hs [ev r] = Some (f r)) \<Longrightarrow> shifts hs f (external call ev)"
  by (simp add: shifts_def wp_external split: prod.split)

text \<open>A run that uses no handle.\<close>

lemma neutral_handles: "list_all (\<lambda>e. handle_use_of e = Neither) es \<Longrightarrow> handles hs es = Some hs"
  by (induction es) simp_all

lemma shifts_neutral: "emits (\<lambda>e. handle_use_of e = Neither) m \<Longrightarrow> shifts hs (\<lambda>_. hs) m"
  unfolding shifts_def by (auto intro!: wp_emits intro: neutral_handles)

text \<open>A run that leaves the open handles as it found them.\<close>

definition tidy :: "('w, 'm, 'a) io \<Rightarrow> bool" where
  "tidy m \<longleftrightarrow> (\<forall>hs. shifts hs (\<lambda>_. hs) m)"

lemma shiftsD: "shifts hs f m \<Longrightarrow> wp m s (\<lambda>r s'. \<exists>es. trace s' = trace s @ es \<and> handles hs es = Some (f r))"
  by (simp add: shifts_def)

lemma tidyI: "(\<And>hs. shifts hs (\<lambda>_. hs) m) \<Longrightarrow> tidy m"
  by (simp add: tidy_def)

lemma tidyD: "tidy m \<Longrightarrow> shifts hs (\<lambda>_. hs) m"
  by (simp add: tidy_def)

lemma tidy_neutral: "emits (\<lambda>e. handle_use_of e = Neither) m \<Longrightarrow> tidy m"
  by (rule tidyI) (rule shifts_neutral)

lemma tidy_bind: "tidy m \<Longrightarrow> (\<And>r. tidy (k r)) \<Longrightarrow> tidy (State_Monad.bind m k)"
  by (rule tidyI) (rule shifts_bind [OF tidyD tidyD])

lemma tidy_return: "tidy (State_Monad.return r)"
  by (rule tidyI) (rule shifts_return, simp)

section \<open>SQL\<close>

lemma exec_tidy: "tidy (exec_statements T db stmts)"
  by (rule tidy_neutral, induction stmts) (auto intro!: emits_rules)

lemma runSQL_tidy: "tidy (runSQL T driver dsn script)"
proof (rule tidyI)
  fix hs
  have opened: "shifts hs (\<lambda>r. case r of Inl _ \<Rightarrow> hs | Inr db \<Rightarrow> Database db # hs) (target_sql_open T driver dsn)"
    unfolding target_sql_open_def by (rule shifts_external) (auto split: sum.split)
  have closed: "shifts (Database db # hs) (\<lambda>_. hs) (target_sql_close T db)" for db
    unfolding target_sql_close_def by (rule shifts_external) simp
  have ping: "shifts hs' (\<lambda>_. hs') (target_sql_ping T db)" for db hs'
    by (rule shifts_neutral) (auto intro!: emits_rules)
  show "shifts hs (\<lambda>_. hs) (runSQL T driver dsn script)"
    unfolding runSQL_def
    by (intro shifts_bind [OF opened] shifts_sum, auto intro!: shifts_return)
      (intro shifts_bind [OF ping] shifts_bind [OF _ shifts_bind [OF closed]] shifts_option shifts_return refl
        tidyD [OF exec_tidy] )
qed

section \<open>Staged files and the other providers\<close>

text \<open>A staged CA bundle is on disk, closed, exactly when the staging succeeded with a file.\<close>

definition staged_file :: "handle list \<Rightarrow> goerr + 'a \<times> string option \<Rightarrow> handle list" where
  "staged_file hs r = (case r of Inl _ \<Rightarrow> hs
     | Inr x \<Rightarrow> (case snd x of None \<Rightarrow> hs | Some f \<Rightarrow> Staged f # hs))"

lemma staged_file_simps [simp]:
  "staged_file hs (Inl e) = hs" "staged_file hs (Inr (a, None)) = hs"
  "staged_file hs (Inr (a, Some f)) = Staged f # hs"
  by (simp_all add: staged_file_def)

lemma temp_created:
  "shifts hs (\<lambda>r. case r of Inl _ \<Rightarrow> hs | Inr f \<Rightarrow> Descriptor f # Staged f # hs) (target_temp_create T pat)"
  unfolding target_temp_create_def by (rule shifts_external) (auto split: sum.split)

lemma temp_closed: "shifts (Descriptor f # hs) (\<lambda>_. hs) (target_temp_close T f)"
  unfolding target_temp_close_def by (rule shifts_external) simp

lemma temp_removed: "shifts (Staged f # hs) (\<lambda>_. hs) (target_temp_remove T f)"
  unfolding target_temp_remove_def by (rule shifts_external) simp

lemma temp_written: "shifts hs (\<lambda>_. hs) (target_temp_write T f ca)"
  by (rule shifts_neutral) (auto intro!: emits_rules)

lemma writeTempCA_stages: "shifts hs (staged_file hs) (writeTempCA T ca)"
  unfolding writeTempCA_def
proof (intro shifts_if shifts_return shifts_bind [OF temp_created], simp, goal_cases)
  case (1 created)
  show ?case
  proof (cases created)
    case (Inl e)
    then show ?thesis by (simp add: shifts_return)
  next
    case (Inr f)
    show ?thesis unfolding Inr sum.case
      by (intro shifts_bind [OF temp_written] shifts_option shifts_bind [OF temp_closed]
          shifts_bind [OF temp_removed] shifts_return) simp_all
  qed
qed

lemma cleanup_shifts: "shifts (case f of None \<Rightarrow> hs | Some x \<Rightarrow> Staged x # hs) (\<lambda>_. hs) (cleanup T f)"
  unfolding cleanup_def by (cases f) (simp_all add: shifts_return temp_removed)

lemma cleaned: "shifts (staged_file hs (Inr (a, f))) (\<lambda>_. hs) (cleanup T f)"
  using cleanup_shifts [of hs f T] by (simp add: staged_file_def)

lemma postgresDSN_stages: "shifts hs (staged_file hs) (postgresDSN T cfg)"
  unfolding postgresDSN_def
  by (intro shifts_if shifts_return shifts_bind [OF writeTempCA_stages])
    (auto simp: staged_file_def split: sum.splits prod.splits)

lemma runPostgres_tidy: "tidy (runPostgres T cfg script)"
proof (rule tidyI)
  fix hs
  show "shifts hs (\<lambda>_. hs) (runPostgres T cfg script)"
    unfolding runPostgres_def
  proof (rule shifts_bind [OF postgresDSN_stages], goal_cases)
    case (1 prepared)
    show ?case
    proof (cases prepared)
      case (Inl e)
      then show ?thesis by (simp add: shifts_return)
    next
      case (Inr x)
      show ?thesis unfolding Inr sum.case
        by (cases x) (auto intro!: shifts_bind [OF tidyD [OF runSQL_tidy]] shifts_bind [OF cleaned] shifts_return)
    qed
  qed
qed

lemma cassandra_connected: "shifts (staged_file hs (Inr ((), file)))
    (\<lambda>r. case r of Inl _ \<Rightarrow> hs | Inr x \<Rightarrow> Session (fst x) # staged_file hs (Inr x))
    (cassandra_connect T cfg tls file)"
proof -
  have conn: "shifts hs' (\<lambda>r. case r of Inl _ \<Rightarrow> hs' | Inr n \<Rightarrow> Session n # hs') (target_cql_connect T c)" for hs' c
    unfolding target_cql_connect_def by (rule shifts_external) (auto split: sum.split)
  show ?thesis
    unfolding cassandra_connect_def
  proof (rule shifts_bind [OF conn], goal_cases)
    case (1 r)
    show ?case
      by (cases r) (auto intro!: shifts_bind [OF cleanup_shifts] shifts_return simp: staged_file_def)
  qed
qed

lemma cassandraSession_opens: "shifts hs
    (\<lambda>r. case r of Inl _ \<Rightarrow> hs | Inr x \<Rightarrow> Session (fst x) # staged_file hs (Inr x)) (cassandraSession T cfg)"
  unfolding cassandraSession_def
proof (intro shifts_if shifts_bind [OF writeTempCA_stages], goal_cases)
  case (1 staged)
  show ?case
  proof (cases staged)
    case (Inl e)
    then show ?thesis by (simp add: shifts_return)
  next
    case (Inr x)
    obtain path fl where x: "x = (path, fl)" by fastforce
    have "staged_file hs (Inr x) = staged_file hs (Inr ((), fl))" by (simp add: x staged_file_def)
    then show ?thesis unfolding Inr sum.case using cassandra_connected by (simp add: x)
  qed
next
  case 2
  show ?case using cassandra_connected [of hs None] by simp
next
  case 3
  show ?case using cassandra_connected [of hs None] by simp
qed

lemma cassandra_run_tidy: "tidy (cassandra_run T cfg script)"
proof (rule tidyI)
  fix hs
  have stmts: "tidy (cql_statements T n ss)" for n ss
    by (rule tidy_neutral, induction ss) (auto intro!: emits_rules)
  have closed: "shifts (Session n # hs') (\<lambda>_. hs') (target_cql_close T n)" for n hs'
    unfolding target_cql_close_def by (rule shifts_external) simp
  show "shifts hs (\<lambda>_. hs) (cassandra_run T cfg script)"
    unfolding cassandra_run_def cqlExec_def
  proof (rule shifts_bind [OF cassandraSession_opens], goal_cases)
    case (1 got)
    show ?case
    proof (cases got)
      case (Inl e)
      then show ?thesis by (simp add: shifts_return)
    next
      case (Inr x)
      show ?thesis unfolding Inr sum.case
        by (cases x) (auto intro!: shifts_bind [OF tidyD [OF stmts]] shifts_bind [OF closed]
            shifts_bind [OF cleaned] shifts_return)
    qed
  qed
qed

section \<open>The contract, extended\<close>

text \<open>A provider that also leaves nothing open.\<close>

locale tidy_provider = lease_provider +
  assumes mint_tidy: "tidy (Mint pr w)"
    and renew_tidy: "tidy (Renew pr w)"
    and revoke_tidy: "tidy (Revoke pr w)"
begin

lemma work_tidy: "tidy (Mint pr w)" "tidy (Renew pr w)" "tidy (Revoke pr w)"
  by (rule mint_tidy renew_tidy revoke_tidy)+

end

lemma script_tidy: "tidy m \<Longrightarrow> tidy (do { r \<leftarrow> m; State_Monad.return (minted_login w r) })"
  by (intro tidy_bind tidy_return)

lemma redis_tidy: "tidy (redis_run T cfg script)"
proof -
  have "emits (\<lambda>e. handle_use_of e = Neither) (redis_lines T c ls)" for c ls
    by (induction ls) (auto simp: Let_def intro!: emits_rules)
  then show ?thesis
    unfolding redis_run_def redisDo_def Let_def by (intro tidy_neutral emits_rules) simp_all
qed

lemma aws_tidy: "tidy (aws_mint T R w)" "tidy (aws_revoke T R w)"
proof -
  have "emits (\<lambda>e. handle_use_of e = Neither) (delete_keys T cfg name ks)" for cfg name ks
    by (induction ks) (auto intro!: emits_rules)
  then show "tidy (aws_mint T R w)" "tidy (aws_revoke T R w)"
    unfolding aws_mint_def aws_revoke_def awsConfig_def mintSTS_def mintIAMUser_def iam_access_key_def
      aws_delete_user_def Let_def
    by (intro tidy_neutral emits_rules; simp)+
qed

interpretation postgres: tidy_provider "postgresProvider T R" for T R
  by unfold_locales (simp_all add: postgresProvider_def script_tidy runPostgres_tidy tidy_return)

interpretation mysql: tidy_provider "mysqlProvider T R" for T R
  by unfold_locales (simp_all add: mysqlProvider_def script_tidy runSQL_tidy tidy_return)

interpretation oracle_db: tidy_provider "oracleProvider T R" for T R
  by unfold_locales (simp_all add: oracleProvider_def script_tidy runSQL_tidy tidy_return)

interpretation cassandra: tidy_provider "cassandraProvider T R" for T R
  by unfold_locales (simp_all add: cassandraProvider_def script_tidy cassandra_run_tidy tidy_return)

interpretation redis: tidy_provider "redisProvider T R" for T R
  by unfold_locales (simp_all add: redisProvider_def script_tidy redis_tidy tidy_return)

interpretation aws: tidy_provider "awsProvider T R" for T R
  by unfold_locales (simp_all add: awsProvider_def aws_tidy tidy_return)

lemma Lookup_tidy: "Lookup T R p = Inr pr \<Longrightarrow> tidy_provider pr"
  using postgres.tidy_provider_axioms mysql.tidy_provider_axioms oracle_db.tidy_provider_axioms
    cassandra.tidy_provider_axioms redis.tidy_provider_axioms aws.tidy_provider_axioms
  by (auto simp: Lookup_def split: if_splits)

section \<open>Whole work items\<close>

lemma request_is_net: "emits is_net (do_request X creds tok meth path payload)"
  unfolding do_request_def Let_def refused_def invalidate_def logFailure_def
  by (cases "new_request (en_runtime X) meth (base_url creds @ path)
      (if payload \<noteq> None \<and> meth \<noteq> GET then json_encode (the payload) else [])")
    (auto intro!: emits_rules)

lemma net_neutral: "is_net e \<Longrightarrow> handle_use_of e = Neither"
  by (cases e) simp_all

lemma complete_tidy: "tidy (complete_call X creds tok c)"
  unfolding complete_call_def do_ignore_def
  by (intro tidy_neutral emits_rules emits_mono [OF request_is_net net_neutral])

lemma tidy_cases:
  "(\<And>e. tidy (m e)) \<Longrightarrow> (\<And>x. tidy (n x)) \<Longrightarrow> tidy (case r of Inl e \<Rightarrow> m e | Inr x \<Rightarrow> n x)"
  "tidy k \<Longrightarrow> (\<And>x. tidy (n' x)) \<Longrightarrow> tidy (case q of None \<Rightarrow> k | Some x \<Rightarrow> n' x)"
  "tidy k \<Longrightarrow> tidy k' \<Longrightarrow> tidy (if b then k else k')"
  by (simp_all split: sum.split option.split)

lemma tidy_sum:
  "(\<And>e. r = Inl e \<Longrightarrow> tidy (m e)) \<Longrightarrow> (\<And>x. r = Inr x \<Longrightarrow> tidy (n x)) \<Longrightarrow>
   tidy (case r of Inl e \<Rightarrow> m e | Inr x \<Rightarrow> n x)"
  by (simp split: sum.split)

lemma run_action_tidy:
  assumes "tidy_provider pr" and "\<And>c. tidy (complete c)"
  shows "tidy (run_action X orgKey keyId item complete pr w)"
  unfolding run_action_def create_lease_def Let_def
  by (intro tidy_bind tidy_cases tidy_return assms(2) tidy_provider.work_tidy [OF assms(1)])
    (intro tidy_neutral emits_rules, simp)

lemma work_username_tidy: "tidy (work_username X item)"
  unfolding work_username_def by (intro tidy_neutral emits_rules) simp_all

lemma work_expiry_tidy: "tidy (work_expiry X item)"
  unfolding work_expiry_def Let_def by (intro tidy_neutral emits_rules) simp_all

lemma random_tidy: "tidy (RandomString T n)"
  by (intro tidy_neutral emits_rules) simp

lemma apply_work_tidy:
  assumes "\<And>c. tidy (complete c)"
  shows "tidy (apply_work X orgKey keyId item complete)"
  unfolding apply_work_def
  by (intro tidy_cases(2) tidy_sum tidy_bind tidy_return work_username_tidy work_expiry_tidy random_tidy
      run_action_tidy [OF Lookup_tidy] assms)

lemma Apply_tidy: "(\<And>c. tidy (complete c)) \<Longrightarrow> tidy (Apply X orgKey keyId item complete)"
  unfolding Apply_def by (intro tidy_bind tidy_cases tidy_return apply_work_tidy)

text \<open>
  C14. A work item leaves nothing open behind: whatever its action and provider, and wherever it
  fails, every database and session opened was closed, and every staged CA file was closed and
  removed, by the time the item is done.
\<close>

theorem work_leaves_nothing_open:
  "wp (applyItem X creds tok orgKey keyId item) s
     (\<lambda>r s'. \<exists>es. trace s' = trace s @ es \<and> handles [] es = Some [])"
  unfolding applyItem_def by (rule shiftsD, rule tidyD, rule Apply_tidy, rule complete_tidy)

section \<open>Scripts\<close>

text \<open>What executing a list of statements on one database may do.\<close>

inductive script_run :: "nat \<Rightarrow> string list \<Rightarrow> event list \<Rightarrow> goerr option \<Rightarrow> bool" for db where
  finished: "script_run db [] [] None"
| failed: "script_run db (stmt # stmts) [Target (SqlExec db stmt (Some e))] (Some (Wrap (truncate_text stmt 80 @ '': '') e))"
| stepped: "script_run db stmts es r \<Longrightarrow>
     script_run db (stmt # stmts) (Target (SqlExec db stmt None) # es) r"

inductive_simps script_run_Nil [simp]: "script_run db [] es r"
inductive_cases script_run_elim: "script_run db stmts es r"

lemma exec_statements_run:
  "wp (exec_statements T db stmts) s (\<lambda>r s'. \<exists>es. trace s' = trace s @ es \<and> script_run db stmts es r)"
proof (induction stmts arbitrary: s)
  case (Cons stmt stmts)
  obtain a w where a: "sql_exec T db stmt (world s) = (a, w)" by fastforce
  show ?case
  proof (cases a)
    case None
    show ?thesis
      unfolding exec_statements.simps wp_bind target_sql_exec_def wp_external a None prod.case option.case
      by (rule wp_mono [OF Cons.IH]) (auto intro!: script_run.stepped)
  next
    case (Some e)
    show ?thesis
      unfolding exec_statements.simps wp_bind target_sql_exec_def wp_external a Some prod.case option.case
      by (simp add: wp_return script_run.failed)
  qed
qed (simp add: wp_return)

text \<open>
  C15. A SQL script runs statement by statement, in the order of the text, on one database that is
  opened and pinged first and closed at the end; it stops at the first statement that fails and
  reports that statement's error together with the first 80 characters of its text. Success means
  that every statement was accepted.
\<close>

theorem sql_script_order:
  "wp (runSQL T driver dsn script) s (\<lambda>r s'. \<exists>es. trace s' = trace s @ es \<and>
     (case es of
        [Target (SqlOpen _ _ (Inl e))] \<Rightarrow> r = Some e
      | Target (SqlOpen drv d (Inr db)) # Target (SqlPing db' ping) # rest \<Rightarrow>
          drv = driver \<and> d = dsn \<and> db' = db \<and>
          (\<exists>run. rest = run @ [Target (SqlClose db)] \<and>
            (if ping = None then script_run db (splitStatements script) run r else run = [] \<and> r = ping))
      | _ \<Rightarrow> False))"
proof -
  obtain a w where a: "sql_open T driver dsn (world s) = (a, w)" by fastforce
  show ?thesis
  proof (cases a)
    case (Inl e)
    show ?thesis
      unfolding runSQL_def wp_bind target_sql_open_def wp_external a Inl prod.case sum.case
      by (simp add: wp_return)
  next
    case (Inr db)
    obtain p w2 where p: "sql_ping T db w = (p, w2)" by fastforce
    show ?thesis
    proof (cases p)
      case (Some e)
      show ?thesis
        unfolding runSQL_def wp_bind target_sql_open_def wp_external a Inr prod.case sum.case
        by (simp add: target_sql_ping_def target_sql_close_def wp_external wp_bind wp_return p Some split: prod.split)
    next
      case None
      have ran: "wp (exec_statements T db (splitStatements script)) s2 (\<lambda>r s3. wp (State_Monad.bind (target_sql_close T db)
          (\<lambda>_. State_Monad.return r)) s3 (\<lambda>r s'. \<exists>es. trace s' = trace s2 @ es \<and>
            (\<exists>run. es = run @ [Target (SqlClose db)] \<and> script_run db (splitStatements script) run r)))" for s2
        by (rule wp_mono [OF exec_statements_run])
          (auto simp: wp_bind wp_return target_sql_close_def wp_external split: prod.split)
      show ?thesis
        unfolding runSQL_def wp_bind target_sql_open_def wp_external a Inr prod.case sum.case
        by (simp add: target_sql_ping_def wp_external p None)
          (rule wp_mono, rule ran [unfolded wp_bind], erule wp_mono, auto simp: wp_return)
    qed
  qed
qed

section \<open>What is reported\<close>

text \<open>
  A report to the control plane about an item: it names the lease; a successful creation carries
  an envelope that was sealed under the organisation key and the context of the secret before, no
  other report carries one; a failure names no user.
\<close>

definition honest_report :: "'w env \<Rightarrow> string \<Rightarrow> string \<Rightarrow> work_item \<Rightarrow> event list \<Rightarrow> complete_lease \<Rightarrow> bool" where
  "honest_report X orgKey keyId item pre c \<longleftrightarrow> co_leaseId c = wi_leaseId item \<and>
     (if co_ok c then co_error c = [] \<and>
        (if wi_action item = ActionCreate
         then (\<exists>plain. Target (Sealed orgKey keyId plain
                (secret_context (en_crypto X) (wi_definitionId item) (wi_environmentId item))
                (Inr (co_mintedEnvelope c))) \<in> set pre)
         else co_mintedEnvelope c = [])
      else co_mintedEnvelope c = [] \<and> co_entityId c = [])"

definition reports :: "'w env \<Rightarrow> string \<Rightarrow> string \<Rightarrow> work_item \<Rightarrow> event list \<Rightarrow> event list \<Rightarrow> bool" where
  "reports X orgKey keyId item before es \<longleftrightarrow> (\<forall>pre q a post. es = pre @ Net (HttpDo q a) # post \<longrightarrow>
     (\<exists>c. req_body q = json_encode (completion_json c) \<and> honest_report X orgKey keyId item (before @ pre) c))"

definition no_http :: "event \<Rightarrow> bool" where
  "no_http e \<longleftrightarrow> (case e of Net (HttpDo _ _) \<Rightarrow> False | _ \<Rightarrow> True)"

lemma no_http_simps [simp]:
  "no_http (Target t)" "no_http (Kube k)" "no_http (Net (ClockNow now))" "no_http (Net (LogFailure p st b))"
  "\<not> no_http (Net (HttpDo q a))"
  by (simp_all add: no_http_def)

lemma reports_quiet: "list_all no_http es \<Longrightarrow> reports X k i item before es"
  by (auto simp: reports_def)

lemma reports_append:
  assumes "reports X k i item before es" and "reports X k i item (before @ es) fs"
  shows "reports X k i item before (es @ fs)"
  unfolding reports_def
proof (intro allI impI)
  fix pre q a post assume "es @ fs = pre @ Net (HttpDo q a) # post"
  then consider ps where "es = pre @ Net (HttpDo q a) # ps" | us where "pre = es @ us" "fs = us @ Net (HttpDo q a) # post"
    by (auto simp: append_eq_append_conv2 append_eq_Cons_conv Cons_eq_append_conv)
  then show "\<exists>c. req_body q = json_encode (completion_json c) \<and> honest_report X k i item (before @ pre) c"
    using assms by cases (auto simp: reports_def)
qed

lemma complete_reports:
  assumes "honest_report X k i item before c"
  shows "wp (complete_call X creds tok c) s (\<lambda>r s'. \<exists>es. trace s' = trace s @ es \<and> reports X k i item before es)"
proof -
  have body: "emits (\<lambda>e. case e of Net (HttpDo q a) \<Rightarrow> req_body q = json_encode (completion_json c) | _ \<Rightarrow> True)
      (complete_call X creds tok c)"
    unfolding complete_call_def do_ignore_def do_request_def Let_def refused_def invalidate_def logFailure_def
    by (cases "new_request (en_runtime X) POST (base_url creds @ ''/api/dynamic-secrets/work/complete'')
        (json_encode (completion_json c))")
      (auto intro!: emits_rules simp: set_header_def dest!: new_request_cases)
  have honest: "honest_report X k i item (before @ pre) c" for pre
    using assms by (auto simp: honest_report_def split: if_splits)
  show ?thesis
  proof (rule wp_emits [OF body], goal_cases)
    case (1 a s' es)
    then have "reports X k i item before es" unfolding reports_def using honest by auto
    with 1 show ?case by blast
  qed
qed

lemma wp_then:
  assumes "wp m s (\<lambda>r s'. \<exists>es. trace s' = trace s @ es \<and> P r es)"
    and "\<And>r s1 es. trace s1 = trace s @ es \<Longrightarrow> P r es \<Longrightarrow>
      wp (k r) s1 (\<lambda>a s'. \<exists>fs. trace s' = trace s1 @ fs \<and> R a (es @ fs))"
  shows "wp (State_Monad.bind m k) s (\<lambda>a s'. \<exists>es. trace s' = trace s @ es \<and> R a es)"
  unfolding wp_bind
proof (rule wp_mono [OF assms(1)], elim exE conjE, goal_cases)
  case (1 r s1 es)
  show ?case
  proof (rule wp_mono [OF assms(2) [OF 1]], elim exE conjE, goal_cases)
    case (1 a s' fs)
    with \<open>trace s1 = _\<close> show ?case by (intro exI [of _ "es @ fs"]) simp
  qed
qed

lemma quiet_run:
  "emits no_http m \<Longrightarrow> wp m s (\<lambda>r s'. \<exists>es. trace s' = trace s @ es \<and> list_all no_http es)"
  by (rule wp_emits) auto

lemma provider_quiet:
  assumes "lease_provider pr"
  shows "emits no_http (Mint pr w)" "emits no_http (Renew pr w)" "emits no_http (Revoke pr w)"
  by (rule lease_provider.provider_emits [OF assms]; simp)+

lemma honest_simps:
  "honest_report X k i item pre (no_completion\<lparr>co_leaseId := wi_leaseId item, co_error := t\<rparr>)"
  "wi_action item \<noteq> ActionCreate \<Longrightarrow>
   honest_report X k i item pre (no_completion\<lparr>co_leaseId := wi_leaseId item, co_ok := True, co_entityId := u, co_expiresAt := x\<rparr>)"
  "wi_action item \<noteq> ActionCreate \<Longrightarrow>
   honest_report X k i item pre (no_completion\<lparr>co_leaseId := wi_leaseId item, co_ok := True, co_entityId := u\<rparr>)"
  by (simp_all add: honest_report_def no_completion_def)

lemma create_reports:
  assumes "lease_provider pr" and a: "wi_action item = ActionCreate"
  shows "wp (create_lease X k i item (complete_call X creds tok) pr w) s
    (\<lambda>r s'. \<exists>es. trace s' = trace s @ es \<and> reports X k i item [] es)"
  unfolding create_lease_def
proof (rule wp_then [OF quiet_run [OF provider_quiet(1) [OF assms(1)]]], goal_cases)
  case (1 got s1 es1)
  show ?case
  proof (cases got)
    case (Inl e)
    with 1 show ?thesis by (simp add: wp_return reports_quiet)
  next
    case (Inr m0)
    have seal: "wp (crypto_seal C k i p ad) s1 (\<lambda>r s'. \<exists>es. trace s' = trace s1 @ es \<and>
        es = [Target (Sealed k i p ad r)])" for C p ad
      unfolding crypto_seal_def wp_external by (simp split: prod.split)
    show ?thesis unfolding Inr sum.case Let_def
    proof (rule wp_then [OF seal, where R = "\<lambda>a fs. reports X k i item [] (es1 @ fs)"], goal_cases)
      case (1 sealed s2 es2)
      then have q: "list_all no_http (es1 @ es2)" using \<open>list_all no_http es1\<close> by simp
      show ?case
      proof (cases sealed)
        case (Inl e)
        show ?thesis unfolding Inl sum.case wp_return
          using reports_quiet [OF q] by (intro exI [of _ "[]"]) simp
      next
        case (Inr env)
        show ?thesis unfolding Inr sum.case
          by (rule wp_mono [OF complete_reports [where before = "es1 @ es2" and item = item and k = k and i = i]])
            (use 1 Inr a reports_append [OF reports_quiet [OF q], of X k i item "[]"]
              in \<open>auto simp: honest_report_def no_completion_def\<close>)
      qed
    qed
  qed
qed

lemma run_action_reports:
  assumes "lease_provider pr"
  shows "wp (run_action X k i item (complete_call X creds tok) pr w) s
    (\<lambda>r s'. \<exists>es. trace s' = trace s @ es \<and> reports X k i item [] es)"
proof -
  have step: "wp (State_Monad.bind m (\<lambda>r. case r of Some e \<Rightarrow> State_Monad.return (Some e)
        | None \<Rightarrow> complete_call X creds tok c)) s
      (\<lambda>r s'. \<exists>es. trace s' = trace s @ es \<and> reports X k i item [] es)"
    if m: "emits no_http m" and c: "\<And>pre. honest_report X k i item pre c" for m c
  proof (rule wp_then [OF quiet_run [OF m]], goal_cases)
    case (1 r s1 es1)
    show ?case
    proof (cases r)
      case (Some e)
      with 1 show ?thesis by (simp add: wp_return reports_quiet)
    next
      case None
      show ?thesis unfolding None option.case
        by (rule wp_mono [OF complete_reports [OF c [of es1]]])
          (use 1 reports_append [OF reports_quiet, of es1 X k i item "[]"] in auto)
    qed
  qed
  show ?thesis
    unfolding run_action_def
    using create_reports [OF assms]
      step [OF provider_quiet(2) [OF assms]] step [OF provider_quiet(3) [OF assms]]
    by (auto simp: honest_simps wp_return reports_quiet action_numbers)
qed

lemma apply_work_reports:
  "wp (apply_work X k i item (complete_call X creds tok)) s
    (\<lambda>r s'. \<exists>es. trace s' = trace s @ es \<and> reports X k i item [] es)"
proof -
  have quiet: "emits no_http (work_username X item)" "emits no_http (work_expiry X item)"
    "emits no_http (RandomString T n)" for T n
    unfolding work_username_def work_expiry_def Let_def by (intro emits_rules; simp)+
  have stop: "wp (State_Monad.return r) s (\<lambda>r s'. \<exists>es. trace s' = trace s @ es \<and> reports X k i item [] es)" for r s
    by (simp add: wp_return reports_quiet)
  have quiet_then: "wp (State_Monad.bind m g) s (\<lambda>r s'. \<exists>es. trace s' = trace s @ es \<and> reports X k i item [] es)"
    if "emits no_http m" and "\<And>r s. wp (g r) s (\<lambda>r s'. \<exists>es. trace s' = trace s @ es \<and> reports X k i item [] es)"
    for m g s
  proof (rule wp_then [OF quiet_run [OF that(1)]], goal_cases)
    case (1 r s1 es1)
    show ?case
    proof (rule wp_mono [OF that(2)], elim exE conjE, goal_cases)
      case (1 a s' fs)
      then have "reports X k i item es1 fs"
        by (fastforce simp: reports_def honest_report_def split: if_splits)
      with 1 reports_append [OF reports_quiet, of es1 X k i item "[]"] \<open>list_all no_http es1\<close> show ?case by auto
    qed
  qed
  have some: "wp (case r of None \<Rightarrow> State_Monad.return x | Some y \<Rightarrow> g y) s Q"
    if "wp (State_Monad.return x) s Q" and "\<And>y. wp (g y) s Q" for r x g s Q
    using that by (cases r) simp_all
  show ?thesis
    unfolding apply_work_def
    by (auto split: sum.split
      intro!: stop quiet_then quiet some run_action_reports dest: Lookup_contract)
qed

text \<open>
  C13. What is reported is what happened: a work item is reported under its lease id; a creation is
  reported as done only with an envelope that was sealed before, under the organisation key and for
  that secret, and no other report carries an envelope; a report of success has no error text, a
  report of failure names no user.
\<close>

theorem reports_are_honest:
  "wp (applyItem X creds tok orgKey keyId item) s
     (\<lambda>r s'. \<exists>es. trace s' = trace s @ es \<and> reports X orgKey keyId item [] es)"
  unfolding applyItem_def Apply_def
proof (rule wp_then [OF apply_work_reports], goal_cases)
  case (1 r s1 es)
  show ?case
  proof (cases r)
    case None
    with 1 show ?thesis by (simp add: wp_return)
  next
    case (Some e)
    show ?thesis
    proof (cases "e = Hang")
      case True
      with 1 Some show ?thesis by (simp add: wp_return)
    next
      case False
      then show ?thesis unfolding Some option.case if_not_P [OF False] wp_bind
        by (intro wp_mono [OF complete_reports [where before = es, OF honest_simps(1)]])
          (use 1 reports_append [of X orgKey keyId item "[]" es] in \<open>auto simp: wp_return\<close>)
    qed
  qed
qed

section \<open>AWS\<close>

lemma to_int32_mod: "to_int32 n = (n + 2 ^ 31) mod 2 ^ 32 - 2 ^ 31"
  by (simp add: to_int32_def sint_sbintrunc' signed_take_bit_eq_take_bit_shift take_bit_eq_mod)

text \<open>
  C31. A temporary AWS credential is asked for with one call, of which the answer is what is
  returned: \<open>AssumeRole\<close> for the configured role, or else \<open>GetSessionToken\<close>. The
  duration sent is the configured one, reduced to a signed number of 32 bits; zero and negative
  numbers give an hour, and what exceeds an hour for a role, or twelve hours otherwise, gives that
  limit. That is all: one to 899 seconds are sent as they are, though AWS asks for 900 at least.
\<close>

theorem sts_duration_clamped:
  "wp (mintSTS T cfg w) s (\<lambda>r s'.
     \<exists>a. let d = (pc_durationSeconds (wk_config w) + 2 ^ 31) mod 2 ^ 32 - 2 ^ 31;
             seconds = (\<lambda>limit. if d \<le> 0 then 3600 else min d limit);
             role = pc_roleArn (wk_config w)
         in trace s' = trace s @ [Target (AwsCall cfg
              (if role \<noteq> [] then AssumeRole role (wk_username w) (Some (seconds 3600))
               else GetSessionToken (seconds 43200)) a)] \<and>
            (case a of
               Inl e \<Rightarrow> r = Inl e
             | Inr x \<Rightarrow> \<exists>m. r = Inr m \<and> mi_username m = wk_username w \<and>
                 mi_accessKeyId m = ac_accessKeyId (aws_credentials_of x) \<and>
                 mi_password m = ac_secretAccessKey (aws_credentials_of x) \<and>
                 mi_sessionToken m = ac_sessionToken (aws_credentials_of x)))"
  by (cases "pc_roleArn (wk_config w) = []")
    (auto simp: mintSTS_def sts_duration_def to_int32_mod sts_minted_def Let_def min_def target_aws_do_def
      wp_rules split: prod.split sum.splits)

text \<open>What deleting the keys of a user does: every key in order, errors ignored.\<close>

lemma delete_keys_run:
  "wp (delete_keys T cfg name ks) s (\<lambda>r s'. \<exists>as. length as = length ks \<and>
     trace s' = trace s @ map (\<lambda>(key, a). Target (AwsCall cfg (DeleteAccessKey name key) a)) (zip ks as))"
proof (induction ks arbitrary: s)
  case (Cons key ks)
  obtain a w where a: "aws_do T cfg (DeleteAccessKey name key) (world s) = (a, w)" by fastforce
  show ?case
    unfolding delete_keys.simps wp_bind target_aws_do_def wp_external a prod.case
  proof (rule wp_mono [OF Cons.IH], elim exE conjE, goal_cases)
    case (1 r s' as)
    then show ?case by (intro exI [of _ "a # as"]) simp
  qed
qed (simp add: wp_return)

text \<open>
  C30. Removing an IAM user: first every key that was listed, then the lease policy, then the user,
  each exactly once whatever the earlier calls answer; the removal fails only if the last call
  fails, and a user that does not exist counts as removed.
\<close>

theorem aws_user_removed:
  "wp (aws_delete_user T cfg name ks) s (\<lambda>r s'. \<exists>as p d. length as = length ks \<and>
     trace s' = trace s @ map (\<lambda>(key, a). Target (AwsCall cfg (DeleteAccessKey name key) a)) (zip ks as)
       @ [Target (AwsCall cfg (DeleteUserPolicy name lease_policy) p), Target (AwsCall cfg (DeleteUser name) d)] \<and>
     r = (case d of Inl e \<Rightarrow> if is_no_such_entity e then None else Some e | Inr _ \<Rightarrow> None))"
  unfolding aws_delete_user_def wp_bind
proof (rule wp_mono [OF delete_keys_run], elim exE conjE, goal_cases)
  case (1 u s1 as)
  obtain p w1 where p: "aws_do T cfg (DeleteUserPolicy name lease_policy) (world s1) = (p, w1)" by fastforce
  obtain d w2 where d: "aws_do T cfg (DeleteUser name) w1 = (d, w2)" by fastforce
  from 1 show ?case
    by (auto simp: target_aws_do_def wp_external wp_return p d intro!: exI [of _ as])
qed

theorem username_always_renders_witness:
  "wp (RenderUsername sample_target (sample_net 200) sample_runtime ''{{uppercase {{random 4}}}}'' [] [] [])
     \<lparr>world = (), trace = []\<rparr> (\<lambda>r s'. \<exists>name. r = Some name \<and> name \<noteq> [])"
proof (rule username_always_renders)
  show "productive sample_target" by (simp add: productive_def sample_target_def useful_def list_ex_iff)
qed (simp_all add: brace_safe_def sample_target_def sample_runtime_def)

end
