(* ===== verification/Json_Facts.thy ===== *)
theory Json_Facts
  imports Go_Json
begin

text \<open>
  Writing JSON and reading it back. Invalid UTF-8 comes back as the replacement character, rune by
  rune (\<open>valid_text\<close>); everything else comes back as it was. Numbers that are no integers are
  left out: the operator never writes one.
\<close>

section \<open>UTF-8\<close>

definition valid_text :: "string \<Rightarrow> string" where
  "valid_text s = concat (map (\<lambda>p. encode_rune (fst p)) (runes s))"

lemma valid_text_simps:
  "valid_text [] = []"
  "valid_text (c # s) = (case decode_rune (c # s) of (r, n) \<Rightarrow> encode_rune r @ valid_text (drop (n - 1) s))"
  by (simp_all add: valid_text_def Let_def split: prod.split)

lemma decode_rune_bounds:
  assumes "decode_rune s = (r, n)" and "s \<noteq> []"
  shows "1 \<le> n" and "n \<le> length s"
  using assms by (auto simp: decode_rune_def split: list.splits if_splits)

text \<open>A rune is read from its own bytes alone, unless the byte is no rune.\<close>

lemma decode_rune_local:
  assumes "decode_rune s = (r, n)" and "s \<noteq> []" and "\<not> (r = rune_error \<and> n = 1)"
  shows "decode_rune (take n s @ u) = (r, n)"
proof -
  consider c0 where "s = [c0]" | c0 c1 where "s = [c0, c1]" | c0 c1 c2 where "s = [c0, c1, c2]"
    | c0 c1 c2 c3 t where "s = c0 # c1 # c2 # c3 # t"
    using assms(2) by (metis list.exhaust)
  then show ?thesis
  proof cases
    case 1
    with assms show ?thesis by (simp add: decode_rune_def split: if_splits)
  next
    case 2
    with assms show ?thesis by (auto simp: decode_rune_def split: if_splits)
  next
    case 3
    with assms show ?thesis by (auto simp: decode_rune_def split: if_splits)
  next
    case 4
    with assms show ?thesis by (auto simp: decode_rune_def split: if_splits)
  qed
qed

lemma decode_rune_high:
  assumes "decode_rune (c # s) = (r, n)" and "128 \<le> r"
  shows "128 \<le> byte c"
  using assms by (auto simp: decode_rune_def split: list.splits if_splits)

lemma decode_rune_low_one:
  assumes "decode_rune (c # s) = (r, n)" and "r < 128"
  shows "n = 1" and "byte c = r"
  using assms by (auto simp: decode_rune_def rune_error_def split: list.splits if_splits)

section \<open>Strings\<close>

lemma byte_lower: "byte c = n \<longleftrightarrow> c = char_of n" if "n < 256"
  using that by (auto simp: of_char_of)

abbreviation prepend :: "string \<Rightarrow> (string \<times> string) option \<Rightarrow> (string \<times> string) option" where
  "prepend t \<equiv> map_option (map_prod (\<lambda>u. t @ u) id)"

lemma append_one [simp]: "(@) [c] = (#) c"
  by auto

lemma scan_escape:
  "e \<noteq> CHR ''u'' \<Longrightarrow> scan_string (CHR 0x5C # e # s)
     = (case map_of [(CHR 0x22, CHR 0x22), (CHR 0x5C, CHR 0x5C), (CHR ''/'', CHR ''/''),
           (CHR ''b'', CHR 0x08), (CHR ''f'', CHR 0x0C), (CHR ''n'', CHR 0x0A),
           (CHR ''r'', CHR 0x0D), (CHR ''t'', CHR 0x09)] e of
          None \<Rightarrow> None | Some d \<Rightarrow> prepend [d] (scan_string s))"
  by (simp split: option.split)

lemma hex_value_digit: "n < 16 \<Longrightarrow> hex_value (hex_digit n) = Some n"
  by (auto simp: hex_value_def hex_digit_def is_digit_def of_char_of)

lemma digits_back:
  assumes "r < 65536"
  shows "16 * (16 * (16 * (r div 16 div 16 div 16 mod 16) + r div 16 div 16 mod 16) + r div 16 mod 16) + r mod 16
     = (r::nat)"
proof -
  define a b c where d: "a = r div 16" "b = a div 16" "c = b div 16"
  have "a < 4096" unfolding d by (rule less_mult_imp_div_less) (use assms in simp)
  then have "b < 256" unfolding d by (intro less_mult_imp_div_less) simp
  then have "c < 16" unfolding d(3) by (intro less_mult_imp_div_less) simp
  then have "c mod 16 = c" by simp
  moreover have "16 * c + b mod 16 = b" "16 * b + a mod 16 = a" "16 * a + r mod 16 = r"
    unfolding d by simp_all
  ultimately show ?thesis unfolding d [symmetric] by (simp only:)
qed

lemma hex_pad4: "hex_pad 4 r = [hex_digit (r div 16 div 16 div 16 mod 16), hex_digit (r div 16 div 16 mod 16),
    hex_digit (r div 16 mod 16), hex_digit (r mod 16)]"
proof -
  have four: "4 = Suc (Suc (Suc (Suc 0)))" by simp
  show ?thesis unfolding four by (simp only: hex_pad.simps append.simps)
qed

lemma hex4_digits:
  "w < 16 \<Longrightarrow> x < 16 \<Longrightarrow> y < 16 \<Longrightarrow> z < 16 \<Longrightarrow>
   hex4 (hex_digit w # hex_digit x # hex_digit y # hex_digit z # u) = Some (16 * (16 * (16 * w + x) + y) + z)"
  unfolding hex4_def by (simp add: hex_value_digit del: distrib_left_numeral)

lemma hex4_pad:
  assumes "r < 65536"
  shows "hex4 (hex_pad 4 r @ u) = Some r"
proof -
  have "hex_pad 4 r @ u = hex_digit (r div 16 div 16 div 16 mod 16) # hex_digit (r div 16 div 16 mod 16) #
      hex_digit (r div 16 mod 16) # hex_digit (r mod 16) # u"
    unfolding hex_pad4 by simp
  then show ?thesis by (simp only: hex4_digits mod_less_divisor zero_less_numeral digits_back [OF assms])
qed

lemma length_hex_pad [simp]: "length (hex_pad k n) = k"
  by (induction k arbitrary: n) simp_all

lemma scan_unicode:
  assumes "r < 65536" and "\<not> (55296 \<le> r \<and> r \<le> 57343)"
  shows "scan_string (CHR 0x5C # CHR ''u'' # hex_pad 4 r @ u) = prepend (encode_rune r) (scan_string u)"
proof -
  have "unicode_escape (hex_pad 4 r @ u) = Some (r, 4)"
    unfolding unicode_escape_def hex4_pad [OF assms(1)] option.case if_not_P [OF assms(2)] ..
  then show ?thesis by (simp split: option.split prod.split)
qed

lemma scan_plain:
  assumes "byte c \<noteq> 34" "\<not> byte c < 32" "byte c \<noteq> 92" and "decode_rune (c # s) = (r, n)"
  shows "scan_string (c # s) = prepend (encode_rune r) (scan_string (drop (n - 1) s))"
  using assms by simp

lemma char_literal: "n < 256 \<Longrightarrow> byte c = n \<Longrightarrow> char_of (n :: nat) = c"
  using char_of_char by metis

lemma escaped_chars:
  "char_of (34 :: nat) = CHR 0x22" "char_of (92 :: nat) = CHR 0x5C" "char_of (8 :: nat) = CHR 0x08"
  "char_of (12 :: nat) = CHR 0x0C" "char_of (10 :: nat) = CHR 0x0A" "char_of (13 :: nat) = CHR 0x0D"
  "char_of (9 :: nat) = CHR 0x09"
  by (simp_all add: char_literal)

lemma replacement_escape: "hex_pad 4 65533 = ''fffd''"
  unfolding hex_pad4 by (simp add: hex_digit_def char_literal)

declare scan_string.simps(2) [simp del]

lemma scan_rune:
  assumes "decode_rune (c # s) = (r, n)"
  shows "scan_string (json_rune (r, take n (c # s)) @ u) = prepend (encode_rune r) (scan_string u)"
proof -
  note n = decode_rune_bounds [OF assms list.simps(3)]
  show ?thesis
  proof (cases "r = rune_error \<and> n = 1")
    case True
    then have "json_rune (r, take n (c # s)) = CHR 0x5C # CHR ''u'' # hex_pad 4 65533" "r = 65533"
      unfolding replacement_escape by (simp_all add: json_rune_def rune_error_def)
    then show ?thesis by (simp add: scan_unicode)
  next
    case False
    have len: "length (take n (c # s)) = n" using n by simp
    with False have esc: "\<not> (r = rune_error \<and> length (take n (c # s)) = 1)" by simp
    show ?thesis
    proof (cases "r \<in> {34, 92, 8, 12, 10, 13, 9}")
      case True
      then show ?thesis
        unfolding json_rune_def prod.case if_not_P [OF esc]
        by (elim insertE; simp add: scan_escape encode_rune_def escaped_chars)
    next
      case special: False
      show ?thesis
      proof (cases "r < 32 \<or> r \<in> {38, 60, 62, 8232, 8233}")
        case True
        then have "r < 65536" "\<not> (55296 \<le> r \<and> r \<le> 57343)" by auto
        from scan_unicode [OF this, of u] special True show ?thesis
          unfolding json_rune_def prod.case if_not_P [OF esc] by simp
      next
        case plain: False
        have b: "json_rune (r, take n (c # s)) = take n (c # s)"
          unfolding json_rune_def prod.case if_not_P [OF esc] using special plain by simp
        have t: "take n (c # s) @ u = c # take (n - 1) s @ u" using n by (cases n) simp_all
        have c: "byte c \<noteq> 34 \<and> \<not> byte c < 32 \<and> byte c \<noteq> 92"
        proof (cases "r < 128")
          case True
          with decode_rune_low_one [OF assms] special plain show ?thesis by simp
        next
          case False
          with decode_rune_high [OF assms] show ?thesis by simp
        qed
        have "decode_rune (c # take (n - 1) s @ u) = (r, n)"
          using decode_rune_local [OF assms list.simps(3), of u] \<open>\<not> (r = rune_error \<and> n = 1)\<close> t by simp
        moreover have "drop (n - 1) (take (n - 1) s @ u) = u" using n by simp
        ultimately show ?thesis unfolding b t using c by (simp add: scan_plain)
      qed
    qed
  qed
qed

lemma scan_runes: "scan_string (concat (map json_rune (runes s)) @ u) = prepend (valid_text s) (scan_string u)"
proof (induction s rule: runes.induct)
  case 1
  then show ?case by (simp add: valid_text_simps map_prod_def option.map_id [unfolded id_def])
next
  case (2 c s)
  obtain r n where d: "decode_rune (c # s) = (r, n)" by fastforce
  have b: "c # take (n - 1) s = take n (c # s)"
    using decode_rune_bounds(1) [OF d] by (cases n) simp_all
  show ?case
    using "2.IH" [OF d [symmetric] refl] d
    by (simp add: b [unfolded One_nat_def] scan_rune [OF d] valid_text_simps option.map_comp prod.map_comp comp_def id_def)
qed

lemma scan_json_string: "scan_string (concat (map json_rune (runes s)) @ CHR 0x22 # u) = Some (valid_text s, u)"
  by (simp add: scan_runes scan_string.simps(2))

section \<open>Numbers\<close>

definition ends_number :: "string \<Rightarrow> bool" where
  "ends_number u \<longleftrightarrow> (case u of [] \<Rightarrow> True | c # _ \<Rightarrow> \<not> is_digit c \<and> c \<noteq> CHR ''.'' \<and> c \<noteq> CHR ''e'' \<and> c \<noteq> CHR ''E'')"

lemma byte_digit: "n < 10 \<Longrightarrow> byte (char_of (48 + n :: nat)) = 48 + n"
  by (simp add: of_char_of)

lemma is_digit_char: "n < 10 \<Longrightarrow> is_digit (char_of (48 + n :: nat))"
  unfolding is_digit_def byte_digit by simp

lemma digit_value_char: "n < 10 \<Longrightarrow> digit_value (char_of (48 + n)) = int n"
  unfolding digit_value_def of_nat_of_char [symmetric, where 'a = int] byte_digit by simp

lemma digit_zero: "n < 10 \<Longrightarrow> char_of (48 + n :: nat) = CHR ''0'' \<longleftrightarrow> n = 0"
proof -
  assume n: "n < 10"
  have z: "char_of (48 :: nat) = CHR ''0''" by (simp add: char_literal)
  show ?thesis
  proof
    assume "char_of (48 + n) = CHR ''0''"
    with byte_digit [OF n] have "byte CHR ''0'' = 48 + n" by metis
    then show "n = 0" by simp
  qed (simp add: z)
qed

lemma nat_digits_digits: "list_all is_digit (nat_digits n)"
  by (induction n rule: nat_digits.induct) (subst nat_digits.simps, simp add: is_digit_char)

lemma nat_digits_value: "foldl (\<lambda>a d. 10 * a + digit_value d) 0 (nat_digits n) = int n"
proof (induction n rule: nat_digits.induct)
  case (1 n)
  then show ?case by (subst nat_digits.simps) (simp add: digit_value_char zdiv_int zmod_int)
qed

lemma nat_digits_head:
  "\<exists>c ds. nat_digits n = c # ds \<and> is_digit c \<and> (c = CHR ''0'' \<longleftrightarrow> n = 0) \<and> (n = 0 \<longrightarrow> ds = [])"
proof (induction n rule: nat_digits.induct)
  case (1 n)
  show ?case
  proof (cases "n < 10")
    case True
    then show ?thesis
      by (subst nat_digits.simps) (simp add: is_digit_char digit_zero)
  next
    case False
    with 1 obtain c ds where "nat_digits (n div 10) = c # ds" "is_digit c" "c \<noteq> CHR ''0''" by auto
    with False show ?thesis by (subst nat_digits.simps) simp
  qed
qed

lemma span_digits_append:
  "list_all is_digit ds \<Longrightarrow> ends_number u \<Longrightarrow> span_digits (ds @ u) = (ds, u)"
  by (induction ds) (auto simp: span_digits_def ends_number_def split: list.splits)

lemma let_step: "v = w \<Longrightarrow> f w = r \<Longrightarrow> Let v f = r"
  by (simp add: Let_def)

lemma scan_number_itoa: "ends_number u \<Longrightarrow> scan_number (itoa n @ u) = Some (JInt n, u)"
proof -
  assume u: "ends_number u"
  define ds where "ds = nat_digits (nat \<bar>n\<bar>)"
  obtain c r where c: "ds = c # r" "is_digit c" "c = CHR ''0'' \<Longrightarrow> r = []"
    using nat_digits_head [of "nat \<bar>n\<bar>"] unfolding ds_def by blast
  have s: "itoa n = (if n < 0 then CHR ''-'' # ds else ds)" by (simp add: itoa_def ds_def)
  have m: "c \<noteq> CHR ''-''" using c(2) by (auto simp: is_digit_def)
  have i: "(if take 1 ds = ''0'' then ''0'' else ds) = ds" using c(1,3) by auto
  have "list_all is_digit ds" by (simp add: ds_def nat_digits_digits)
  note sp = span_digits_append [OF this u]
  have v: "foldl (\<lambda>a d. 10 * a + digit_value d) 0 ds = \<bar>n\<bar>" by (simp add: ds_def nat_digits_value)
  have f: "(u \<noteq> [] \<and> hd u = CHR ''.'') = False" "(u \<noteq> [] \<and> (hd u = CHR ''e'' \<or> hd u = CHR ''E'')) = False"
    using u by (auto simp: ends_number_def split: list.splits)
  have t: "(itoa n @ u \<noteq> [] \<and> hd (itoa n @ u) = CHR ''-'') = (n < 0)"
    "(if n < 0 then tl (itoa n @ u) else itoa n @ u) = ds @ u"
    using m c(1) by (auto simp: s)
  have d: "drop (length ds) (ds @ u) = u" "ds \<noteq> []" "(if n < 0 then - \<bar>n\<bar> else \<bar>n\<bar>) = n"
    "drop (length ([] :: string)) u = u"
    using c(1) by simp_all
  show ?thesis
    unfolding scan_number_def
    by (rule let_step [OF t(1)], rule let_step [OF t(2)], rule let_step [OF sp [THEN arg_cong [of _ _ fst], unfolded fst_conv]],
        rule let_step [OF i], rule let_step [OF d(1)], rule let_step [OF f(1)], rule let_step [OF if_False],
        rule let_step [OF if_False], rule let_step [OF f(2)], rule let_step [OF if_False],
        rule let_step [OF if_not_P], simp only: simp_thms, rule let_step [OF if_False],
        rule let_step [OF d(4)], rule let_step [OF v], simp only: d if_False simp_thms)
qed

section \<open>Values\<close>

fun clean_json :: "json \<Rightarrow> json" where
  "clean_json (JStr s) = JStr (valid_text s)"
| "clean_json (JArr js) = JArr (map clean_json js)"
| "clean_json (JObj kvs) = JObj (map (\<lambda>(k, v). (valid_text k, clean_json v)) kvs)"
| "clean_json j = j"

fun no_fractions :: "json \<Rightarrow> bool" where
  "no_fractions (JFloat s) = False"
| "no_fractions (JArr js) = list_all no_fractions js"
| "no_fractions (JObj kvs) = list_all (\<lambda>(k, v). no_fractions v) kvs"
| "no_fractions j = True"

lemma encode_head: "no_fractions j \<Longrightarrow> \<exists>c r. json_encode j = c # r \<and> \<not> json_space c \<and> c \<noteq> CHR '']'' \<and> c \<noteq> CHR ''}''"
proof (cases j)
  case (JInt n)
  obtain c r where c: "nat_digits (nat \<bar>n\<bar>) = c # r" "is_digit c" using nat_digits_head by blast
  then have "\<not> json_space c \<and> c \<noteq> CHR '']'' \<and> c \<noteq> CHR ''}''" by (auto simp: is_digit_def json_space_def)
  with c(1) JInt show ?thesis by (auto simp: itoa_def json_space_def split: if_splits)
qed (auto simp: json_space_def json_string_def)

lemma encode_nonempty: "no_fractions j \<Longrightarrow> json_encode j \<noteq> []"
  using encode_head by fastforce

lemma skip_encoded: "no_fractions j \<Longrightarrow> dropWhile json_space (json_encode j @ u) = json_encode j @ u"
  using encode_head [of j] by auto

text \<open>What reading one encoded value means, whatever follows it.\<close>

definition reads_back :: "json \<Rightarrow> bool" where
  "reads_back j \<longleftrightarrow> (\<forall>u. ends_number u \<longrightarrow> json_read Value (json_encode j @ u) = Some (clean_json j, u))"

lemma reads_backD: "reads_back j \<Longrightarrow> ends_number u \<Longrightarrow> json_read Value (json_encode j @ u) = Some (clean_json j, u)"
  by (simp add: reads_back_def)

lemma ends_number_punctuation [simp]:
  "ends_number []" "ends_number (CHR '','' # u)" "ends_number (CHR '']'' # u)" "ends_number (CHR ''}'' # u)"
  by (simp_all add: ends_number_def is_digit_def)

lemma space_punctuation [simp]:
  "\<not> json_space CHR '',''" "\<not> json_space CHR '']''" "\<not> json_space CHR ''}''" "\<not> json_space CHR '':''"
  "\<not> json_space CHR 0x22" "\<not> json_space CHR ''{''" "\<not> json_space CHR ''[''"
  by (simp_all add: json_space_def)

lemma read_elements:
  assumes "js \<noteq> []" and "\<And>j. j \<in> set js \<Longrightarrow> reads_back j"
  shows "json_read Elements (join '','' (map json_encode js) @ CHR '']'' # u) = Some (JArr (map clean_json js), u)"
  using assms
proof (induction js rule: list_nonempty_induct)
  case (single j)
  from reads_backD [of j "CHR '']'' # u"] single show ?case by (simp add: json_read.simps(2))
next
  case (cons j js)
  define r where "r = join '','' (map json_encode js) @ CHR '']'' # u"
  have s: "join '','' (map json_encode (j # js)) @ CHR '']'' # u = json_encode j @ CHR '','' # r"
    using cons.hyps by (cases js) (simp_all add: r_def)
  from reads_backD [of j "CHR '','' # r"] cons.prems
  have j: "json_read Value (json_encode j @ CHR '','' # r) = Some (clean_json j, CHR '','' # r)" by simp
  have "json_read Elements r = Some (JArr (map clean_json js), u)"
    unfolding r_def by (rule cons.IH) (simp add: cons.prems)
  then show ?case unfolding s by (subst json_read.simps(2)) (simp add: j)
qed

definition encode_member :: "string \<times> json \<Rightarrow> string" where
  "encode_member = (\<lambda>(k, v). json_string k @ '':'' @ json_encode v)"

lemma read_members:
  assumes "kvs \<noteq> []" and "\<And>k v. (k, v) \<in> set kvs \<Longrightarrow> reads_back v"
  shows "json_read Members (join '','' (map encode_member kvs) @ CHR ''}'' # u)
     = Some (JObj (map (\<lambda>(k, v). (valid_text k, clean_json v)) kvs), u)"
  using assms
proof (induction kvs rule: list_nonempty_induct)
  case (single kv)
  obtain k v where kv: "kv = (k, v)" by fastforce
  from reads_backD [of v "CHR ''}'' # u"] single kv show ?case
    by (simp add: json_read.simps(3) encode_member_def json_string_def scan_json_string)
next
  case (cons kv kvs)
  obtain k v where kv: "kv = (k, v)" by fastforce
  define r where "r = join '','' (map encode_member kvs) @ CHR ''}'' # u"
  have s: "join '','' (map encode_member (kv # kvs)) @ CHR ''}'' # u
      = CHR 0x22 # concat (map json_rune (runes k)) @ CHR 0x22 # CHR '':'' # json_encode v @ CHR '','' # r"
    using cons.hyps by (cases kvs) (simp_all add: r_def kv encode_member_def json_string_def)
  from reads_backD [of v "CHR '','' # r"] cons.prems [of k v] kv
  have v: "json_read Value (json_encode v @ CHR '','' # r) = Some (clean_json v, CHR '','' # r)" by simp
  have "json_read Members r = Some (JObj (map (\<lambda>(k, v). (valid_text k, clean_json v)) kvs), u)"
    unfolding r_def by (rule cons.IH) (use cons.prems in auto)
  then show ?case unfolding s by (subst json_read.simps(3)) (simp add: scan_json_string v kv)
qed

lemma join_head: "join '','' (x # xs) @ u = x @ (if xs = [] then u else CHR '','' # join '','' xs @ u)"
  by (cases xs) simp_all

lemma read_array:
  assumes "no_fractions j" and "json_read Elements (json_encode j @ t) = Some (v, u)"
  shows "json_read Value (CHR ''['' # json_encode j @ t) = Some (v, u)"
proof -
  obtain c r where c: "json_encode j = c # r" "\<not> json_space c" "c \<noteq> CHR '']''"
    using encode_head [OF assms(1)] by blast
  then show ?thesis using assms(2) by (simp add: json_read.simps(1))
qed

lemma read_object:
  assumes "json_read Members (CHR 0x22 # t) = Some (v, u)"
  shows "json_read Value (CHR ''{'' # CHR 0x22 # t) = Some (v, u)"
  using assms by (simp add: json_read.simps(1))

lemma read_int:
  assumes "ends_number u"
  shows "json_read Value (itoa n @ u) = Some (JInt n, u)"
proof -
  obtain c r where c: "nat_digits (nat \<bar>n\<bar>) = c # r" "is_digit c" using nat_digits_head by blast
  then obtain d t where d: "itoa n @ u = d # t" "d = CHR ''-'' \<or> is_digit d"
    by (cases "n < 0") (auto simp: itoa_def)
  then have "\<not> json_space d \<and> d \<noteq> CHR 0x22 \<and> d \<noteq> CHR ''{'' \<and> d \<noteq> CHR ''['' \<and> d \<noteq> CHR ''n'' \<and> d \<noteq> CHR ''t'' \<and> d \<noteq> CHR ''f''"
    by (auto simp: json_space_def is_digit_def)
  with scan_number_itoa [OF assms, of n] show ?thesis unfolding d(1) by (auto simp: json_read.simps(1) Let_def)
qed

lemma json_reads_back: "no_fractions j \<Longrightarrow> reads_back j"
proof (induction j rule: no_fractions.induct)
  case (2 js)
  show ?case
  proof (cases js)
    case Nil
    then show ?thesis by (simp add: reads_back_def json_read.simps(1))
  next
    case (Cons j js')
    with 2 have each: "\<And>x. x \<in> set js \<Longrightarrow> reads_back x" and j: "no_fractions j"
      by (auto simp: list_all_iff)
    show ?thesis unfolding reads_back_def
    proof (intro allI impI)
      fix u
      have e: "json_encode (JArr js) @ u
          = CHR ''['' # json_encode j @ (if js' = [] then CHR '']'' # u
              else CHR '','' # join '','' (map json_encode js') @ CHR '']'' # u)"
        by (simp add: Cons join_head)
      have "json_read Elements (join '','' (map json_encode js) @ CHR '']'' # u) = Some (JArr (map clean_json js), u)"
        by (rule read_elements [OF _ each]) (simp_all add: Cons)
      then have "json_read Elements (json_encode j @ (if js' = [] then CHR '']'' # u
              else CHR '','' # join '','' (map json_encode js') @ CHR '']'' # u)) = Some (clean_json (JArr js), u)"
        by (simp add: Cons join_head del: clean_json.simps(1) split del: if_split)
      then show "json_read Value (json_encode (JArr js) @ u) = Some (clean_json (JArr js), u)"
        unfolding e by (rule read_array [OF j])
    qed
  qed
next
  case (3 kvs)
  have each: "\<And>k v. (k, v) \<in> set kvs \<Longrightarrow> reads_back v"
    using 3 by (fastforce simp: list_all_iff)
  show ?case
  proof (cases kvs)
    case Nil
    then show ?thesis by (simp add: reads_back_def json_read.simps(1))
  next
    case (Cons kv kvs')
    show ?thesis unfolding reads_back_def
    proof (intro allI impI)
      fix u
      obtain t where t: "join '','' (map encode_member kvs) @ CHR ''}'' # u = CHR 0x22 # t"
        by (cases kv) (simp add: Cons join_head encode_member_def json_string_def split del: if_split)
      have e: "json_encode (JObj kvs) @ u = CHR ''{'' # CHR 0x22 # t"
        using t by (simp add: encode_member_def)
      show "json_read Value (json_encode (JObj kvs) @ u) = Some (clean_json (JObj kvs), u)"
        unfolding e clean_json.simps
        by (rule read_object, unfold t [symmetric], rule read_members [OF _ each]) (simp_all add: Cons)
    qed
  qed
qed (simp_all add: reads_back_def json_read.simps(1) json_string_def scan_json_string json_space_def
      read_int [unfolded json_read.simps(1)])

lemma json_parse_encode: "no_fractions j \<Longrightarrow> json_parse (json_encode j) = Some (clean_json j)"
  using reads_backD [OF json_reads_back, of j "[]"] by (simp add: json_parse_def)

section \<open>Text that is valid already\<close>

definition valid_utf8 :: "string \<Rightarrow> bool" where
  "valid_utf8 s \<longleftrightarrow> list_all (\<lambda>p. \<not> (fst p = rune_error \<and> length (snd p) = 1)) (runes s)"

lemma char_of_byte: "byte c = n \<Longrightarrow> char_of (n :: nat) = c"
  using char_of_char by metis

lemma encode_ascii: "byte c < 128 \<Longrightarrow> encode_rune (byte c) = [c]"
  by (simp add: encode_rune_def)

lemma cont_byte: "is_cont c \<Longrightarrow> \<exists>y<64. byte c = 128 + y"
  by (rule exI [of _ "byte c - 128"]) (auto simp: is_cont_def)

lemma low64: "y < 64 \<Longrightarrow> (a * 64 + y) div 64 = (a :: nat)" "y < 64 \<Longrightarrow> (a * 64 + y) mod 64 = (y :: nat)"
  by simp_all

lemma div64: "n div 4096 = n div 64 div (64 :: nat)" "n div 262144 = n div 64 div 64 div (64 :: nat)"
  by (simp_all add: div_mult2_eq [symmetric])

lemma two_bytes:
  assumes "194 \<le> byte c0" "byte c0 \<le> 223" "is_cont c1"
  shows "encode_rune ((byte c0 - 192) * 64 + (byte c1 - 128)) = [c0, c1]"
proof -
  define x where "x = byte c0 - 192"
  from assms(1,2) have x: "byte c0 = 192 + x" "2 \<le> x" "x < 32" by (simp_all add: x_def)
  from assms(3) obtain y where y: "byte c1 = 128 + y" "y < 64" using cont_byte by blast
  note q = low64 [OF y(2), of x]
  have b: "\<not> x * 64 + y < 128" "x * 64 + y < 2048" "\<not> 1114111 < x * 64 + y" "\<not> 55296 \<le> x * 64 + y"
    using x(2,3) y(2) by linarith+
  show ?thesis
    using x(1) y(1) b by (simp add: encode_rune_def q char_of_byte del: mod_mult_self3 div_mult_self3)
qed

lemma encode_long:
  "2048 \<le> r \<Longrightarrow> r < 65536 \<Longrightarrow> \<not> (55296 \<le> r \<and> r \<le> 57343) \<Longrightarrow> encode_rune r =
     [char_of (224 + r div 4096), char_of (128 + r div 64 mod 64), char_of (128 + r mod 64)]"
  "65536 \<le> r \<Longrightarrow> r \<le> 1114111 \<Longrightarrow> encode_rune r =
     [char_of (240 + r div 262144), char_of (128 + r div 4096 mod 64), char_of (128 + r div 64 mod 64),
      char_of (128 + r mod 64)]"
  unfolding encode_rune_def Let_def by auto

lemma three_bytes:
  assumes "224 \<le> byte c0" "byte c0 \<le> 239" "is_cont c1" "is_cont c2"
    "byte c0 = 224 \<Longrightarrow> 160 \<le> byte c1" "byte c0 = 237 \<Longrightarrow> byte c1 \<le> 159"
  shows "encode_rune ((byte c0 - 224) * 4096 + (byte c1 - 128) * 64 + (byte c2 - 128)) = [c0, c1, c2]"
proof -
  define x where "x = byte c0 - 224"
  from assms(1,2) have x: "byte c0 = 224 + x" "x < 16" by (simp_all add: x_def)
  from assms(3,4) obtain y z where y: "byte c1 = 128 + y" "y < 64" and z: "byte c2 = 128 + z" "z < 64"
    using cont_byte by blast
  define r where "r = x * 4096 + y * 64 + z"
  have r: "r = (x * 64 + y) * 64 + z" by (simp add: r_def)
  have q: "r div 64 = x * 64 + y" "r mod 64 = z" "r div 4096 = x" "(x * 64 + y) mod 64 = y"
    unfolding div64 unfolding r low64 [OF z(2)] low64 [OF y(2)] by (rule refl)+
  have "32 \<le> y" if "x = 0" using assms(5) x(1) y(1) that by simp
  then have lo: "2048 \<le> r" using r_def by (cases "x = 0") linarith+
  have sur: "r < 55296 \<or> 57343 < r"
  proof (cases "x = 13")
    case True
    with assms(6) x(1) y(1) have "y < 32" by simp
    with True z(2) r_def show ?thesis by linarith
  next
    case False
    then consider "x \<le> 12" | "14 \<le> x" by linarith
    then show ?thesis using y(2) z(2) r_def by cases linarith+
  qed
  have hi: "r < 65536" using x(2) y(2) z(2) r_def by linarith
  have e: "(byte c0 - 224) * 4096 + (byte c1 - 128) * 64 + (byte c2 - 128) = r"
    by (simp add: x(1) y(1) z(1) r_def)
  from sur have "\<not> (55296 \<le> r \<and> r \<le> 57343)" by linarith
  from encode_long(1) [OF lo hi this] show ?thesis
    unfolding e by (simp only: q char_of_byte [OF x(1)] char_of_byte [OF y(1)] char_of_byte [OF z(1)])
qed

lemma four_bytes:
  assumes "240 \<le> byte c0" "byte c0 \<le> 244" "is_cont c1" "is_cont c2" "is_cont c3"
    "byte c0 = 240 \<Longrightarrow> 144 \<le> byte c1" "byte c0 = 244 \<Longrightarrow> byte c1 \<le> 143"
  shows "encode_rune ((byte c0 - 240) * 262144 + (byte c1 - 128) * 4096 + (byte c2 - 128) * 64 + (byte c3 - 128))
     = [c0, c1, c2, c3]"
proof -
  define x where "x = byte c0 - 240"
  from assms(1,2) have x: "byte c0 = 240 + x" "x \<le> 4" by (simp_all add: x_def)
  obtain y where y: "byte c1 = 128 + y" "y < 64" using cont_byte [OF assms(3)] by blast
  obtain z where z: "byte c2 = 128 + z" "z < 64" using cont_byte [OF assms(4)] by blast
  obtain w where w: "byte c3 = 128 + w" "w < 64" using cont_byte [OF assms(5)] by blast
  define r where "r = x * 262144 + y * 4096 + z * 64 + w"
  have r: "r = ((x * 64 + y) * 64 + z) * 64 + w" by (simp add: r_def)
  have d: "r div 64 = (x * 64 + y) * 64 + z" "r div 4096 = x * 64 + y" "r div 262144 = x"
    unfolding div64 unfolding r low64 [OF w(2)] low64 [OF z(2)] low64 [OF y(2)] by (rule refl)+
  have m: "r mod 64 = w" "((x * 64 + y) * 64 + z) mod 64 = z" "(x * 64 + y) mod 64 = y"
    unfolding r low64 [OF w(2)] low64 [OF z(2)] low64 [OF y(2)] by (rule refl)+
  have "16 \<le> y" if "x = 0" using assms(6) x(1) y(1) that by simp
  then have lo: "65536 \<le> r" using r_def by (cases "x = 0") linarith+
  have "y \<le> 15" if "x = 4" using assms(7) x(1) y(1) that by simp
  then have hi: "r \<le> 1114111" using x(2) y(2) z(2) w(2) r_def by (cases "x = 4") linarith+
  have e: "(byte c0 - 240) * 262144 + (byte c1 - 128) * 4096 + (byte c2 - 128) * 64 + (byte c3 - 128) = r"
    by (simp add: x(1) y(1) z(1) w(1) r_def)
  show ?thesis
    unfolding e encode_long(2) [OF lo hi]
    by (simp only: d m char_of_byte [OF x(1)] char_of_byte [OF y(1)] char_of_byte [OF z(1)] char_of_byte [OF w(1)])
qed

lemma encode_decode_rune:
  assumes "decode_rune s = (r, n)" and "s \<noteq> []" and "\<not> (r = rune_error \<and> n = 1)"
  shows "encode_rune r = take n s"
proof -
  consider c0 where "s = [c0]" | c0 c1 where "s = [c0, c1]" | c0 c1 c2 where "s = [c0, c1, c2]"
    | c0 c1 c2 c3 t where "s = c0 # c1 # c2 # c3 # t"
    using assms(2) by (metis list.exhaust)
  then show ?thesis
  proof cases
    case 1
    with assms show ?thesis by (auto simp: decode_rune_def encode_ascii split: if_splits)
  next
    case 2
    with assms show ?thesis by (auto simp: decode_rune_def encode_ascii two_bytes split: if_splits)
  next
    case 3
    with assms show ?thesis by (auto simp: decode_rune_def encode_ascii two_bytes three_bytes split: if_splits)
  next
    case 4
    with assms show ?thesis
      by (auto simp: decode_rune_def encode_ascii two_bytes three_bytes four_bytes split: if_splits)
  qed
qed

lemma valid_text_valid: "valid_utf8 s \<Longrightarrow> valid_text s = s"
proof (induction s rule: runes.induct)
  case (2 c s)
  obtain r n where d: "decode_rune (c # s) = (r, n)" by fastforce
  have b: "c # take (n - 1) s = take n (c # s)" "length (take n (c # s)) = n"
    using decode_rune_bounds [OF d] by (cases n; simp)+
  from "2.prems" have v: "\<not> (r = rune_error \<and> n = 1)" "valid_utf8 (drop (n - 1) s)"
    unfolding valid_utf8_def runes.simps Let_def d prod.case b(1) using b(2) by simp_all
  have "valid_text (c # s) = take n (c # s) @ drop (n - 1) s"
    unfolding valid_text_simps d prod.case "2.IH" [OF d [symmetric] refl v(2)]
    using encode_decode_rune [OF d _ v(1)] by simp
  then show ?case unfolding b(1) [symmetric] by simp
qed (simp add: valid_text_simps)

lemma ascii_valid: "ascii s \<Longrightarrow> valid_text s = s"
proof -
  assume "ascii s"
  then have "valid_text s = concat (map (\<lambda>c. encode_rune (byte c)) s)"
    by (simp add: valid_text_def runes_ascii comp_def)
  with \<open>ascii s\<close> show ?thesis by (induction s) (simp_all add: valid_text_def runes_ascii encode_ascii comp_def)
qed

lemma ascii_valid_utf8: "ascii s \<Longrightarrow> valid_utf8 s"
  by (auto simp: valid_utf8_def runes_ascii rune_error_def ascii_def list_all_iff)

end
