(* ===== verification/Annotation_Facts.thy ===== *)
theory Annotation_Facts
  imports Reconcile Samples Json_Facts
begin

text \<open>
  The lease ids of a resource live in an annotation of its target Secret, from one pass to the
  next: what a pass writes is what the next one reads.
\<close>

lemma decode_string_members:
  "distinct (map fst al @ map fst ids) \<Longrightarrow>
     decode_members decode_entry al (map (\<lambda>(k, v). (k, JStr v)) ids) = Some (al @ ids)"
proof (induction ids arbitrary: al)
  case (Cons kv ids)
  obtain k v where kv: "kv = (k, v)" by fastforce
  have "AList.update k v al = al @ [(k, v)]"
    by (rule update_new) (use Cons.prems in \<open>auto simp: kv\<close>)
  then have "decode_entry al k (JStr v) = Some (al @ [(k, v)])"
    by (simp add: decode_entry_def decode_string_def)
  moreover have "decode_members decode_entry (al @ [(k, v)]) (map (\<lambda>(k, v). (k, JStr v)) ids) = Some ((al @ [(k, v)]) @ ids)"
    by (rule Cons.IH) (use Cons.prems in \<open>auto simp: kv\<close>)
  ultimately show ?case by (simp add: kv)
qed simp

definition readable_ids :: "lease_map \<Rightarrow> bool" where
  "readable_ids ids \<longleftrightarrow> distinct (map fst ids) \<and> list_all (\<lambda>(k, v). valid_utf8 k \<and> valid_utf8 v) ids"

lemma clean_lease_json: "readable_ids ids \<Longrightarrow> clean_json (lease_json ids) = lease_json ids"
  by (auto simp: readable_ids_def lease_json_def list_all_iff valid_text_valid)

lemma no_fractions_lease_json: "no_fractions (lease_json ids)"
  by (auto simp: lease_json_def list_all_iff)

lemma decode_lease_json:
  assumes "readable_ids ids"
  shows "decode_lease_ids (json_encode (lease_json ids)) = sort_key fst ids"
proof -
  have "distinct (map fst (sort_key fst ids))"
    using assms unfolding readable_ids_def distinct_map by (simp add: inj_on_def)
  then have "decode_alist [] (lease_json ids) = Some (sort_key fst ids)"
    using decode_string_members [of "[]" "sort_key fst ids"] by (simp add: decode_alist_def lease_json_def)
  moreover have "json_encode (lease_json ids) \<noteq> []"
    by (rule encode_nonempty [OF no_fractions_lease_json])
  ultimately show ?thesis
    by (simp add: decode_lease_ids_def json_parse_encode no_fractions_lease_json clean_lease_json [OF assms])
qed

definition stored_ids :: "secret \<Rightarrow> lease_map" where
  "stored_ids sec = decode_lease_ids (get_or_empty (s_annotations sec) LeaseIDsAnnotation)"

text \<open>
  C38. The lease ids written into the annotation of a new Secret are the ids the next pass reads
  from it. An update of an existing Secret carries them over in the same way, but when there are no
  ids left it keeps the old annotation: the next pass reads the ids of leases that were revoked.
\<close>

theorem lease_ids_survive:
  assumes "readable_ids ids"
  shows "stored_ids (desired_secret cr data ids) = sort_key fst ids \<and>
     stored_ids (updated_secret old (desired_secret cr data ids))
       = (if ids = [] then stored_ids old else sort_key fst ids)"
proof (cases "ids = []")
  case True
  then show ?thesis
    by (simp add: stored_ids_def desired_secret_def updated_secret_def withLeaseIDs_def mergeInto_def
        get_or_empty_def decode_lease_ids_def map_add_def)
next
  case False
  then have "s_annotations (desired_secret cr data ids) LeaseIDsAnnotation = Some (json_encode (lease_json ids))"
    by (simp add: desired_secret_def withLeaseIDs_def)
  then show ?thesis
    using False by (simp add: stored_ids_def updated_secret_def mergeInto_def decode_lease_json [OF assms])
qed

theorem lease_ids_survive_witness:
  "readable_ids [(''DB'', ''lease2''), (''AWS'', ''lease1'')] \<and>
   (stored_ids (desired_secret sample_cr Map.empty [(''DB'', ''lease2''), (''AWS'', ''lease1'')])
      = sort_key fst [(''DB'', ''lease2''), (''AWS'', ''lease1'')] \<and>
    stored_ids (updated_secret sample_secret (desired_secret sample_cr Map.empty [(''DB'', ''lease2''), (''AWS'', ''lease1'')]))
      = (if [(''DB'', ''lease2''), (''AWS'', ''lease1'')] = [] then stored_ids sample_secret
         else sort_key fst [(''DB'', ''lease2''), (''AWS'', ''lease1'')]))"
proof -
  have "readable_ids [(''DB'', ''lease2''), (''AWS'', ''lease1'')]"
    by (simp add: readable_ids_def ascii_valid_utf8)
  from this lease_ids_survive [OF this] show ?thesis by blast
qed

end
