(* ===== verification/Run_Loop.thy ===== *)
theory Run_Loop
  imports Manager
begin

text \<open>
  The two loops of the manager (\<open>Run\<close> and \<open>watch\<close> of
  \<open>controller/manager.go\<close>): one takes items from the work queue and handles them, the other
  feeds the queue from the API server. Both may run for ever, so they are partial functions: no
  result (\<open>None\<close>) is a run that does not return.
\<close>

section \<open>The worker\<close>

text \<open>The body of the loop; a result is the return of \<open>Run\<close>.\<close>

definition run_pass :: "('w, 'm) manager \<Rightarrow> 'w run_api \<Rightarrow> ('w, 'm, goerr option option) manager_io" where
  "run_pass m A = do {
     got \<leftarrow> run_queue_get A;
     if snd got then State_Monad.return (Some None)
     else do {
       let item = fst got;
       requeueAfter \<leftarrow> reconcileOne m item;
       run_queue_done A item;
       (if 0 < requeueAfter then run_queue_add_after A item requeueAfter else State_Monad.return ());
       cancelled \<leftarrow> run_ctx_err A;
       case cancelled of
         None \<Rightarrow> State_Monad.return None
       | Some _ \<Rightarrow> do {
           e \<leftarrow> run_ctx_err A;
           State_Monad.return (Some e)
         }
     }
   }"

text \<open>The deferred \<open>ShutDown\<close> of the queue runs on every return.\<close>

partial_function (option) Run ::
  "('w, 'm) manager \<Rightarrow> 'w run_api \<Rightarrow> ('w, event, 'm) manager_state_scheme
     \<Rightarrow> (goerr option \<times> ('w, event, 'm) manager_state_scheme) option" where
  "Run m A s = (case run_state (run_pass m A) s of
       (None, s') \<Rightarrow> Run m A s'
     | (Some e, s') \<Rightarrow> Some (e, snd (run_state (run_queue_shut_down A) s')))"

section \<open>The watch\<close>

text \<open>One event off the channel; an object of another type is skipped.\<close>

definition watch_received ::
  "('w, 'm) manager \<Rightarrow> 'w run_api \<Rightarrow> string \<Rightarrow> json option \<Rightarrow> ('w, 'm, unit) manager_io" where
  "watch_received m A kind obj = (case obj of
       None \<Rightarrow> State_Monad.return ()
     | Some j \<Rightarrow> do {
         added \<leftarrow> watch_event m kind j;
         (case added of
            None \<Rightarrow> State_Monad.return ()
          | Some item \<Rightarrow> run_queue_add A item)
       })"

text \<open>The events of one watch, until its channel is closed.\<close>

partial_function (option) watch_drain ::
  "('w, 'm) manager \<Rightarrow> 'w run_api \<Rightarrow> nat \<Rightarrow> ('w, event, 'm) manager_state_scheme
     \<Rightarrow> ('w, event, 'm) manager_state_scheme option" where
  "watch_drain m A n s = (case run_state (run_watch_next A n) s of
       (None, s') \<Rightarrow> Some s'
     | (Some (kind, obj), s') \<Rightarrow> watch_drain m A n (snd (run_state (watch_received m A kind obj) s')))"

definition watch_retry :: duration where
  "watch_retry = 5 * second"

partial_function (option) watch ::
  "('w, 'm) manager \<Rightarrow> 'w run_api \<Rightarrow> ('w, event, 'm) manager_state_scheme
     \<Rightarrow> ('w, event, 'm) manager_state_scheme option" where
  "watch m A s = (case run_state (run_ctx_err A) s of
       (Some _, s1) \<Rightarrow> Some s1
     | (None, s1) \<Rightarrow> (case run_state (run_watch_open A (mg_namespace m)) s1 of
           (Inl _, s2) \<Rightarrow> (case run_state (run_ctx_done_before A watch_retry) s2 of
               (stop, s3) \<Rightarrow> if stop then Some s3 else watch m A s3)
         | (Inr n, s2) \<Rightarrow> Option.bind (watch_drain m A n s2) (watch m A)))"

section \<open>A bounded number of rounds\<close>

text \<open>The first \<open>n\<close> rounds of the worker: what it returned, if it did, and the state.\<close>

fun run_rounds ::
  "nat \<Rightarrow> ('w, 'm) manager \<Rightarrow> 'w run_api \<Rightarrow> ('w, event, 'm) manager_state_scheme
     \<Rightarrow> goerr option option \<times> ('w, event, 'm) manager_state_scheme" where
  "run_rounds 0 m A s = (None, s)"
| "run_rounds (Suc n) m A s = (case run_state (run_pass m A) s of
       (None, s') \<Rightarrow> run_rounds n m A s'
     | (Some e, s') \<Rightarrow> (Some e, snd (run_state (run_queue_shut_down A) s')))"

lemma run_rounds_Run: "run_rounds n m A s = (Some e, s') \<Longrightarrow> Run m A s = Some (e, s')"
proof (induction n arbitrary: s)
  case (Suc n)
  then show ?case by (subst Run.simps) (auto split: prod.splits option.splits)
qed simp

lemma Run_run_rounds: "Run m A s = Some r \<Longrightarrow> \<exists>n. run_rounds n m A s = (Some (fst r), snd r)"
proof (induction m A s r rule: Run.raw_induct [rotated 1, consumes 1, case_names body])
  case (body run m A s r)
  obtain x s' where p: "run_state (run_pass m A) s = (x, s')" by fastforce
  show ?case
  proof (cases x)
    case None
    with body(2) p have "run m A s' = Some r" by simp
    from body(1) [OF this] obtain n where "run_rounds n m A s' = (Some (fst r), snd r)" by blast
    then have "run_rounds (Suc n) m A s = (Some (fst r), snd r)" using p None by simp
    then show ?thesis by blast
  next
    case (Some e)
    with body(2) p have "run_rounds (Suc 0) m A s = (Some (fst r), snd r)" by auto
    then show ?thesis by blast
  qed
qed

end
