(* ===== verification/Program.thy ===== *)
theory Program
  imports Operator Run_Loop
begin

text \<open>
  The whole program (\<open>cmd/kryptic-operator/main.go\<close>): the command line, the configuration of
  the clients, the level of the logger, the run of the manager and the exit code. The log itself is
  left out.
\<close>

section \<open>The command line\<close>

text \<open>
  \<open>flag.Parse\<close> with string flags only: \<open>-name value\<close>, \<open>-name=value\<close>, one
  dash or two. It exits with 2 on a bad command line and with 0 when help is asked for.
\<close>

definition option_body :: "string \<Rightarrow> string" where
  "option_body a = (if a ! 1 = CHR ''-'' then drop 2 a else drop 1 a)"

fun parse_flags :: "(string \<rightharpoonup> string) \<Rightarrow> string list \<Rightarrow> int + (string \<rightharpoonup> string)" where
  "parse_flags flags [] = Inr flags"
| "parse_flags flags (a # args) =
     (if length a < 2 \<or> hd a \<noteq> CHR ''-'' then Inr flags
      else if a = ''--'' then Inr flags
      else
        let body = option_body a; name = takeWhile (\<lambda>c. c \<noteq> CHR ''='') body
        in if hd body = CHR ''-'' \<or> hd body = CHR ''='' then Inl 2
        else if flags name = None then Inl (if name = ''help'' \<or> name = ''h'' then 0 else 2)
        else if name \<noteq> body then parse_flags (flags(name \<mapsto> drop (length name + 1) body)) args
        else (case args of
                [] \<Rightarrow> Inl 2
              | v # rest \<Rightarrow> parse_flags (flags(name \<mapsto> v)) rest))"

declare parse_flags.simps(2) [simp del]

definition default_flags :: "(string \<Rightarrow> string) \<Rightarrow> string \<rightharpoonup> string" where
  "default_flags getenv = [''kubeconfig'' \<mapsto> getenv ''KUBECONFIG'', ''namespace'' \<mapsto> getenv ''WATCH_NAMESPACE'',
     ''log-level'' \<mapsto> ''info'']"

section \<open>The logger\<close>

text \<open>
  \<open>slog.Level\<close>: a name in any case, with an offset that is added in 64 bits. A text that is no
  level leaves the level at info.
\<close>

definition level_name :: "go_runtime \<Rightarrow> string \<Rightarrow> int option" where
  "level_name R name = map_of [(''DEBUG'', -4), (''INFO'', 0), (''WARN'', 4), (''ERROR'', 8)] (to_upper R name)"

definition newLogger :: "go_runtime \<Rightarrow> string \<Rightarrow> int" where
  "newLogger R text =
     (let name = takeWhile (\<lambda>c. c \<noteq> CHR ''+'' \<and> c \<noteq> CHR ''-'') text;
          rest = drop (length name) text
      in case (if rest = [] then Some 0 else atoi rest, level_name R name) of
           (Some offset, Some level) \<Rightarrow> sint (word_of_int (level + offset) :: 64 word)
         | _ \<Rightarrow> 0)"

section \<open>The configuration\<close>

definition loadConfig :: "'w start_api \<Rightarrow> string \<Rightarrow> ('w, 'm, goerr + nat) io" where
  "loadConfig P kubeconfig = do {
     inside \<leftarrow> external (in_cluster_config P) (\<lambda>r. Control (InClusterConfig r));
     case inside of
       Inr config \<Rightarrow> State_Monad.return (Inr config)
     | Inl _ \<Rightarrow> external (file_config P kubeconfig) (\<lambda>r. Control (KubeConfig kubeconfig r))
   }"

text \<open>The calls of the API server, or the error that ends the program.\<close>

definition connect :: "'w start_api \<Rightarrow> string \<Rightarrow> ('w, 'm, goerr + 'w kube_api) io" where
  "connect P kubeconfig = do {
     config \<leftarrow> loadConfig P kubeconfig;
     case config of
       Inl e \<Rightarrow> State_Monad.return (Inl e)
     | Inr c \<Rightarrow> do {
         typed \<leftarrow> external (typed_client P c) (\<lambda>r. Control (TypedClient c r));
         case typed of
           Inl e \<Rightarrow> State_Monad.return (Inl e)
         | Inr t \<Rightarrow> do {
             untyped \<leftarrow> external (dynamic_client P c) (\<lambda>r. Control (DynamicClient c r));
             State_Monad.return (case untyped of Inl e \<Rightarrow> Inl e | Inr d \<Rightarrow> Inr (cluster_calls P t d))
           }
       }
   }"

section \<open>The program\<close>

text \<open>A new client has seen no token and no key, a new manager no status write.\<close>

definition first_state :: "'w \<Rightarrow> ('w, event) manager_state" where
  "first_state w = \<lparr>world = w, trace = [], tokens = Map.empty, unwrap_keys = Map.empty,
     lastStatusWrite = Map.empty, statusWriteInFlight = Map.empty\<rparr>"

text \<open>The exit code; no result is a program that runs for ever.\<close>

definition main ::
  "'w env \<Rightarrow> 'w start_api \<Rightarrow> 'w run_api \<Rightarrow> (string \<Rightarrow> string) \<Rightarrow> string list \<Rightarrow> 'w
     \<Rightarrow> (int \<times> ('w, event) manager_state) option" where
  "main X P A getenv args w =
     (case parse_flags (default_flags getenv) args of
        Inl code \<Rightarrow> Some (code, first_state w)
      | Inr flags \<Rightarrow>
          (case run_state (connect P (get_or_empty flags ''kubeconfig'')) (first_state w) of
             (Inl _, s) \<Rightarrow> Some (1, s)
           | (Inr K, s) \<Rightarrow>
               (case Run (operator X K getenv (get_or_empty flags ''namespace'')) A s of
                  None \<Rightarrow> None
                | Some (None, s') \<Rightarrow> Some (0, s')
                | Some (Some _, s') \<Rightarrow>
                    (case run_state (run_ctx_err A) s' of
                       (cancelled, s'') \<Rightarrow> Some (if cancelled = None then 1 else 0, s'')))))"

end
