(* ===== verification/Client_Facts.thy ===== *)
theory Client_Facts
  imports Wire Samples
begin

text \<open>
  What the operations of the API client do, beyond the shape of their requests: how the outcome of
  an HTTP exchange becomes a result, when a cached token is used, what is decrypted, and which
  leases are revoked.
\<close>

section \<open>Exchanges\<close>

text \<open>What the client makes of the answer to a request.\<close>

definition verdict :: "goerr + http_response \<Rightarrow> goerr + http_response" where
  "verdict a = (case a of
       Inl e \<Rightarrow> Inl e
     | Inr r \<Rightarrow> if resp_status r = StatusOK then Inr r else Inl (ApiError (resp_status r)))"

definition unauthorized :: "goerr + http_response \<Rightarrow> bool" where
  "unauthorized a \<longleftrightarrow> (case a of Inl _ \<Rightarrow> False | Inr r \<Rightarrow> resp_status r = StatusUnauthorized)"

definition is_http :: "event \<Rightarrow> bool" where
  "is_http e \<longleftrightarrow> (case e of Net (HttpDo _ _) \<Rightarrow> True | _ \<Rightarrow> False)"

lemma is_http_simps [simp]:
  "is_http (Net (HttpDo q a))" "\<not> is_http (Net (ClockNow t))" "\<not> is_http (Net (LogFailure p st b))"
  "\<not> is_http (Kube k)" "\<not> is_http (Target g)"
  by (simp_all add: is_http_def)

lemma status_ok_not_401 [simp]: "StatusOK \<noteq> StatusUnauthorized" "StatusUnauthorized \<noteq> StatusOK"
  by (simp_all add: StatusOK_def StatusUnauthorized_def)

lemma wp_refused:
  "wp (refused creds path r) s Q =
     Q (ApiError (resp_status r)) (s\<lparr>
       trace := trace s @ [Net (LogFailure path (resp_status r) (readBody r))],
       tokens := (if resp_status r = StatusUnauthorized then (tokens s)(cred_ClientID creds := None)
                  else tokens s)\<rparr>)"
  unfolding refused_def invalidate_def logFailure_def net_log_def
  by (cases s) (simp add: wp_rules)

lemma wp_net_do:
  "wp (net_do N q) s Q = (case http_do N q (world s) of
     (a, w') \<Rightarrow> Q a (s\<lparr>world := w', trace := trace s @ [Net (HttpDo q a)]\<rparr>))"
  unfolding net_do_def by (rule wp_external)

lemma wp_net_now:
  "wp (net_now N) s Q = (case clock_now N (world s) of
     (t, w') \<Rightarrow> Q t (s\<lparr>world := w', trace := trace s @ [Net (ClockNow t)]\<rparr>))"
  unfolding net_now_def by (rule wp_external)

lemma do_request_spec:
  "wp (do_request X creds tok meth path payload) s (\<lambda>r s'. \<exists>es. trace s' = trace s @ es \<and>
     unwrap_keys s' = unwrap_keys s \<and>
     (case es of
        [] \<Rightarrow> isl r \<and> url_parse (base_url creds @ path) = None \<and> tokens s' = tokens s
      | e # logs \<Rightarrow> (\<exists>q a. e = Net (HttpDo q a) \<and> req_method q = meth \<and> req_url q = base_url creds @ path \<and>
          filter is_http logs = [] \<and> r = verdict a \<and>
          tokens s' = (if unauthorized a then (tokens s)(cred_ClientID creds := None) else tokens s))))"
proof (cases "new_request (en_runtime X) meth (base_url creds @ path)
    (if payload \<noteq> None \<and> meth \<noteq> GET then json_encode (the payload) else [])")
  case (Inl e)
  then have "url_parse (base_url creds @ path) = None" by (auto simp: new_request_def split: if_splits)
  with Inl show ?thesis unfolding do_request_def Let_def by (simp add: wp_return)
next
  case (Inr q0)
  define q where "q = (if payload \<noteq> None \<and> meth \<noteq> GET
    then set_header ''Content-Type'' ''application/json'' (set_header ''Authorization'' (bearer tok) q0)
    else set_header ''Authorization'' (bearer tok) q0)"
  have qs: "req_method q = meth" "req_url q = base_url creds @ path"
    using new_request_cases [OF Inr] by (auto simp: q_def)
  obtain a w' where a: "http_do (en_net X) q (world s) = (a, w')" by fastforce
  show ?thesis
  proof (cases a)
    case (Inl e)
    show ?thesis
      unfolding do_request_def Let_def Inr sum.case q_def [symmetric] wp_bind wp_net_do a prod.case Inl wp_return
      by (intro exI [of _ "[Net (HttpDo q (Inl e))]"]) (simp add: qs verdict_def unauthorized_def)
  next
    case r: (Inr resp)
    show ?thesis
    proof (cases "resp_status resp = StatusOK")
      case True
      then show ?thesis
        unfolding do_request_def Let_def Inr sum.case q_def [symmetric] wp_bind wp_net_do a prod.case r
        by (simp add: qs wp_return verdict_def unauthorized_def)
    next
      case False
      then show ?thesis
        unfolding do_request_def Let_def Inr sum.case q_def [symmetric] wp_bind wp_net_do a prod.case r
        by (simp add: wp_bind wp_return wp_refused qs verdict_def unauthorized_def)
    qed
  qed
qed

text \<open>
  C19. A request has one of three outcomes: its URL cannot be parsed and nothing is sent; the transport
  fails, and that failure is the error; or an answer comes back, and a status other than 200 makes
  an error that carries the status and nothing of the body. A 401, and only a 401, drops the
  cached token of the client id. The derived keys are never touched.
\<close>

theorem request_outcome:
  "wp (do_request X creds tok meth path payload) s (\<lambda>r s'. \<exists>es. trace s' = trace s @ es \<and>
     unwrap_keys s' = unwrap_keys s \<and>
     (case es of
        [] \<Rightarrow> isl r \<and> url_parse (base_url creds @ path) = None \<and> tokens s' = tokens s
      | e # logs \<Rightarrow> (\<exists>q a. e = Net (HttpDo q a) \<and> req_method q = meth \<and> req_url q = base_url creds @ path \<and>
          filter is_http logs = [] \<and> r = verdict a \<and>
          tokens s' = (if unauthorized a then (tokens s)(cred_ClientID creds := None) else tokens s))))"
  by (rule do_request_spec)

text \<open>
  The two request helpers agree: \<open>get\<close> is \<open>do\<close> with the GET method and no
  payload.
\<close>

lemma get_is_do:
  "get X creds tok path what dec zero = do_decode X creds tok GET path None what dec zero"
proof (cases "new_request (en_runtime X) GET (base_url creds @ path) []")
  case (Inl e)
  then show ?thesis by (simp add: get_def do_decode_def do_request_def)
next
  case (Inr q)
  show ?thesis
    unfolding get_def do_decode_def do_request_def Let_def
    by (rule state.expand, rule ext)
      (simp add: Inr net_do_def split: prod.split sum.split)
qed

section \<open>Tokens\<close>

lemma request_token_outcome:
  "wp (request_token X creds auth) s (\<lambda>r s'. \<exists>es. trace s' = trace s @ es \<and> length (filter is_http es) \<le> 1 \<and>
     (case r of
        Inl _ \<Rightarrow> tokens s' = tokens s
      | Inr v \<Rightarrow> filter is_http es \<noteq> [] \<and> (\<exists>t now n. tk_value t = v \<and> last es = Net (ClockNow now) \<and>
          tk_expiresAt t = now + seconds_duration n \<and> tokens s' = (tokens s)(cred_ClientID creds \<mapsto> t))))"
proof (cases "new_request (en_runtime X) POST (base_url creds @ ''/api/token'') (token_payload (cred_ClientID creds) auth)")
  case (Inl e)
  then show ?thesis unfolding request_token_def by (simp add: wp_return)
next
  case (Inr q0)
  define q where "q = set_header ''Content-Type'' ''application/json'' q0"
  obtain a w' where a: "http_do (en_net X) q (world s) = (a, w')" by fastforce
  note start = request_token_def Inr sum.case q_def [symmetric] wp_bind wp_net_do a prod.case
  show ?thesis
  proof (cases a)
    case (Inl e)
    show ?thesis unfolding start Inl by (simp add: wp_return)
  next
    case r: (Inr resp)
    show ?thesis
    proof (cases "resp_status resp = StatusOK")
      case False
      then show ?thesis unfolding start r
        by (simp add: wp_bind wp_return logFailure_def net_log_def wp_note_event)
    next
      case True
      show ?thesis
      proof (cases "decode_body (en_runtime X) ''token'' (decode_struct (token_step (en_runtime X))) no_token
          (resp_body resp)")
        case (Inl e)
        with True show ?thesis unfolding start r by (simp add: wp_return)
      next
        case (Inr t)
        obtain now w2 where "clock_now (en_net X) w' = (now, w2)" by fastforce
        with True Inr show ?thesis unfolding start r
          by (auto simp: wp_bind wp_return wp_net_now wp_modify
              intro!: exI [of _ "\<lparr>tk_value = ta_accessToken t,
                tk_expiresAt = now + seconds_duration (ta_expiresInSeconds t)\<rparr>"])
      qed
    qed
  qed
qed

text \<open>
  C20. Asking for a token sends at most one request. Without a request the token is the cached one,
  which the clock showed to be valid for more than another minute; with one, it is the answer's,
  and it is cached under the client id with the lifetime the answer gives. A failure leaves the
  cache as it was.
\<close>

theorem token_outcome:
  "wp (token X creds) s (\<lambda>r s'. \<exists>es. trace s' = trace s @ es \<and> length (filter is_http es) \<le> 1 \<and>
     (case r of
        Inl _ \<Rightarrow> tokens s' = tokens s
      | Inr v \<Rightarrow> (\<exists>t now n. tk_value t = v \<and> tokens s' = (tokens s)(cred_ClientID creds \<mapsto> t) \<and>
          last es = Net (ClockNow now) \<and>
          (if filter is_http es = []
           then tokens s (cred_ClientID creds) = Some t \<and> es = [Net (ClockNow now)] \<and> minute < tk_expiresAt t - now
           else tk_expiresAt t = now + seconds_duration n))))"
proof -
  have new: "wp (new_token X creds) s1 (\<lambda>r s'. \<exists>es. trace s' = trace s1 @ es \<and> length (filter is_http es) \<le> 1 \<and>
     (case r of
        Inl _ \<Rightarrow> tokens s' = tokens s1
      | Inr v \<Rightarrow> filter is_http es \<noteq> [] \<and> (\<exists>t now n. tk_value t = v \<and> last es = Net (ClockNow now) \<and>
          tk_expiresAt t = now + seconds_duration n \<and> tokens s' = (tokens s1)(cred_ClientID creds \<mapsto> t))))" for s1
  proof (cases "machine_auth_secret (en_crypto X) (cred_ClientSecret creds)")
    case (Inl e)
    then show ?thesis unfolding new_token_def by (simp add: wp_return)
  next
    case (Inr auth)
    show ?thesis unfolding new_token_def Inr sum.case by (rule request_token_outcome)
  qed
  show ?thesis
  proof (cases "tokens s (cred_ClientID creds)")
    case None
    show ?thesis unfolding token_def wp_bind wp_gets None option.case
    proof (rule wp_mono [OF new], elim exE conjE, goal_cases)
      case (1 r s' es)
      then show ?case by (intro exI [of _ es]) (cases r; auto)
    qed
  next
    case (Some c)
    obtain now w' where n: "clock_now (en_net X) (world s) = (now, w')" by fastforce
    show ?thesis
    proof (cases "minute < tk_expiresAt c - now")
      case True
      then show ?thesis unfolding token_def wp_bind wp_gets Some option.case wp_net_now n prod.case
        by (simp add: wp_return Some fun_upd_idem)
    next
      case False
      show ?thesis unfolding token_def wp_bind wp_gets Some option.case wp_net_now n prod.case if_not_P [OF False]
      proof (rule wp_mono [OF new], elim exE conjE, goal_cases)
        case (1 r s' es)
        then show ?case
          by (intro exI [of _ "Net (ClockNow now) # es"]) (cases r; auto)
      qed
    qed
  qed
qed

text \<open>
  C35. The token cache is keyed by the client id alone: a valid cached token is handed out to
  credentials with any client secret and any base URL, without a request, as long as the client id
  is the same.
\<close>

theorem cached_token_ignores_secret:
  assumes "tokens s (cred_ClientID c) = Some t" and "cred_ClientID c' = cred_ClientID c"
    and "clock_now (en_net X) (world s) = (now, w)" and "minute < tk_expiresAt t - now"
  shows "run_state (token X c') s =
    (Inr (tk_value t), s\<lparr>world := w, trace := trace s @ [Net (ClockNow now)]\<rparr>)"
  using assms by (simp add: token_def net_now_def)

definition sample_state :: "(unit, event) client_state" where
  "sample_state = \<lparr>world = (), trace = [],
     tokens = [''id'' \<mapsto> \<lparr>tk_value = ''jwt'', tk_expiresAt = hour\<rparr>], unwrap_keys = Map.empty\<rparr>"

theorem cached_token_ignores_secret_witness:
  "run_state (token (sample_env 200) (sample_creds\<lparr>cred_ClientSecret := ''wrong'', cred_BaseURL := ''https://other''\<rparr>))
     sample_state = (Inr ''jwt'', sample_state\<lparr>world := (), trace := [Net (ClockNow 0)]\<rparr>)"
  using cached_token_ignores_secret [of sample_state sample_creds "\<lparr>tk_value = ''jwt'', tk_expiresAt = hour\<rparr>"
      "sample_creds\<lparr>cred_ClientSecret := ''wrong'', cred_BaseURL := ''https://other''\<rparr>" "sample_env 200" 0 "()"]
  by (simp add: sample_state_def sample_creds_def sample_env_def sample_net_def hour_def minute_def second_def)

section \<open>Decryption\<close>

definition entry_text :: "'w env \<Rightarrow> string \<Rightarrow> bundle_entry \<Rightarrow> goerr + string" where
  "entry_text X orgKey e = envelope_open (en_crypto X) orgKey (be_envelope e)
     (Some (secret_context (en_crypto X) (be_definitionId e) (be_environmentId e)))"

lemma decrypt_entries_eq:
  "decrypt_entries X orgKey es pairs =
     (case find (\<lambda>e. isl (entry_text X orgKey e)) es of
        Some e \<Rightarrow> Inl (Wrap (''decrypt '' @ quote (en_runtime X) (be_key e) @ '': '') (projl (entry_text X orgKey e)))
      | None \<Rightarrow> Inr (pairs ++ map_of (rev (map (\<lambda>e. (be_key e, projr (entry_text X orgKey e))) es))))"
proof (induction es arbitrary: pairs)
  case (Cons e es)
  show ?case
  proof (cases "entry_text X orgKey e")
    case (Inl x)
    then show ?thesis by (simp add: entry_text_def)
  next
    case (Inr t)
    then have "decrypt_entries X orgKey (e # es) pairs = decrypt_entries X orgKey es (pairs(be_key e \<mapsto> t))"
      by (simp add: entry_text_def)
    then show ?thesis
      using Inr unfolding Cons.IH upd_map_add [of pairs] by (simp split: option.split)
  qed
qed simp

text \<open>
  C28. Decryption is all or nothing: the first envelope that does not open fails the bundle, with
  the key it belongs to; otherwise every entry is in the result under its key with its own
  plaintext, a later entry replacing an earlier one of the same key.
\<close>

theorem decrypted_bundle:
  "decrypt_entries X orgKey es Map.empty =
     (case find (\<lambda>e. isl (entry_text X orgKey e)) es of
        Some e \<Rightarrow> Inl (Wrap (''decrypt '' @ quote (en_runtime X) (be_key e) @ '': '') (projl (entry_text X orgKey e)))
      | None \<Rightarrow> Inr (map_of (rev (map (\<lambda>e. (be_key e, projr (entry_text X orgKey e))) es))))"
  unfolding decrypt_entries_eq empty_map_add by (rule refl)

section \<open>The cache of derived keys\<close>

text \<open>
  \<open>key_of C secret salt k\<close>: \<open>k\<close> is a key the KDF makes of the secret and the
  decoded salt, for some version of its parameters. In a cache of derived keys every key is found
  under the SHA-256 of a secret and a salt, joined by a colon, that it is a key of.
\<close>

definition key_of :: "'w crypto \<Rightarrow> string \<Rightarrow> string \<Rightarrow> string \<Rightarrow> bool" where
  "key_of C secret salt k \<longleftrightarrow>
     (\<exists>raw v. base64_decode salt = Inr raw \<and> kdf_for_version C v secret raw = Inr k)"

definition derived_cache :: "'w crypto \<Rightarrow> (string \<rightharpoonup> string) \<Rightarrow> bool" where
  "derived_cache C m \<longleftrightarrow> (\<forall>h k. m h = Some k \<longrightarrow>
     (\<exists>secret salt. h = sha256 (secret @ '':'' @ salt) \<and> key_of C secret salt k))"

definition collides :: "string \<Rightarrow> bool" where
  "collides x \<longleftrightarrow> (\<exists>y. y \<noteq> x \<and> sha256 y = sha256 x)"

lemma base64_from_no_colon: "\<not> isl (base64_from i q s) \<Longrightarrow> CHR '':'' \<notin> set s"
  by (induction i q s rule: base64_from.induct) (auto split: if_splits option.splits sum.splits simp: base64_value_def)

lemma base64_no_colon: "\<not> isl (base64_decode s) \<Longrightarrow> CHR '':'' \<notin> set s"
  unfolding base64_decode_def by (rule base64_from_no_colon)

lemma split_at_last_colon:
  "CHR '':'' \<notin> set b \<Longrightarrow> CHR '':'' \<notin> set d \<Longrightarrow> a @ '':'' @ b = c @ '':'' @ d \<longleftrightarrow> a = c \<and> b = d"
  by (auto simp: append_eq_append_conv2 append_eq_Cons_conv Cons_eq_append_conv)

lemma cached_key:
  assumes "derived_cache C m" and "m (sha256 (secret @ '':'' @ salt)) = Some k" and "\<not> isl (base64_decode salt)"
  shows "key_of C secret salt k \<or> collides (secret @ '':'' @ salt)"
proof -
  from assms(1,2) obtain secret' salt' where
    h: "sha256 (secret' @ '':'' @ salt') = sha256 (secret @ '':'' @ salt)" and k: "key_of C secret' salt' k"
    unfolding derived_cache_def by metis
  have "CHR '':'' \<notin> set salt'" using k by (intro base64_no_colon) (auto simp: key_of_def)
  moreover have "CHR '':'' \<notin> set salt"
    using assms(3) by (rule base64_no_colon)
  ultimately show ?thesis using h k split_at_last_colon unfolding collides_def by metis
qed

text \<open>
  C36. A derived key is cached under the SHA-256 of the client secret, a colon and the salt, and
  what the cache gives out is the right key: starting from a cache of derived keys (the client
  starts with an empty one), a derivation that succeeds returns a key the KDF makes of this very
  secret and salt, unless SHA-256 collides, and leaves a cache of derived keys with it; the next
  derivation with the secret and the salt returns it and changes nothing. A new key is made with
  the version of the parameters that is asked for; a cached one may be of another version, which is
  not part of the cache key. An error stores nothing.
\<close>

theorem derived_key_cached:
  assumes "derived_cache (en_crypto X) (unwrap_keys s)"
  shows "wp (deriveUnwrapKey X creds keys) s (\<lambda>r s'. trace s' = trace s \<and> tokens s' = tokens s \<and>
     derived_cache (en_crypto X) (unwrap_keys s') \<and>
     (let secret = cred_ClientSecret creds; salt = mk_kdfSalt keys; stored = unwrap_keys s (sha256 (secret @ '':'' @ salt))
      in case r of
           Inl _ \<Rightarrow> stored = None \<and> unwrap_keys s' = unwrap_keys s
         | Inr k \<Rightarrow> unwrap_keys s' = (unwrap_keys s)(sha256 (secret @ '':'' @ salt) \<mapsto> k) \<and>
             (\<not> isl (base64_decode salt) \<longrightarrow> key_of (en_crypto X) secret salt k \<or> collides (secret @ '':'' @ salt)) \<and>
             (stored = None \<longrightarrow> (\<exists>raw. base64_decode salt = Inr raw \<and>
                kdf_for_version (en_crypto X) (mk_kdfParametersVersion keys) secret raw = Inr k)) \<and>
             run_state (deriveUnwrapKey X creds (keys\<lparr>mk_kdfParametersVersion := v\<rparr>)) s' = (Inr k, s')))"
proof (cases "unwrap_keys s (cache_key creds keys)")
  case (Some k)
  then have hit: "unwrap_keys s (sha256 (cred_ClientSecret creds @ '':'' @ mk_kdfSalt keys)) = Some k"
    by (simp only: cache_key_def)
  have again: "run_state (deriveUnwrapKey X creds (keys\<lparr>mk_kdfParametersVersion := u\<rparr>)) s = (Inr k, s)" for u
    using hit by (simp add: deriveUnwrapKey_def cache_key_def)
  have "run_state (deriveUnwrapKey X creds keys) s = (Inr k, s)"
    using again [of "mk_kdfParametersVersion keys"] by simp
  with again [of v] hit assms cached_key [OF assms hit] show ?thesis
    by (simp add: wp_iff Let_def fun_upd_idem)
next
  case None
  have stored: "derived_cache (en_crypto X) ((unwrap_keys s)(sha256 (secret @ '':'' @ salt) \<mapsto> k))"
    if "key_of (en_crypto X) secret salt k" for secret salt k
    using assms that by (auto simp: derived_cache_def)
  show ?thesis
  proof (cases "base64_decode (mk_kdfSalt keys)")
    case (Inl e)
    with None assms show ?thesis by (simp add: deriveUnwrapKey_def wp_rules cache_key_def)
  next
    case (Inr raw)
    show ?thesis
    proof (cases "kdf_for_version (en_crypto X) (mk_kdfParametersVersion keys) (cred_ClientSecret creds) raw")
      case (Inl e)
      with \<open>base64_decode _ = _\<close> None assms show ?thesis by (simp add: deriveUnwrapKey_def wp_rules cache_key_def)
    next
      case k: (Inr k)
      with Inr have "key_of (en_crypto X) (cred_ClientSecret creds) (mk_kdfSalt keys) k" by (auto simp: key_of_def)
      with stored [OF this] Inr k None show ?thesis
        by (auto simp: deriveUnwrapKey_def wp_rules cache_key_def)
    qed
  qed
qed

definition sample_keys :: machine_keys where
  "sample_keys = no_keys\<lparr>mk_kdfSalt := ''c2FsdA'', mk_kdfParametersVersion := 1\<rparr>"

theorem derived_key_cached_witness:
  "derived_cache (en_crypto (sample_env 200)) (unwrap_keys sample_state) \<and>
   wp (deriveUnwrapKey (sample_env 200) sample_creds sample_keys) sample_state (\<lambda>r s'. case r of
       Inl _ \<Rightarrow> unwrap_keys s' = unwrap_keys sample_state
     | Inr k \<Rightarrow> unwrap_keys s' = (unwrap_keys sample_state)(sha256 ''s3cret:c2FsdA'' \<mapsto> k) \<and>
         run_state (deriveUnwrapKey (sample_env 200) sample_creds (sample_keys\<lparr>mk_kdfParametersVersion := 2\<rparr>)) s' = (Inr k, s'))"
proof -
  have "derived_cache (en_crypto (sample_env 200)) (unwrap_keys sample_state)"
    by (simp add: derived_cache_def sample_state_def)
  then show ?thesis
    using derived_key_cached [of "sample_env 200" sample_state sample_creds sample_keys 2]
    by (auto simp: Let_def sample_keys_def sample_creds_def elim!: wp_mono split: sum.splits)
qed

end
