(* ===== verification/Lease_Facts.thy ===== *)
theory Lease_Facts
  imports Client_Facts
begin

text \<open>
  What \<open>leases.go\<close> does to leases: revocation reaches every lease it is given, a
  synchronisation leaves no lease behind that it does not report, and an existing lease whose
  credentials can be read is kept.
\<close>

section \<open>Revocation\<close>

text \<open>A request the server has answered with 200, and the special case of an accepted revocation.\<close>

definition answered :: "http_method \<Rightarrow> string \<Rightarrow> event \<Rightarrow> bool" where
  "answered meth u e \<longleftrightarrow> (\<exists>q resp. e = Net (HttpDo q (Inr resp)) \<and> req_method q = meth \<and>
     req_url q = u \<and> resp_status resp = StatusOK)"

definition revoke_done :: "api_credentials \<Rightarrow> string \<Rightarrow> event \<Rightarrow> bool" where
  "revoke_done creds i = answered POST (base_url creds @ lease_path i ''/revoke'')"

lemma verdict_ok: "verdict a = Inr resp \<Longrightarrow> a = Inr resp \<and> resp_status resp = StatusOK"
  by (auto simp: verdict_def split: sum.splits if_splits)

lemma request_answered:
  "wp (do_request X creds tok meth path j) s (\<lambda>r s'. \<exists>es. trace s' = trace s @ es \<and>
     (case r of Inl _ \<Rightarrow> True | Inr _ \<Rightarrow> list_ex (answered meth (base_url creds @ path)) es))"
proof (rule wp_mono [OF do_request_spec], elim exE conjE, goal_cases)
  case (1 a s' es)
  show ?case
  proof (cases a)
    case (Inl e)
    with 1 show ?thesis by simp
  next
    case (Inr resp)
    with 1 obtain q ans logs where "es = Net (HttpDo q ans) # logs" "req_method q = meth"
      "req_url q = base_url creds @ path" "verdict ans = Inr resp"
      by (cases es) auto
    with 1(1) Inr show ?thesis by (auto simp: answered_def dest!: verdict_ok)
  qed
qed

lemma revoke_call:
  "wp (do_ignore X creds tok POST (lease_path i ''/revoke'') (Some j)) s
     (\<lambda>r s'. \<exists>es. trace s' = trace s @ es \<and> (if r = None then list_ex (revoke_done creds i) es else True))"
  unfolding do_ignore_def wp_bind revoke_done_def
  by (rule wp_mono [OF request_answered]) (auto simp: wp_return split: sum.splits)

lemma revokeOne_done:
  "wp (revokeOne X creds tok keys i) s
     (\<lambda>r s'. \<exists>es. trace s' = trace s @ es \<and> (if r = None then list_ex (revoke_done creds i) es else True))"
  unfolding revokeOne_def wp_bind
proof (rule wp_mono [OF revoke_call], elim exE conjE, goal_cases)
  case (1 r s1 es1)
  show ?case
  proof (cases r)
    case (Some e)
    with 1 show ?thesis by (simp add: wp_return)
  next
    case None
    have "emits (api_event X creds) (State_Monad.bind (get_batch X creds tok (lease_path i ''/work'')) k)"
      if "\<And>x. emits (api_event X creds) (k x)" for k :: "_ \<Rightarrow> ('a, 'b, goerr option) client_io"
      using that by (intro emits_rules) simp_all
    note tail = wp_extends [OF this]
    show ?thesis unfolding None option.case wp_bind [symmetric]
    proof (rule wp_mono [OF tail], goal_cases)
      case (1 x)
      show ?case unfolding client_orgKey_def by (intro emits_rules)
    next
      case (2 a s')
      with 1 None show ?case by auto
    qed
  qed
qed

definition covered :: "api_credentials \<Rightarrow> event list \<Rightarrow> string \<Rightarrow> bool" where
  "covered creds es i \<longleftrightarrow> trim_space i = [] \<or> list_ex (revoke_done creds i) es"

lemma covered_append: "covered creds es i \<Longrightarrow> covered creds (es1 @ es @ es2) i"
  by (auto simp: covered_def)

lemma revoke_each_covers:
  "wp (revoke_each X creds tok keys ids) s
     (\<lambda>r s'. \<exists>es. trace s' = trace s @ es \<and> (if r = None then list_all (covered creds es) ids else True))"
proof (induction ids arbitrary: s)
  case Nil
  show ?case by (simp add: wp_return)
next
  case (Cons i ids)
  show ?case
  proof (cases "trim_space i = []")
    case True
    then have eq: "revoke_each X creds tok keys (i # ids) = revoke_each X creds tok keys ids" by simp
    have "covered creds es i" for es using True by (simp add: covered_def)
    then show ?thesis unfolding eq by (intro wp_mono [OF Cons.IH]) auto
  next
    case False
    then have eq: "revoke_each X creds tok keys (i # ids) = State_Monad.bind (revokeOne X creds tok keys i)
        (\<lambda>r. case r of Some e \<Rightarrow> State_Monad.return (Some e) | None \<Rightarrow> revoke_each X creds tok keys ids)"
      by simp
    show ?thesis unfolding eq wp_bind
    proof (rule wp_mono [OF revokeOne_done], elim exE conjE, goal_cases)
      case (1 r s1 es1)
      show ?case
      proof (cases r)
        case (Some e)
        with 1 show ?thesis by (simp add: wp_return)
      next
        case None
        show ?thesis unfolding None option.case
        proof (rule wp_mono [OF Cons.IH], elim exE conjE, goal_cases)
          case (1 r' s' es2)
          have "covered creds (es1 @ es2) i"
            using \<open>if r = None then list_ex (revoke_done creds i) es1 else True\<close> None
            by (simp add: covered_def)
          moreover have "list_all (covered creds es2) ids \<Longrightarrow> list_all (covered creds (es1 @ es2)) ids"
            using covered_append [of creds es2 _ es1 "[]"] by (auto simp: list_all_iff)
          ultimately show ?case using 1 \<open>trace s1 = trace s @ es1\<close>
            by (intro exI [of _ "es1 @ es2"]) auto
        qed
      qed
    qed
  qed
qed

lemma revoke_covers:
  "wp (client_RevokeLeases X creds ids) s
     (\<lambda>r s'. \<exists>es. trace s' = trace s @ es \<and> (if r = None then list_all (covered creds es) ids else True))"
proof (cases "ids = []")
  case True
  then show ?thesis by (simp add: client_RevokeLeases_def wp_return)
next
  case False
  show ?thesis unfolding client_RevokeLeases_def if_not_P [OF False] wp_bind
  proof (rule wp_mono [OF wp_extends [OF token_emits]], elim exE, goal_cases)
    case (1 got s1 es1)
    show ?case
    proof (cases got)
      case (Inl e)
      with 1 show ?thesis by (simp add: wp_return)
    next
      case (Inr tok)
      show ?thesis unfolding Inr sum.case wp_bind
      proof (rule wp_mono [OF wp_extends [OF keys_emits]], elim exE, goal_cases)
        case (1 ks s2 es2)
        show ?case
        proof (cases ks)
          case (Inl e)
          with 1 \<open>trace s1 = trace s @ es1\<close> show ?thesis by (simp add: wp_return)
        next
          case (Inr keys)
          show ?thesis unfolding Inr sum.case
          proof (rule wp_mono [OF revoke_each_covers], elim exE conjE, goal_cases)
            case (1 r s' es3)
            have "list_all (covered creds es3) ids \<Longrightarrow> list_all (covered creds ((es1 @ es2) @ es3)) ids"
              using covered_append [of creds es3 _ "es1 @ es2" "[]"] by (auto simp: list_all_iff)
            with 1 \<open>trace s1 = trace s @ es1\<close> \<open>trace s2 = trace s1 @ es2\<close> show ?case
              by (intro exI [of _ "(es1 @ es2) @ es3"]) auto
          qed
        qed
      qed
    qed
  qed
qed

text \<open>
  C11. Revocation that reports success has reached every lease it was given: for each id that is
  not blank the control plane has answered 200 to a revoke request of that very lease.
\<close>

theorem revoke_reaches_every_lease:
  "wp (client_RevokeLeases X creds ids) s (\<lambda>r s'. \<exists>es. trace s' = trace s @ es \<and>
     (if r = None
      then list_all (\<lambda>i. trim_space i = [] \<or> list_ex (revoke_done creds i) es) ids
      else True))"
  using revoke_covers [of X creds ids s] unfolding covered_def [abs_def] .

section \<open>Synchronisation\<close>

text \<open>Whether a lease of the last pass is kept, or its revocation was accepted.\<close>

definition settled :: "api_credentials \<Rightarrow> event list \<Rightarrow> lease_map \<Rightarrow> string \<times> string \<Rightarrow> bool" where
  "settled creds es leases ki \<longleftrightarrow>
     get_or_empty (map_of leases) (fst ki) = snd ki \<or> covered creds es (snd ki)"

lemma settled_append: "settled creds es leases ki \<Longrightarrow> settled creds (es1 @ es) leases ki"
  using covered_append [of creds es "snd ki" es1 "[]"] by (auto simp: settled_def)

lemma stale_settled:
  "list_all (covered creds es) (stale_leases R existing leases) \<Longrightarrow>
   list_all (settled creds es leases) (map_order R existing)"
  by (fastforce simp: stale_leases_def list_all_iff settled_def)

lemma sync_leases_settles:
  "wp (sync_leases X creds tok orgKey p env existing hints) s (\<lambda>r s'. \<exists>es. trace s' = trace s @ es \<and>
     (case r of Inl _ \<Rightarrow> True
      | Inr x \<Rightarrow> list_all (settled creds es (snd x)) (map_order (en_runtime X) existing)))"
  unfolding sync_leases_def wp_bind
proof (rule wp_mono [OF wp_extends [OF ensure_all_emits]], elim exE, goal_cases)
  case (1 ensured s1 es1)
  show ?case
  proof (cases ensured)
    case (Inl e)
    with 1 show ?thesis by (simp add: wp_return)
  next
    case (Inr x)
    show ?thesis unfolding Inr sum.case wp_bind
    proof (rule wp_mono [OF revoke_covers], elim exE conjE, goal_cases)
      case (1 r s' es2)
      show ?case
      proof (cases r)
        case (Some e)
        with 1 \<open>trace s1 = _\<close> show ?thesis by (simp add: wp_return)
      next
        case None
        with 1 have "list_all (settled creds es2 (snd x)) (map_order (en_runtime X) existing)"
          by (simp add: stale_settled)
        then have "list_all (settled creds (es1 @ es2) (snd x)) (map_order (en_runtime X) existing)"
          using settled_append by (auto simp: list_all_iff)
        with None 1 \<open>trace s1 = _\<close> show ?thesis by (simp add: wp_return)
      qed
    qed
  qed
qed

lemma sync_settles:
  assumes "fair_map_order (en_runtime X)"
  shows "wp (client_SyncDynamic X creds p env existing) s (\<lambda>r s'. \<exists>es. trace s' = trace s @ es \<and>
     (case r of Inl _ \<Rightarrow> True | Inr x \<Rightarrow> list_all (settled creds es (snd x)) existing))"
  unfolding client_SyncDynamic_def wp_bind
proof (rule wp_mono [OF wp_extends [OF token_emits]], elim exE, goal_cases)
  case (1 got s1 es1)
  show ?case
  proof (cases got)
    case (Inl e)
    with 1 show ?thesis by (simp add: wp_return)
  next
    case (Inr tok)
    show ?thesis unfolding Inr sum.case wp_bind
    proof (rule wp_mono [OF wp_extends [OF bundleAndKeys_emits]], elim exE, goal_cases)
      case (1 kb s2 es2)
      with \<open>trace s1 = _\<close> have t2: "trace s2 = trace s @ (es1 @ es2)" by simp
      show ?case
      proof (cases kb)
        case (Inl e)
        with t2 show ?thesis by (simp add: wp_return)
      next
        case (Inr x)
        obtain keys cb where x: "x = (keys, cb)" by fastforce
        show ?thesis
        proof (cases "cb_dynamicSecrets cb = [] \<and> existing = []")
          case True
          with t2 show ?thesis unfolding Inr x by (simp add: wp_return)
        next
          case False
          show ?thesis
            unfolding Inr sum.case x prod.case if_not_P [OF False] client_orgKey_def wp_bind
          proof (rule wp_mono [OF wp_extends [OF openOrgKey_emits [where P = "\<lambda>_. True"]]], elim exE, goal_cases)
            case (1 opened s3 es3)
            with t2 have t3: "trace s3 = trace s @ (es1 @ es2 @ es3)" by simp
            show ?case
            proof (cases opened)
              case (Inl e)
              with t3 show ?thesis by (simp add: wp_return)
            next
              case (Inr orgKey)
              show ?thesis unfolding Inr sum.case wp_bind
              proof (rule wp_mono [OF wp_extends [OF applyOwnWork_emits]], elim exE, goal_cases)
                case (1 own s4 es4)
                with t3 have t4: "trace s4 = trace s @ (es1 @ es2 @ es3 @ es4)" by simp
                show ?case
                proof (cases own)
                  case (Some e)
                  with t4 show ?thesis by (simp add: wp_return)
                next
                  case None
                  show ?thesis unfolding None option.case
                  proof (rule wp_mono [OF sync_leases_settles], elim exE conjE, goal_cases)
                    case (1 r s' es5)
                    then show ?case
                      using t4 settled_append [of creds es5 _ _ "es1 @ es2 @ es3 @ es4"]
                        fair_map_order_set [OF assms, of existing]
                      by (cases r) (auto simp: list_all_iff)
                  qed
                qed
              qed
            qed
          qed
        qed
      qed
    qed
  qed
qed

text \<open>
  C10. A synchronisation that succeeds leaves no lease behind: every lease of the last pass is
  reported again under its key, or the control plane has accepted its revocation (ids that are
  blank name no lease).
\<close>

theorem no_lease_left_behind:
  assumes "fair_map_order (en_runtime X)"
  shows "wp (client_SyncDynamic X creds p env existing) s (\<lambda>r s'. \<exists>es. trace s' = trace s @ es \<and>
     (case r of Inl _ \<Rightarrow> True
      | Inr x \<Rightarrow> list_all (\<lambda>ki. get_or_empty (map_of (snd x)) (fst ki) = snd ki \<or>
          trim_space (snd ki) = [] \<or> list_ex (revoke_done creds (snd ki)) es) existing))"
  using sync_settles [OF assms, of creds p env existing s]
  unfolding settled_def [abs_def] covered_def .

lemma sample_fair: "fair_map_order sample_runtime"
  by (simp add: fair_map_order_def sample_runtime_def)

theorem no_lease_left_behind_witness:
  "fair_map_order (en_runtime (sample_env 200)) \<and>
   wp (client_SyncDynamic (sample_env 200) sample_creds ''proj'' ''dev'' [(''DB'', ''lease1'')]) sample_state
     (\<lambda>r s'. \<exists>es. trace s' = trace sample_state @ es \<and>
       (case r of Inl _ \<Rightarrow> True
        | Inr x \<Rightarrow> list_all (\<lambda>ki. get_or_empty (map_of (snd x)) (fst ki) = snd ki \<or>
            trim_space (snd ki) = [] \<or> list_ex (revoke_done sample_creds (snd ki)) es) [(''DB'', ''lease1'')]))"
  using no_lease_left_behind [of "sample_env 200" sample_creds "''proj''" "''dev''" "[(''DB'', ''lease1'')]" sample_state] sample_fair
  by (simp only: sample_env_def env.simps simp_thms)

section \<open>Reuse\<close>

text \<open>
  What may be found on the wire when a hint is served. \<open>opened i pairs e\<close>: the event
  \<open>e\<close> is an accepted request for the envelope of lease \<open>i\<close>, and its answer opens
  to the pairs. \<open>granted key i e\<close>: it is an accepted request for a new lease under the key,
  and the answer carries the id \<open>i\<close>.
\<close>

definition decoded_as :: "go_runtime \<Rightarrow> string \<Rightarrow> 'a decoder \<Rightarrow> 'a \<Rightarrow> goerr + http_response \<Rightarrow> 'a \<Rightarrow> bool" where
  "decoded_as R what dec zero a x \<longleftrightarrow> (\<exists>resp. a = Inr resp \<and> resp_status resp = StatusOK \<and>
     decode_body R what dec zero (resp_body resp) = Inr x)"

definition opened ::
  "'w env \<Rightarrow> api_credentials \<Rightarrow> string \<Rightarrow> string \<Rightarrow> Bundle \<Rightarrow> event \<Rightarrow> bool" where
  "opened X creds orgKey i pairs e \<longleftrightarrow> (\<exists>q a env. e = Net (HttpDo q a) \<and> req_method q = GET \<and>
     req_url q = base_url creds @ lease_path i ''/envelope'' \<and>
     decoded_as (en_runtime X) ''krypticapi.secretEnvelope'' (decode_struct (envelope_step (en_runtime X)))
       no_envelope a env \<and>
     minted_pairs X orgKey env = Some pairs)"

definition granted ::
  "'w env \<Rightarrow> api_credentials \<Rightarrow> string \<Rightarrow> string \<Rightarrow> string \<Rightarrow> string \<Rightarrow> event \<Rightarrow> bool" where
  "granted X creds p env key i e \<longleftrightarrow> (\<exists>q a lease. e = Net (HttpDo q a) \<and> req_method q = POST \<and>
     req_url q = base_url creds @ request_lease_path p env key \<and>
     decoded_as (en_runtime X) ''krypticapi.leaseDTO'' (decode_struct (lease_step (en_runtime X)))
       no_lease a lease \<and> ld_id lease = i)"

text \<open>
  The attempt to read an existing lease that did not yield its credentials: one request for its
  envelope, or none when its URL cannot be built.
\<close>

definition unreadable :: "'w env \<Rightarrow> api_credentials \<Rightarrow> string \<Rightarrow> string \<Rightarrow> event list \<Rightarrow> bool" where
  "unreadable X creds orgKey i es \<longleftrightarrow>
     (case es of
        [] \<Rightarrow> url_parse (base_url creds @ lease_path i ''/envelope'') = None
      | e # logs \<Rightarrow> (\<exists>q a. e = Net (HttpDo q a) \<and> req_method q = GET \<and>
            req_url q = base_url creds @ lease_path i ''/envelope'') \<and>
          (\<nexists>pairs. opened X creds orgKey i pairs e) \<and> filter is_http logs = [])"

inductive hint_served ::
  "'w env \<Rightarrow> api_credentials \<Rightarrow> string \<Rightarrow> string \<Rightarrow> string \<Rightarrow> string \<Rightarrow> string
     \<Rightarrow> event list \<Rightarrow> goerr + Bundle \<times> string \<Rightarrow> bool" for X creds orgKey p env key existing where
  kept: "existing \<noteq> [] \<Longrightarrow> opened X creds orgKey existing pairs e \<Longrightarrow> filter is_http logs = [] \<Longrightarrow>
    hint_served X creds orgKey p env key existing (e # logs) (Inr (pairs, existing))"
| renewed: "(if existing = [] then tried = [] else unreadable X creds orgKey existing tried) \<Longrightarrow>
    granted X creds p env key i g \<Longrightarrow> opened X creds orgKey i pairs e \<Longrightarrow> filter is_http logs = [] \<Longrightarrow>
    hint_served X creds orgKey p env key existing (tried @ g # work @ e # logs) (Inr (pairs, i))"
| failed: "(if existing = [] then tried = [] else unreadable X creds orgKey existing tried) \<Longrightarrow>
    hint_served X creds orgKey p env key existing (tried @ es) (Inl err)"

text \<open>A request with a decoded answer, and the read of an envelope.\<close>

lemma verdict_decoded:
  "(case verdict a of Inl e \<Rightarrow> Inl e
    | Inr resp \<Rightarrow> (case decode_body R what dec zero (resp_body resp) of
          Inl e \<Rightarrow> Inl (Wrap ''decoding response: '' e)
        | Inr x \<Rightarrow> Inr x)) = Inr x \<longleftrightarrow> decoded_as R what dec zero a x"
  by (cases a) (auto simp: verdict_def decoded_as_def split: sum.split)

lemma decode_exact:
  "wp (do_decode X creds tok meth path j what dec zero) s (\<lambda>r s'. \<exists>es. trace s' = trace s @ es \<and>
     (case es of
        [] \<Rightarrow> isl r \<and> url_parse (base_url creds @ path) = None
      | e # logs \<Rightarrow> \<exists>q a. e = Net (HttpDo q a) \<and> req_method q = meth \<and> req_url q = base_url creds @ path \<and>
          filter is_http logs = [] \<and>
          (\<forall>x. r = Inr x \<longleftrightarrow> decoded_as (en_runtime X) what dec zero a x)))"
  unfolding do_decode_def wp_bind
proof (rule wp_mono [OF do_request_spec], elim exE conjE, goal_cases)
  case (1 r s1 es)
  show ?case
  proof (cases es)
    case Nil
    with 1 show ?thesis by (cases r) (auto simp: wp_return)
  next
    case (Cons e logs)
    with 1 show ?thesis by (auto simp: wp_return verdict_decoded)
  qed
qed

lemma readMinted_exact:
  "wp (readMinted X creds tok orgKey i) s (\<lambda>r s'. \<exists>es. trace s' = trace s @ es \<and>
     (case r of
        None \<Rightarrow> unreadable X creds orgKey i es
      | Some pairs \<Rightarrow> \<exists>e logs. es = e # logs \<and> opened X creds orgKey i pairs e \<and> filter is_http logs = []))"
  unfolding readMinted_def wp_bind
proof (rule wp_mono [OF decode_exact], elim exE conjE, goal_cases)
  case (1 r s1 es)
  show ?case unfolding wp_return
  proof (intro exI [of _ es] conjI 1(1))
    show "case (case r of Inl _ \<Rightarrow> None | Inr env \<Rightarrow> minted_pairs X orgKey env) of
        None \<Rightarrow> unreadable X creds orgKey i es
      | Some pairs \<Rightarrow> \<exists>e logs. es = e # logs \<and> opened X creds orgKey i pairs e \<and> filter is_http logs = []"
    proof (cases es)
      case Nil
      with 1(2) show ?thesis by (cases r) (simp_all add: unreadable_def)
    next
      case (Cons e logs)
      with 1(2) obtain q a where a: "e = Net (HttpDo q a)" "req_method q = GET"
        "req_url q = base_url creds @ lease_path i ''/envelope''" "filter is_http logs = []"
        "\<And>x. r = Inr x \<longleftrightarrow> decoded_as (en_runtime X) ''krypticapi.secretEnvelope''
           (decode_struct (envelope_step (en_runtime X))) no_envelope a x"
        by auto
      have "opened X creds orgKey i pairs e \<longleftrightarrow> (\<exists>env. r = Inr env \<and> minted_pairs X orgKey env = Some pairs)" for pairs
        unfolding opened_def a(5) using a(1-3) by auto
      with a(1-4) Cons show ?thesis by (cases r) (auto simp: unreadable_def split: option.splits)
    qed
  qed
qed

lemma mint_exact:
  assumes "if existing = [] then tried = [] else unreadable X creds orgKey existing tried"
  shows "wp (mint_lease X creds tok orgKey p env hint) s (\<lambda>r s'. \<exists>es. trace s' = trace s @ es \<and>
     hint_served X creds orgKey p env (dh_key hint) existing (tried @ es) r)"
  unfolding mint_lease_def wp_bind
proof (rule wp_mono [OF decode_exact], elim exE conjE, goal_cases)
  case (1 requested s1 es1)
  note fail = hint_served.failed [OF assms]
  show ?case
  proof (cases requested)
    case (Inl e)
    with 1 fail show ?thesis by (auto simp: wp_return)
  next
    case (Inr lease)
    with 1(2) obtain g logs where g: "es1 = g # logs" "granted X creds p env (dh_key hint) (ld_id lease) g"
      by (cases es1) (fastforce simp: granted_def)+
    show ?thesis unfolding Inr sum.case wp_bind
    proof (rule wp_mono [OF wp_extends [OF applyLeaseWork_emits]], elim exE, goal_cases)
      case work: (1 applied s2 es2)
      show ?case
      proof (cases applied)
        case (Some e)
        with work 1 fail show ?thesis by (auto simp: wp_return)
      next
        case None
        show ?thesis unfolding None option.case wp_bind
        proof (rule wp_mono [OF readMinted_exact], elim exE conjE, goal_cases)
          case read: (1 r s3 es3)
          show ?case
          proof (cases r)
            case None
            with read work 1 fail show ?thesis by (auto simp: wp_return)
          next
            case (Some pairs)
            with read(2) obtain e logs' where "es3 = e # logs'" "opened X creds orgKey (ld_id lease) pairs e"
              "filter is_http logs' = []" by auto
            with hint_served.renewed [OF assms g(2) this(2,3), of "logs @ es2"] read(1) work 1(1) g(1) Some
            show ?thesis by (auto simp: wp_return)
          qed
        qed
      qed
    qed
  qed
qed

text \<open>
  C12. A hint keeps its lease when it can. When the last pass left a lease, its envelope is asked
  for first, and if the answer opens, the pairs of that envelope are returned under the old id and
  nothing else is sent. Only if there was no lease, or its envelope could not be read, a new one
  may be requested, for the key of the hint; success then means that a lease was granted, that the
  id returned is the id of that answer, and that the pairs are those of the new lease's envelope.
\<close>

theorem lease_kept_or_granted:
  "wp (ensureLease X creds tok orgKey p env hint existing) s (\<lambda>r s'. \<exists>es. trace s' = trace s @ es \<and>
     hint_served X creds orgKey p env (dh_key hint) existing es r)"
proof (cases "existing = []")
  case True
  then show ?thesis
    using mint_exact [of existing "[]"] by (simp add: ensureLease_def)
next
  case False
  then have eq: "ensureLease X creds tok orgKey p env hint existing =
      State_Monad.bind (readMinted X creds tok orgKey existing) (\<lambda>read. case read of
          Some pairs \<Rightarrow> State_Monad.return (Inr (pairs, existing))
        | None \<Rightarrow> mint_lease X creds tok orgKey p env hint)"
    by (simp add: ensureLease_def)
  show ?thesis unfolding eq wp_bind
  proof (rule wp_mono [OF readMinted_exact], elim exE conjE, goal_cases)
    case (1 read s1 es1)
    show ?case
    proof (cases read)
      case (Some pairs)
      with 1 False show ?thesis by (auto simp: wp_return intro: hint_served.kept)
    next
      case None
      with 1 False have "if existing = [] then es1 = [] else unreadable X creds orgKey existing es1" by simp
      from mint_exact [OF this, of tok p env hint s1] show ?thesis
        unfolding None option.case by (rule wp_mono) (auto simp: 1(1))
    qed
  qed
qed

end
