(* ===== verification/Manager_Facts.thy ===== *)
theory Manager_Facts
  imports Operator Lease_Facts
begin

text \<open>
  What the manager does with one queue item: which writes it makes and in which order, when the
  finalizer comes and goes, when the status is written, and which events of the watch it drops.
\<close>

section \<open>Untyped objects\<close>

lemma member_set_member [simp]: "member k (set_member k' v j) = (if k = k' then Some v else member k j)"
  by (simp add: member_def set_member_def)

lemma json_strings_map [simp]: "json_strings (map JStr fs) = Some fs"
  by (induction fs) simp_all

text \<open>Objects whose metadata can hold finalizers.\<close>

definition has_metadata :: "json \<Rightarrow> bool" where
  "has_metadata j \<longleftrightarrow> (case member ''metadata'' j of
       None \<Rightarrow> True | Some md \<Rightarrow> (case md of JObj _ \<Rightarrow> True | _ \<Rightarrow> False))"

lemma get_set_finalizers: "has_metadata j \<Longrightarrow> GetFinalizers (SetFinalizers fs j) = fs"
  by (auto simp: has_metadata_def GetFinalizers_def SetFinalizers_def member_def set_member_def
      split: option.splits json.splits)

lemma finalizers_metadata: "GetFinalizers j \<noteq> [] \<Longrightarrow> has_metadata j"
  by (auto simp: has_metadata_def GetFinalizers_def member_def split: option.splits json.splits)

lemma set_finalizers_frame:
  "k \<noteq> ''metadata'' \<Longrightarrow> member k (SetFinalizers fs j) = member k j"
  by (simp add: SetFinalizers_def split: option.split json.split)

text \<open>\<open>same_but_finalizers j j'\<close>: the objects have the same members, and so have their metadata, apart from the finalizers.\<close>

definition same_but_finalizers :: "json \<Rightarrow> json \<Rightarrow> bool" where
  "same_but_finalizers j j' \<longleftrightarrow>
     (\<forall>k. k \<noteq> ''metadata'' \<longrightarrow> member k j' = member k j) \<and>
     (\<forall>k. k \<noteq> ''finalizers'' \<longrightarrow>
        Option.bind (member ''metadata'' j') (member k) = Option.bind (member ''metadata'' j) (member k))"

lemma set_finalizers_same: "same_but_finalizers j (SetFinalizers fs j)"
  unfolding same_but_finalizers_def
  by (auto simp: set_finalizers_frame SetFinalizers_def member_def [of _ "JObj _"] split: option.split json.split)

section \<open>Finalizers\<close>

lemma sameStrings_eq [simp]: "sameStrings xs ys \<longleftrightarrow> xs = ys"
  by (induction xs ys rule: sameStrings.induct) simp_all

lemma next_finalizers_idem [simp]: "next_finalizers add (next_finalizers add fs) = next_finalizers add fs"
  by (simp add: next_finalizers_def)

lemma next_finalizers_member: "LeaseFinalizer \<in> set (next_finalizers add fs) \<longleftrightarrow> add"
  by (simp add: next_finalizers_def)

lemma next_finalizers_others:
  "filter (\<lambda>n. n \<noteq> LeaseFinalizer) (next_finalizers add fs) = filter (\<lambda>n. n \<noteq> LeaseFinalizer) fs"
  by (simp add: next_finalizers_def)

definition edit_error :: "goerr + json \<Rightarrow> goerr option" where
  "edit_error a = (case a of Inl e \<Rightarrow> Some e | Inr _ \<Rightarrow> None)"

lemma edit_error_simps [simp]: "edit_error (Inl e) = Some e" "edit_error (Inr j) = None"
  by (simp_all add: edit_error_def)

lemma edit_error_None: "edit_error a = None \<longleftrightarrow> (\<exists>j. a = Inr j)"
  by (cases a) simp_all

lemma setFinalizer_spec:
  "wp (setFinalizer m raw cr add) s (\<lambda>r s'. \<exists>es. trace s' = trace s @ es \<and>
     (if next_finalizers add (GetFinalizers raw) = GetFinalizers raw then es = [] \<and> r = None
      else \<exists>a. es = [Kube (UpdateResource (cr_namespace cr)
                 (SetFinalizers (next_finalizers add (GetFinalizers raw)) raw) a)] \<and> r = edit_error a))"
  unfolding setFinalizer_def call_defs
  by (auto simp: Let_def wp_rules edit_error_def [symmetric] eq_commute split: prod.split sum.splits)

text \<open>
  C29. Editing the finalizer writes the object only when that changes its list of finalizers; the
  list written holds the other finalizers in their old order, and the operator's own exactly once
  or not at all. Every other member of the object and every other member of its metadata is
  written as it was read, and editing what was written again writes nothing.
\<close>

theorem finalizer_edit:
  "wp (setFinalizer m raw cr add) s (\<lambda>r s'. \<exists>es. trace s' = trace s @ es \<and>
     (if es = [] then r = None \<and> (LeaseFinalizer \<in> set (GetFinalizers raw) \<longleftrightarrow> add)
      else \<exists>j a. es = [Kube (UpdateResource (cr_namespace cr) j a)] \<and> r = edit_error a \<and>
        same_but_finalizers raw j \<and>
        (if has_metadata raw
         then GetFinalizers j = filter (\<lambda>n. n \<noteq> LeaseFinalizer) (GetFinalizers raw)
                @ (if add then [LeaseFinalizer] else []) \<and>
              run_state (setFinalizer m j cr add) s' = (None, s')
         else j = raw)))"
proof (rule wp_mono [OF setFinalizer_spec], elim exE conjE, goal_cases)
  case (1 r s' es)
  show ?case
  proof (cases "next_finalizers add (GetFinalizers raw) = GetFinalizers raw")
    case True
    with 1 next_finalizers_member [of add "GetFinalizers raw"] show ?thesis by auto
  next
    case False
    define j where "j = SetFinalizers (next_finalizers add (GetFinalizers raw)) raw"
    from 1 False obtain a where a: "es = [Kube (UpdateResource (cr_namespace cr) j a)]" "r = edit_error a"
      by (auto simp: j_def)
    have f: "GetFinalizers j = next_finalizers add (GetFinalizers raw)" if "has_metadata raw"
      using that by (simp add: j_def get_set_finalizers)
    have again: "run_state (setFinalizer m j cr add) s' = (None, s')" if "has_metadata raw"
      by (simp add: setFinalizer_def f [OF that])
    have raw: "j = raw" if "\<not> has_metadata raw"
      using that by (auto simp: j_def has_metadata_def SetFinalizers_def split: option.splits json.splits)
    have "same_but_finalizers raw j" by (simp add: j_def set_finalizers_same)
    with 1 a f again raw show ?thesis by (auto simp: next_finalizers_def)
  qed
qed

section \<open>Status\<close>

text \<open>The exchange of a status write: one write, or a conflicting one, a read and a second one.\<close>

inductive status_exchange :: "string \<Rightarrow> string \<Rightarrow> json \<Rightarrow> json \<Rightarrow> event list \<Rightarrow> goerr + json \<Rightarrow> bool"
  for ns name st raw where
  once: "(case a of Inl e \<Rightarrow> \<not> is_conflict e | Inr _ \<Rightarrow> True) \<Longrightarrow> status_exchange ns name st raw
     [Kube (UpdateResourceStatus ns (set_member ''status'' st raw) a)] a"
| unread: "is_conflict e \<Longrightarrow> status_exchange ns name st raw
     [Kube (UpdateResourceStatus ns (set_member ''status'' st raw) (Inl e)), Kube (GetResource ns name (Inl e'))] (Inl e)"
| retried: "is_conflict e \<Longrightarrow> status_exchange ns name st raw
     [Kube (UpdateResourceStatus ns (set_member ''status'' st raw) (Inl e)), Kube (GetResource ns name (Inr fresh)),
      Kube (UpdateResourceStatus ns (set_member ''status'' st fresh) a)] a"

lemma write_status_exchange:
  "wp (write_status K ns name st raw) s (\<lambda>a s'. \<exists>es. trace s' = trace s @ es \<and>
     lastStatusWrite s' = lastStatusWrite s \<and> statusWriteInFlight s' = statusWriteInFlight s \<and>
     tokens s' = tokens s \<and> unwrap_keys s' = unwrap_keys s \<and> status_exchange ns name st raw es a)"
  unfolding write_status_def call_defs
  by (auto simp: wp_rules split: prod.split sum.split intro: status_exchange.intros)

section \<open>Writing the status\<close>

text \<open>A manager at the start of its life, and an object of the sample resource, for the examples.\<close>

definition sample_manager_state :: "(unit, event) manager_state" where
  "sample_manager_state = \<lparr>world = (), trace = [], tokens = Map.empty, unwrap_keys = Map.empty,
     lastStatusWrite = Map.empty, statusWriteInFlight = Map.empty\<rparr>"

definition sample_object :: json where
  "sample_object = JObj [(''metadata'', JObj [(''namespace'', JStr ''team''), (''name'', JStr ''app''),
     (''resourceVersion'', JStr ''7'')])]"

lemma sample_object_simps [simp]:
  "GetNamespace sample_object = ''team''" "GetName sample_object = ''app''"
  "GetResourceVersion sample_object = ''7''"
  by (simp_all add: sample_object_def GetNamespace_def GetName_def GetResourceVersion_def nested_string_def
      member_def)

lemma sample_cr_item [simp]: "cr_namespace sample_cr = ''team''" "cr_name sample_cr = ''app''"
  by (simp_all add: sample_cr_def)

lemma status_write_helper:
  "wp (updateStatus m raw cr r) s (\<lambda>e s'. \<exists>now es a. trace s' = trace s @ Net (ClockNow now) # es \<and>
     status_exchange (cr_namespace cr) (cr_name cr) (status_json cr r now) raw es a \<and> e = edit_error a \<and>
     statusWriteInFlight s' = (statusWriteInFlight s)((cr_namespace cr, cr_name cr) := None) \<and>
     lastStatusWrite s' = (case a of Inl _ \<Rightarrow> lastStatusWrite s
       | Inr w \<Rightarrow> (lastStatusWrite s)((cr_namespace cr, cr_name cr) \<mapsto> GetResourceVersion w)))"
proof -
  obtain now w' where n: "clock_now (mg_net m) (world s) = (now, w')" by fastforce
  define s1 where "s1 = s\<lparr>world := w', trace := trace s @ [Net (ClockNow now)],
    statusWriteInFlight := (statusWriteInFlight s)((cr_namespace cr, cr_name cr) \<mapsto> True)\<rparr>"
  show ?thesis
    unfolding updateStatus_def Let_def wp_bind wp_net_now n prod.case markStatusWriteInFlight_def wp_modify
  proof (rule wp_mono, rule write_status_exchange, elim exE conjE, goal_cases)
    case (1 a s2 es)
    then show ?case
      by (cases a) (auto simp: rememberStatusWrite_def clearStatusWriteInFlight_def wp_rules edit_error_def
          intro!: exI [of _ now] exI [of _ es])
  qed
qed

text \<open>
  C21. The status write: the clock is read once, then the status built from the result goes out,
  with one retry on the fresh object after a conflict and none after any other error. When the API
  server accepts it, the resource version it answers is remembered for the item; when it does not,
  the versions remembered stay. Either way the item is not marked as in flight afterwards, and no
  other item is touched.
\<close>

theorem status_write_outcome:
  "wp (updateStatus m raw cr r) s (\<lambda>e s'. \<exists>now es a. trace s' = trace s @ Net (ClockNow now) # es \<and>
     status_exchange (cr_namespace cr) (cr_name cr) (status_json cr r now) raw es a \<and> e = edit_error a \<and>
     statusWriteInFlight s' = (statusWriteInFlight s)((cr_namespace cr, cr_name cr) := None) \<and>
     lastStatusWrite s' = (case a of Inl _ \<Rightarrow> lastStatusWrite s
       | Inr w \<Rightarrow> (lastStatusWrite s)((cr_namespace cr, cr_name cr) \<mapsto> GetResourceVersion w)))"
  by (rule status_write_helper)

lemma item_after_write:
  assumes "lastStatusWrite s item = Some v" and "statusWriteInFlight s item = None" and "accepts m (fst item)"
    and "(GetNamespace obj, GetName obj) = item"
  shows "run_state (watch_event m ''MODIFIED'' obj) s
     = (if v \<noteq> [] \<and> GetResourceVersion obj = v then None else Some item, s)"
  using assms by (auto simp: watch_event_def isOwnStatusWrite_def Let_def)

text \<open>
  C23. After a status write the API server accepted, the watch drops the event that echoes it, the
  one that carries the resource version of the answer, and no other: any other version of the
  object puts the item back into the queue.
\<close>

theorem own_echo_dropped:
  assumes "accepts m (cr_namespace cr)" and "(GetNamespace obj, GetName obj) = (cr_namespace cr, cr_name cr)"
  shows "wp (updateStatus m raw cr r) s (\<lambda>e s'. e = None \<longrightarrow>
     (\<exists>ns j w. last (trace s') = Kube (UpdateResourceStatus ns j (Inr w)) \<and>
       fst (run_state (watch_event m ''MODIFIED'' obj) s')
         = (if GetResourceVersion w \<noteq> [] \<and> GetResourceVersion obj = GetResourceVersion w then None
            else Some (cr_namespace cr, cr_name cr))))"
proof (rule wp_mono [OF status_write_helper], elim exE conjE, goal_cases)
  case (1 e s' now es a)
  show ?case
  proof (cases a)
    case (Inl x)
    with 1 show ?thesis by simp
  next
    case (Inr w)
    with 1(2) obtain ns j where "last es = Kube (UpdateResourceStatus ns j (Inr w))" "es \<noteq> []"
      by cases auto
    moreover have "run_state (watch_event m ''MODIFIED'' obj) s'
       = (if GetResourceVersion w \<noteq> [] \<and> GetResourceVersion obj = GetResourceVersion w then None
          else Some (cr_namespace cr, cr_name cr), s')"
      using item_after_write [of s' "(cr_namespace cr, cr_name cr)" "GetResourceVersion w" m obj] 1 Inr assms
      by simp
    ultimately show ?thesis using 1(1) by simp
  qed
qed

theorem own_echo_dropped_witness:
  "wp (updateStatus (operator (sample_env 200) sample_kube (\<lambda>_. []) []) (JObj []) sample_cr
       (failed ReasonAuthSecret ''no credentials'' minute 0)) sample_manager_state
     (\<lambda>e s'. e = None \<longrightarrow> (\<exists>ns j w. last (trace s') = Kube (UpdateResourceStatus ns j (Inr w)) \<and>
       fst (run_state (watch_event (operator (sample_env 200) sample_kube (\<lambda>_. []) []) ''MODIFIED'' sample_object) s')
         = (if GetResourceVersion w \<noteq> [] \<and> GetResourceVersion sample_object = GetResourceVersion w then None
            else Some (cr_namespace sample_cr, cr_name sample_cr))))"
  by (rule own_echo_dropped) (simp_all add: accepts_def)

end
