(* ===== verification/Item_Facts.thy ===== *)
theory Item_Facts
  imports Manager_Facts
begin

text \<open>
  One queue item of the assembled program: an abstract description of everything the manager may
  do with it (\<open>item_outcome\<close>), the proof that \<open>reconcileOne\<close> refines it, and
  what follows for finalizers, leases and requeueing.
\<close>

section \<open>Which API calls a pass and a revocation leave alone\<close>

definition resource_event :: "event \<Rightarrow> bool" where
  "resource_event e \<longleftrightarrow> (case e of
       Kube k \<Rightarrow> (case k of GetResource _ _ _ \<Rightarrow> True | UpdateResource _ _ _ \<Rightarrow> True
                  | UpdateResourceStatus _ _ _ \<Rightarrow> True | _ \<Rightarrow> False)
     | _ \<Rightarrow> False)"

lemma resource_event_simps [simp]:
  "resource_event (Kube (GetResource ns n g))" "resource_event (Kube (UpdateResource ns j a))"
  "resource_event (Kube (UpdateResourceStatus ns j a))"
  "\<not> resource_event (Kube (GetSecret ns n got))" "\<not> resource_event (Kube (CreateSecret ns sec ans))"
  "\<not> resource_event (Kube (UpdateSecret ns sec ans))"
  "\<not> resource_event (Net e)" "\<not> resource_event (Target t)" "\<not> resource_event (Control c)"
  by (simp_all add: resource_event_def)

lemma off_cluster_no_resource: "off_cluster e \<Longrightarrow> \<not> resource_event e"
  by (cases e) simp_all

lemma applySecret_no_resource: "emits (\<lambda>e. \<not> resource_event e) (applySecret rc cr data ids)"
  unfolding applySecret_def Let_def by (intro emits_rules) simp_all

lemma credentials_no_resource: "emits (\<lambda>e. \<not> resource_event e) (credentials rc cr)"
  by (rule emits_mono [OF credentials_emits]) (auto simp: auth_lookup_def)

lemma readLeaseIDs_no_resource: "emits (\<lambda>e. \<not> resource_event e) (readLeaseIDs rc cr)"
  unfolding readLeaseIDs_def by (intro emits_rules) simp_all

lemma client_dynamic [simp]: "dynamic (client_fetcher X) = Some (client_dynamic X)"
  by (simp add: client_fetcher_def)

lemmas client_no_resource =
  emits_mono [OF client.fetch_off off_cluster_no_resource]
  emits_mono [OF client.sync_off [OF client_dynamic] off_cluster_no_resource]
  emits_mono [OF client.revoke_off [OF client_dynamic] off_cluster_no_resource]

lemma Reconcile_no_resource:
  "emits (\<lambda>e. \<not> resource_event e) (Reconcile (operator_reconciler X K getenv) cr)"
  unfolding Reconcile_def Let_def finish_pass_def operator_reconciler_simps client_dynamic option.case
  by (intro emits_rules credentials_no_resource readLeaseIDs_no_resource applySecret_no_resource
      client_no_resource)

lemma emits_wp: "emits P m \<Longrightarrow> wp m s (\<lambda>a s'. \<exists>es. trace s' = trace s @ es \<and> list_all P es)"
  by (rule wp_emits) auto

section \<open>Revocation on deletion\<close>

text \<open>
  What makes a deleted resource free to go: the target Secret could not be read, or every lease id
  of its annotation has been revoked after that.
\<close>

definition leases_revoked :: "kryptic_secret \<Rightarrow> event list \<Rightarrow> bool" where
  "leases_revoked cr es \<longleftrightarrow> (\<exists>got rest creds.
     es = Kube (GetSecret (cr_namespace cr) (TargetSecretName cr) got) # rest \<and>
     (case got of Inl _ \<Rightarrow> True
      | Inr sec \<Rightarrow> list_all (covered creds rest)
          (map snd (decode_lease_ids (get_or_empty (s_annotations sec) LeaseIDsAnnotation)))))"

lemma revoke_dynamic_covers:
  "wp (RevokeLeases (client_dynamic X) creds ids) s
     (\<lambda>r s'. \<exists>es. trace s' = trace s @ es \<and> (if isl r then True else list_all (covered creds es) ids))"
  unfolding client_dynamic_def dynamic_fetcher.simps wp_bind
  by (rule wp_mono [OF revoke_covers])
    (auto simp: wp_return client_revoke_result_def split: option.splits)

lemma covered_permuted:
  "fair_map_order R \<Longrightarrow> list_all P (map snd (map_order R ids)) = list_all P (map snd ids)"
  by (simp add: list_all_iff fair_map_order_set)

lemma revoke_no_resource:
  "emits (\<lambda>e. \<not> resource_event e) (RevokeCRLeases (operator_reconciler X K getenv) cr)"
  unfolding RevokeCRLeases_def operator_reconciler_simps client_dynamic option.case
  by (intro emits_rules credentials_no_resource readLeaseIDs_no_resource client_no_resource)

lemma revoke_no_write:
  "emits (\<lambda>e. \<not> secret_write e) (RevokeCRLeases (operator_reconciler X K getenv) cr)"
  unfolding RevokeCRLeases_def operator_reconciler_simps client_dynamic option.case
  by (intro emits_rules emits_mono [OF client.revoke_off [OF client_dynamic] off_cluster_no_write])

lemma RevokeCRLeases_revokes:
  assumes "fair_map_order (en_runtime X)"
  shows "wp (RevokeCRLeases (operator_reconciler X K getenv) cr) s
     (\<lambda>r s'. \<exists>es. trace s' = trace s @ es \<and> (if isl r then True else leases_revoked cr es))"
proof -
  obtain got w where g: "get_secret K (cr_namespace cr) (TargetSecretName cr) (world s) = (got, w)" by fastforce
  define ids where "ids = (case got of Inl _ \<Rightarrow> []
     | Inr sec \<Rightarrow> decode_lease_ids (get_or_empty (s_annotations sec) LeaseIDsAnnotation))"
  show ?thesis
    unfolding RevokeCRLeases_def readLeaseIDs_def operator_reconciler_simps client_dynamic option.case
      kube_get_secret_def wp_bind wp_external g prod.case wp_return ids_def [symmetric]
  proof (cases "ids = []")
    case True
    then show "wp (if ids = [] then State_Monad.return (Inr ()) else k) (s\<lparr>world := w, trace := trace s @
        [Kube (GetSecret (cr_namespace cr) (TargetSecretName cr) got)]\<rparr>)
      (\<lambda>r s'. \<exists>es. trace s' = trace s @ es \<and> (if isl r then True else leases_revoked cr es))" for k
      by (auto simp: wp_return leases_revoked_def ids_def split: sum.splits)
  next
    case False
    show "wp (if ids = [] then State_Monad.return (Inr ()) else State_Monad.bind
          (credentials (operator_reconciler X K getenv) cr)
          (\<lambda>creds. case creds of Inl e \<Rightarrow> State_Monad.return (Inl e)
            | Inr c \<Rightarrow> RevokeLeases (client_dynamic X) c (map snd (map_order (en_runtime X) ids))))
        (s\<lparr>world := w, trace := trace s @ [Kube (GetSecret (cr_namespace cr) (TargetSecretName cr) got)]\<rparr>)
      (\<lambda>r s'. \<exists>es. trace s' = trace s @ es \<and> (if isl r then True else leases_revoked cr es))"
      unfolding if_not_P [OF False] wp_bind
    proof (rule wp_emits [OF credentials_quiet], goal_cases)
      case (1 creds s1 es1)
      show ?case
      proof (cases creds)
        case (Inl e)
        with 1 show ?thesis by (auto simp: wp_return)
      next
        case (Inr c)
        show ?thesis unfolding Inr sum.case
        proof (rule wp_mono [OF revoke_dynamic_covers], elim exE conjE, goal_cases)
          case (1 r s' es2)
          have "leases_revoked cr (Kube (GetSecret (cr_namespace cr) (TargetSecretName cr) got) # es1 @ es2)"
            if "\<not> isl r"
          proof -
            have "list_all (covered c es2) (map snd ids)"
              using 1 that by (simp only: if_False covered_permuted [OF assms])
            then have "list_all (covered c (es1 @ es2)) (map snd ids)"
              using covered_append [of c es2 _ es1 "[]"] by (auto simp: list_all_iff)
            then show ?thesis
              unfolding leases_revoked_def by (auto simp: ids_def split: sum.splits intro!: exI [of _ c])
          qed
          with 1 \<open>trace s1 = _\<close> show ?case
            by (intro exI [of _ "Kube (GetSecret (cr_namespace cr) (TargetSecretName cr) got) # es1 @ es2"]) simp
        qed
      qed
    qed
  qed
qed

section \<open>The abstract item\<close>

text \<open>The finalizer after an edit: nothing was needed, or one write, and whether it is in place.\<close>

definition edited :: "kryptic_secret \<Rightarrow> json \<Rightarrow> bool \<Rightarrow> event list \<Rightarrow> bool \<Rightarrow> bool" where
  "edited cr raw add es ok \<longleftrightarrow>
     (if next_finalizers add (GetFinalizers raw) = GetFinalizers raw then es = [] \<and> ok
      else (\<exists>a. es = [Kube (UpdateResource (cr_namespace cr)
                 (SetFinalizers (next_finalizers add (GetFinalizers raw)) raw) a)] \<and> ok = (\<not> isl a)))"

lemma edit_error_isl: "edit_error a = None \<longleftrightarrow> \<not> isl a"
  by (cases a) simp_all

lemma setFinalizer_edited:
  "wp (setFinalizer m raw cr add) s (\<lambda>r s'. \<exists>es. trace s' = trace s @ es \<and> edited cr raw add es (r = None))"
  by (rule wp_mono [OF setFinalizer_spec])
    (auto simp: edited_def edit_error_isl split: if_splits)

definition status_part :: "kryptic_secret \<Rightarrow> json \<Rightarrow> result \<Rightarrow> event list \<Rightarrow> bool" where
  "status_part cr raw r es \<longleftrightarrow>
     (if statusUnchanged cr r then es = []
      else \<exists>now xs a. es = Net (ClockNow now) # xs \<and>
        status_exchange (cr_namespace cr) (cr_name cr) (status_json cr r now) raw xs a)"

text \<open>
  What one item may come to. The object is read first. Out of scope, gone or unreadable, nothing
  else happens. A deleted resource is held while its leases cannot be revoked, and released by
  dropping the finalizer after they are. A live resource gets the finalizer first; without it
  nothing happens; with it follow one pass and the status write, when it is needed.
\<close>

inductive item_outcome :: "go_runtime \<Rightarrow> string \<Rightarrow> queue_item \<Rightarrow> event list \<Rightarrow> duration \<Rightarrow> bool"
  for R scope item where
  outside: "scope \<noteq> [] \<Longrightarrow> scope \<noteq> fst item \<Longrightarrow> item_outcome R scope item [] 0"
| gone: "item_outcome R scope item [Kube (GetResource (fst item) (snd item) (Inl e))] 0"
| garbled: "fromUnstructured R raw = None \<Longrightarrow>
     item_outcome R scope item [Kube (GetResource (fst item) (snd item) (Inr raw))] minute"
| held: "fromUnstructured R raw = Some cr \<Longrightarrow> being_deleted cr \<Longrightarrow>
     list_all (\<lambda>e. \<not> resource_event e \<and> \<not> secret_write e) rv \<Longrightarrow>
     item_outcome R scope item (Kube (GetResource (fst item) (snd item) (Inr raw)) # rv) retry_soon"
| released: "fromUnstructured R raw = Some cr \<Longrightarrow> being_deleted cr \<Longrightarrow>
     list_all (\<lambda>e. \<not> resource_event e \<and> \<not> secret_write e) rv \<Longrightarrow> leases_revoked cr rv \<Longrightarrow>
     edited cr raw False es ok \<Longrightarrow>
     item_outcome R scope item (Kube (GetResource (fst item) (snd item) (Inr raw)) # rv @ es)
       (if ok then 0 else retry_soon)"
| blocked: "fromUnstructured R raw = Some cr \<Longrightarrow> \<not> being_deleted cr \<Longrightarrow> \<not> hasFinalizer cr \<Longrightarrow>
     edited cr raw True es False \<Longrightarrow>
     item_outcome R scope item (Kube (GetResource (fst item) (snd item) (Inr raw)) # es) retry_soon"
| passed: "fromUnstructured R raw = Some cr \<Longrightarrow> \<not> being_deleted cr \<Longrightarrow>
     (if hasFinalizer cr then es = [] else edited cr raw True es True) \<Longrightarrow>
     list_all (\<lambda>e. \<not> resource_event e) ps \<Longrightarrow> pass_outcome R cr ps r \<Longrightarrow>
     status_part cr raw r st \<Longrightarrow>
     item_outcome R scope item (Kube (GetResource (fst item) (snd item) (Inr raw)) # es @ ps @ st)
       (rs_requeueAfter r)"

inductive_cases item_outcome_elim: "item_outcome R scope item es d"

lemma pass_outcome_floor: "pass_outcome R cr es r \<Longrightarrow> MinRefreshInterval \<le> rs_requeueAfter r"
  by (erule pass_outcome_elim)
    (auto simp: finish_result_def Let_def backoff_bounds RefreshIntervalOrDefault_floor split: option.split)

lemma accepts_operator: "accepts (operator X K getenv scope) ns \<longleftrightarrow> scope = [] \<or> scope = ns"
  by (simp add: accepts_def)

lemma Reconcile_all:
  "wp (Reconcile (operator_reconciler X K getenv) cr) s (\<lambda>r s'. \<exists>es. trace s' = trace s @ es \<and>
     list_all (\<lambda>e. \<not> resource_event e) es \<and> pass_outcome (en_runtime X) cr es r)"
proof -
  have "wp (Reconcile (operator_reconciler X K getenv) cr) s (\<lambda>r s'.
     (\<exists>es. trace s' = trace s @ es \<and> list_all (\<lambda>e. \<not> resource_event e) es) \<and>
     (\<exists>es. trace s' = trace s @ es \<and> pass_outcome (en_runtime X) cr es r))"
    unfolding wp_conj
    by (intro conjI operator_pass emits_wp [OF Reconcile_no_resource])
  then show ?thesis by (rule wp_mono) auto
qed

lemma reconcile_and_report_spec:
  "wp (reconcile_and_report (operator X K getenv scope) raw cr) s (\<lambda>d s'. \<exists>ps r st.
     trace s' = trace s @ ps @ st \<and> list_all (\<lambda>e. \<not> resource_event e) ps \<and>
     pass_outcome (en_runtime X) cr ps r \<and> status_part cr raw r st \<and> d = rs_requeueAfter r)"
  unfolding reconcile_and_report_def operator_simps wp_bind
proof (rule wp_mono [OF Reconcile_all], elim exE conjE, goal_cases)
  case (1 r s1 ps)
  show ?case
  proof (cases "statusUnchanged cr r")
    case True
    with 1 show ?thesis
      unfolding if_P [OF True] wp_return
      by (intro exI [of _ ps] exI [of _ r] exI [of _ "[]"]) (simp add: status_part_def)
  next
    case False
    show ?thesis unfolding if_not_P [OF False] wp_bind
    proof (rule wp_mono [OF status_write_helper], elim exE conjE, goal_cases)
      case (1 e s2 now xs a)
      with False \<open>trace s1 = _\<close> \<open>list_all _ ps\<close> \<open>pass_outcome _ _ ps r\<close>
      show ?case
        unfolding wp_return
        by (intro exI [of _ ps] exI [of _ r] exI [of _ "Net (ClockNow now) # xs"]) (auto simp: status_part_def)
    qed
  qed
qed

lemma finalize_spec:
  assumes "fair_map_order (en_runtime X)"
  shows "wp (finalize_resource (operator X K getenv scope) raw cr) s (\<lambda>d s'. \<exists>rv es.
     trace s' = trace s @ rv @ es \<and> list_all (\<lambda>e. \<not> resource_event e \<and> \<not> secret_write e) rv \<and>
     (es = [] \<and> d = retry_soon \<or>
      leases_revoked cr rv \<and> (\<exists>ok. edited cr raw False es ok \<and> d = (if ok then 0 else retry_soon))))"
proof -
  have all: "wp (RevokeCRLeases (operator_reconciler X K getenv) cr) s (\<lambda>r s'. \<exists>es. trace s' = trace s @ es \<and>
     list_all (\<lambda>e. \<not> resource_event e \<and> \<not> secret_write e) es \<and> (if isl r then True else leases_revoked cr es))" for s
  proof -
    have "wp (RevokeCRLeases (operator_reconciler X K getenv) cr) s (\<lambda>r s'.
       (\<exists>es. trace s' = trace s @ es \<and> list_all (\<lambda>e. \<not> resource_event e) es) \<and>
       (\<exists>es. trace s' = trace s @ es \<and> list_all (\<lambda>e. \<not> secret_write e) es) \<and>
       (\<exists>es. trace s' = trace s @ es \<and> (if isl r then True else leases_revoked cr es)))"
      unfolding wp_conj
      by (intro conjI emits_wp [OF revoke_no_resource] emits_wp [OF revoke_no_write]
          RevokeCRLeases_revokes [OF assms])
    then show ?thesis
    proof (rule wp_mono, elim exE conjE, goal_cases)
      case (1 r s' e1 e2 e3)
      then have "e2 = e1" "e3 = e1" by simp_all
      with 1 have "list_all (\<lambda>e. \<not> resource_event e \<and> \<not> secret_write e) e1" by (simp add: list_all_iff)
      with 1 \<open>e3 = e1\<close> show ?case by blast
    qed
  qed
  show ?thesis unfolding finalize_resource_def operator_simps wp_bind
  proof (rule wp_mono [OF all], elim exE conjE, goal_cases)
    case (1 r s1 rv)
    show ?case
    proof (cases r)
      case (Inl e)
      with 1 show ?thesis unfolding Inl sum.case wp_return
        by (intro exI [of _ rv] exI [of _ "[]"]) simp
    next
      case (Inr u)
      show ?thesis unfolding Inr sum.case wp_bind
      proof (rule wp_mono [OF setFinalizer_edited], elim exE conjE, goal_cases)
        case (1 x s2 es)
        have "(case x of None \<Rightarrow> 0 | Some _ \<Rightarrow> retry_soon) = (if x = None then 0 else retry_soon)"
          by (cases x) simp_all
        with 1 Inr \<open>trace s1 = _\<close> \<open>list_all _ rv\<close> \<open>if isl r then _ else _\<close> show ?case
          unfolding wp_return
          by (intro exI [of _ rv] exI [of _ es] exI [of _ "x = None"] conjI disjI2) simp_all
      qed
    qed
  qed
qed

lemma sync_spec:
  "wp (sync_resource (operator X K getenv scope) raw cr) s (\<lambda>d s'. \<exists>es.
     trace s' = trace s @ es \<and>
     (\<not> hasFinalizer cr \<and> edited cr raw True es False \<and> d = retry_soon \<or>
      (\<exists>e1 ps r st. es = e1 @ ps @ st \<and> (if hasFinalizer cr then e1 = [] else edited cr raw True e1 True) \<and>
         list_all (\<lambda>e. \<not> resource_event e) ps \<and> pass_outcome (en_runtime X) cr ps r \<and>
         status_part cr raw r st \<and> d = rs_requeueAfter r)))"
proof (cases "hasFinalizer cr")
  case True
  show ?thesis unfolding sync_resource_def using True
    by (simp) (rule wp_mono [OF reconcile_and_report_spec], force)
next
  case False
  then have eq: "sync_resource (operator X K getenv scope) raw cr =
      State_Monad.bind (setFinalizer (operator X K getenv scope) raw cr True) (\<lambda>r. case r of
        Some _ \<Rightarrow> State_Monad.return retry_soon
      | None \<Rightarrow> reconcile_and_report (operator X K getenv scope) raw cr)"
    by (simp add: sync_resource_def)
  show ?thesis unfolding eq wp_bind
  proof (rule wp_mono [OF setFinalizer_edited], elim exE conjE, goal_cases)
    case (1 x s1 e1)
    show ?case
    proof (cases x)
      case (Some e)
      with 1 False show ?thesis by (auto simp: wp_return)
    next
      case None
      show ?thesis unfolding None option.case
      proof (rule wp_mono [OF reconcile_and_report_spec], elim exE conjE, goal_cases)
        case (1 d s' ps r st)
        with None False \<open>trace s1 = _\<close> \<open>edited _ _ _ e1 _\<close> show ?case
          by (intro exI [of _ "e1 @ ps @ st"]) auto
      qed
    qed
  qed
qed

lemma item_refined:
  assumes "fair_map_order (en_runtime X)"
  shows "wp (reconcileOne (operator X K getenv scope) item) s
     (\<lambda>d s'. \<exists>es. trace s' = trace s @ es \<and> item_outcome (en_runtime X) scope item es d)"
proof (cases "scope = [] \<or> scope = fst item")
  case False
  then show ?thesis
    by (auto simp: reconcileOne_def wp_return accepts_operator intro!: item_outcome.outside)
next
  case True
  obtain got w where g: "get_resource K (fst item) (snd item) (world s) = (got, w)" by fastforce
  have eq: "reconcileOne (operator X K getenv scope) item = State_Monad.bind
      (kube_get_resource K (fst item) (snd item))
      (\<lambda>got. case got of
         Inl _ \<Rightarrow> State_Monad.return 0
       | Inr raw \<Rightarrow> (case fromUnstructured (en_runtime X) raw of
           None \<Rightarrow> State_Monad.return minute
         | Some cr \<Rightarrow> if being_deleted cr then finalize_resource (operator X K getenv scope) raw cr
                      else sync_resource (operator X K getenv scope) raw cr))"
    using True by (simp add: reconcileOne_def accepts_operator)
  note start = eq wp_bind kube_get_resource_def wp_external g prod.case
  show ?thesis
  proof (cases got)
    case (Inl e)
    then show ?thesis unfolding start by (simp add: wp_return item_outcome.gone)
  next
    case got: (Inr raw)
    show ?thesis
    proof (cases "fromUnstructured (en_runtime X) raw")
      case None
      with got show ?thesis unfolding start by (simp add: wp_return item_outcome.garbled)
    next
      case cr: (Some cr)
      show ?thesis
      proof (cases "being_deleted cr")
        case del: True
        have "wp (finalize_resource (operator X K getenv scope) raw cr)
          (s\<lparr>world := w, trace := trace s @ [Kube (GetResource (fst item) (snd item) got)]\<rparr>)
          (\<lambda>d s'. \<exists>es. trace s' = trace s @ es \<and> item_outcome (en_runtime X) scope item es d)"
        proof (rule wp_mono [OF finalize_spec [OF assms]], elim exE conjE, goal_cases)
          case (1 d s' rv es)
          from 1(3) have "item_outcome (en_runtime X) scope item
              (Kube (GetResource (fst item) (snd item) (Inr raw)) # rv @ es) d"
          proof (elim disjE exE conjE)
            assume "es = []" "d = retry_soon"
            with item_outcome.held [OF cr del 1(2)] show ?thesis by simp
          next
            fix ok assume "leases_revoked cr rv" "edited cr raw False es ok" "d = (if ok then 0 else retry_soon)"
            with item_outcome.released [OF cr del 1(2)] show ?thesis by simp
          qed
          with 1(1) got show ?case by simp
        qed
        with got cr del show ?thesis unfolding start by simp
      next
        case del: False
        have "wp (sync_resource (operator X K getenv scope) raw cr)
          (s\<lparr>world := w, trace := trace s @ [Kube (GetResource (fst item) (snd item) got)]\<rparr>)
          (\<lambda>d s'. \<exists>es. trace s' = trace s @ es \<and> item_outcome (en_runtime X) scope item es d)"
        proof (rule wp_mono [OF sync_spec], elim exE conjE, goal_cases)
          case (1 d s' es)
          from 1(2) have "item_outcome (en_runtime X) scope item
              (Kube (GetResource (fst item) (snd item) (Inr raw)) # es) d"
          proof (elim disjE exE conjE)
            assume "\<not> hasFinalizer cr" "edited cr raw True es False" "d = retry_soon"
            with item_outcome.blocked [OF cr del] show ?thesis by simp
          next
            fix e1 ps r st
            assume "es = e1 @ ps @ st" "if hasFinalizer cr then e1 = [] else edited cr raw True e1 True"
              "list_all (\<lambda>e. \<not> resource_event e) ps" "pass_outcome (en_runtime X) cr ps r"
              "status_part cr raw r st" "d = rs_requeueAfter r"
            with item_outcome.passed [OF cr del] show ?thesis by simp
          qed
          with 1(1) got show ?case by simp
        qed
        with got cr del show ?thesis unfolding start by simp
      qed
    qed
  qed
qed

section \<open>Consequences\<close>

lemma sample_env_fair: "fair_map_order (en_runtime (sample_env st))"
  using sample_fair by (simp add: sample_env_def)

text \<open>
  C4. The manager refines the abstract item: whatever the API server, the control plane and the
  targets answer, the events of one item and the delay it asks for are one of the outcomes of
  \<open>item_outcome\<close>.
\<close>

theorem item_refines:
  assumes "fair_map_order (en_runtime X)"
  shows "wp (reconcileOne (operator X K getenv scope) item) s
     (\<lambda>d s'. \<exists>es. trace s' = trace s @ es \<and> item_outcome (en_runtime X) scope item es d)"
  by (rule item_refined [OF assms])

theorem item_refines_witness:
  "wp (reconcileOne (operator (sample_env 200) sample_kube (\<lambda>_. []) []) (''team'', ''app'')) sample_manager_state
     (\<lambda>d s'. \<exists>es. trace s' = trace sample_manager_state @ es \<and>
       item_outcome (en_runtime (sample_env 200)) [] (''team'', ''app'') es d)"
  by (rule item_refines [OF sample_env_fair])

text \<open>A write that takes the finalizer from the object as it was read.\<close>

definition releases :: "json \<Rightarrow> event \<Rightarrow> bool" where
  "releases raw e \<longleftrightarrow> (\<exists>ns j a. e = Kube (UpdateResource ns j a) \<and>
     LeaseFinalizer \<in> set (GetFinalizers raw) \<and> LeaseFinalizer \<notin> set (GetFinalizers j))"

lemma releases_resource: "\<not> resource_event e \<Longrightarrow> \<not> releases raw e"
  by (auto simp: releases_def)

lemma releases_simps [simp]:
  "\<not> releases raw (Net e)" "\<not> releases raw (Kube (UpdateResourceStatus ns j a))"
  "\<not> releases raw (Kube (GetResource ns n g))"
  by (auto simp: releases_def)

lemma edited_adds: "edited cr raw True es ok \<Longrightarrow> list_all (\<lambda>e. \<not> releases raw e) es"
  by (cases "has_metadata raw")
    (auto simp: edited_def releases_def get_set_finalizers next_finalizers_member
      dest: finalizers_metadata [OF length_pos_if_in_set [THEN length_greater_0_conv [THEN iffD1]]]
      split: if_splits)

lemma status_part_releases: "status_part cr raw r st \<Longrightarrow> list_all (\<lambda>e. \<not> releases raw' e) st"
  by (auto simp: status_part_def split: if_splits elim!: status_exchange.cases)

lemma no_release: "list_all (\<lambda>e. \<not> resource_event e) es \<Longrightarrow> list_all (\<lambda>e. \<not> releases raw e) es"
  by (auto simp: list_all_iff dest: releases_resource)

definition released_after_revocation :: "go_runtime \<Rightarrow> event list \<Rightarrow> bool" where
  "released_after_revocation R es \<longleftrightarrow> (\<forall>ns n raw pre x post.
     es = Kube (GetResource ns n (Inr raw)) # pre @ x # post \<longrightarrow> releases raw x \<longrightarrow>
     (\<exists>cr. fromUnstructured R raw = Some cr \<and> being_deleted cr \<and> leases_revoked cr pre))"

lemma never_released:
  "list_all (\<lambda>e. \<not> releases raw e) es \<Longrightarrow>
   released_after_revocation R (Kube (GetResource ns n (Inr raw)) # es)"
  by (auto simp: released_after_revocation_def)

lemma item_releases: "item_outcome R scope item es d \<Longrightarrow> released_after_revocation R es"
proof (erule item_outcome_elim, goal_cases)
  case (5 raw cr rv es1 ok)
  have quiet: "list_all (\<lambda>e. \<not> releases raw e) rv"
    using 5 by (intro no_release) (simp add: list_all_iff)
  from 5 have short: "es1 = [] \<or> (\<exists>e. es1 = [e])" by (auto simp: edited_def split: if_splits)
  show ?case unfolding released_after_revocation_def
  proof (intro allI impI)
    fix ns n raw' pre x post
    assume eq: "es = Kube (GetResource ns n (Inr raw')) # pre @ x # post" and x: "releases raw' x"
    with 5 have raw: "raw' = raw" and split: "rv @ es1 = pre @ x # post" by simp_all
    from quiet x raw have "x \<notin> set rv" by (auto simp: list_all_iff)
    with split short have "pre = rv" by (auto simp: append_eq_append_conv2 Cons_eq_append_conv append_eq_Cons_conv)
    with 5 raw show "\<exists>cr. fromUnstructured R raw' = Some cr \<and> being_deleted cr \<and> leases_revoked cr pre" by auto
  qed
next
  case (7 raw cr es1 ps r st)
  have "list_all (\<lambda>e. \<not> releases raw e) (es1 @ ps @ st)"
    using 7 no_release status_part_releases edited_adds by (auto split: if_splits)
  with 7 show ?case by (simp only: never_released)
next
  case (6 raw cr es1)
  then show ?case using edited_adds by (simp only: never_released)
next
  case (4 raw cr rv)
  then have "list_all (\<lambda>e. \<not> releases raw e) rv" by (intro no_release) (simp add: list_all_iff)
  with 4 show ?case by (simp only: never_released)
qed (auto simp: released_after_revocation_def)

text \<open>
  C5. The finalizer goes last: in the run of one item, a write that drops the operator's finalizer
  from the object comes only for a deleted resource, and only after the target Secret was read
  and every lease id in its annotation was revoked (or the Secret could not be read at all).
\<close>

theorem finalizer_released_after_revocation:
  assumes "fair_map_order (en_runtime X)"
  shows "wp (reconcileOne (operator X K getenv scope) item) s
     (\<lambda>d s'. \<exists>es. trace s' = trace s @ es \<and> released_after_revocation (en_runtime X) es)"
  by (rule wp_mono [OF item_refined [OF assms]]) (blast dest: item_releases)

theorem finalizer_released_after_revocation_witness:
  "wp (reconcileOne (operator (sample_env 200) sample_kube (\<lambda>_. []) []) (''team'', ''app'')) sample_manager_state
     (\<lambda>d s'. \<exists>es. trace s' = trace sample_manager_state @ es \<and>
       released_after_revocation (en_runtime (sample_env 200)) es)"
  by (rule finalizer_released_after_revocation [OF sample_env_fair])

text \<open>Whether the finalizer of a live resource is in place: it was there, or its write was accepted.\<close>

definition finalizer_held :: "kryptic_secret \<Rightarrow> json \<Rightarrow> event list \<Rightarrow> bool" where
  "finalizer_held cr raw es \<longleftrightarrow> hasFinalizer cr \<or> LeaseFinalizer \<in> set (GetFinalizers raw) \<or>
     (\<exists>j j'. Kube (UpdateResource (cr_namespace cr) j (Inr j')) \<in> set es \<and>
        (if has_metadata raw then LeaseFinalizer \<in> set (GetFinalizers j) else j = raw))"

definition held_before_work :: "go_runtime \<Rightarrow> event list \<Rightarrow> bool" where
  "held_before_work R es \<longleftrightarrow> (\<forall>ns n raw cr pre x post.
     es = Kube (GetResource ns n (Inr raw)) # pre @ x # post \<longrightarrow> \<not> resource_event x \<longrightarrow>
     fromUnstructured R raw = Some cr \<longrightarrow> \<not> being_deleted cr \<longrightarrow> finalizer_held cr raw pre)"

lemma set_finalizers_none: "\<not> has_metadata j \<Longrightarrow> SetFinalizers fs j = j"
  by (auto simp: has_metadata_def SetFinalizers_def split: option.splits json.splits)

lemma edited_holds:
  "edited cr raw True es True \<Longrightarrow> finalizer_held cr raw (es @ pre)"
proof (cases "next_finalizers True (GetFinalizers raw) = GetFinalizers raw")
  case True
  with next_finalizers_member [of True "GetFinalizers raw"] show ?thesis by (simp add: finalizer_held_def)
next
  case False
  assume "edited cr raw True es True"
  with False obtain a where "es = [Kube (UpdateResource (cr_namespace cr)
      (SetFinalizers (next_finalizers True (GetFinalizers raw)) raw) a)]" "\<not> isl a"
    by (auto simp: edited_def)
  then show ?thesis
    by (cases a; cases "has_metadata raw")
      (auto simp: finalizer_held_def get_set_finalizers next_finalizers_member set_finalizers_none)
qed

lemma edited_resource: "edited cr raw add es ok \<Longrightarrow> list_all resource_event es"
  by (auto simp: edited_def split: if_splits)

lemma item_held: "item_outcome R scope item es d \<Longrightarrow> held_before_work R es"
proof (erule item_outcome_elim, goal_cases)
  case (6 raw cr es1)
  then have "list_all resource_event es1" by (simp add: edited_resource)
  with 6 show ?case by (auto simp: held_before_work_def)
next
  case (7 raw cr es1 ps r st)
  show ?case unfolding held_before_work_def
  proof (intro allI impI)
    fix ns n raw' cr' pre x post
    assume eq: "es = Kube (GetResource ns n (Inr raw')) # pre @ x # post" and x: "\<not> resource_event x"
      and cr': "fromUnstructured R raw' = Some cr'"
    with 7 have raw: "raw' = raw" "cr' = cr" and split: "es1 @ ps @ st = pre @ x # post" by simp_all
    show "finalizer_held cr' raw' pre"
    proof (cases "hasFinalizer cr")
      case True
      with raw show ?thesis by (simp add: finalizer_held_def)
    next
      case False
      with 7 have ed: "edited cr raw True es1 True" by simp
      then have "x \<notin> set es1" using x edited_resource by (fastforce simp: list_all_iff)
      with split obtain us where "pre = es1 @ us"
        by (auto simp: append_eq_append_conv2 append_eq_Cons_conv)
      with edited_holds [OF ed] raw show ?thesis by simp
    qed
  qed
qed (auto simp: held_before_work_def)

text \<open>
  C8. The finalizer comes first: for a live resource nothing is asked of the control plane or of a
  target and no Secret is read or written before the finalizer is in place, so that no lease can be
  minted for an object that may vanish unseen.
\<close>

theorem finalizer_held_before_work:
  assumes "fair_map_order (en_runtime X)"
  shows "wp (reconcileOne (operator X K getenv scope) item) s
     (\<lambda>d s'. \<exists>es. trace s' = trace s @ es \<and> held_before_work (en_runtime X) es)"
  by (rule wp_mono [OF item_refined [OF assms]]) (blast dest: item_held)

theorem finalizer_held_before_work_witness:
  "wp (reconcileOne (operator (sample_env 200) sample_kube (\<lambda>_. []) []) (''team'', ''app'')) sample_manager_state
     (\<lambda>d s'. \<exists>es. trace s' = trace sample_manager_state @ es \<and>
       held_before_work (en_runtime (sample_env 200)) es)"
  by (rule finalizer_held_before_work [OF sample_env_fair])

text \<open>
  Why an item may leave the queue: it is out of scope, it could not be read, or it is being deleted
  and after the revocation of its leases the finalizer was not there any more, or the API server
  has accepted an update that no longer lists it.
\<close>

definition finalizer_dropped :: "kryptic_secret \<Rightarrow> json \<Rightarrow> event list \<Rightarrow> bool" where
  "finalizer_dropped cr raw es \<longleftrightarrow>
     (if LeaseFinalizer \<in> set (GetFinalizers raw)
      then \<exists>j w. es = [Kube (UpdateResource (cr_namespace cr) j (Inr w))] \<and>
             LeaseFinalizer \<notin> set (GetFinalizers j)
      else es = [])"

definition settled_item :: "go_runtime \<Rightarrow> string \<Rightarrow> queue_item \<Rightarrow> event list \<Rightarrow> bool" where
  "settled_item R scope item es \<longleftrightarrow>
     (case es of
        [] \<Rightarrow> scope \<noteq> [] \<and> scope \<noteq> fst item
      | e # rest \<Rightarrow> (\<exists>got. e = Kube (GetResource (fst item) (snd item) got) \<and>
          (case got of
             Inl _ \<Rightarrow> rest = []
           | Inr raw \<Rightarrow> (\<exists>cr rv es'. fromUnstructured R raw = Some cr \<and> being_deleted cr \<and>
               rest = rv @ es' \<and> leases_revoked cr rv \<and> list_all (\<lambda>e. \<not> secret_write e) rv \<and>
               finalizer_dropped cr raw es'))))"

lemma retry_soon_floor: "MinRefreshInterval \<le> retry_soon"
  by (simp add: retry_soon_def backoff_bounds)

lemma edited_dropped:
  assumes "edited cr raw False es True"
  shows "finalizer_dropped cr raw es"
proof (cases "LeaseFinalizer \<in> set (GetFinalizers raw)")
  case True
  let ?fs = "next_finalizers False (GetFinalizers raw)"
  have out: "LeaseFinalizer \<notin> set ?fs" by (simp add: next_finalizers_def)
  with True have "?fs \<noteq> GetFinalizers raw" by metis
  with assms obtain a where "es = [Kube (UpdateResource (cr_namespace cr) (SetFinalizers ?fs raw) a)]" "\<not> isl a"
    by (auto simp: edited_def)
  moreover have "GetFinalizers (SetFinalizers ?fs raw) = ?fs"
    using True by (intro get_set_finalizers finalizers_metadata) auto
  ultimately show ?thesis using out True by (cases a) (simp_all add: finalizer_dropped_def)
next
  case False
  then have "next_finalizers False (GetFinalizers raw) = GetFinalizers raw"
    by (auto simp: next_finalizers_def filter_id_conv)
  with assms False show ?thesis by (simp add: edited_def finalizer_dropped_def)
qed

lemma item_requeues:
  assumes "item_outcome R scope item es d"
  shows "if d = 0 then settled_item R scope item es else MinRefreshInterval \<le> d"
proof (rule item_outcome_elim [OF assms], goal_cases)
  case (5 raw cr rv es1 ok)
  have "list_all (\<lambda>e. \<not> secret_write e) rv" using 5 by (simp add: list_all_iff)
  moreover have "ok \<Longrightarrow> finalizer_dropped cr raw es1" using 5 edited_dropped by simp
  ultimately show ?thesis
    using 5 retry_soon_floor MinRefreshInterval_pos by (auto simp: settled_item_def)
next
  case (7 raw cr es1 ps r st)
  then have "MinRefreshInterval \<le> d" using pass_outcome_floor by simp
  with MinRefreshInterval_pos show ?thesis by simp
qed (use retry_soon_floor MinRefreshInterval_pos in
  \<open>auto simp: settled_item_def MinRefreshInterval_def minute_def second_def\<close>)



end
