(* ===== verification/Run_Facts.thy ===== *)
theory Run_Facts
  imports Run_Loop Item_Facts
begin

text \<open>
  The worker as a sequence of items: what a run of any length does, and when it returns.
\<close>

section \<open>Histories of the worker\<close>

text \<open>Putting an item back: done with it first, then it is scheduled when a delay was asked for.\<close>

definition put_back :: "queue_item \<Rightarrow> duration \<Rightarrow> event list" where
  "put_back item d = Control (QueueDone item) # (if 0 < d then [Control (QueueAddAfter item d)] else [])"

text \<open>
  \<open>worker_history R scope n es out\<close>: in at most \<open>n\<close> rounds the worker does \<open>es\<close>,
  one item after the other, and then has returned \<open>out\<close> or is still running.
\<close>

inductive worker_history ::
  "go_runtime \<Rightarrow> string \<Rightarrow> nat \<Rightarrow> event list \<Rightarrow> goerr option option \<Rightarrow> bool" for R scope where
  running: "worker_history R scope 0 [] None"
| round: "item_outcome R scope item es d \<Longrightarrow> worker_history R scope n rest out \<Longrightarrow>
    worker_history R scope (Suc n) (Control (QueueGet item False) # es @ put_back item d
      @ Control (CtxErr None) # rest) out"
| cancelled: "item_outcome R scope item es d \<Longrightarrow>
    worker_history R scope (Suc n) (Control (QueueGet item False) # es @ put_back item d
      @ [Control (CtxErr (Some e)), Control (CtxErr e'), Control QueueShutDown]) (Some e')"
| drained: "worker_history R scope (Suc n) [Control (QueueGet item True), Control QueueShutDown] (Some None)"

section \<open>What a run adds to the trace\<close>

definition adds :: "(('w, event, 'm) io_state_scheme, 'a) state \<Rightarrow> ('a \<Rightarrow> event list \<Rightarrow> bool) \<Rightarrow> bool" where
  "adds m P \<longleftrightarrow> (\<forall>s. wp m s (\<lambda>a s'. \<exists>es. trace s' = trace s @ es \<and> P a es))"

named_theorems adds_rules "what runs add to the trace"

lemma adds_return [adds_rules]: "P a [] \<Longrightarrow> adds (State_Monad.return a) P"
  by (simp add: adds_def wp_return)

lemma adds_bind:
  assumes "adds m P" and "\<And>a es. P a es \<Longrightarrow> adds (f a) (\<lambda>b fs. Q b (es @ fs))"
  shows "adds (State_Monad.bind m f) Q"
  unfolding adds_def wp_bind
proof (rule allI, rule wp_mono [OF assms(1) [unfolded adds_def, rule_format]], elim exE conjE, goal_cases)
  case (1 s a s1 es)
  show ?case
    by (rule wp_mono [OF assms(2) [OF 1(2), unfolded adds_def, rule_format]]) (use 1(1) in auto)
qed

lemma adds_external: "adds (external call ev) (\<lambda>a es. es = [ev a])"
  by (simp add: adds_def wp_external split: prod.split)

lemma adds_mono: "adds m P \<Longrightarrow> (\<And>a es. P a es \<Longrightarrow> Q a es) \<Longrightarrow> adds m Q"
  unfolding adds_def by (blast intro: wp_mono)

lemma adds_calls:
  "adds (run_queue_get A) (\<lambda>r es. es = [Control (QueueGet (fst r) (snd r))])"
  "adds (run_queue_done A item) (\<lambda>_ es. es = [Control (QueueDone item)])"
  "adds (run_queue_add_after A item d) (\<lambda>_ es. es = [Control (QueueAddAfter item d)])"
  "adds (run_queue_shut_down A) (\<lambda>_ es. es = [Control QueueShutDown])"
  "adds (run_ctx_err A) (\<lambda>e es. es = [Control (CtxErr e)])"
  unfolding run_defs by (rule adds_external)+

section \<open>One round\<close>

inductive round_outcome :: "go_runtime \<Rightarrow> string \<Rightarrow> goerr option option \<Rightarrow> event list \<Rightarrow> bool"
  for R scope where
  shut: "round_outcome R scope (Some None) [Control (QueueGet item True)]"
| handled: "item_outcome R scope item es d \<Longrightarrow>
    round_outcome R scope None (Control (QueueGet item False) # es @ put_back item d @ [Control (CtxErr None)])"
| stopped: "item_outcome R scope item es d \<Longrightarrow> round_outcome R scope (Some e')
    (Control (QueueGet item False) # es @ put_back item d @ [Control (CtxErr (Some e)), Control (CtxErr e')])"

lemma round_refined:
  assumes "fair_map_order (en_runtime X)"
  shows "adds (run_pass (operator X K getenv scope) A) (round_outcome (en_runtime X) scope)"
proof -
  have item: "adds (reconcileOne (operator X K getenv scope) item)
      (\<lambda>d es. item_outcome (en_runtime X) scope item es d)" for item
    unfolding adds_def using item_refined [OF assms] by blast
  have tail: "adds (do { run_queue_done A item;
        (if 0 < d then run_queue_add_after A item d else State_Monad.return ());
        cancelled \<leftarrow> run_ctx_err A;
        case cancelled of None \<Rightarrow> State_Monad.return None
        | Some _ \<Rightarrow> do { e \<leftarrow> run_ctx_err A; State_Monad.return (Some e) } })
      (\<lambda>out es. (es = put_back item d @ [Control (CtxErr None)] \<and> out = None) \<or>
         (\<exists>e e'. es = put_back item d @ [Control (CtxErr (Some e)), Control (CtxErr e')] \<and> out = Some e'))" for item d
  proof (rule adds_bind [OF adds_calls(2)], goal_cases)
    case (1 u es1)
    show ?case
    proof (rule adds_bind [where P = "\<lambda>_ es. es = (if 0 < d then [Control (QueueAddAfter item d)] else [])"], goal_cases)
      case 1
      show ?case by (auto intro: adds_calls adds_return)
    next
      case (2 u2 es2)
      show ?case
      proof (rule adds_bind [OF adds_calls(5)], goal_cases)
        case (1 c es3)
        show ?case
        proof (cases c)
          case None
          then show ?thesis using 1 2 \<open>es1 = _\<close> by (auto simp: put_back_def intro: adds_return)
        next
          case (Some e)
          have "adds (do { e \<leftarrow> run_ctx_err A; State_Monad.return (Some e) })
              (\<lambda>out es. \<exists>e'. es = [Control (CtxErr e')] \<and> out = Some e')"
            by (rule adds_bind [OF adds_calls(5)]) (auto intro: adds_return)
          from adds_mono [OF this] show ?thesis
            unfolding Some option.case using 1 2 Some \<open>es1 = _\<close> by (auto simp: put_back_def)
        qed
      qed
    qed
  qed
  show ?thesis
    unfolding run_pass_def Let_def
  proof (rule adds_bind [OF adds_calls(1)], goal_cases)
    case (1 got es)
    show ?case
    proof (cases "snd got")
      case True
      then show ?thesis using 1 round_outcome.shut [of _ _ "fst got"] by (auto intro!: adds_return)
    next
      case False
      show ?thesis
        unfolding if_not_P [OF False]
        by (rule adds_bind [OF item], rule adds_mono [OF tail])
          (use 1 False in \<open>auto intro: round_outcome.intros\<close>)
    qed
  qed
qed

lemma addsD: "adds m P \<Longrightarrow> run_state m s = (a, s') \<Longrightarrow> \<exists>es. trace s' = trace s @ es \<and> P a es"
  unfolding adds_def by (blast dest: wp_run)

lemma rounds_refined:
  assumes "fair_map_order (en_runtime X)" and "run_rounds n (operator X K getenv scope) A s = (out, s')"
  shows "\<exists>es. trace s' = trace s @ es \<and> worker_history (en_runtime X) scope n es out"
  using assms(2)
proof (induction n arbitrary: s)
  case 0
  then show ?case by (auto intro: running)
next
  case (Suc n)
  obtain x s1 where p: "run_state (run_pass (operator X K getenv scope) A) s = (x, s1)" by fastforce
  from addsD [OF round_refined [OF assms(1)] p] obtain es
    where es: "trace s1 = trace s @ es" "round_outcome (en_runtime X) scope x es" by blast
  show ?case
  proof (cases x)
    case None
    with Suc.prems p have "run_rounds n (operator X K getenv scope) A s1 = (out, s')" by simp
    from Suc.IH [OF this] obtain fs
      where fs: "trace s' = trace s1 @ fs" "worker_history (en_runtime X) scope n fs out" by blast
    from es(2) None have "worker_history (en_runtime X) scope (Suc n) (es @ fs) out"
      by cases (use round fs(2) in fastforce)+
    with es(1) fs(1) show ?thesis by auto
  next
    case (Some e)
    with Suc.prems p have out: "out = Some e" and s': "s' = snd (run_state (run_queue_shut_down A) s1)" by simp_all
    have "trace s' = trace s1 @ [Control QueueShutDown]"
      unfolding s' by (simp add: run_queue_shut_down_def split: prod.split)
    moreover from es(2) Some have "worker_history (en_runtime X) scope (Suc n) (es @ [Control QueueShutDown]) out"
      unfolding out by cases (auto intro: worker_history.intros)
    ultimately show ?thesis using es(1) by auto
  qed
qed

text \<open>
  C6. The worker handles one item after the other: in any number of rounds it takes an item from
  the queue, does with it one of the things described for an item, marks it done and, when a delay
  came out, schedules it again before it takes the next one. It returns when the queue shuts down
  or the context is cancelled, shutting the queue down, and the loop returns exactly when some
  number of rounds does.
\<close>

theorem run_refines:
  assumes "fair_map_order (en_runtime X)"
  shows "(\<exists>es. trace (snd (run_rounds n (operator X K getenv scope) A s)) = trace s @ es \<and>
       worker_history (en_runtime X) scope n es (fst (run_rounds n (operator X K getenv scope) A s))) \<and>
     (Run (operator X K getenv scope) A s = Some r \<longleftrightarrow>
       (\<exists>k. run_rounds k (operator X K getenv scope) A s = (Some (fst r), snd r)))"
  using rounds_refined [OF assms, of n K getenv scope A s]
    Run_run_rounds [of "operator X K getenv scope" A s r]
    run_rounds_Run [of _ "operator X K getenv scope" A s "fst r" "snd r"]
  by (metis prod.collapse)

text \<open>A run that is over before it has begun.\<close>

definition sample_run :: "unit run_api" where
  "sample_run = \<lparr>queue_get = (\<lambda>w. (((''team'', ''app''), True), w)), queue_done = (\<lambda>i w. ((), w)),
     queue_add = (\<lambda>i w. ((), w)), queue_add_after = (\<lambda>i d w. ((), w)), queue_shut_down = (\<lambda>w. ((), w)),
     ctx_err = (\<lambda>w. (None, w)), ctx_done_before = (\<lambda>d w. (False, w)), watch_open = (\<lambda>ns w. (Inr 0, w)),
     watch_next = (\<lambda>n w. (None, w))\<rparr>"

theorem run_refines_witness:
  "(\<exists>es. trace (snd (run_rounds 3 (operator (sample_env 200) sample_kube (\<lambda>_. []) []) sample_run sample_manager_state))
        = trace sample_manager_state @ es \<and>
      worker_history (en_runtime (sample_env 200)) [] 3 es
        (fst (run_rounds 3 (operator (sample_env 200) sample_kube (\<lambda>_. []) []) sample_run sample_manager_state))) \<and>
   (Run (operator (sample_env 200) sample_kube (\<lambda>_. []) []) sample_run sample_manager_state
        = Some (None, sample_manager_state) \<longleftrightarrow>
      (\<exists>k. run_rounds k (operator (sample_env 200) sample_kube (\<lambda>_. []) []) sample_run sample_manager_state
        = (Some (fst (None :: goerr option, sample_manager_state)), snd (None :: goerr option, sample_manager_state))))"
  by (rule run_refines [OF sample_env_fair])

end
