(* ===== verification/Program_Facts.thy ===== *)
theory Program_Facts
  imports Program Run_Facts
begin

text \<open>
  The program from its command line to its exit code. A context that is cancelled stays cancelled,
  so the worker's error is always the cancellation and never reaches the exit code.
\<close>

definition sticky_context :: "'w run_api \<Rightarrow> bool" where
  "sticky_context A \<longleftrightarrow> (\<forall>w e. fst (ctx_err A w) = Some e \<longrightarrow>
     fst (ctx_err A (snd (ctx_err A w))) = Some e \<and> fst (ctx_err A (snd (queue_shut_down A w))) = Some e)"

section \<open>The end of a run\<close>

lemma run_pass_cancelled:
  assumes "sticky_context A"
  shows "wp (run_pass m A) s (\<lambda>out s'. case out of Some (Some e) \<Rightarrow> fst (ctx_err A (world s')) = Some e | _ \<Rightarrow> True)"
  using assms
  by (auto simp: run_pass_def wp_rules run_defs sticky_context_def wp_iff Let_def split: prod.splits option.splits)
    (metis fst_conv snd_conv)+


lemma run_rounds_cancelled:
  assumes "sticky_context A" and "run_rounds n m A s = (Some (Some e), s')"
  shows "fst (ctx_err A (world s')) = Some e"
  using assms(2)
proof (induction n arbitrary: s)
  case (Suc n)
  obtain x s1 where p: "run_state (run_pass m A) s = (x, s1)" by fastforce
  show ?case
  proof (cases x)
    case None
    with Suc p show ?thesis by simp
  next
    case (Some out)
    with Suc.prems p have "out = Some e" and s': "s' = snd (run_state (run_queue_shut_down A) s1)" by simp_all
    with wp_run [OF run_pass_cancelled [OF assms(1)] p] Some have "fst (ctx_err A (world s1)) = Some e" by simp
    with assms(1) show ?thesis
      by (simp add: s' run_queue_shut_down_def sticky_context_def split: prod.split) (metis snd_conv)
  qed
qed simp

section \<open>The command line\<close>

text \<open>
  The command line as the documentation of \<open>flag\<close> describes it: options with their value in the
  same argument or in the next one, until the first argument that is no option, or \<open>--\<close>.
\<close>

definition option_names :: "string set" where
  "option_names = {''kubeconfig'', ''namespace'', ''log-level''}"

definition dashes :: "string set" where
  "dashes = {''-'', ''--''}"

inductive command_line :: "(string \<rightharpoonup> string) \<Rightarrow> string list \<Rightarrow> (string \<rightharpoonup> string) \<Rightarrow> bool" where
  no_more: "command_line f [] f"
| positional: "a = '''' \<or> a = ''-'' \<or> hd a \<noteq> CHR ''-'' \<Longrightarrow> command_line f (a # args) f"
| terminator: "command_line f (''--'' # args) f"
| joined: "d \<in> dashes \<Longrightarrow> name \<in> option_names \<Longrightarrow> command_line (f(name \<mapsto> v)) args g \<Longrightarrow>
    command_line f ((d @ name @ ''='' @ v) # args) g"
| separate: "d \<in> dashes \<Longrightarrow> name \<in> option_names \<Longrightarrow> command_line (f(name \<mapsto> v)) args g \<Longrightarrow>
    command_line f ((d @ name) # v # args) g"

text \<open>The settings when the command line gives none.\<close>

definition from_environment :: "(string \<Rightarrow> string) \<Rightarrow> string \<rightharpoonup> string" where
  "from_environment getenv = [''kubeconfig'' \<mapsto> getenv ''KUBECONFIG'', ''namespace'' \<mapsto> getenv ''WATCH_NAMESPACE'',
     ''log-level'' \<mapsto> ''info'']"

text \<open>
  The command lines that are refused, with the exit code: the first option that is not one of the
  program's decides, with 0 for a request for help; an option at the end needs its value.
\<close>

definition gives :: "string set \<Rightarrow> string \<Rightarrow> bool" where
  "gives names a \<longleftrightarrow> (\<exists>d \<in> dashes. \<exists>n \<in> names. a = d @ n \<or> (\<exists>v. a = d @ n @ ''='' @ v))"

inductive refused :: "string list \<Rightarrow> int \<Rightarrow> bool" where
  help_asked: "gives {''h'', ''help''} a \<Longrightarrow> refused (a # args) 0"
| unknown: "hd a = CHR ''-'' \<Longrightarrow> a \<notin> {'''', ''-'', ''--''} \<Longrightarrow> \<not> gives (option_names \<union> {''h'', ''help''}) a \<Longrightarrow>
    refused (a # args) 2"
| no_value: "d \<in> dashes \<Longrightarrow> name \<in> option_names \<Longrightarrow> refused [d @ name] 2"
| after_joined: "d \<in> dashes \<Longrightarrow> name \<in> option_names \<Longrightarrow> refused args code \<Longrightarrow>
    refused ((d @ name @ ''='' @ v) # args) code"
| after_separate: "d \<in> dashes \<Longrightarrow> name \<in> option_names \<Longrightarrow> refused args code \<Longrightarrow>
    refused ((d @ name) # v # args) code"

lemma option_name_facts:
  "name \<in> option_names \<Longrightarrow> name \<noteq> [] \<and> hd name \<noteq> CHR ''-'' \<and> hd name \<noteq> CHR ''='' \<and> CHR ''='' \<notin> set name"
  by (auto simp: option_names_def)

text \<open>An argument that names an option, taken apart.\<close>

lemma option_argument:
  assumes "d \<in> dashes" and "n \<noteq> []" "hd n \<noteq> CHR ''-''"
  shows "\<not> length (d @ n) < 2" "hd (d @ n) = CHR ''-''" "d @ n \<noteq> ''--''" "option_body (d @ n) = n"
  using assms by (cases n; auto simp: dashes_def option_body_def)+

lemma option_argument_split:
  assumes "\<not> length a < 2" and "hd a = CHR ''-''"
  obtains d where "d \<in> dashes" and "a = d @ option_body a"
proof -
  from assms obtain x r where "a = CHR ''-'' # x # r"
    by (cases a; cases "tl a") auto
  then show thesis using that [of "''-''"] that [of "''--''"]
    by (cases "x = CHR ''-''") (auto simp: dashes_def option_body_def)
qed

text \<open>One step of the parser on an option.\<close>

lemma parse_option:
  assumes "\<not> length a < 2" and "hd a = CHR ''-''" and "a \<noteq> ''--''"
  shows "parse_flags f (a # args) =
     (let body = option_body a; name = takeWhile (\<lambda>c. c \<noteq> CHR ''='') body
      in if hd body = CHR ''-'' \<or> hd body = CHR ''='' then Inl 2
         else if f name = None then Inl (if name = ''help'' \<or> name = ''h'' then 0 else 2)
         else if name \<noteq> body then parse_flags (f(name \<mapsto> drop (length name + 1) body)) args
         else (case args of [] \<Rightarrow> Inl 2 | v # rest \<Rightarrow> parse_flags (f(name \<mapsto> v)) rest))"
  using assms by (simp add: parse_flags.simps(2) Let_def)

lemma cut_at_equals:
  assumes "takeWhile (\<lambda>c. c \<noteq> CHR ''='') body \<noteq> body"
  shows "body = takeWhile (\<lambda>c. c \<noteq> CHR ''='') body @ ''='' @ drop (length (takeWhile (\<lambda>c. c \<noteq> CHR ''='') body) + 1) body"
  using assms by (induction body) (auto split: if_splits)

text \<open>Both directions go by the length of the command line; the step on an option is the same.\<close>

lemma parse_flags_step:
  assumes "\<not> length a < 2" and "hd a = CHR ''-''" and "a \<noteq> ''--''"
  obtains d name where "d \<in> dashes" and "takeWhile (\<lambda>c. c \<noteq> CHR ''='') (option_body a) = name"
    and "(a = d @ name \<and> option_body a = name) \<or>
         (option_body a \<noteq> name \<and> a = d @ name @ ''='' @ drop (length name + 1) (option_body a))"
proof -
  define name where "name = takeWhile (\<lambda>c. c \<noteq> CHR ''='') (option_body a)"
  from assms obtain d where "d \<in> dashes" "a = d @ option_body a" by (auto elim: option_argument_split)
  with cut_at_equals [of "option_body a", folded name_def] that [of d name] show thesis
    unfolding name_def [symmetric] by metis
qed

lemma parse_flags_reads:
  "parse_flags f args = Inr g \<Longrightarrow> dom f = option_names \<Longrightarrow> command_line f args g"
proof (induction "length args" arbitrary: f args rule: less_induct)
  case less
  show ?case
  proof (cases args)
    case Nil
    with less(2) show ?thesis by (simp add: no_more)
  next
    case (Cons a rest)
    show ?thesis
    proof (cases "length a < 2 \<or> hd a \<noteq> CHR ''-'' \<or> a = ''--''")
      case True
      with less(2) Cons have "g = f" by (auto simp: parse_flags.simps(2) split: if_splits)
      moreover from True have "a = '''' \<or> a = ''-'' \<or> hd a \<noteq> CHR ''-'' \<or> a = ''--''" by (cases a; cases "tl a") auto
      ultimately show ?thesis using Cons by (auto intro: positional terminator)
    next
      case False
      then have long: "\<not> length a < 2" "hd a = CHR ''-''" and opt: "a \<noteq> ''--''" by simp_all
      obtain d name where d: "d \<in> dashes" and n: "takeWhile (\<lambda>c. c \<noteq> CHR ''='') (option_body a) = name"
        and a: "(a = d @ name \<and> option_body a = name) \<or>
           (option_body a \<noteq> name \<and> a = d @ name @ ''='' @ drop (length name + 1) (option_body a))"
        by (rule parse_flags_step [OF long opt])
      note p = less(2) [unfolded Cons parse_option [OF long opt] Let_def n]
      from p less(3) have name: "name \<in> option_names" by (auto split: if_splits)
      then have dom: "dom (f(name \<mapsto> v)) = option_names" for v using less(3) by auto
      show ?thesis
      proof (cases "option_body a = name")
        case True
        with p a obtain v rest' where r: "rest = v # rest'" "parse_flags (f(name \<mapsto> v)) rest' = Inr g"
          by (auto split: if_splits list.splits)
        from r(1) Cons have "length rest' < length args" by simp
        from separate [OF d name less(1) [OF this r(2) dom]] show ?thesis using a True r(1) Cons by simp
      next
        case False
        with p have "parse_flags (f(name \<mapsto> drop (length name + 1) (option_body a))) rest = Inr g"
          by (auto split: if_splits)
        from joined [OF d name less(1) [OF _ this dom]] show ?thesis using a False Cons by simp
      qed
    qed
  qed
qed

lemma command_line_parses:
  "command_line f args g \<Longrightarrow> dom f = option_names \<Longrightarrow> parse_flags f args = Inr g"
proof (induction rule: command_line.induct)
  case (positional a f args)
  then show ?case by (auto simp: parse_flags.simps(2))
next
  case (terminator f args)
  then show ?case by (simp add: parse_flags.simps(2))
next
  case (joined d name f v args g)
  note n = option_name_facts [OF joined(2)]
  have o: "name @ ''='' @ v \<noteq> []" "hd (name @ ''='' @ v) \<noteq> CHR ''-''" using n by simp_all
  have t: "takeWhile (\<lambda>c. c \<noteq> CHR ''='') (name @ ''='' @ v) = name"
    using n by (subst takeWhile_append2) auto
  have "f name \<noteq> None" "dom (f(name \<mapsto> v)) = option_names" using joined(2,5) by auto
  with joined.IH have "f name \<noteq> None" "parse_flags (f(name \<mapsto> v)) args = Inr g" by blast+
  then show ?case
    using n unfolding parse_option [OF option_argument(1-3) [OF joined(1) o]] option_argument(4) [OF joined(1) o] Let_def t
    by simp
next
  case (separate d name f v args g)
  note n = option_name_facts [OF separate(2)]
  have o: "name \<noteq> []" "hd name \<noteq> CHR ''-''" using n by simp_all
  have t: "takeWhile (\<lambda>c. c \<noteq> CHR ''='') name = name"
    using n by (auto simp: takeWhile_eq_all_conv)
  have "f name \<noteq> None" "dom (f(name \<mapsto> v)) = option_names" using separate(2,5) by auto
  with separate.IH have "f name \<noteq> None" "parse_flags (f(name \<mapsto> v)) args = Inr g" by blast+
  then show ?case
    using n unfolding parse_option [OF option_argument(1-3) [OF separate(1) o]] option_argument(4) [OF separate(1) o] Let_def t
    by simp
qed simp

lemma command_line_iff: "dom f = option_names \<Longrightarrow> parse_flags f args = Inr g \<longleftrightarrow> command_line f args g"
  using parse_flags_reads command_line_parses by blast

text \<open>The name in an argument is the one it was written with.\<close>

lemma given_name:
  assumes "gives names a" and "\<And>n. n \<in> names \<Longrightarrow> n \<noteq> [] \<and> hd n \<noteq> CHR ''-'' \<and> CHR ''='' \<notin> set n"
  shows "takeWhile (\<lambda>c. c \<noteq> CHR ''='') (option_body a) \<in> names" "hd (option_body a) \<noteq> CHR ''-''"
    "hd (option_body a) \<noteq> CHR ''=''"
proof -
  from assms(1) obtain d n where d: "d \<in> dashes" "n \<in> names" "a = d @ n \<or> (\<exists>v. a = d @ n @ ''='' @ v)"
    by (auto simp: gives_def)
  have n: "n \<noteq> []" "hd n \<noteq> CHR ''-''" "CHR ''='' \<notin> set n" using assms(2) [OF d(2)] by simp_all
  then have none: "x \<noteq> CHR ''=''" if "x \<in> set n" for x using that by blast
  have heq: "hd n \<noteq> CHR ''=''" using none n(1) by (cases n) simp_all
  have tw: "takeWhile (\<lambda>c. c \<noteq> CHR ''='') n = n" "takeWhile (\<lambda>c. c \<noteq> CHR ''='') (n @ ''='' @ v) = n" for v
    using none by (simp_all add: takeWhile_eq_all_conv takeWhile_append2)
  from d(3) obtain t where t: "a = d @ n @ t" "t = [] \<or> (\<exists>v. t = ''='' @ v)"
    by (metis append_Nil2)
  then have ob: "option_body a = n @ t"
    using option_argument(4) [OF d(1), of "n @ t"] n by simp
  show "takeWhile (\<lambda>c. c \<noteq> CHR ''='') (option_body a) \<in> names"
    using t(2) d(2) by (elim disjE exE) (simp_all only: ob tw append_Nil2)
  show "hd (option_body a) \<noteq> CHR ''-''" "hd (option_body a) \<noteq> CHR ''=''"
    using ob n(1,2) heq by (simp_all add: hd_append2)
qed

lemma parse_flags_refuses:
  "dom f = option_names \<Longrightarrow> parse_flags f args = Inl code \<Longrightarrow> refused args code"
proof (induction "length args" arbitrary: f args rule: less_induct)
  case less
  show ?case
  proof (cases args)
    case Nil
    with less(3) show ?thesis by simp
  next
    case (Cons a rest)
    show ?thesis
    proof (cases "length a < 2 \<or> hd a \<noteq> CHR ''-'' \<or> a = ''--''")
      case True
      with less(3) Cons show ?thesis by (auto simp: parse_flags.simps(2) split: if_splits)
    next
      case False
      then have long: "\<not> length a < 2" "hd a = CHR ''-''" and opt: "a \<noteq> ''--''" by simp_all
      obtain d name where d: "d \<in> dashes" and n: "takeWhile (\<lambda>c. c \<noteq> CHR ''='') (option_body a) = name"
        and a: "(a = d @ name \<and> option_body a = name) \<or>
           (option_body a \<noteq> name \<and> a = d @ name @ ''='' @ drop (length name + 1) (option_body a))"
        by (rule parse_flags_step [OF long opt])
      note p = less(3) [unfolded Cons parse_option [OF long opt] Let_def n]
      have dom: "f name \<noteq> None \<longleftrightarrow> name \<in> option_names" for name using less(2) by (auto simp: dom_def)
      have inner: "refused rest' code" if "parse_flags (f(name \<mapsto> v)) rest' = Inl code" "length rest' < length args"
        "name \<in> option_names" for v rest'
        using less(1) [OF that(2) _ that(1)] less(2) that(3) by auto
      have mine: "n \<noteq> [] \<and> hd n \<noteq> CHR ''-'' \<and> CHR ''='' \<notin> set n" if "n \<in> option_names \<union> {''h'', ''help''}" for n
        using that by (auto simp: option_names_def)
      have known: "name \<in> option_names \<union> {''h'', ''help''} \<and> hd (option_body a) \<notin> {CHR ''-'', CHR ''=''}"
        if "gives (option_names \<union> {''h'', ''help''}) a"
        using given_name [OF that mine] n by simp
      show ?thesis
      proof (cases "hd (option_body a) = CHR ''-'' \<or> hd (option_body a) = CHR ''='' \<or>
          name \<notin> option_names \<union> {''h'', ''help''}")
        case True
        with known have "\<not> gives (option_names \<union> {''h'', ''help''}) a" by blast
        moreover have "code = 2" using True p dom by (auto split: if_splits)
        ultimately show ?thesis unfolding Cons using long opt by (auto intro!: refused.unknown)
      next
        case False
        show ?thesis
        proof (cases "name \<in> option_names")
          case True
          then have "f name \<noteq> None" using dom by blast
          with False p have p': "(if name \<noteq> option_body a
              then parse_flags (f(name \<mapsto> drop (length name + 1) (option_body a))) rest
              else (case rest of [] \<Rightarrow> Inl 2 | v # r \<Rightarrow> parse_flags (f(name \<mapsto> v)) r)) = Inl code" by simp
          from a show ?thesis
          proof (elim disjE conjE)
            assume "a = d @ name" "option_body a = name"
            with p' d True inner Cons show ?thesis
              by (cases rest) (auto intro: refused.no_value refused.after_separate)
          next
            assume "option_body a \<noteq> name" and e: "a = d @ name @ ''='' @ drop (length name + 1) (option_body a)"
            with p' Cons inner [OF _ _ True, of _ rest] have "refused rest code" by simp
            from refused.after_joined [OF d True this] e show ?thesis unfolding Cons by metis
          qed
        next
          case other: False
          then have "name \<in> {''h'', ''help''}" using False by simp
          with d a have "gives {''h'', ''help''} a" unfolding gives_def by blast
          moreover have "code = 0" using other False p dom by (auto split: if_splits)
          ultimately show ?thesis unfolding Cons by (auto intro: refused.help_asked)
        qed
      qed
    qed
  qed
qed

section \<open>What the program does\<close>

inductive configured :: "string \<Rightarrow> nat \<Rightarrow> event list \<Rightarrow> bool" for path c where
  in_cluster: "configured path c [Control (InClusterConfig (Inr c))]"
| from_file: "configured path c [Control (InClusterConfig (Inl e)), Control (KubeConfig path (Inr c))]"

inductive start_failure :: "string \<Rightarrow> event list \<Rightarrow> bool" for path where
  no_config: "start_failure path [Control (InClusterConfig (Inl e)), Control (KubeConfig path (Inl e'))]"
| no_typed: "configured path c es \<Longrightarrow> start_failure path (es @ [Control (TypedClient c (Inl e))])"
| no_dynamic: "configured path c es \<Longrightarrow>
    start_failure path (es @ [Control (TypedClient c (Inr t)), Control (DynamicClient c (Inl e))])"

inductive connected :: "string \<Rightarrow> event list \<Rightarrow> bool" for path where
  "configured path c es \<Longrightarrow> connected path (es @ [Control (TypedClient c (Inr t)), Control (DynamicClient c (Inr d))])"

text \<open>
  \<open>program_outcome R getenv args es code\<close>: with the environment and the command line the
  program may do \<open>es\<close> and exit with \<open>code\<close>.
\<close>

inductive program_outcome ::
  "go_runtime \<Rightarrow> (string \<Rightarrow> string) \<Rightarrow> string list \<Rightarrow> event list \<Rightarrow> int \<Rightarrow> bool" for R getenv args where
  refused: "refused args code \<Longrightarrow> program_outcome R getenv args [] code"
| failed: "command_line (from_environment getenv) args settings \<Longrightarrow>
    start_failure (get_or_empty settings ''kubeconfig'') es \<Longrightarrow> program_outcome R getenv args es 1"
| drained: "command_line (from_environment getenv) args settings \<Longrightarrow>
    connected (get_or_empty settings ''kubeconfig'') es \<Longrightarrow>
    worker_history R (get_or_empty settings ''namespace'') n ws (Some None) \<Longrightarrow>
    program_outcome R getenv args (es @ ws) 0"
| cancelled: "command_line (from_environment getenv) args settings \<Longrightarrow>
    connected (get_or_empty settings ''kubeconfig'') es \<Longrightarrow>
    worker_history R (get_or_empty settings ''namespace'') n ws (Some (Some e)) \<Longrightarrow>
    program_outcome R getenv args (es @ ws @ [Control (CtxErr (Some e))]) 0"

lemma default_flags_eq: "default_flags getenv = from_environment getenv" "dom (from_environment getenv) = option_names"
  by (auto simp: default_flags_def from_environment_def option_names_def)

lemma loadConfig_adds:
  "adds (loadConfig P path) (\<lambda>r es. case r of
     Inl _ \<Rightarrow> (\<exists>e e'. es = [Control (InClusterConfig (Inl e)), Control (KubeConfig path (Inl e'))])
   | Inr c \<Rightarrow> configured path c es)"
  unfolding loadConfig_def
proof (rule adds_bind [OF adds_external], goal_cases)
  case (1 r es)
  then show ?case
    by (cases r) (auto split: sum.split intro!: adds_return adds_mono [OF adds_external] configured.intros)
qed

lemma connect_adds:
  "adds (connect P path) (\<lambda>r es. case r of Inl _ \<Rightarrow> start_failure path es | Inr _ \<Rightarrow> connected path es)"
  unfolding connect_def
proof (rule adds_bind [OF loadConfig_adds], goal_cases)
  case (1 r es)
  show ?case
  proof (cases r)
    case (Inl e)
    with 1 show ?thesis by (auto intro!: adds_return start_failure.no_config)
  next
    case (Inr c)
    with 1 have c: "configured path c es" by simp
    show ?thesis
      unfolding Inr sum.case
    proof (rule adds_bind [OF adds_external], goal_cases)
      case (1 t ts)
      then show ?case
        using c
        by (cases t) (auto split: sum.splits intro!: adds_return adds_bind [OF adds_external]
            start_failure.intros connected.intros)
    qed
  qed
qed


text \<open>
  C7. The whole program. A command line that is refused ends it with 2, or with 0 when the first
  option that is not one of its three asks for help, and nothing is done. Otherwise the settings are those of the
  environment, overridden by the options; when the program finds no configuration or cannot make a
  client of it, it exits with 1 and no item is touched; else it works through the items of the
  namespace in the settings until the queue shuts down or the context is cancelled, and exits with
  0. The worker has no way to fail, so the error exit after \<open>Run\<close> is never taken.
\<close>

theorem program_refines:
  assumes "fair_map_order (en_runtime X)" and "sticky_context A"
    and "main X P A getenv args w = Some (code, s)"
  shows "program_outcome (en_runtime X) getenv args (trace s) code"
proof (cases "parse_flags (default_flags getenv) args")
  case (Inl c)
  then have "refused args c" using parse_flags_refuses default_flags_eq by metis
  moreover have "code = c" "trace s = []" using Inl assms(3) by (auto simp: main_def first_state_def)
  ultimately show ?thesis using program_outcome.refused by simp
next
  case (Inr flags)
  then have line: "command_line (from_environment getenv) args flags"
    using command_line_iff [OF default_flags_eq(2)] by (simp add: default_flags_eq(1))
  let ?m = "\<lambda>K. operator X K getenv (get_or_empty flags ''namespace'')"
  obtain r s1 where c: "run_state (connect P (get_or_empty flags ''kubeconfig'')) (first_state w) = (r, s1)" by fastforce
  from addsD [OF connect_adds c] have start: "case r of
      Inl _ \<Rightarrow> start_failure (get_or_empty flags ''kubeconfig'') (trace s1)
    | Inr _ \<Rightarrow> connected (get_or_empty flags ''kubeconfig'') (trace s1)"
    by (auto simp: first_state_def)
  show ?thesis
  proof (cases r)
    case (Inl e)
    with assms(3) c start Inr show ?thesis
      by (auto simp: main_def intro: program_outcome.failed [OF line])
  next
    case K: (Inr K)
    with assms(3) c Inr obtain out s2 where run: "Run (?m K) A s1 = Some (out, s2)"
      by (auto simp: main_def split: option.splits)
    from Run_run_rounds [OF run] obtain n where n: "run_rounds n (?m K) A s1 = (Some out, s2)" by auto
    from rounds_refined [OF assms(1) n] obtain ws where ws: "trace s2 = trace s1 @ ws"
      "worker_history (en_runtime X) (get_or_empty flags ''namespace'') n ws (Some out)" by blast
    have conn: "connected (get_or_empty flags ''kubeconfig'') (trace s1)" using start K by simp
    show ?thesis
    proof (cases out)
      case None
      with assms(3) c K Inr run have "code = 0" "s = s2" by (simp_all add: main_def)
      then show ?thesis using program_outcome.drained [OF line conn] ws None by simp
    next
      case (Some e)
      from run_rounds_cancelled [OF assms(2)] n Some have "fst (ctx_err A (world s2)) = Some e" by blast
      with assms(3) c K Inr run Some have "code = 0" "trace s = trace s2 @ [Control (CtxErr (Some e))]"
        by (auto simp: main_def run_ctx_err_def split: prod.splits)
      then show ?thesis using program_outcome.cancelled [OF line conn] ws Some by simp
    qed
  qed
qed

definition sample_start :: "unit start_api" where
  "sample_start = \<lparr>in_cluster_config = (\<lambda>w. (Inl (Err ''not in a cluster''), w)), file_config = (\<lambda>p w. (Inr 1, w)),
     typed_client = (\<lambda>c w. (Inr 2, w)), dynamic_client = (\<lambda>c w. (Inr 3, w)), cluster_calls = (\<lambda>t d. sample_kube)\<rparr>"

lemma sample_run_drains: "run_rounds 1 m sample_run s = (Some None,
    s\<lparr>trace := trace s @ [Control (QueueGet (''team'', ''app'') True), Control QueueShutDown]\<rparr>)"
  by (simp add: run_pass_def run_defs sample_run_def)

lemmas sample_run_returns = run_rounds_Run [OF sample_run_drains]

theorem program_refines_witness:
  "\<exists>s. main (sample_env 200) sample_start sample_run (\<lambda>_. []) [''-namespace=team'', ''--log-level'', ''debug''] () = Some (0, s) \<and>
     program_outcome (en_runtime (sample_env 200)) (\<lambda>_. []) [''-namespace=team'', ''--log-level'', ''debug''] (trace s) 0"
proof -
  have "sticky_context sample_run" by (simp add: sticky_context_def sample_run_def)
  moreover obtain s where "main (sample_env 200) sample_start sample_run (\<lambda>_. [])
      [''-namespace=team'', ''--log-level'', ''debug''] () = Some (0, s)"
    by (simp add: main_def default_flags_def connect_def loadConfig_def sample_start_def sample_run_returns
        parse_flags.simps(2) option_body_def)
  ultimately show ?thesis using program_refines [OF sample_env_fair] by blast
qed

end
