(* ===== verification/Frame_Facts.thy ===== *)
theory Frame_Facts
  imports Wire Reconcile
begin

text \<open>
  What the operations leave alone. A view of the state that looks neither at the outside world nor
  at the trace is kept by every operation on the outside world; one that does not look at the
  caches of the client either is kept by every operation of the client. The manager's own maps are
  such a view.
\<close>

named_theorems keeps_rules "introduction rules for views that runs keep"

definition keeps :: "('s \<Rightarrow> 'v) \<Rightarrow> ('s, 'a) state \<Rightarrow> bool" where
  "keeps view m \<longleftrightarrow> (\<forall>s. view (snd (run_state m s)) = view s)"

lemma keepsD: "keeps view m \<Longrightarrow> run_state m s = (a, s') \<Longrightarrow> view s' = view s"
  unfolding keeps_def by (metis snd_conv)

lemma keeps_return [keeps_rules]: "keeps view (State_Monad.return a)"
  by (simp add: keeps_def)

lemma keeps_gets [keeps_rules]: "keeps view (gets f)"
  by (simp add: keeps_def)

lemma keeps_modify: "(\<And>s. view (f s) = view s) \<Longrightarrow> keeps view (modify f)"
  by (simp add: keeps_def)

lemma keeps_bind [keeps_rules]:
  "keeps view m \<Longrightarrow> (\<And>a. keeps view (f a)) \<Longrightarrow> keeps view (State_Monad.bind m f)"
  by (simp add: keeps_def split: prod.split) (metis fst_conv snd_conv surj_pair)

lemma keeps_if [keeps_rules]:
  "(b \<Longrightarrow> keeps view m) \<Longrightarrow> (\<not> b \<Longrightarrow> keeps view n) \<Longrightarrow> keeps view (if b then m else n)"
  by simp

lemma keeps_case_sum [keeps_rules]:
  "(\<And>e. r = Inl e \<Longrightarrow> keeps view (f e)) \<Longrightarrow> (\<And>x. r = Inr x \<Longrightarrow> keeps view (g x)) \<Longrightarrow>
   keeps view (case r of Inl e \<Rightarrow> f e | Inr x \<Rightarrow> g x)"
  by (cases r) simp_all

lemma keeps_case_option [keeps_rules]:
  "keeps view m \<Longrightarrow> (\<And>x. keeps view (g x)) \<Longrightarrow> keeps view (case r of None \<Rightarrow> m | Some x \<Rightarrow> g x)"
  by (cases r) simp_all

lemma keeps_case_list [keeps_rules]:
  "keeps view m \<Longrightarrow> (\<And>x xs. keeps view (g x xs)) \<Longrightarrow>
   keeps view (case r of [] \<Rightarrow> m | x # xs \<Rightarrow> g x xs)"
  by (cases r) simp_all

lemma keeps_case_prod [keeps_rules]:
  "(\<And>x y. keeps view (g x y)) \<Longrightarrow> keeps view (case r of (x, y) \<Rightarrow> g x y)"
  by (cases r) simp_all

lemma keeps_let [keeps_rules]: "(\<And>x. keeps view (g x)) \<Longrightarrow> keeps view (let x = v in g x)"
  by (simp add: Let_def)

section \<open>Operations on the outside world\<close>

locale outside_view =
  fixes view :: "('w, event, 'm) io_state_scheme \<Rightarrow> 'v"
  assumes outside: "view (s\<lparr>world := w, trace := t\<rparr>) = view s"
begin

lemma keeps_external: "keeps view (external call ev)"
  by (simp add: keeps_def outside split: prod.split)

lemma keeps_note_event [keeps_rules]: "keeps view (note_event e)"
proof -
  have "view (s\<lparr>trace := t\<rparr>) = view s" for s t
    using outside [where s = s and w = "world s" and t = t] by simp
  then show ?thesis by (simp add: keeps_def)
qed

lemma keeps_calls [keeps_rules]:
  "keeps view (kube_get_secret K ns n)" "keeps view (kube_create_secret K ns sec)"
  "keeps view (kube_update_secret K ns sec)" "keeps view (kube_get_resource K ns n)"
  "keeps view (kube_update_resource K ns j)" "keeps view (kube_update_status K ns j)"
  "keeps view (net_do N q)" "keeps view (net_now N)" "keeps view (crypto_seal C key keyId plain ad)"
  unfolding call_defs crypto_seal_def by (rule keeps_external)+

lemma keeps_log [keeps_rules]: "keeps view (net_log path st body)"
  unfolding net_log_def by (rule keeps_note_event)

lemma keeps_targets [keeps_rules]:
  "keeps view (target_sql_open T driver dsn)" "keeps view (target_sql_ping T db)"
  "keeps view (target_sql_exec T db stmt)" "keeps view (target_sql_close T db)"
  "keeps view (target_cql_connect T cl)" "keeps view (target_cql_query T n stmt)"
  "keeps view (target_cql_close T n)" "keeps view (target_redis_send T c args)"
  "keeps view (target_redis_close T c)" "keeps view (target_aws_load_config T region ac)"
  "keeps view (target_aws_do T cfg ca)" "keeps view (target_temp_create T pat)"
  "keeps view (target_temp_write T f t)" "keeps view (target_temp_close T f)"
  "keeps view (target_temp_remove T f)" "keeps view (target_random T)"
  unfolding target_defs by (rule keeps_external)+

lemma keeps_random_loop: "keeps view (random_loop T n k out)"
  by (induction T n k out rule: random_loop.induct) (auto intro!: keeps_rules)

lemma keeps_RandomString [keeps_rules]: "keeps view (RandomString T n)"
  unfolding RandomString_def by (rule keeps_random_loop)

lemma keeps_replace_random_loop: "keeps view (replace_random_loop T k source)"
proof (induction k arbitrary: source)
  case 0
  show ?case by (subst replace_random_loop.simps) (auto intro!: keeps_rules)
next
  case (Suc k)
  show ?case
    by (subst replace_random_loop.simps) (auto simp: Let_def intro!: keeps_rules Suc.IH)
qed

lemma keeps_RenderUsername [keeps_rules]: "keeps view (RenderUsername T N R template i n ty)"
  unfolding RenderUsername_def replaceRandomN_def by (intro keeps_rules keeps_replace_random_loop)

lemma keeps_exec_statements [keeps_rules]: "keeps view (exec_statements T db stmts)"
  by (induction stmts) (auto intro!: keeps_rules)

lemma keeps_sql [keeps_rules]:
  "keeps view (runSQL T driver dsn script)" "keeps view (writeTempCA T ca)" "keeps view (cleanup T f)"
  unfolding runSQL_def writeTempCA_def cleanup_def by (intro keeps_rules)+

lemma keeps_runPostgres [keeps_rules]: "keeps view (runPostgres T cfg script)"
  unfolding runPostgres_def postgresDSN_def by (intro keeps_rules)

lemma keeps_cql_statements [keeps_rules]: "keeps view (cql_statements T n stmts)"
  by (induction stmts) (auto intro!: keeps_rules)

lemma keeps_redis_lines [keeps_rules]: "keeps view (redis_lines T c ls)"
  by (induction ls) (auto simp: Let_def intro!: keeps_rules)

lemma keeps_delete_keys [keeps_rules]: "keeps view (delete_keys T cfg name ks)"
  by (induction ks) (auto intro!: keeps_rules)

lemma keeps_scripts [keeps_rules]:
  "keeps view (cassandra_run T cfg script)" "keeps view (redis_run T cfg script)"
  unfolding cassandra_run_def cassandraSession_def cassandra_connect_def cqlExec_def redis_run_def redisDo_def
  by (intro keeps_rules)+

lemma keeps_aws [keeps_rules]: "keeps view (aws_mint T R w)" "keeps view (aws_revoke T R w)"
  unfolding aws_mint_def mintSTS_def mintIAMUser_def iam_access_key_def aws_revoke_def aws_delete_user_def
    awsConfig_def
  by (intro keeps_rules)+

text \<open>Every provider there is.\<close>

lemma keeps_provider:
  assumes "Lookup T R p = Inr pr"
  shows "keeps view (Mint pr w)" "keeps view (Renew pr w)" "keeps view (Revoke pr w)"
  using assms
  by (auto simp: Lookup_def postgresProvider_def mysqlProvider_def oracleProvider_def cassandraProvider_def
      redisProvider_def awsProvider_def unavailableProvider_def intro!: keeps_rules
      split: if_splits)

lemma keeps_Apply:
  assumes "\<And>c. keeps view (complete c)"
  shows "keeps view (Apply X orgKey keyId item complete)"
  unfolding Apply_def apply_work_def work_username_def work_expiry_def run_action_def create_lease_def Let_def
  by (intro keeps_rules assms keeps_provider) assumption+

lemma keeps_credentials [keeps_rules]: "keeps view (credentials rc cr)"
  unfolding credentials_def credentialsFromSecret_def Let_def by (intro keeps_rules)

lemma keeps_applySecret [keeps_rules]: "keeps view (applySecret rc cr data ids)"
  unfolding applySecret_def Let_def by (intro keeps_rules)

lemma keeps_readLeaseIDs [keeps_rules]: "keeps view (readLeaseIDs rc cr)"
  unfolding readLeaseIDs_def by (intro keeps_rules)

end

text \<open>The caches of the client are such a view: no target and no call of the cluster touches them.\<close>

interpretation caches: outside_view "\<lambda>s. (tokens s, unwrap_keys s)"
  by unfold_locales simp

section \<open>Operations of the client\<close>

locale client_view = outside_view view
  for view :: "('w, event, 'm) client_state_scheme \<Rightarrow> 'v" +
  assumes tokens_unseen: "view (s\<lparr>tokens := ts\<rparr>) = view s"
    and keys_unseen: "view (s\<lparr>unwrap_keys := ks\<rparr>) = view s"
begin

lemma keeps_invalidate [keeps_rules]: "keeps view (invalidate i)"
  unfolding invalidate_def by (rule keeps_modify) (rule tokens_unseen)

lemma keeps_refused [keeps_rules]: "keeps view (refused creds path r)"
  unfolding refused_def logFailure_def by (intro keeps_rules)

lemma keeps_get [keeps_rules]: "keeps view (get X creds tok path what dec zero)"
  unfolding get_def by (intro keeps_rules)

lemma keeps_token [keeps_rules]: "keeps view (token X creds)"
  unfolding token_def new_token_def request_token_def logFailure_def
  by (intro keeps_rules keeps_modify tokens_unseen)

lemma keeps_openOrgKey [keeps_rules]: "keeps view (openOrgKey X creds keys wrapped)"
  unfolding openOrgKey_def deriveUnwrapKey_def by (intro keeps_rules keeps_modify keys_unseen)

lemma keeps_client_fetch: "keeps view (client_fetch X creds p env)"
  unfolding client_fetch_def decrypt_def by (intro keeps_rules)

lemma keeps_do_request [keeps_rules]: "keeps view (do_request X creds tok meth path payload)"
  unfolding do_request_def Let_def by (intro keeps_rules)

lemma keeps_do [keeps_rules]:
  "keeps view (do_ignore X creds tok meth path payload)"
  "keeps view (do_decode X creds tok meth path payload what dec zero)"
  unfolding do_ignore_def do_decode_def by (intro keeps_rules)+

lemma keeps_calls_api [keeps_rules]:
  "keeps view (client_machineKeys X creds tok)" "keeps view (bundleAndKeys X creds tok p env)"
  "keeps view (get_batch X creds tok path)"
  unfolding client_machineKeys_def bundleAndKeys_def get_batch_def by (intro keeps_rules)+

lemma keeps_applyItem [keeps_rules]: "keeps view (applyItem X creds tok orgKey keyId item)"
  unfolding applyItem_def complete_call_def by (intro keeps_Apply keeps_rules)

lemma keeps_apply_items [keeps_rules]: "keeps view (apply_items X creds tok orgKey keyId items)"
  by (induction items) (auto intro!: keeps_rules)

lemma keeps_work [keeps_rules]:
  "keeps view (applyOwnWork X creds tok orgKey)" "keeps view (applyLeaseWork X creds tok orgKey i)"
  "keeps view (revokeOne X creds tok keys i)"
  unfolding applyOwnWork_def applyLeaseWork_def revokeOne_def client_orgKey_def by (intro keeps_rules)+

lemma keeps_revoke_each [keeps_rules]: "keeps view (revoke_each X creds tok keys ids)"
  by (induction ids) (auto intro!: keeps_rules)

lemma keeps_RevokeLeases [keeps_rules]: "keeps view (client_RevokeLeases X creds ids)"
  unfolding client_RevokeLeases_def by (intro keeps_rules)

lemma keeps_ensureLease [keeps_rules]: "keeps view (ensureLease X creds tok orgKey p env hint i)"
  unfolding ensureLease_def readMinted_def mint_lease_def by (intro keeps_rules)

lemma keeps_ensure_all [keeps_rules]: "keeps view (ensure_all X creds tok orgKey p env existing hints out leases)"
  by (induction hints arbitrary: out leases) (auto intro!: keeps_rules)

lemma keeps_SyncDynamic: "keeps view (client_SyncDynamic X creds p env existing)"
  unfolding client_SyncDynamic_def sync_leases_def client_orgKey_def by (intro keeps_rules)

lemma keeps_fetcher [keeps_rules]:
  "keeps view (Fetch (client_fetcher X) c p env)" "keeps view (SyncDynamic (client_dynamic X) c p env ids)"
  "keeps view (RevokeLeases (client_dynamic X) c leases)"
  unfolding client_fetcher_def client_dynamic_def fetcher.simps dynamic_fetcher.simps
  by (intro keeps_client_fetch keeps_SyncDynamic keeps_rules)+

end

end
