(* ===== verification/Interleaving.thy ===== *)
theory Interleaving
  imports Run_Facts Frame_Facts
begin

text \<open>
  Worker and watch run side by side. What they share are the two maps behind the mutex of the
  manager and the outside world, so the steps of the interleaving are the worker's, cut where it
  takes the mutex, and the handling of one event of the watch, which takes it once.
\<close>

section \<open>The worker in steps\<close>

text \<open>The handling of an item up to the status write: its delay, or what \<open>updateStatus\<close> is called with.\<close>

definition until_status ::
  "('w, 'm) manager \<Rightarrow> queue_item \<Rightarrow> ('w, 'm, duration + (json \<times> kryptic_secret \<times> result)) manager_io" where
  "until_status m item =
     (if \<not> accepts m (fst item) then State_Monad.return (Inl 0)
      else do {
        got \<leftarrow> kube_get_resource (rc_kube (mg_reconciler m)) (fst item) (snd item);
        case got of
          Inl _ \<Rightarrow> State_Monad.return (Inl 0)
        | Inr raw \<Rightarrow>
            (case fromUnstructured (rc_runtime (mg_reconciler m)) raw of
               None \<Rightarrow> State_Monad.return (Inl minute)
             | Some cr \<Rightarrow>
                 if being_deleted cr then do {
                   d \<leftarrow> finalize_resource m raw cr;
                   State_Monad.return (Inl d)
                 }
                 else do {
                   held \<leftarrow> (if hasFinalizer cr then State_Monad.return None else setFinalizer m raw cr True);
                   case held of
                     Some _ \<Rightarrow> State_Monad.return (Inl retry_soon)
                   | None \<Rightarrow> do {
                       r \<leftarrow> Reconcile (mg_reconciler m) cr;
                       State_Monad.return
                         (if statusUnchanged cr r then Inl (rs_requeueAfter r) else Inr (raw, cr, r))
                     }
                 })
      })"

lemma reconcileOne_until_status:
  "reconcileOne m item = do {
     x \<leftarrow> until_status m item;
     case x of
       Inl d \<Rightarrow> State_Monad.return d
     | Inr (raw, cr, r) \<Rightarrow> do {
         _ \<leftarrow> updateStatus m raw cr r;
         State_Monad.return (rs_requeueAfter r)
       }
   }"
  by (rule state_ext)
    (simp add: reconcileOne_def until_status_def sync_resource_def reconcile_and_report_def
      split: prod.split sum.split option.split)

datatype phase =
    Idle
  | Taken queue_item
  | Reporting queue_item json kryptic_secret result
  | Marked queue_item json kryptic_secret result json \<comment> \<open>with the status to write\<close>
  | Answered queue_item kryptic_secret result "goerr + json"
  | Remembered queue_item kryptic_secret result
  | Finishing queue_item duration

definition begin_status_write :: "('w, 'm) manager \<Rightarrow> queue_item \<Rightarrow> ('w, 'm, time) manager_io" where
  "begin_status_write m item = do {
     now \<leftarrow> net_now (mg_net m);
     markStatusWriteInFlight item;
     State_Monad.return now
   }"

definition finish_item :: "'w run_api \<Rightarrow> queue_item \<Rightarrow> duration \<Rightarrow> ('w, 'm, unit) manager_io" where
  "finish_item A item d = do {
     run_queue_done A item;
     (if 0 < d then run_queue_add_after A item d else State_Monad.return ())
   }"

text \<open>
  Steps of the worker, of the watch, and of everything else in the world. Between two steps of the
  worker where it takes the mutex it does not look at the maps, so nothing is lost by making each
  such stretch one step.
\<close>

inductive manager_step ::
  "('w, 'm) manager \<Rightarrow> 'w run_api \<Rightarrow> phase \<times> ('w, event, 'm) manager_state_scheme
     \<Rightarrow> phase \<times> ('w, event, 'm) manager_state_scheme \<Rightarrow> bool" for m A where
  outside: "manager_step m A (p, s) (p, s\<lparr>world := w\<rparr>)"
| watched: "run_state (watch_received m A kind obj) s = (u, s') \<Longrightarrow> manager_step m A (p, s) (p, s')"
| takes: "run_state (run_queue_get A) s = ((item, False), s') \<Longrightarrow> manager_step m A (Idle, s) (Taken item, s')"
| handles: "run_state (until_status m item) s = (Inl d, s') \<Longrightarrow>
    manager_step m A (Taken item, s) (Finishing item d, s')"
| reports: "run_state (until_status m item) s = (Inr (raw, cr, r), s') \<Longrightarrow>
    manager_step m A (Taken item, s) (Reporting item raw cr r, s')"
| marks: "run_state (begin_status_write m (cr_namespace cr, cr_name cr)) s = (now, s') \<Longrightarrow>
    manager_step m A (Reporting item raw cr r, s) (Marked item raw cr r (status_json cr r now), s')"
| writes: "run_state (write_status (rc_kube (mg_reconciler m)) (cr_namespace cr) (cr_name cr) st raw) s = (a, s') \<Longrightarrow>
    manager_step m A (Marked item raw cr r st, s) (Answered item cr r a, s')"
| remembers: "run_state (rememberStatusWrite (cr_namespace cr, cr_name cr) (GetResourceVersion w)) s = (u, s') \<Longrightarrow>
    manager_step m A (Answered item cr r (Inr w), s) (Remembered item cr r, s')"
| fails: "manager_step m A (Answered item cr r (Inl e), s) (Remembered item cr r, s)"
| clears: "run_state (clearStatusWriteInFlight (cr_namespace cr, cr_name cr)) s = (u, s') \<Longrightarrow>
    manager_step m A (Remembered item cr r, s) (Finishing item (rs_requeueAfter r), s')"
| finishes: "run_state (finish_item A item d) s = (u, s') \<Longrightarrow> manager_step m A (Finishing item d, s) (Idle, s')"

section \<open>The worker alone takes these steps\<close>

lemma manager_steps_result:
  "(manager_step m A)\<^sup>*\<^sup>* (Taken item, s)
     (Finishing item (fst (run_state (reconcileOne m item) s)), snd (run_state (reconcileOne m item) s))"
proof -
  obtain x s1 where u: "run_state (until_status m item) s = (x, s1)" by fastforce
  show ?thesis
  proof (cases x)
    case (Inl d)
    then show ?thesis using u by (auto simp: reconcileOne_until_status intro: r_into_rtranclp manager_step.handles)
  next
    case (Inr y)
    obtain raw cr r where y: "y = (raw, cr, r)" by (cases y)
    let ?key = "(cr_namespace cr, cr_name cr)"
    obtain now s2 where b: "run_state (begin_status_write m ?key) s1 = (now, s2)" by fastforce
    obtain a s3 where w: "run_state (write_status (rc_kube (mg_reconciler m)) (cr_namespace cr) (cr_name cr)
        (status_json cr r now) raw) s2 = (a, s3)" by fastforce
    let ?s4 = "case a of Inl e \<Rightarrow> s3
      | Inr w \<Rightarrow> snd (run_state (rememberStatusWrite ?key (GetResourceVersion w)) s3)"
    let ?s5 = "snd (run_state (clearStatusWriteInFlight ?key) ?s4)"
    have "manager_step m A (Answered item cr r a, s3) (Remembered item cr r, ?s4)"
      by (cases a) (auto intro: manager_step.fails manager_step.remembers prod.collapse [symmetric])
    note remembered = this
    have cleared: "manager_step m A (Remembered item cr r, ?s4) (Finishing item (rs_requeueAfter r), ?s5)"
      by (rule manager_step.clears) (rule prod.collapse [symmetric])
    have "(manager_step m A)\<^sup>*\<^sup>* (Taken item, s) (Finishing item (rs_requeueAfter r), ?s5)"
      by (rule converse_rtranclp_into_rtranclp, rule manager_step.reports [OF u [unfolded Inr y]],
          rule converse_rtranclp_into_rtranclp, rule manager_step.marks [OF b],
          rule converse_rtranclp_into_rtranclp, rule manager_step.writes [OF w],
          rule converse_rtranclp_into_rtranclp, rule remembered, rule r_into_rtranclp, rule cleared)
    moreover have "run_state (reconcileOne m item) s = (rs_requeueAfter r, ?s5)"
      using u b w
      by (cases a) (auto simp: reconcileOne_until_status Inr y updateStatus_def begin_status_write_def Let_def split: prod.splits)
    ultimately show ?thesis by simp
  qed
qed

end
