(* ===== verification/Time_Facts.thy ===== *)
theory Time_Facts
  imports Go_Time Json_Facts
begin

text \<open>
  The calendar of \<open>time.RFC3339\<close>: the dates written are dates of the calendar, and reading a
  time stamp gives the time it was written for, to the second.
\<close>

section \<open>Calendar\<close>

text \<open>
  A day of a 400-year era as century, four-year cycle, year and day of the year, years starting in
  March so that the day added in a leap year comes last.
\<close>

lemma era_day:
  assumes "0 \<le> doe" and "doe < 146097"
  obtains c q p doy :: int where "doe = 36524 * c + 1461 * q + 365 * p + doy"
    and "0 \<le> c" "c \<le> 3" "0 \<le> q" "q \<le> 24" "0 \<le> p" "p \<le> 3" "0 \<le> doy" "doy \<le> 365"
    and "doy = 365 \<Longrightarrow> p = 3 \<and> (q < 24 \<or> c = 3)"
proof -
  define c where "c = min (doe div 36524) 3"
  define r where "r = doe - 36524 * c"
  have c: "0 \<le> c" "c \<le> 3" using assms by (auto simp: c_def pos_imp_zdiv_nonneg_iff)
  have r: "0 \<le> r" "r \<le> 36524" "c < 3 \<Longrightarrow> r < 36524"
  proof -
    have "36524 * (doe div 36524) \<le> doe" "doe < 36524 * (doe div 36524) + 36524"
      using div_mult_mod_eq [of doe 36524] pos_mod_sign [of 36524 doe] pos_mod_bound [of 36524 doe] by linarith+
    then show "0 \<le> r" "r \<le> 36524" "c < 3 \<Longrightarrow> r < 36524"
      using assms unfolding r_def c_def by (auto simp: min_def split: if_splits)
  qed
  define q where "q = r div 1461"
  define s where "s = r mod 1461"
  have q: "r = 1461 * q + s" "0 \<le> s" "s \<le> 1460" unfolding q_def s_def
    using pos_mod_sign [of 1461 r] pos_mod_bound [of 1461 r] by simp_all
  have q': "0 \<le> q" "q \<le> 24" using q r(1,2) by linarith+
  define p where "p = min (s div 365) 3"
  define d where "d = s - 365 * p"
  have p: "0 \<le> p" "p \<le> 3" using q(2) by (auto simp: p_def pos_imp_zdiv_nonneg_iff)
  have d: "0 \<le> d" "d \<le> 365" "p < 3 \<Longrightarrow> d < 365"
  proof -
    have "365 * (s div 365) \<le> s" "s < 365 * (s div 365) + 365"
      using div_mult_mod_eq [of s 365] pos_mod_sign [of 365 s] pos_mod_bound [of 365 s] by linarith+
    then show "0 \<le> d" "d \<le> 365" "p < 3 \<Longrightarrow> d < 365"
      using q(2,3) unfolding d_def p_def by (auto simp: min_def split: if_splits)
  qed
  have e: "doe = 36524 * c + 1461 * q + 365 * p + d" using q(1) by (simp add: r_def d_def)
  have leap: "p = 3 \<and> (q < 24 \<or> c = 3)" if "d = 365"
  proof -
    have "p = 3" using that d(3) p(2) by linarith
    moreover have "q < 24 \<or> c = 3"
    proof (rule ccontr)
      assume "\<not> (q < 24 \<or> c = 3)"
      then have "q = 24" "r < 36524" using q'(2) c(2) r(3) by linarith+
      with q(1) that \<open>p = 3\<close> d_def show False by linarith
    qed
    ultimately show ?thesis ..
  qed
  from that [OF e c q' p d(1,2) leap] show thesis .
qed

lemma year_of_era:
  fixes c q p doy :: int
  assumes "0 \<le> c" "c \<le> 3" "0 \<le> q" "q \<le> 24" "0 \<le> p" "p \<le> 3" "0 \<le> doy" "doy \<le> 365"
    and leap: "doy = 365 \<Longrightarrow> p = 3 \<and> (q < 24 \<or> c = 3)"
    and doe: "doe = 36524 * c + 1461 * q + 365 * p + doy"
  shows "(doe - doe div 1460 + doe div 36524 - doe div 146096) div 365 = 100 * c + 4 * q + p"
proof -
  define e where "e = (if 1460 \<le> 24 * c + q + 365 * p + doy then 1 else 0 :: int)"
  have a: "doe div 1460 = 25 * c + q + e"
  proof (rule int_div_pos_eq)
    show "doe = 1460 * (25 * c + q + e) + (24 * c + q + 365 * p + doy - 1460 * e)" by (simp add: doe)
  qed (use assms(1-8) in \<open>auto simp: e_def split: if_splits\<close>)
  have b: "doe div 36524 - doe div 146096 = c"
  proof (cases "c = 3 \<and> q = 24 \<and> p = 3 \<and> doy = 365")
    case True
    then show ?thesis by (simp add: doe)
  next
    case False
    have m: "1461 * q + 365 * p + doy < 36524"
    proof (cases "doy = 365")
      case True
      with leap False have "q < 24" using assms(4) by auto
      then show ?thesis using assms(6,8) by linarith
    next
      case F: False
      then show ?thesis using assms(4,6,8) by linarith
    qed
    have "doe div 36524 = c"
      by (rule int_div_pos_eq [of _ _ _ "1461 * q + 365 * p + doy"]) (use m assms in auto)
    moreover have "doe div 146096 = 0"
      by (rule div_pos_pos_trivial) (use m assms(1-8) doe in auto)
    ultimately show ?thesis by simp
  qed
  have "doe - A + B - C = 365 * (100 * c + 4 * q + p) + (doy - e)"
    if "A = 25 * c + q + e" "B - C = c" for A B C
  proof -
    from that(2) have "B = c + C" by simp
    then show ?thesis unfolding that(1) doe by simp
  qed
  from this [OF a b] have "doe - doe div 1460 + doe div 36524 - doe div 146096
      = 365 * (100 * c + 4 * q + p) + (doy - e)" .
  moreover have "0 \<le> doy - e" "doy - e < 365"
  proof -
    show "0 \<le> doy - e" using assms(1-8) by (auto simp: e_def)
    show "doy - e < 365"
    proof (cases "doy = 365")
      case True
      with leap have "e = 1" using assms(1-8) by (auto simp: e_def)
      with True show ?thesis by simp
    next
      case False
      with assms(8) show ?thesis by (auto simp: e_def)
    qed
  qed
  ultimately show ?thesis by (intro int_div_pos_eq)
qed

text \<open>The day of an era whose years are counted from March, and its year and day.\<close>

definition era_year :: "int \<Rightarrow> int" where
  "era_year doe = (doe - doe div 1460 + doe div 36524 - doe div 146096) div 365"

definition year_day :: "int \<Rightarrow> int" where
  "year_day doe = doe - (365 * era_year doe + era_year doe div 4 - era_year doe div 100)"

lemma era_bounds:
  assumes "0 \<le> doe" and "doe < 146097"
  shows "0 \<le> era_year doe" and "era_year doe < 400" and "0 \<le> year_day doe" and "year_day doe \<le> 365"
    and "year_day doe = 365 \<Longrightarrow> leap_year (era_year doe + 1 + k * 400)"
proof -
  obtain c q p doy where d: "doe = 36524 * c + 1461 * q + 365 * p + doy"
    and b: "0 \<le> c" "c \<le> 3" "0 \<le> q" "q \<le> 24" "0 \<le> p" "p \<le> 3" "0 \<le> doy" "doy \<le> 365"
    and l: "doy = 365 \<Longrightarrow> p = 3 \<and> (q < 24 \<or> c = 3)"
    using era_day [OF assms] by metis
  have y: "era_year doe = 100 * c + 4 * q + p"
    unfolding era_year_def by (rule year_of_era [OF b l d])
  have "(100 * c + 4 * q + p) div 4 = 25 * c + q" by (rule int_div_pos_eq [of _ _ _ p]) (use b in auto)
  moreover have "(100 * c + 4 * q + p) div 100 = c"
    by (rule int_div_pos_eq [of _ _ _ "4 * q + p"]) (use b in auto)
  ultimately have yd: "year_day doe = doy" unfolding year_day_def y using d by simp
  show "0 \<le> era_year doe" "era_year doe < 400" unfolding y using b by linarith+
  show "0 \<le> year_day doe" "year_day doe \<le> 365" unfolding yd using b by linarith+
  show "leap_year (era_year doe + 1 + k * 400)" if "year_day doe = 365"
  proof -
    from that l have p: "p = 3" and qc: "q < 24 \<or> c = 3" by (simp_all add: yd)
    have e: "era_year doe + 1 + k * 400 = 100 * (c + 4 * k) + 4 * (q + 1)" unfolding y p by simp
    show ?thesis
    proof (cases "q < 24")
      case True
      have "(100 * (c + 4 * k) + 4 * (q + 1)) mod 4 = 0" by presburger
      moreover have "(100 * (c + 4 * k) + 4 * (q + 1)) mod 100 = 4 * (q + 1)"
      proof -
        have g: "(100 * x + z) mod 100 = z" if "0 \<le> z" "z < 100" for x z :: int using that by simp
        show ?thesis by (rule g) (use True b(3) in auto)
      qed
      ultimately show ?thesis unfolding leap_year_def e using True b(3) by simp
    next
      case False
      with qc b have "q = 24" "c = 3" by simp_all
      then have "era_year doe + 1 + k * 400 = 400 * (k + 1)" unfolding e by simp
      then show ?thesis unfolding leap_year_def by simp
    qed
  qed
qed

text \<open>Month and day of the month, from the day of a year that starts in March.\<close>

lemma month_day:
  fixes doy :: int
  assumes "0 \<le> doy" and "doy \<le> 365"
  defines "mp \<equiv> (5 * doy + 2) div 153"
  shows "0 \<le> mp" "mp \<le> 11" "1 \<le> doy - (153 * mp + 2) div 5 + 1"
    and "doy - (153 * mp + 2) div 5 + 1 \<le> (if mp = 11 then (if doy = 365 then 29 else 28)
           else if mp \<in> {1, 3, 6, 8} then 30 else 31)"
proof -
  have m: "153 * mp \<le> 5 * doy + 2" "5 * doy + 2 < 153 * mp + 153"
    unfolding mp_def using div_mult_mod_eq [of "5 * doy + 2" 153]
      pos_mod_sign [of 153 "5 * doy + 2"] pos_mod_bound [of 153 "5 * doy + 2"] by linarith+
  show r: "0 \<le> mp" "mp \<le> 11" using m assms(1,2) by linarith+
  then have "mp = 0 \<or> mp = 1 \<or> mp = 2 \<or> mp = 3 \<or> mp = 4 \<or> mp = 5 \<or> mp = 6 \<or> mp = 7 \<or> mp = 8
      \<or> mp = 9 \<or> mp = 10 \<or> mp = 11" by presburger
  then have "1 \<le> doy - (153 * mp + 2) div 5 + 1 \<and> doy - (153 * mp + 2) div 5 + 1 \<le> (if mp = 11 then (if doy = 365 then 29 else 28)
           else if mp \<in> {1, 3, 6, 8} then 30 else 31)"
    using m assms(1,2) by (elim disjE) auto
  then show "1 \<le> doy - (153 * mp + 2) div 5 + 1"
    "doy - (153 * mp + 2) div 5 + 1 \<le> (if mp = 11 then (if doy = 365 then 29 else 28)
           else if mp \<in> {1, 3, 6, 8} then 30 else 31)" by blast+
qed

lemma civil_of_days_eq:
  "civil_of_days z = (let era = (z + 719468) div 146097; doe = (z + 719468) mod 146097;
       doy = year_day doe; mp = (5 * doy + 2) div 153; m = (if mp < 10 then mp + 3 else mp - 9)
     in (era_year doe + era * 400 + (if m \<le> 2 then 1 else 0), m, doy - (153 * mp + 2) div 5 + 1))"
  unfolding civil_of_days_def era_year_def year_day_def Let_def by (rule refl)

text \<open>The date of a day is a date of the calendar, and that date is the day.\<close>

lemma civil_of_days_valid:
  assumes "civil_of_days z = (y, m, d)"
  shows "1 \<le> m" "m \<le> 12" "1 \<le> d" "d \<le> days_in m y" and "days_of_civil y m d = z"
proof -
  define era doe where "era = (z + 719468) div 146097" and "doe = (z + 719468) mod 146097"
  define doy where "doy = year_day doe"
  define mp where "mp = (5 * doy + 2) div 153"
  have doe: "0 \<le> doe" "doe < 146097" by (simp_all add: doe_def)
  note e = era_bounds [OF doe, folded doy_def]
  note md = month_day [OF e(3,4), folded mp_def]
  from assms have y: "y = era_year doe + era * 400 + (if m \<le> 2 then 1 else 0)"
    and m: "m = (if mp < 10 then mp + 3 else mp - 9)" and d: "d = doy - (153 * mp + 2) div 5 + 1"
    unfolding civil_of_days_eq Let_def doe_def [symmetric] era_def [symmetric] doy_def [symmetric]
      mp_def [symmetric] by blast+
  show "1 \<le> m" "m \<le> 12" using md(1,2) by (simp_all add: m)
  show "1 \<le> d" using md(3) by (simp add: d)
  show "d \<le> days_in m y"
  proof (cases "mp = 11")
    case True
    then have "m = 2" "y = era_year doe + 1 + era * 400" by (simp_all add: m y)
    with md(4) e(5) [of era] True show ?thesis by (auto simp: d days_in_def split: if_splits)
  next
    case False
    then have "m \<noteq> 2" "m \<in> {4, 6, 9, 11} \<longleftrightarrow> mp \<in> {1, 3, 6, 8}" using md(1,2) by (auto simp: m)
    with md(4) False show ?thesis by (auto simp: d days_in_def split: if_splits)
  qed
  show "days_of_civil y m d = z"
  proof -
    have "(if m > 2 then m - 3 else m + 9) = mp" using md(1,2) by (auto simp: m)
    moreover have "(if m \<le> 2 then y - 1 else y) = era_year doe + era * 400" by (simp add: y)
    moreover have "(era_year doe + era * 400) div 400 = era" "(era_year doe + era * 400) mod 400 = era_year doe"
      using e(1,2) by simp_all
    ultimately have "days_of_civil y m d
        = era * 146097 + (era_year doe * 365 + era_year doe div 4 - era_year doe div 100
            + ((153 * mp + 2) div 5 + d - 1)) - 719468"
      unfolding days_of_civil_def Let_def by simp
    also have "\<dots> = era * 146097 + doe - 719468" by (simp add: d doy_def year_day_def)
    also have "\<dots> = z" using div_mult_mod_eq [of "z + 719468" 146097] by (simp add: era_def doe_def)
    finally show ?thesis .
  qed
qed

section \<open>Digits\<close>

definition digit :: "int \<Rightarrow> char" where
  "digit n = char_of (48 + nat n)"

lemma digit_simps:
  assumes "0 \<le> n" and "n < 10"
  shows "is_digit (digit n)" and "digit_value (digit n) = n"
  using assms is_digit_char [of "nat n"] digit_value_char [of "nat n"] by (simp_all add: digit_def nat_less_iff)

lemma digit_not_zero_char: "n < 10 \<Longrightarrow> nat_digits n = [char_of (48 + n)]"
  by (subst nat_digits.simps) simp

lemma nat_digits_snoc: "10 \<le> n \<Longrightarrow> nat_digits n = nat_digits (n div 10) @ [char_of (48 + n mod 10)]"
  by (subst nat_digits.simps) simp

lemma zero_digit: "char_of (48 :: nat) = CHR ''0''"
  by (rule char_literal) simp_all

lemma nat_digits_pad:
  "n < 100 \<Longrightarrow> replicate (2 - length (nat_digits n)) CHR ''0'' @ nat_digits n
     = [char_of (48 + n div 10), char_of (48 + n mod 10)]"
proof (cases "n < 10")
  case True
  then have "n div 10 = 0" "n mod 10 = n" by simp_all
  with True show ?thesis by (simp add: digit_not_zero_char zero_digit)
next
  case False
  assume "n < 100"
  then have "n div 10 < 10" by auto
  with False show ?thesis by (simp add: digit_not_zero_char nat_digits_snoc)
qed

lemma div_tens: "n div 10 div 10 = n div (100 :: nat)" "n div 100 div 10 = n div (1000 :: nat)"
  by (simp_all add: div_mult2_eq [symmetric])

lemma nat_digits_few:
  "n < 10 \<Longrightarrow> nat_digits n = [char_of (48 + n)]"
  "10 \<le> n \<Longrightarrow> n < 100 \<Longrightarrow> nat_digits n = [char_of (48 + n div 10), char_of (48 + n mod 10)]"
  "100 \<le> n \<Longrightarrow> n < 1000 \<Longrightarrow> nat_digits n
     = [char_of (48 + n div 100), char_of (48 + n div 10 mod 10), char_of (48 + n mod 10)]"
  "1000 \<le> n \<Longrightarrow> n < 10000 \<Longrightarrow> nat_digits n
     = [char_of (48 + n div 1000), char_of (48 + n div 100 mod 10), char_of (48 + n div 10 mod 10), char_of (48 + n mod 10)]"
proof -
  show one: "nat_digits n = [char_of (48 + n)]" if "n < 10" for n using that by (rule digit_not_zero_char)
  show two: "nat_digits n = [char_of (48 + n div 10), char_of (48 + n mod 10)]" if "10 \<le> n" "n < 100" for n
    using that one [of "n div 10"] nat_digits_snoc [of n] less_mult_imp_div_less [of n 10 10] by simp
  show three: "nat_digits n = [char_of (48 + n div 100), char_of (48 + n div 10 mod 10), char_of (48 + n mod 10)]"
    if "100 \<le> n" "n < 1000" for n
  proof -
    have "10 \<le> n div 10" "n div 10 < 100" using that by auto
    from two [OF this] nat_digits_snoc [of n] that show ?thesis by (simp add: div_tens)
  qed
  show "nat_digits n
     = [char_of (48 + n div 1000), char_of (48 + n div 100 mod 10), char_of (48 + n div 10 mod 10), char_of (48 + n mod 10)]"
    if "1000 \<le> n" "n < 10000" for n
  proof -
    have "100 \<le> n div 10" "n div 10 < 1000" using that by auto
    from three [OF this] nat_digits_snoc [of n] that
    show ?thesis by (simp add: div_tens div_mult2_eq [of n 10 100, simplified, symmetric])
  qed
qed

lemma padding:
  "replicate (4 - length [a]) z = [z, z, z]" "replicate (4 - length [a, b]) z = [z, z]"
  "replicate (4 - length [a, b, c]) z = [z]" "replicate (4 - length [a, b, c, d]) z = []"
  by (simp_all add: numeral_eq_Suc)

lemma nat_digits_pad4:
  assumes "n < 10000"
  shows "replicate (4 - length (nat_digits n)) CHR ''0'' @ nat_digits n
     = [char_of (48 + n div 1000), char_of (48 + n div 100 mod 10), char_of (48 + n div 10 mod 10), char_of (48 + n mod 10)]"
proof -
  consider "n < 10" | "10 \<le> n" "n < 100" | "100 \<le> n" "n < 1000" | "1000 \<le> n" by linarith
  then show ?thesis
  proof cases
    case 1
    then have "n div 10 = 0" "n div 100 = 0" "n div 1000 = 0" "n mod 10 = n" by simp_all
    then show ?thesis unfolding nat_digits_few(1) [OF 1] padding by (simp add: zero_digit)
  next
    case 2
    then have "n div 10 < 10" by auto
    then have "n div 10 mod 10 = n div 10" "n div 100 = 0" "n div 1000 = 0" using 2 by simp_all
    then show ?thesis unfolding nat_digits_few(2) [OF 2] padding by (simp add: zero_digit)
  next
    case 3
    then have "n div 100 < 10" by auto
    then have "n div 100 mod 10 = n div 100" "n div 1000 = 0" using 3 by simp_all
    then show ?thesis unfolding nat_digits_few(3) [OF 3] padding by (simp add: zero_digit)
  next
    case 4
    show ?thesis unfolding nat_digits_few(4) [OF 4 assms] padding by simp
  qed
qed

lemma append_int_2: "0 \<le> x \<Longrightarrow> x < 100 \<Longrightarrow> append_int x 2 = [digit (x div 10), digit (x mod 10)]"
  using nat_digits_pad [of "nat x"]
  by (simp add: append_int_def Let_def digit_def nat_div_distrib nat_mod_distrib nat_less_iff)

lemma append_int_4: "0 \<le> x \<Longrightarrow> x < 10000 \<Longrightarrow> append_int x 4
    = [digit (x div 1000), digit (x div 100 mod 10), digit (x div 10 mod 10), digit (x mod 10)]"
  using nat_digits_pad4 [of "nat x"]
  by (simp add: append_int_def Let_def digit_def nat_div_distrib nat_mod_distrib nat_less_iff)

lemma two_digits_back: "0 \<le> x \<Longrightarrow> x < 100 \<Longrightarrow> two_digits (append_int x 2 @ u) = Some (x, u)"
  by (simp add: append_int_2 two_digits_def digit_simps)

lemma hour_digits_back: "0 \<le> x \<Longrightarrow> x < 100 \<Longrightarrow> hour_digits (append_int x 2 @ u) = Some (x, u)"
  by (simp add: append_int_2 hour_digits_def digit_simps)

lemma four_digits_back: "0 \<le> x \<Longrightarrow> x < 10000 \<Longrightarrow> four_digits (append_int x 4 @ u) = Some (x, u)"
proof -
  assume x: "0 \<le> x" "x < 10000"
  then have b: "0 \<le> x div 1000" "x div 1000 < 10" by (auto simp: pos_imp_zdiv_nonneg_iff)
  have e: "10 * (10 * (10 * (x div 1000) + x div 100 mod 10) + x div 10 mod 10) + x mod 10 = x"
  proof -
    have a: "x div 100 = x div 10 div 10" "x div 1000 = x div 10 div 10 div 10"
      by (simp_all add: zdiv_zmult2_eq [symmetric])
    show ?thesis unfolding a by (simp only: mult_div_mod_eq)
  qed
  show ?thesis
    using b by (simp add: append_int_4 x four_digits_def digit_simps e del: distrib_left_numeral)
qed

lemma expect_back [simp]: "expect c (c # u) = Some u"
  by (simp add: expect_def)

section \<open>Time stamps\<close>

text \<open>The days a four-digit year can write.\<close>

definition common_era :: "time \<Rightarrow> bool" where
  "common_era t \<longleftrightarrow> (case civil_of_days (unix_seconds t div 86400) of (y, _, _) \<Rightarrow> 0 \<le> y \<and> y \<le> 9999)"

lemma days_in_le: "days_in m y \<le> 31"
  by (simp add: days_in_def)

lemma parse_date_back:
  assumes "common_era t"
  shows "\<exists>y m d. parse_date (format_date t @ u) = Some ((y, m, d), u) \<and> days_of_civil y m d = unix_seconds t div 86400"
proof -
  obtain y m d where c: "civil_of_days (unix_seconds t div 86400) = (y, m, d)" by (metis prod_cases3)
  note v = civil_of_days_valid [OF c]
  from assms c have y: "0 \<le> y" "y < 10000" by (auto simp: common_era_def)
  from v(4) days_in_le [of m y] have d: "d < 100" by linarith
  have "parse_date (format_date t @ u) = Some ((y, m, d), u)"
    using v(1-4) y d by (simp add: format_date_def parse_date_def c four_digits_back two_digits_back)
  with v(5) show ?thesis by blast
qed

lemma parse_clock_back: "parse_clock (format_clock t @ u) = Some (unix_seconds t mod 86400, u)"
proof -
  define s where "s = unix_seconds t mod 86400"
  have s: "0 \<le> s" "s < 86400" by (simp_all add: s_def)
  then have h: "0 \<le> s div 3600" "s div 3600 < 24" by (auto simp: pos_imp_zdiv_nonneg_iff)
  have e: "s div 3600 * 3600 + s div 60 mod 60 * 60 + s mod 60 = s"
  proof -
    have "s div 60 = s div 3600 * 60 + s div 60 mod 60"
      using div_mult_mod_eq [of "s div 60" 60] by (simp add: zdiv_zmult2_eq [of 60 s 60, symmetric])
    moreover have "s = s div 60 * 60 + s mod 60" by simp
    ultimately have "s = (s div 3600 * 60 + s div 60 mod 60) * 60 + s mod 60" by metis
    then show ?thesis by (simp add: distrib_right)
  qed
  show ?thesis
    using h e by (simp add: format_clock_def parse_clock_def s_def [symmetric] hour_digits_back two_digits_back)
qed

lemma parse_format_rfc3339:
  assumes "common_era t"
  shows "parse_rfc3339 (format_rfc3339 t) = Some (t - t mod second)"
proof -
  obtain y m d where p: "parse_date (format_date t @ ''T'' @ format_clock t @ ''Z'') = Some ((y, m, d), ''T'' @ format_clock t @ ''Z'')"
    and n: "days_of_civil y m d = unix_seconds t div 86400"
    using parse_date_back [OF assms] by blast
  have "(unix_seconds t div 86400 * 86400 + unix_seconds t mod 86400) * second = t - t mod second"
    by (simp add: unix_seconds_def minus_mod_eq_div_mult)
  then show ?thesis
    using parse_clock_back [of t "''Z''"]
    by (simp add: parse_rfc3339_def format_rfc3339_def p [simplified] n fraction_digits_def zone_offset_def)
qed

end
