(* ===== verification/Status_Facts.thy ===== *)
theory Status_Facts
  imports Manager Samples Json_Facts Time_Facts
begin

text \<open>
  The status of a resource, written by one pass and read by the next: what is read is what was
  written, to the second, so a pass that comes to the same result writes no status again.
\<close>

section \<open>Names of fields\<close>

lemma equal_fold_ascii:
  "ascii s \<Longrightarrow> ascii t \<Longrightarrow> equal_fold R s t \<longleftrightarrow> list_all2 (fold_rune_eq R) (map byte s) (map byte t)"
  by (simp add: equal_fold_def runes_ascii comp_def)

lemma field_matches_same [simp]: "field_matches R k k"
  by (simp add: field_matches_def)

lemma field_other:
  "ascii name \<Longrightarrow> ascii k \<Longrightarrow> k \<noteq> name \<Longrightarrow>
     \<not> list_all2 (fold_rune_eq R) (map byte k) (map byte name) \<Longrightarrow> \<not> field_matches R name k"
  by (simp add: field_matches_def equal_fold_ascii)

lemma status_fields:
  "\<not> field_matches R ''metadata'' ''status''"
  "\<not> field_matches R ''spec'' ''status''"
  "\<not> field_matches R ''type'' ''status''"
  "\<not> field_matches R ''type'' ''observedGeneration''"
  "\<not> field_matches R ''status'' ''observedGeneration''"
  "\<not> field_matches R ''type'' ''lastTransitionTime''"
  "\<not> field_matches R ''status'' ''lastTransitionTime''"
  "\<not> field_matches R ''observedGeneration'' ''lastTransitionTime''"
  "\<not> field_matches R ''type'' ''reason''"
  "\<not> field_matches R ''status'' ''reason''"
  "\<not> field_matches R ''observedGeneration'' ''reason''"
  "\<not> field_matches R ''lastTransitionTime'' ''reason''"
  "\<not> field_matches R ''type'' ''message''"
  "\<not> field_matches R ''status'' ''message''"
  "\<not> field_matches R ''observedGeneration'' ''message''"
  "\<not> field_matches R ''lastTransitionTime'' ''message''"
  "\<not> field_matches R ''reason'' ''message''"
  "\<not> field_matches R ''conditions'' ''lastSyncTime''"
  "\<not> field_matches R ''conditions'' ''syncedKeyCount''"
  "\<not> field_matches R ''lastSyncTime'' ''syncedKeyCount''"
  "\<not> field_matches R ''conditions'' ''observedGeneration''"
  "\<not> field_matches R ''lastSyncTime'' ''observedGeneration''"
  "\<not> field_matches R ''syncedKeyCount'' ''observedGeneration''"
  by (rule field_other; simp add: fold_rune_eq_def)+

section \<open>The status written\<close>

definition to_second :: "time \<Rightarrow> time" where
  "to_second t = t - t mod second"

definition last_sync :: "kryptic_secret \<Rightarrow> result \<Rightarrow> time \<Rightarrow> time option" where
  "last_sync cr r now =
     (if cd_status (rs_condition r) = ConditionTrue then Some now else st_lastSyncTime (cr_status cr))"

definition written_condition :: "kryptic_secret \<Rightarrow> result \<Rightarrow> time \<Rightarrow> condition" where
  "written_condition cr r now = (rs_condition r)\<lparr>cd_observedGeneration := cr_generation cr,
     cd_lastTransitionTime := to_second (transition_time cr r now)\<rparr>"

definition written_status :: "kryptic_secret \<Rightarrow> result \<Rightarrow> time \<Rightarrow> kryptic_secret_status" where
  "written_status cr r now = \<lparr>st_conditions = [written_condition cr r now],
     st_lastSyncTime = map_option to_second (last_sync cr r now),
     st_syncedKeyCount = rs_syncedKeys r, st_observedGeneration = cr_generation cr\<rparr>"

definition is_int64 :: "int \<Rightarrow> bool" where
  "is_int64 n \<longleftrightarrow> - (2 ^ 63) \<le> n \<and> n < 2 ^ 63"

text \<open>Results and times that JSON can carry.\<close>

definition writable :: "kryptic_secret \<Rightarrow> result \<Rightarrow> time \<Rightarrow> bool" where
  "writable cr r now \<longleftrightarrow> is_int64 (cr_generation cr) \<and> is_int64 (rs_syncedKeys r) \<and>
     valid_utf8 (cd_type (rs_condition r)) \<and> valid_utf8 (cd_status (rs_condition r)) \<and>
     valid_utf8 (cd_reason (rs_condition r)) \<and> valid_utf8 (cd_message (rs_condition r)) \<and>
     common_era (transition_time cr r now) \<and>
     (case last_sync cr r now of None \<Rightarrow> True | Some t \<Rightarrow> common_era t)"

lemma sorted_status:
  "sort_members (status_json cr r now) = JObj
     ([(''conditions'', JArr [JObj
          [(''lastTransitionTime'', JStr (format_rfc3339 (transition_time cr r now))),
           (''message'', JStr (cd_message (rs_condition r))),
           (''observedGeneration'', JInt (cr_generation cr)),
           (''reason'', JStr (cd_reason (rs_condition r))),
           (''status'', JStr (cd_status (rs_condition r))),
           (''type'', JStr (cd_type (rs_condition r)))]])]
      @ (case last_sync cr r now of None \<Rightarrow> [] | Some t \<Rightarrow> [(''lastSyncTime'', JStr (format_rfc3339 t))])
      @ [(''observedGeneration'', JInt (cr_generation cr)), (''syncedKeyCount'', JInt (rs_syncedKeys r))])"
  by (simp add: status_json_def last_sync_def split: option.split)

lemma no_fractions_status: "no_fractions (sort_members (status_json cr r now))"
  by (simp add: sorted_status split: option.split)

lemma digits_ascii: "ascii (nat_digits n)"
  using nat_digits_digits [of n] by (auto simp: ascii_def is_digit_def elim: list.pred_mono_strong)

lemma append_int_ascii: "ascii (append_int x n)"
  using digits_ascii by (simp add: append_int_def Let_def) (simp add: ascii_def list_all_iff)

lemma format_ascii: "ascii (format_rfc3339 t)"
  by (simp add: format_rfc3339_def format_date_def format_clock_def Let_def append_int_ascii split: prod.split)

lemma decode_time_back: "common_era t \<Longrightarrow> decode_time old (JStr (format_rfc3339 t)) = Some (to_second t)"
  by (simp add: decode_time_def parse_format_rfc3339 to_second_def)

lemma condition_reads_back:
  assumes "writable cr r now"
  shows "decode_struct (condition_step R) no_condition (JObj
          [(''lastTransitionTime'', JStr (format_rfc3339 (transition_time cr r now))),
           (''message'', JStr (cd_message (rs_condition r))),
           (''observedGeneration'', JInt (cr_generation cr)),
           (''reason'', JStr (cd_reason (rs_condition r))),
           (''status'', JStr (cd_status (rs_condition r))),
           (''type'', JStr (cd_type (rs_condition r)))]) = Some (written_condition cr r now)"
  using assms
  by (simp add: decode_struct_def condition_step_def status_fields decode_string_def decode_int_def decode_time_back
      writable_def is_int64_def no_condition_def written_condition_def)

lemma status_steps:
  "status_step R c ''conditions'' v = map_option (\<lambda>x. c\<lparr>st_conditions := x\<rparr>)
     (decode_slice no_condition (decode_struct (condition_step R)) (st_conditions c) v)"
  "status_step R c ''lastSyncTime'' v
     = map_option (\<lambda>x. c\<lparr>st_lastSyncTime := x\<rparr>) (decode_pointer zero_time decode_time (st_lastSyncTime c) v)"
  "status_step R c ''syncedKeyCount'' v
     = map_option (\<lambda>x. c\<lparr>st_syncedKeyCount := x\<rparr>) (decode_int (st_syncedKeyCount c) v)"
  "status_step R c ''observedGeneration'' v
     = map_option (\<lambda>x. c\<lparr>st_observedGeneration := x\<rparr>) (decode_int (st_observedGeneration c) v)"
  by (simp_all add: status_step_def status_fields)

lemma status_reads_back:
  assumes "writable cr r now"
  shows "decode_struct (status_step R) no_status (clean_json (sort_members (status_json cr r now)))
     = Some (written_status cr r now)"
proof -
  note c = condition_reads_back [OF assms, of R]
  from assms have clean: "clean_json (sort_members (status_json cr r now)) = sort_members (status_json cr r now)"
    by (simp add: sorted_status writable_def valid_text_valid ascii_valid format_ascii split: option.split)
  have conds: "decode_slice no_condition (decode_struct (condition_step R)) [] (JArr [JObj
          [(''lastTransitionTime'', JStr (format_rfc3339 (transition_time cr r now))),
           (''message'', JStr (cd_message (rs_condition r))),
           (''observedGeneration'', JInt (cr_generation cr)),
           (''reason'', JStr (cd_reason (rs_condition r))),
           (''status'', JStr (cd_status (rs_condition r))),
           (''type'', JStr (cd_type (rs_condition r)))]]) = Some [written_condition cr r now]"
    by (simp add: decode_slice_def c)
  have num: "decode_int old (JInt (cr_generation cr)) = Some (cr_generation cr)"
    "decode_int old (JInt (rs_syncedKeys r)) = Some (rs_syncedKeys r)" for old
    using assms by (simp_all add: decode_int_def writable_def is_int64_def)
  have time: "last_sync cr r now = Some t \<Longrightarrow> decode_time old (JStr (format_rfc3339 t)) = Some (to_second t)" for t old
    using assms by (simp add: writable_def decode_time_back)
  show ?thesis
    unfolding clean unfolding sorted_status decode_struct_def json.case no_status_def
    by (cases "last_sync cr r now")
      (simp_all add: status_steps conds [simplified] num decode_pointer_def time written_status_def)
qed

section \<open>The object around the status\<close>

lemma no_fractions_sorted [simp]: "no_fractions (sort_members j) = no_fractions j"
proof (induction j rule: no_fractions.induct)
  case (3 kvs)
  then show ?case by (fastforce simp: list_all_iff)
qed (auto simp: list_all_iff)

lemma fromUnstructured_members:
  assumes "no_fractions (JObj kvs)"
  shows "fromUnstructured R (JObj kvs) = decode_members (resource_step R) no_resource
     (map (\<lambda>(k, v). (valid_text k, clean_json v)) (sort_key fst (map (\<lambda>(k, v). (k, sort_members v)) kvs)))"
proof -
  have "no_fractions (sort_members (JObj kvs))" using assms by (simp only: no_fractions_sorted)
  from json_parse_encode [OF this] show ?thesis by (simp add: fromUnstructured_def decode_struct_def)
qed

lemma status_commutes:
  fixes c :: kryptic_secret
  shows "c\<lparr>cr_status := s, cr_name := x0\<rparr> = c\<lparr>cr_name := x0, cr_status := s\<rparr>"
    and "c\<lparr>cr_status := s, cr_namespace := x1\<rparr> = c\<lparr>cr_namespace := x1, cr_status := s\<rparr>"
    and "c\<lparr>cr_status := s, cr_uid := x2\<rparr> = c\<lparr>cr_uid := x2, cr_status := s\<rparr>"
    and "c\<lparr>cr_status := s, cr_generation := x3\<rparr> = c\<lparr>cr_generation := x3, cr_status := s\<rparr>"
    and "c\<lparr>cr_status := s, cr_deletionTimestamp := x4\<rparr> = c\<lparr>cr_deletionTimestamp := x4, cr_status := s\<rparr>"
    and "c\<lparr>cr_status := s, cr_finalizers := x5\<rparr> = c\<lparr>cr_finalizers := x5, cr_status := s\<rparr>"
    and "c\<lparr>cr_status := s, cr_spec := x6\<rparr> = c\<lparr>cr_spec := x6, cr_status := s\<rparr>"
  by (cases c, simp)+

lemma meta_frame:
  "meta_step R (c\<lparr>cr_status := s\<rparr>) k v = map_option (cr_status_update (\<lambda>_. s)) (meta_step R c k v)"
  by (simp add: meta_step_def option.map_comp comp_def status_commutes)

lemma meta_struct_frame:
  "decode_struct (meta_step R) (c\<lparr>cr_status := s\<rparr>) v
     = map_option (cr_status_update (\<lambda>_. s)) (decode_struct (meta_step R) c v)"
proof -
  have "decode_members (meta_step R) (c\<lparr>cr_status := s\<rparr>) kvs
      = map_option (cr_status_update (\<lambda>_. s)) (decode_members (meta_step R) c kvs)" for kvs
    by (induction kvs arbitrary: c) (auto simp: meta_frame split: option.split)
  then show ?thesis by (simp add: decode_struct_def split: json.split)
qed

lemma resource_frame:
  "\<not> field_matches R ''status'' k \<Longrightarrow> resource_step R (c\<lparr>cr_status := s\<rparr>) k v
     = map_option (cr_status_update (\<lambda>_. s)) (resource_step R c k v)"
  by (simp add: resource_step_def meta_struct_frame option.map_comp comp_def status_commutes)

lemma resources_frame:
  "list_all (\<lambda>(k, v). \<not> field_matches R ''status'' k) kvs \<Longrightarrow>
     decode_members (resource_step R) (c\<lparr>cr_status := s\<rparr>) kvs
     = map_option (cr_status_update (\<lambda>_. s)) (decode_members (resource_step R) c kvs)"
  by (induction kvs arbitrary: c) (auto simp: resource_frame split: option.split)

lemma same_status: "c\<lparr>cr_status := cr_status c\<rparr> = c"
  by simp

text \<open>The status decodes on its own, wherever it stands among the members.\<close>

lemma status_apart:
  assumes "list_all (\<lambda>(k, v). \<not> field_matches R ''status'' k) (a @ b)"
  shows "decode_members (resource_step R) c (a @ (''status'', v) # b)
     = Option.bind (decode_struct (status_step R) (cr_status c) v) (\<lambda>s.
         map_option (cr_status_update (\<lambda>_. s)) (decode_members (resource_step R) c (a @ b)))"
  using assms
proof (induction a arbitrary: c)
  case Nil
  have "resource_step R c ''status'' v
      = map_option (\<lambda>x. c\<lparr>cr_status := x\<rparr>) (decode_struct (status_step R) (cr_status c) v)"
    by (simp add: resource_step_def status_fields)
  then show ?case using Nil.prems resources_frame [where R = R and kvs = b and c = c] by (simp split: option.split bind_split)
next
  case (Cons kv a)
  obtain k w where kv: "kv = (k, w)" by fastforce
  show ?case
  proof (cases "resource_step R c k w")
    case None
    then show ?thesis by (simp add: kv split: bind_split)
  next
    case (Some c')
    have "\<not> field_matches R ''status'' k" using Cons.prems kv by simp
    from resource_frame [OF this, where c = c and s = "cr_status c" and v = w] Some have "c' = c'\<lparr>cr_status := cr_status c\<rparr>" by simp
    then have "cr_status c' = cr_status c" by (metis kryptic_secret.select_convs(8) kryptic_secret.surjective kryptic_secret.update_convs(8))
    with Cons.IH [of c'] Cons.prems Some kv show ?thesis by simp
  qed
qed

section \<open>A status written once\<close>

text \<open>The members of an object other than its status.\<close>

definition others :: "(string \<times> 'a) list \<Rightarrow> (string \<times> 'a) list" where
  "others kvs = filter (\<lambda>kv. fst kv \<noteq> ''status'') kvs"

lemma others_update [simp]: "others (AList.update ''status'' v kvs) = others kvs"
  by (induction kvs) (auto simp: others_def)

lemma others_map: "others (map (\<lambda>(k, v). (k, f v)) kvs) = map (\<lambda>(k, v). (k, f v)) (others kvs)"
  by (induction kvs) (auto simp: others_def)

lemma others_sort: "others (sort_key fst kvs) = sort_key fst (others kvs)"
  by (simp add: others_def filter_sort)

lemma split_status:
  assumes "distinct (map fst kvs)" and "(''status'', v) \<in> set kvs"
  obtains a b where "kvs = a @ (''status'', v) # b" and "a @ b = others kvs"
proof -
  from assms(2) obtain a b where ab: "kvs = a @ (''status'', v) # b" by (meson split_list)
  with assms(1) have "''status'' \<notin> fst ` set a" "''status'' \<notin> fst ` set b" by auto
  then have "others a = a" "others b = b" by (force simp: others_def filter_id_conv)+
  with ab have "a @ b = others kvs" by (simp add: others_def)
  with ab that show thesis by blast
qed

text \<open>
  Objects as the API server keeps them: every key once, keys of valid UTF-8, none that only
  resembles the name of the status, and no fractions.
\<close>

definition tidy_object :: "go_runtime \<Rightarrow> json \<Rightarrow> bool" where
  "tidy_object R j \<longleftrightarrow> (case j of JObj kvs \<Rightarrow> distinct (map fst kvs) \<and> no_fractions j \<and>
     list_all (\<lambda>(k, v). valid_utf8 k \<and> (field_matches R ''status'' k \<longrightarrow> k = ''status'')) kvs
   | _ \<Rightarrow> False)"

definition wire_members :: "(string \<times> json) list \<Rightarrow> (string \<times> json) list" where
  "wire_members kvs = map (\<lambda>(k, v). (k, clean_json v)) (sort_key fst (map (\<lambda>(k, v). (k, sort_members v)) kvs))"

lemma fromUnstructured_wire:
  assumes "tidy_object R (JObj kvs)"
  shows "fromUnstructured R (JObj kvs) = decode_members (resource_step R) no_resource (wire_members kvs)"
proof -
  have "valid_text k = k" if "(k, v) \<in> set kvs" for k v
    using assms that by (auto simp: tidy_object_def list_all_iff intro: valid_text_valid)
  then have "map (\<lambda>(k, v). (valid_text k, clean_json v)) (sort_key fst (map (\<lambda>(k, v). (k, sort_members v)) kvs))
      = wire_members kvs"
    by (auto simp: wire_members_def)
  with assms fromUnstructured_members [of kvs R] show ?thesis by (simp add: tidy_object_def)
qed

lemma wire_members_others: "others (wire_members kvs) = wire_members (others kvs)"
  unfolding wire_members_def by (simp add: others_map others_sort)

lemma keys_wire: "map fst (wire_members kvs) = map fst (sort_key fst (map (\<lambda>(k, v). (k, sort_members v)) kvs))"
  by (simp add: wire_members_def comp_def case_prod_beta')

lemma distinct_wire: "distinct (map fst kvs) \<Longrightarrow> distinct (map fst (wire_members kvs))"
proof -
  assume "distinct (map fst kvs)"
  moreover have "map fst (map (\<lambda>(k, v). (k, sort_members v)) kvs) = map fst kvs"
    by (simp add: comp_def case_prod_beta')
  moreover have "mset (map fst (sort_key fst xs)) = mset (map fst xs)" for xs :: "(string \<times> json) list"
    by (simp add: mset_map)
  ultimately show ?thesis unfolding keys_wire by (metis mset_eq_imp_distinct_iff)
qed

lemma wire_member: "(k, v) \<in> set kvs \<Longrightarrow> (k, clean_json (sort_members v)) \<in> set (wire_members kvs)"
  by (force simp: wire_members_def)

lemma wire_keys_set: "fst ` set (wire_members kvs) = fst ` set kvs"
  by (force simp: wire_members_def)

lemma others_no_match:
  assumes "tidy_object R (JObj kvs)"
  shows "list_all (\<lambda>(k, v). \<not> field_matches R ''status'' k) (others (wire_members kvs))"
  unfolding list_all_iff
proof (clarsimp simp: others_def)
  fix k v assume "(k, v) \<in> set (wire_members kvs)" "k \<noteq> ''status''" and m: "field_matches R ''status'' k"
  from \<open>(k, v) \<in> set (wire_members kvs)\<close> have "fst (k, v) \<in> fst ` set (wire_members kvs)" by (rule imageI)
  then obtain x where x: "x \<in> set kvs" "k = fst x" unfolding wire_keys_set by auto
  from assms have "\<forall>x \<in> set kvs. field_matches R ''status'' (fst x) \<longrightarrow> fst x = ''status''"
    unfolding tidy_object_def json.case list_all_iff by auto
  with x m have "k = ''status''" by blast
  with \<open>k \<noteq> ''status''\<close> show False ..
qed

lemma tidy_update:
  assumes "tidy_object R (JObj kvs)" and "no_fractions v"
  shows "tidy_object R (JObj (AList.update ''status'' v kvs))"
proof -
  have mem: "(k, w) \<in> set (AList.update ''status'' v kvs) \<Longrightarrow> (k, w) \<in> set kvs \<or> k = ''status'' \<and> w = v" for k w
    by (induction kvs) (auto split: if_splits)
  have "valid_utf8 ''status''" by (rule ascii_valid_utf8) simp
  with assms show ?thesis
    unfolding tidy_object_def json.case no_fractions.simps list_all_iff
    by (auto simp: distinct_update dest!: mem)
qed

lemma no_fractions_status_json: "no_fractions (status_json cr r now)"
  using no_fractions_status [of cr r now] by (simp only: no_fractions_sorted)

lemma status_written_and_read:
  assumes "tidy_object R raw" and "fromUnstructured R raw = Some cr" and "writable cr r now"
  shows "fromUnstructured R (set_member ''status'' (status_json cr r now) raw)
     = Some (cr\<lparr>cr_status := written_status cr r now\<rparr>)"
proof -
  from assms(1) obtain kvs where raw: "raw = JObj kvs" and d: "distinct (map fst kvs)"
    by (auto simp: tidy_object_def split: json.splits)
  note nm = others_no_match [OF assms(1) [unfolded raw]]
  define new where "new = AList.update ''status'' (status_json cr r now) kvs"
  have tidy: "tidy_object R (JObj new)"
    unfolding new_def by (rule tidy_update [OF assms(1) [unfolded raw] no_fractions_status_json])
  have same: "others (wire_members new) = others (wire_members kvs)"
    unfolding wire_members_others by (simp add: new_def)
  have old: "map_option (cr_status_update (\<lambda>_. s)) (decode_members (resource_step R) no_resource (others (wire_members kvs)))
      = Some (cr\<lparr>cr_status := s\<rparr>)" for s
  proof -
    from assms(2) have dec: "decode_members (resource_step R) no_resource (wire_members kvs) = Some cr"
      by (simp add: raw fromUnstructured_wire [OF assms(1) [unfolded raw]])
    show ?thesis
    proof (cases "''status'' \<in> fst ` set (wire_members kvs)")
      case True
      then obtain v where "(''status'', v) \<in> set (wire_members kvs)" by auto
      then obtain a b where ab: "wire_members kvs = a @ (''status'', v) # b" "a @ b = others (wire_members kvs)"
        using split_status [OF distinct_wire [OF d]] by blast
      from status_apart [of R a b no_resource v] nm dec
      have "Option.bind (decode_struct (status_step R) (cr_status no_resource) v) (\<lambda>s.
         map_option (cr_status_update (\<lambda>_. s)) (decode_members (resource_step R) no_resource (others (wire_members kvs))))
         = Some cr"
        unfolding ab(2) ab(1) [symmetric] by simp
      then show ?thesis by (auto simp: bind_eq_Some_conv)
    next
      case False
      then have "others (wire_members kvs) = wire_members kvs" by (force simp: others_def filter_id_conv)
      with dec show ?thesis by simp
    qed
  qed
  have "(''status'', status_json cr r now) \<in> set new"
    by (simp add: new_def map_of_SomeD)
  note mem = wire_member [OF this]
  have "distinct (map fst new)" by (simp add: new_def d distinct_update)
  from split_status [OF distinct_wire [OF this] mem] obtain a b
    where ab: "wire_members new = a @ (''status'', clean_json (sort_members (status_json cr r now))) # b"
      "a @ b = others (wire_members new)" by metis
  have "decode_members (resource_step R) no_resource (wire_members new)
      = map_option (cr_status_update (\<lambda>_. written_status cr r now))
          (decode_members (resource_step R) no_resource (others (wire_members kvs)))"
    using status_apart [of R a b no_resource "clean_json (sort_members (status_json cr r now))"]
      nm status_reads_back [OF assms(3), of R]
    unfolding ab(2) same ab(1) [symmetric] by (simp add: no_resource_def)
  then show ?thesis
    by (simp add: raw set_member_def new_def [symmetric] fromUnstructured_wire [OF tidy] old)
qed

text \<open>
  C37. A status settles: when an object is stored with the status a pass has written, it decodes to
  the same resource with that status, and a later pass with the same result finds it unchanged and
  writes none. The transition time of the condition stays what it was, to the second.
\<close>

theorem status_settles:
  assumes "tidy_object R raw" and "fromUnstructured R raw = Some cr" and "writable cr r now"
    and "cd_type (rs_condition r) = ConditionReady"
  shows "\<exists>cr'. fromUnstructured R (set_member ''status'' (status_json cr r now) raw) = Some cr' \<and>
     cr' = cr\<lparr>cr_status := cr_status cr'\<rparr> \<and> statusUnchanged cr' r \<and>
     transition_time cr' r later = to_second (transition_time cr r now)"
proof (intro exI conjI)
  show "fromUnstructured R (set_member ''status'' (status_json cr r now) raw)
     = Some (cr\<lparr>cr_status := written_status cr r now\<rparr>)"
    by (rule status_written_and_read [OF assms(1-3)])
qed (simp_all add: statusUnchanged_def transition_time_def written_status_def written_condition_def assms(4))

definition plain_object :: json where
  "plain_object = JObj [(''metadata'', JObj [(''name'', JStr ''app'')])]"

definition plain_result :: result where
  "plain_result = failed ReasonAuthSecret ''no credentials'' minute 0"

lemma plain_tidy: "tidy_object R plain_object"
  by (simp add: tidy_object_def plain_object_def ascii_valid_utf8 field_matches_def equal_fold_ascii)

lemma plain_decodes: "fromUnstructured R plain_object = Some (no_resource\<lparr>cr_name := ''app''\<rparr>)"
proof -
  have "fromUnstructured R plain_object = decode_members (resource_step R) no_resource
      (wire_members [(''metadata'', JObj [(''name'', JStr ''app'')])])"
    unfolding plain_object_def by (rule fromUnstructured_wire) (use plain_tidy [of R] in \<open>simp only: plain_object_def\<close>)
  also have "wire_members [(''metadata'', JObj [(''name'', JStr ''app'')])] = [(''metadata'', JObj [(''name'', JStr ''app'')])]"
    by (simp add: wire_members_def ascii_valid)
  also have "decode_members (resource_step R) no_resource \<dots> = Some (no_resource\<lparr>cr_name := ''app''\<rparr>)"
    by (simp add: resource_step_def meta_step_def decode_struct_def decode_string_def)
  finally show ?thesis .
qed

lemma plain_writable: "writable (no_resource\<lparr>cr_name := ''app''\<rparr>) plain_result 0"
proof -
  have r: "rs_condition plain_result = \<lparr>cd_type = ConditionReady, cd_status = ConditionFalse, cd_observedGeneration = 0,
      cd_lastTransitionTime = zero_time, cd_reason = ReasonAuthSecret, cd_message = ''no credentials''\<rparr>"
    "rs_syncedKeys plain_result = 0"
    by (simp_all add: plain_result_def failed_def new_condition_def)
  have s: "cr_status (no_resource\<lparr>cr_name := ''app''\<rparr>) = no_status" "cr_generation (no_resource\<lparr>cr_name := ''app''\<rparr>) = 0"
    by (simp_all add: no_resource_def)
  have "civil_of_days 0 = (1970, 1, 1)" by code_simp
  then have "common_era 0" by (simp add: common_era_def unix_seconds_def)
  moreover have "valid_utf8 ConditionReady" "valid_utf8 ConditionFalse" "valid_utf8 ReasonAuthSecret"
    "valid_utf8 ''no credentials''" "ConditionFalse \<noteq> ConditionTrue"
    by (simp_all add: ascii_valid_utf8 ConditionReady_def ConditionTrue_def ConditionFalse_def ReasonAuthSecret_def)
  ultimately show ?thesis
    unfolding writable_def transition_time_def last_sync_def r s by (simp add: is_int64_def no_status_def)
qed

theorem status_settles_witness:
  "\<exists>cr'. fromUnstructured sample_runtime (set_member ''status''
       (status_json (no_resource\<lparr>cr_name := ''app''\<rparr>) plain_result 0) plain_object) = Some cr' \<and>
     cr' = no_resource\<lparr>cr_name := ''app'', cr_status := cr_status cr'\<rparr> \<and> statusUnchanged cr' plain_result \<and>
     transition_time cr' plain_result 7 = to_second (transition_time (no_resource\<lparr>cr_name := ''app''\<rparr>) plain_result 0)"
  by (rule status_settles [OF plain_tidy plain_decodes plain_writable]) (simp add: plain_result_def failed_def new_condition_def)

end
