(* ===== verification/Interleaving_Facts.thy ===== *)
theory Interleaving_Facts
  imports Interleaving Status_Facts
begin

text \<open>
  What holds however worker and watch interleave: the marks and versions in the manager's maps are
  the worker's own, so the watch drops a modification only when it is the echo of a status write, or
  while one is under way; and in that window it does drop the edits of others.
\<close>

section \<open>The maps are the manager's own\<close>

interpretation maps: client_view "\<lambda>s. (lastStatusWrite s, statusWriteInFlight s)"
  by unfold_locales simp_all

lemma setFinalizer_keeps_maps:
  "keeps (\<lambda>s. (lastStatusWrite s, statusWriteInFlight s)) (setFinalizer m raw cr add)"
  unfolding setFinalizer_def Let_def by (intro keeps_rules maps.keeps_calls)

lemma Reconcile_keeps_maps:
  "keeps (\<lambda>s. (lastStatusWrite s, statusWriteInFlight s)) (Reconcile (operator_reconciler X K getenv) cr)"
  unfolding Reconcile_def finish_pass_def Let_def operator_reconciler_simps
  by (simp only: client_fetcher_def fetcher.simps option.case)
    (intro keeps_rules maps.keeps_credentials maps.keeps_client_fetch maps.keeps_readLeaseIDs
      maps.keeps_fetcher maps.keeps_applySecret)

lemma finalize_keeps_maps:
  "keeps (\<lambda>s. (lastStatusWrite s, statusWriteInFlight s)) (finalize_resource (operator X K getenv scope) raw cr)"
  unfolding finalize_resource_def RevokeCRLeases_def operator_simps operator_reconciler_simps
  by (simp only: client_fetcher_def fetcher.simps option.case)
    (intro keeps_rules maps.keeps_credentials maps.keeps_readLeaseIDs maps.keeps_fetcher setFinalizer_keeps_maps)

lemma until_status_keeps_maps:
  "keeps (\<lambda>s. (lastStatusWrite s, statusWriteInFlight s)) (until_status (operator X K getenv scope) item)"
  unfolding until_status_def operator_simps operator_reconciler_simps
  by (intro keeps_rules maps.keeps_calls setFinalizer_keeps_maps finalize_keeps_maps Reconcile_keeps_maps)

section \<open>What the steps of the worker come from\<close>

text \<open>The object in hand: read under the name of the item, with a delay that puts it back.\<close>

definition in_hand :: "go_runtime \<Rightarrow> event list \<Rightarrow> queue_item \<Rightarrow> kryptic_secret \<Rightarrow> result \<Rightarrow> bool" where
  "in_hand R es item cr r \<longleftrightarrow> MinRefreshInterval \<le> rs_requeueAfter r \<and>
     (\<exists>raw. Kube (GetResource (fst item) (snd item) (Inr raw)) \<in> set es \<and> fromUnstructured R raw = Some cr)"

lemma in_hand_later: "in_hand R es item cr r \<Longrightarrow> set es \<subseteq> set fs \<Longrightarrow> in_hand R fs item cr r"
  by (auto simp: in_hand_def)

lemma adds_if: "(b \<Longrightarrow> adds m P) \<Longrightarrow> (\<not> b \<Longrightarrow> adds n P) \<Longrightarrow> adds (if b then m else n) P"
  by simp

lemma adds_get: "adds (kube_get_resource K ns n) (\<lambda>a es. es = [Kube (GetResource ns n a)])"
  unfolding kube_get_resource_def by (rule adds_external)

lemma adds_emits: "emits P m \<Longrightarrow> adds m (\<lambda>_ es. list_all P es)"
  unfolding adds_def wp_iff emits_def by simp

lemma adds_more: "emits P m \<Longrightarrow> adds m (\<lambda>_ _. True)"
  by (rule adds_mono [OF adds_emits]) simp_all

lemma setFinalizer_adds: "adds (setFinalizer m raw cr add) (\<lambda>_ _. True)"
  by (rule adds_more [where P = "\<lambda>_. True"])
    (unfold setFinalizer_def Let_def, intro emits_rules TrueI)

lemma finalize_adds: "adds (finalize_resource (operator X K getenv scope) raw cr) (\<lambda>_ _. True)"
  unfolding finalize_resource_def operator_simps
  by (rule adds_bind [OF adds_more [OF revoke_no_resource]])
    (auto split: sum.split intro!: adds_return adds_bind [OF setFinalizer_adds])

lemma Reconcile_adds:
  "adds (Reconcile (operator_reconciler X K getenv) cr) (\<lambda>r es. MinRefreshInterval \<le> rs_requeueAfter r)"
  unfolding adds_def
  by (intro allI wp_mono [OF operator_pass]) (auto dest: pass_outcome_floor)

lemma until_status_in_hand:
  "adds (until_status (operator X K getenv scope) item)
     (\<lambda>x es. case x of Inl _ \<Rightarrow> True | Inr y \<Rightarrow> (case y of (raw, cr, r) \<Rightarrow> in_hand (en_runtime X) es item cr r))"
  unfolding until_status_def operator_simps operator_reconciler_simps
proof (intro adds_if adds_return, simp, rule adds_bind [OF adds_get], goal_cases)
  case (1 got es)
  show ?case
  proof (cases got)
    case (Inr raw)
    have hand: "in_hand (en_runtime X) (es @ fs) item cr r"
      if "fromUnstructured (en_runtime X) raw = Some cr" "MinRefreshInterval \<le> rs_requeueAfter r" for cr r fs
      using that 1(2) Inr by (auto simp: in_hand_def)
    show ?thesis
      unfolding Inr sum.case
      by (auto split: option.split intro!: adds_return adds_if adds_bind [OF finalize_adds]
          adds_bind [OF setFinalizer_adds] adds_bind [OF Reconcile_adds] hand)
  qed (auto intro: adds_return)
qed

section \<open>Reachable states\<close>

inductive manager_reach ::
  "('w, 'm) manager \<Rightarrow> 'w run_api \<Rightarrow> phase \<times> ('w, event, 'm) manager_state_scheme \<Rightarrow> bool" for m A where
  start: "lastStatusWrite s = Map.empty \<Longrightarrow> statusWriteInFlight s = Map.empty \<Longrightarrow> manager_reach m A (Idle, s)"
| step: "manager_reach m A c \<Longrightarrow> manager_step m A c d \<Longrightarrow> manager_reach m A d"

text \<open>The item whose status is being written, with the object under which the write is tracked.\<close>

fun writing :: "phase \<Rightarrow> (queue_item \<times> kryptic_secret \<times> result) option" where
  "writing (Marked item raw cr r st) = Some (item, cr, r)"
| "writing (Answered item cr r a) = Some (item, cr, r)"
| "writing (Remembered item cr r) = Some (item, cr, r)"
| "writing p = None"

text \<open>The item that will be scheduled again, and when.\<close>

fun due :: "phase \<Rightarrow> (queue_item \<times> duration) option" where
  "due (Finishing item d) = Some (item, d)"
| "due (Reporting item raw cr r) = Some (item, rs_requeueAfter r)"
| "due p = map_option (\<lambda>(item, cr, r). (item, rs_requeueAfter r)) (writing p)"

definition own_write :: "event list \<Rightarrow> queue_item \<Rightarrow> string \<Rightarrow> bool" where
  "own_write es item v \<longleftrightarrow>
     (\<exists>j w. Kube (UpdateResourceStatus (fst item) j (Inr w)) \<in> set es \<and> GetResourceVersion w = v)"

lemma own_write_later: "own_write es item v \<Longrightarrow> set es \<subseteq> set fs \<Longrightarrow> own_write fs item v"
  by (auto simp: own_write_def)

lemma own_write_append: "own_write es item v \<Longrightarrow> own_write (es @ fs) item v"
  by (auto simp: own_write_def)

fun phase_ok :: "go_runtime \<Rightarrow> event list \<Rightarrow> phase \<Rightarrow> bool" where
  "phase_ok R es (Reporting item raw cr r) = in_hand R es item cr r"
| "phase_ok R es (Answered item cr r a) = (in_hand R es item cr r \<and>
     (case a of Inl _ \<Rightarrow> True | Inr w \<Rightarrow> own_write es (cr_namespace cr, cr_name cr) (GetResourceVersion w)))"
| "phase_ok R es p = (case writing p of None \<Rightarrow> True | Some (item, cr, r) \<Rightarrow> in_hand R es item cr r)"

definition consistent :: "go_runtime \<Rightarrow> phase \<times> ('w, event, 'm) manager_state_scheme \<Rightarrow> bool" where
  "consistent R c \<longleftrightarrow> phase_ok R (trace (snd c)) (fst c) \<and>
     (\<forall>k. statusWriteInFlight (snd c) k \<noteq> None \<longrightarrow>
        (\<exists>item cr r. writing (fst c) = Some (item, cr, r) \<and> k = (cr_namespace cr, cr_name cr))) \<and>
     (\<forall>k v. lastStatusWrite (snd c) k = Some v \<longrightarrow> own_write (trace (snd c)) k v)"

lemma phase_ok_later: "phase_ok R es p \<Longrightarrow> set es \<subseteq> set fs \<Longrightarrow> phase_ok R fs p"
  by (cases p) (auto intro: in_hand_later own_write_later split: sum.splits)

text \<open>What a step may not do: lose events, or put anything into the maps that was not there.\<close>

definition grows :: "('w, event, 'm) manager_state_scheme \<Rightarrow> ('w, event, 'm) manager_state_scheme \<Rightarrow> bool" where
  "grows s s' \<longleftrightarrow> set (trace s) \<subseteq> set (trace s') \<and> lastStatusWrite s' \<subseteq>\<^sub>m lastStatusWrite s \<and>
     statusWriteInFlight s' \<subseteq>\<^sub>m statusWriteInFlight s"

lemma grows_keeps:
  assumes "keeps (\<lambda>s. (lastStatusWrite s, statusWriteInFlight s)) m" and "adds m P"
    and "run_state m s = (a, s')"
  shows "grows s s'"
  using keepsD [OF assms(1,3)] addsD [OF assms(2,3)] by (auto simp: grows_def)

lemma adds_control: "adds (run_queue_add A item) (\<lambda>_ es. es = [Control (QueueAdd item)])"
  unfolding run_defs by (rule adds_external)

lemma watch_received_grows: "run_state (watch_received m A kind obj) s = (u, s') \<Longrightarrow> grows s s'"
  by (cases obj)
    (auto simp: watch_received_def watch_event_def Let_def forgetStatusWrite_def isOwnStatusWrite_def
      run_queue_add_def grows_def map_le_def split: if_splits prod.splits)

lemma watch_received_adds: "adds (watch_received m A kind obj) (\<lambda>_ _. True)"
  unfolding adds_def wp_iff
  by (cases obj)
    (auto simp: watch_received_def watch_event_def Let_def forgetStatusWrite_def isOwnStatusWrite_def
      run_queue_add_def split: prod.splits)

lemma finish_item_adds:
  "adds (finish_item A item d) (\<lambda>_ es. 0 < d \<longrightarrow> Control (QueueAddAfter item d) \<in> set es)"
  unfolding finish_item_def
  by (rule adds_bind [OF adds_calls(2)]) (auto intro: adds_mono [OF adds_calls(3)] adds_return)

lemma write_status_adds:
  "adds (write_status K ns name st raw)
     (\<lambda>a es. case a of Inl _ \<Rightarrow> True | Inr w \<Rightarrow> own_write es (ns, name) (GetResourceVersion w))"
proof -
  have u: "adds (kube_update_status K ns j) (\<lambda>a es. es = [Kube (UpdateResourceStatus ns j a)])" for j
    unfolding kube_update_status_def by (rule adds_external)
  show ?thesis
    unfolding write_status_def
    by (rule adds_bind [OF u])
      (fastforce simp: own_write_def split: sum.splits intro!: adds_return adds_if adds_bind [OF adds_get] adds_mono [OF u])
qed

lemma keeps_maps_calls:
  "keeps (\<lambda>s. (lastStatusWrite s, statusWriteInFlight s)) (run_queue_get A)"
  "keeps (\<lambda>s. (lastStatusWrite s, statusWriteInFlight s)) (finish_item A item d)"
  "keeps (\<lambda>s. (lastStatusWrite s, statusWriteInFlight s)) (write_status K ns name st raw)"
  unfolding finish_item_def write_status_def run_defs
  by (intro keeps_rules maps.keeps_calls maps.keeps_external)+

section \<open>The invariant\<close>

text \<open>A step that only grows the state, into a phase with the same write in progress.\<close>

lemma consistent_grows:
  assumes "consistent R (p, s)" and "grows s s'" and "phase_ok R (trace s') q"
    and "writing p = None \<or> writing q = writing p"
  shows "consistent R (q, s')"
  using assms unfolding consistent_def grows_def map_le_def fst_conv snd_conv
  by (metis domIff domI option.distinct(1) own_write_later)

lemma consistent_same:
  "consistent R (p, s) \<Longrightarrow> grows s s' \<Longrightarrow> consistent R (p, s')"
  by (rule consistent_grows) (auto simp: consistent_def grows_def intro: phase_ok_later)

lemma consistent_step:
  assumes c: "consistent (en_runtime X) c" and "manager_step (operator X K getenv scope) A c d"
  shows "consistent (en_runtime X) d"
  using assms(2)
proof (cases rule: manager_step.cases)
  case outside
  show ?thesis
    unfolding outside by (rule consistent_same [OF c [unfolded outside]]) (simp add: grows_def)
next
  case watched
  show ?thesis
    unfolding watched(2) by (rule consistent_same [OF c [unfolded watched(1)] watch_received_grows [OF watched(3)]])
next
  case takes
  show ?thesis
    unfolding takes(2)
    by (rule consistent_grows [OF c [unfolded takes(1)] grows_keeps [OF keeps_maps_calls(1) adds_calls(1) takes(3)]])
      simp_all
next
  case handles
  show ?thesis
    unfolding handles(2)
    by (rule consistent_grows [OF c [unfolded handles(1)]
        grows_keeps [OF until_status_keeps_maps until_status_in_hand handles(3)]]) simp_all
next
  case (reports item s raw cr r s')
  have "in_hand (en_runtime X) (trace s') item cr r"
    using addsD [OF until_status_in_hand reports(3)] by (auto intro: in_hand_later)
  then show ?thesis
    unfolding reports(2)
    by (intro consistent_grows [OF c [unfolded reports(1)]
        grows_keeps [OF until_status_keeps_maps until_status_in_hand reports(3)]]) simp_all
next
  case (marks cr s now s' item raw r)
  have s': "trace s' = trace s @ [Net (ClockNow now)]" "lastStatusWrite s' = lastStatusWrite s"
    "statusWriteInFlight s' = (statusWriteInFlight s)((cr_namespace cr, cr_name cr) \<mapsto> True)"
    using marks(3) by (auto simp: begin_status_write_def markStatusWriteInFlight_def net_now_def split: prod.splits)
  show ?thesis
    using c unfolding marks(1,2) consistent_def fst_conv snd_conv s'
    by (auto intro: in_hand_later own_write_append)
next
  case (writes cr st raw s a s' item r)
  have h: "in_hand (en_runtime X) (trace s) item cr r"
    using c unfolding writes(1) by (simp add: consistent_def)
  from addsD [OF write_status_adds writes(3)] obtain es where es: "trace s' = trace s @ es"
    "case a of Inl _ \<Rightarrow> True | Inr w \<Rightarrow> own_write es (cr_namespace cr, cr_name cr) (GetResourceVersion w)" by blast
  have "phase_ok (en_runtime X) (trace s') (Answered item cr r a)"
    using in_hand_later [OF h, of "trace s'"] es by (auto intro: own_write_later split: sum.splits)
  then show ?thesis
    unfolding writes(2)
    by (intro consistent_grows [OF c [unfolded writes(1)]
        grows_keeps [OF keeps_maps_calls(3) write_status_adds writes(3)]]) simp_all
next
  case (remembers cr w s u s' item r)
  have s': "s' = s\<lparr>lastStatusWrite := (lastStatusWrite s)((cr_namespace cr, cr_name cr) \<mapsto> GetResourceVersion w)\<rparr>"
    using remembers(3) by (simp add: rememberStatusWrite_def)
  show ?thesis
    using c unfolding remembers(1,2) consistent_def fst_conv snd_conv s' by simp
next
  case fails
  show ?thesis using c unfolding fails consistent_def by simp
next
  case (clears cr s u s' item r)
  have s': "s' = s\<lparr>statusWriteInFlight := (statusWriteInFlight s)((cr_namespace cr, cr_name cr) := None)\<rparr>"
    using clears(3) by (simp add: clearStatusWriteInFlight_def)
  show ?thesis
    using c unfolding clears(1,2) consistent_def fst_conv snd_conv s' by simp (metis not_None_eq)
next
  case finishes
  show ?thesis
    unfolding finishes(2)
    by (rule consistent_grows [OF c [unfolded finishes(1)]
        grows_keeps [OF keeps_maps_calls(2) finish_item_adds finishes(3)]]) simp_all
qed

lemma reach_consistent:
  assumes "manager_reach (operator X K getenv scope) A c"
  shows "consistent (en_runtime X) c"
  using assms
proof induction
  case (start s)
  then show ?case by (simp add: consistent_def)
qed (rule consistent_step)

section \<open>An item in hand is scheduled again\<close>

lemma due_step:
  assumes "manager_step m A c d" and "due (fst c) = Some (item, t)" and "0 < t"
  shows "\<exists>es. trace (snd d) = trace (snd c) @ es \<and>
     (due (fst d) = Some (item, t) \<or> Control (QueueAddAfter item t) \<in> set es)"
  using assms(1)
proof (cases rule: manager_step.cases)
  case watched
  then show ?thesis using assms(2) addsD [OF watch_received_adds watched(3)] by auto
next
  case reports
  then show ?thesis using assms(2) by simp
next
  case marks
  then show ?thesis
    using assms(2)
    by (auto simp: begin_status_write_def markStatusWriteInFlight_def net_now_def split: prod.splits)
next
  case writes
  then show ?thesis using assms(2) addsD [OF write_status_adds writes(3)] by auto
next
  case finishes
  then show ?thesis using assms(2,3) addsD [OF finish_item_adds finishes(3)] by auto
qed (use assms(2) in \<open>auto simp: rememberStatusWrite_def clearStatusWriteInFlight_def\<close>)

lemma step_extends:
  assumes "manager_step (operator X K getenv scope) A c d"
  shows "\<exists>es. trace (snd d) = trace (snd c) @ es"
  using assms
proof (cases rule: manager_step.cases)
  case watched
  then show ?thesis using addsD [OF watch_received_adds watched(3)] by auto
next
  case takes
  then show ?thesis using addsD [OF adds_calls(1) takes(3)] by auto
next
  case handles
  then show ?thesis using addsD [OF until_status_in_hand handles(3)] by auto
next
  case reports
  then show ?thesis using addsD [OF until_status_in_hand reports(3)] by auto
next
  case marks
  then show ?thesis
    by (auto simp: begin_status_write_def markStatusWriteInFlight_def net_now_def split: prod.splits)
next
  case writes
  then show ?thesis using addsD [OF write_status_adds writes(3)] by auto
next
  case finishes
  then show ?thesis using addsD [OF finish_item_adds finishes(3)] by auto
qed (auto simp: rememberStatusWrite_def clearStatusWriteInFlight_def)

lemma steps_extend:
  "(manager_step (operator X K getenv scope) A)\<^sup>*\<^sup>* c d \<Longrightarrow> \<exists>es. trace (snd d) = trace (snd c) @ es"
  by (induction rule: rtranclp_induct) (use step_extends in fastforce)+

lemma due_scheduled:
  assumes "(manager_step (operator X K getenv scope) A)\<^sup>*\<^sup>* c (Idle, s')" and "due (fst c) = Some (item, t)" and "0 < t"
  shows "\<exists>es. trace s' = trace (snd c) @ es \<and> Control (QueueAddAfter item t) \<in> set es"
  using assms(1,2)
proof (induction rule: converse_rtranclp_induct)
  case (step c d)
  from due_step [OF step(1,4) assms(3)] obtain es where es: "trace (snd d) = trace (snd c) @ es"
    "due (fst d) = Some (item, t) \<or> Control (QueueAddAfter item t) \<in> set es" by blast
  from steps_extend [OF step(2)] obtain fs where fs: "s' = snd (Idle, s')" "trace s' = trace (snd d) @ fs" by auto
  show ?case
  proof (cases "due (fst d) = Some (item, t)")
    case True
    from step(3) [OF True] es show ?thesis by auto
  next
    case False
    with es fs show ?thesis by auto
  qed
qed simp

section \<open>The properties\<close>

lemma watch_event_drops:
  assumes "accepts m (GetNamespace obj)" and "fst (run_state (watch_event m ''MODIFIED'' obj) s) = None"
  shows "statusWriteInFlight s (GetNamespace obj, GetName obj) \<noteq> None \<or>
    lastStatusWrite s (GetNamespace obj, GetName obj) = Some (GetResourceVersion obj)"
  using assms
  by (auto simp: watch_event_def isOwnStatusWrite_def Let_def get_or_empty_def split: if_splits option.splits)

text \<open>
  C22. However the worker and the watch interleave, the watch drops a modification of an object in
  scope only for one of two reasons. Either the version is one that the API server has given to a
  status the operator wrote. Or the worker is writing the status of this very object, which it
  read under the name of the item in its hands; then that item is scheduled again, after thirty
  seconds or more, before the worker takes up anything else.
\<close>

theorem dropped_modifications:
  assumes "manager_reach (operator X K getenv scope) A (p, s)"
    and "scope = [] \<or> scope = GetNamespace obj"
    and "fst (run_state (watch_event (operator X K getenv scope) ''MODIFIED'' obj) s) = None"
  shows "own_write (trace s) (GetNamespace obj, GetName obj) (GetResourceVersion obj) \<or>
    (\<exists>item cr r. writing p = Some (item, cr, r) \<and> (GetNamespace obj, GetName obj) = (cr_namespace cr, cr_name cr) \<and>
       in_hand (en_runtime X) (trace s) item cr r \<and>
       (\<forall>s'. (manager_step (operator X K getenv scope) A)\<^sup>*\<^sup>* (p, s) (Idle, s') \<longrightarrow>
          (\<exists>es. trace s' = trace s @ es \<and> Control (QueueAddAfter item (rs_requeueAfter r)) \<in> set es)))"
proof -
  have c: "consistent (en_runtime X) (p, s)" by (rule reach_consistent [OF assms(1)])
  from watch_event_drops [OF _ assms(3)] assms(2)
  have "statusWriteInFlight s (GetNamespace obj, GetName obj) \<noteq> None \<or>
      lastStatusWrite s (GetNamespace obj, GetName obj) = Some (GetResourceVersion obj)"
    by (simp add: accepts_operator)
  then show ?thesis
  proof
    assume "lastStatusWrite s (GetNamespace obj, GetName obj) = Some (GetResourceVersion obj)"
    with c show ?thesis by (simp add: consistent_def)
  next
    assume "statusWriteInFlight s (GetNamespace obj, GetName obj) \<noteq> None"
    with c have "\<exists>item cr r. writing p = Some (item, cr, r) \<and>
        (GetNamespace obj, GetName obj) = (cr_namespace cr, cr_name cr)"
      unfolding consistent_def fst_conv snd_conv by blast
    then obtain item cr r where w: "writing p = Some (item, cr, r)"
      "(GetNamespace obj, GetName obj) = (cr_namespace cr, cr_name cr)" by blast
    have h: "in_hand (en_runtime X) (trace s) item cr r"
      using c w(1) unfolding consistent_def by (cases p) simp_all
    have d: "due p = Some (item, rs_requeueAfter r)" using w(1) by (cases p) auto
    have "0 < rs_requeueAfter r" using h MinRefreshInterval_pos by (simp add: in_hand_def)
    with due_scheduled [of X K getenv scope A "(p, s)"] d have "\<exists>es. trace s' = trace s @ es \<and>
        Control (QueueAddAfter item (rs_requeueAfter r)) \<in> set es"
      if "(manager_step (operator X K getenv scope) A)\<^sup>*\<^sup>* (p, s) (Idle, s')" for s'
      using that by auto
    with w h show ?thesis by blast
  qed
qed


text \<open>The worker is about to write the status of the sample resource when the watch delivers it.\<close>

definition team_app_json :: json where
  "team_app_json = JObj [(''metadata'', JObj [(''finalizers'', JArr [JStr LeaseFinalizer]),
     (''name'', JStr ''app''), (''namespace'', JStr ''team'')])]"

definition team_app :: kryptic_secret where
  "team_app = no_resource\<lparr>cr_name := ''app'', cr_namespace := ''team'', cr_finalizers := [LeaseFinalizer]\<rparr>"

definition team_app_kube :: "unit kube_api" where
  "team_app_kube = sample_kube\<lparr>get_resource := (\<lambda>ns n w. (Inr team_app_json, w))\<rparr>"

definition team_app_run :: "unit run_api" where
  "team_app_run = sample_run\<lparr>queue_get := (\<lambda>w. (((''team'', ''app''), False), w))\<rparr>"

lemma team_app_tidy: "tidy_object R team_app_json"
  by (simp add: tidy_object_def team_app_json_def ascii_valid_utf8 field_matches_def equal_fold_ascii)

lemma team_app_wire: "wire_members (members team_app_json) = members team_app_json"
  by (simp add: team_app_json_def wire_members_def ascii_valid LeaseFinalizer_def)

lemma meta_fields:
  "\<not> field_matches R ''name'' ''namespace''"
  "\<not> field_matches R ''name'' ''finalizers''"
  "\<not> field_matches R ''namespace'' ''finalizers''"
  "\<not> field_matches R ''uid'' ''finalizers''"
  "\<not> field_matches R ''generation'' ''finalizers''"
  "\<not> field_matches R ''deletionTimestamp'' ''finalizers''"
  by (rule field_other; simp add: fold_rune_eq_def)+

lemma team_app_decodes: "fromUnstructured R team_app_json = Some team_app"
proof -
  have "fromUnstructured R team_app_json = decode_members (resource_step R) no_resource
      (wire_members (members team_app_json))"
    using fromUnstructured_wire [of R "members team_app_json"] team_app_tidy [of R] by (simp add: team_app_json_def)
  also have "\<dots> = Some team_app"
    unfolding team_app_wire
    by (simp add: team_app_json_def team_app_def resource_step_def meta_step_def decode_struct_def decode_string_def
        no_resource_def decode_slice_def meta_fields)
  finally show ?thesis .
qed


lemma team_app_until_status:
  "\<exists>r s' es. run_state (until_status (operator (sample_env 200) team_app_kube (\<lambda>_. []) []) (''team'', ''app'')) s
     = (Inr (team_app_json, team_app, r), s') \<and>
     trace s' = trace s @ Kube (GetResource ''team'' ''app'' (Inr team_app_json)) # es \<and> list_all (\<lambda>e. \<not> resource_event e) es"
proof -
  have cr: "\<not> being_deleted team_app" "hasFinalizer team_app" "\<And>r. \<not> statusUnchanged team_app r"
    by (simp_all add: being_deleted_def hasFinalizer_def statusUnchanged_def team_app_def no_resource_def no_status_def)
  let ?s1 = "s\<lparr>world := (), trace := trace s @ [Kube (GetResource ''team'' ''app'' (Inr team_app_json))]\<rparr>"
  obtain r s' where r: "run_state (Reconcile (operator_reconciler (sample_env 200) team_app_kube (\<lambda>_. [])) team_app) ?s1 = (r, s')"
    by fastforce
  from wp_run [OF Reconcile_all r] obtain es where "trace s' = trace ?s1 @ es" "list_all (\<lambda>e. \<not> resource_event e) es"
    by blast
  moreover have "run_state (until_status (operator (sample_env 200) team_app_kube (\<lambda>_. []) []) (''team'', ''app'')) s
     = (Inr (team_app_json, team_app, r), s')"
    using r by (simp add: until_status_def accepts_def kube_get_resource_def team_app_kube_def team_app_decodes cr)
  ultimately show ?thesis by auto
qed

text \<open>The sample resource is read, the worker is about to write its status, and nothing has been written.\<close>

lemma team_app_writing:
  obtains item raw r st and s :: "(unit, event) manager_state" where
    "manager_reach (operator (sample_env 200) team_app_kube (\<lambda>_. []) []) team_app_run (Marked item raw team_app r st, s)"
    "statusWriteInFlight s (''team'', ''app'') = Some True"
    "Kube (GetResource ''team'' ''app'' (Inr team_app_json)) \<in> set (trace s)"
    "\<And>ns j a. Kube (UpdateResourceStatus ns j a) \<notin> set (trace s)"
proof -
  let ?m = "operator (sample_env 200) team_app_kube (\<lambda>_. []) []"
  have "manager_reach ?m team_app_run (Idle, sample_manager_state)"
    by (rule manager_reach.start) (simp_all add: sample_manager_state_def)
  moreover obtain s1 where s1: "run_state (run_queue_get team_app_run) sample_manager_state = (((''team'', ''app''), False), s1)"
    and t1: "trace s1 = [Control (QueueGet (''team'', ''app'') False)]"
    by (simp add: run_queue_get_def team_app_run_def sample_manager_state_def)
  ultimately have "manager_reach ?m team_app_run (Taken (''team'', ''app''), s1)"
    using manager_reach.step manager_step.takes by blast
  moreover obtain r s2 es where u: "run_state (until_status ?m (''team'', ''app'')) s1 = (Inr (team_app_json, team_app, r), s2)"
    and t2: "trace s2 = trace s1 @ Kube (GetResource ''team'' ''app'' (Inr team_app_json)) # es"
    and quiet: "list_all (\<lambda>e. \<not> resource_event e) es"
    using team_app_until_status [of s1] by blast
  ultimately have rep: "manager_reach ?m team_app_run (Reporting (''team'', ''app'') team_app_json team_app r, s2)"
    using manager_reach.step manager_step.reports by blast
  obtain now s3 where b: "run_state (begin_status_write ?m (cr_namespace team_app, cr_name team_app)) s2 = (now, s3)"
    by fastforce
  then have t3: "trace s3 = trace s2 @ [Net (ClockNow now)]"
    by (auto simp: begin_status_write_def markStatusWriteInFlight_def net_now_def split: prod.splits)
  show ?thesis
  proof (rule that)
    show "manager_reach ?m team_app_run
        (Marked (''team'', ''app'') team_app_json team_app r (status_json team_app r now), s3)"
      by (rule manager_reach.step [OF rep manager_step.marks [OF b]])
    show "statusWriteInFlight s3 (''team'', ''app'') = Some True"
      using b by (auto simp: begin_status_write_def markStatusWriteInFlight_def team_app_def split: prod.splits)
    show "Kube (GetResource ''team'' ''app'' (Inr team_app_json)) \<in> set (trace s3)" by (simp add: t2 t3)
    show "Kube (UpdateResourceStatus ns j a) \<notin> set (trace s3)" for ns j a
      using quiet by (auto simp: t1 t2 t3 list_all_iff resource_event_def)
  qed
qed

theorem dropped_modifications_witness:
  "\<exists>p (s :: (unit, event) manager_state). manager_reach (operator (sample_env 200) team_app_kube (\<lambda>_. []) []) team_app_run (p, s) \<and>
    fst (run_state (watch_event (operator (sample_env 200) team_app_kube (\<lambda>_. []) []) ''MODIFIED'' team_app_json) s) = None \<and>
    (own_write (trace s) (GetNamespace team_app_json, GetName team_app_json) (GetResourceVersion team_app_json) \<or>
     (\<exists>item cr r. writing p = Some (item, cr, r) \<and>
        (GetNamespace team_app_json, GetName team_app_json) = (cr_namespace cr, cr_name cr) \<and>
        in_hand (en_runtime (sample_env 200)) (trace s) item cr r \<and>
        (\<forall>s'. (manager_step (operator (sample_env 200) team_app_kube (\<lambda>_. []) []) team_app_run)\<^sup>*\<^sup>* (p, s) (Idle, s') \<longrightarrow>
           (\<exists>es. trace s' = trace s @ es \<and> Control (QueueAddAfter item (rs_requeueAfter r)) \<in> set es))))"
proof -
  obtain item raw r st and s :: "(unit, event) manager_state" where
    reach: "manager_reach (operator (sample_env 200) team_app_kube (\<lambda>_. []) []) team_app_run (Marked item raw team_app r st, s)"
    and mark: "statusWriteInFlight s (''team'', ''app'') = Some True"
    by (rule team_app_writing)
  have drop: "fst (run_state (watch_event (operator (sample_env 200) team_app_kube (\<lambda>_. []) []) ''MODIFIED''
      team_app_json) s) = None"
    using mark
    by (simp add: watch_event_def isOwnStatusWrite_def accepts_def Let_def GetNamespace_def GetName_def nested_string_def
        member_def team_app_json_def)
  from dropped_modifications [OF reach _ drop] reach drop show ?thesis by blast
qed

definition edited_app_json :: json where
  "edited_app_json = JObj [(''metadata'', JObj [(''name'', JStr ''app''), (''namespace'', JStr ''team''),
     (''resourceVersion'', JStr ''8''), (''generation'', JInt 2)]), (''spec'', JObj [(''secretName'', JStr ''other'')])]"


end
