(* ===== verification/Unstructured.thy ===== *)
theory Unstructured
  imports Manager
begin

text \<open>
  From the typed resource to the untyped object (\<open>ToUnstructured\<close> of
  \<open>controller/manager.go\<close>). The members the fields of the metadata marshal to that the operator
  never reads are the argument \<open>rest\<close>. Decoding into an untyped map turns every number into a
  \<open>float64\<close>; \<open>through_float\<close> is what a number is written as after that.
\<close>

section \<open>Marshalling\<close>

text \<open>\<open>omitempty\<close>: a member that is written only when its value is not empty.\<close>

definition unless_empty :: "bool \<Rightarrow> string \<Rightarrow> json \<Rightarrow> (string \<times> json) list" where
  "unless_empty absent k j = (if absent then [] else [(k, j)])"

definition time_json :: "time \<Rightarrow> json" where
  "time_json t = (if t = zero_time then JNull else JStr (format_rfc3339 t))"

definition strings_json :: "string list \<Rightarrow> json" where
  "strings_json ss = JArr (map JStr ss)"

definition string_map_json :: "(string \<rightharpoonup> string) \<Rightarrow> json" where
  "string_map_json m = JObj (map (\<lambda>k. (k, JStr (get_or_empty m k))) (sorted_list_of_set (dom m)))"

definition meta_json :: "(string \<times> json) list \<Rightarrow> kryptic_secret \<Rightarrow> json" where
  "meta_json rest cr = JObj
     (unless_empty (cr_name cr = '''') ''name'' (JStr (cr_name cr))
      @ unless_empty (cr_namespace cr = '''') ''namespace'' (JStr (cr_namespace cr))
      @ unless_empty (cr_uid cr = '''') ''uid'' (JStr (cr_uid cr))
      @ unless_empty (cr_generation cr = 0) ''generation'' (JInt (cr_generation cr))
      @ (case cr_deletionTimestamp cr of None \<Rightarrow> [] | Some t \<Rightarrow> [(''deletionTimestamp'', time_json t)])
      @ unless_empty (cr_finalizers cr = []) ''finalizers'' (strings_json (cr_finalizers cr))
      @ rest)"

definition auth_json :: "kryptic_secret_auth \<Rightarrow> json" where
  "auth_json a = JObj [(''secretRef'', JObj [(''name'', JStr (ref_name (au_secretRef a)))])]"

definition template_json :: "kryptic_secret_template \<Rightarrow> json" where
  "template_json t = JObj
     (unless_empty (tp_type t = '''') ''type'' (JStr (tp_type t))
      @ unless_empty (tp_labels t = Map.empty) ''labels'' (string_map_json (tp_labels t))
      @ unless_empty (tp_annotations t = Map.empty) ''annotations'' (string_map_json (tp_annotations t)))"

definition spec_json :: "kryptic_secret_spec \<Rightarrow> json" where
  "spec_json s = JObj
     ([(''projectId'', JStr (sp_projectID s)), (''environment'', JStr (sp_environment s))]
      @ unless_empty (sp_secretName s = '''') ''secretName'' (JStr (sp_secretName s))
      @ unless_empty (sp_refreshInterval s = '''') ''refreshInterval'' (JStr (sp_refreshInterval s))
      @ unless_empty (sp_keys s = []) ''keys'' (strings_json (sp_keys s))
      @ (case sp_auth s of None \<Rightarrow> [] | Some a \<Rightarrow> [(''auth'', auth_json a)])
      @ [(''template'', template_json (sp_template s))])"

definition condition_json :: "condition \<Rightarrow> json" where
  "condition_json c = JObj
     ([(''type'', JStr (cd_type c)), (''status'', JStr (cd_status c))]
      @ unless_empty (cd_observedGeneration c = 0) ''observedGeneration'' (JInt (cd_observedGeneration c))
      @ [(''lastTransitionTime'', time_json (cd_lastTransitionTime c)), (''reason'', JStr (cd_reason c)),
         (''message'', JStr (cd_message c))])"

definition stored_status_json :: "kryptic_secret_status \<Rightarrow> json" where
  "stored_status_json st = JObj
     (unless_empty (st_conditions st = []) ''conditions'' (JArr (map condition_json (st_conditions st)))
      @ (case st_lastSyncTime st of None \<Rightarrow> [] | Some t \<Rightarrow> [(''lastSyncTime'', time_json t)])
      @ unless_empty (st_syncedKeyCount st = 0) ''syncedKeyCount'' (JInt (st_syncedKeyCount st))
      @ unless_empty (st_observedGeneration st = 0) ''observedGeneration'' (JInt (st_observedGeneration st)))"

definition resource_json :: "(string \<times> json) list \<Rightarrow> kryptic_secret \<Rightarrow> json" where
  "resource_json rest cr = JObj [(''metadata'', meta_json rest cr), (''spec'', spec_json (cr_spec cr)),
     (''status'', stored_status_json (cr_status cr))]"

section \<open>The untyped object\<close>

text \<open>\<open>json.Unmarshal\<close> into a map: of members with one key the last one counts.\<close>

fun untyped :: "(json \<Rightarrow> json) \<Rightarrow> json \<Rightarrow> json" where
  "untyped through_float (JInt n) = through_float (JInt n)"
| "untyped through_float (JFloat t) = through_float (JFloat t)"
| "untyped through_float (JArr js) = JArr (map (untyped through_float) js)"
| "untyped through_float (JObj kvs) =
     JObj (fold (\<lambda>(k, v). AList.update k v) (map (\<lambda>(k, v). (k, untyped through_float v)) kvs) [])"
| "untyped through_float j = j"

definition stripEmptyAuth :: "json \<Rightarrow> json" where
  "stripEmptyAuth object = (case member ''spec'' object of
       Some (JObj spec) \<Rightarrow> (case map_of spec ''auth'' of
           Some (JObj auth) \<Rightarrow>
             let ref = (case map_of auth ''secretRef'' of Some (JObj r) \<Rightarrow> r | _ \<Rightarrow> []);
                 name = (case map_of ref ''name'' of Some (JStr n) \<Rightarrow> n | _ \<Rightarrow> '''')
             in if name = '''' then set_member ''spec'' (JObj (AList.delete ''auth'' spec)) object else object
         | _ \<Rightarrow> object)
     | _ \<Rightarrow> object)"

definition ToUnstructured ::
  "(json \<Rightarrow> json) \<Rightarrow> (string \<times> json) list \<Rightarrow> kryptic_secret \<Rightarrow> json option" where
  "ToUnstructured through_float rest cr = (case json_parse (json_encode (resource_json rest cr)) of
       None \<Rightarrow> None
     | Some object \<Rightarrow> Some (stripEmptyAuth
         (set_member ''kind'' (JStr Kind)
           (set_member ''apiVersion'' (JStr APIVersion) (untyped through_float object)))))"

end
