(* ===== verification/Unstructured_Facts.thy ===== *)
theory Unstructured_Facts
  imports Unstructured Status_Facts Samples
begin

text \<open>
  The typed resource and the untyped object are the same: what \<open>ToUnstructured\<close> makes decodes to
  the resource it was made of, but for an \<open>auth\<close> that names no Secret, which is dropped.
\<close>

section \<open>Values that survive a text and an untyped map\<close>

definition small_int :: "int \<Rightarrow> bool" where
  "small_int n \<longleftrightarrow> \<bar>n\<bar> \<le> 2 ^ 53"

text \<open>A \<open>float64\<close> represents the integers up to \<open>2 ^ 53\<close> as they are.\<close>

definition float_exact :: "(json \<Rightarrow> json) \<Rightarrow> bool" where
  "float_exact through_float \<longleftrightarrow> (\<forall>n. small_int n \<longrightarrow> through_float (JInt n) = JInt n)"

fun plain_json :: "json \<Rightarrow> bool" where
  "plain_json (JInt n) = small_int n"
| "plain_json (JFloat t) = False"
| "plain_json (JStr s) = valid_utf8 s"
| "plain_json (JArr js) = list_all plain_json js"
| "plain_json (JObj kvs) = (distinct (map fst kvs) \<and> list_all (\<lambda>(k, v). valid_utf8 k \<and> plain_json v) kvs)"
| "plain_json j = True"

lemma plain_no_fractions: "plain_json j \<Longrightarrow> no_fractions j"
  by (induction j rule: plain_json.induct) (auto simp: list_all_iff)

lemma plain_clean: "plain_json j \<Longrightarrow> clean_json j = j"
proof (induction j rule: plain_json.induct)
  case (4 js)
  then show ?case by (auto simp: list_all_iff intro: map_idI)
next
  case (5 kvs)
  then show ?case by (fastforce simp: list_all_iff valid_text_valid intro: map_idI)
qed (simp_all add: valid_text_valid)

lemma fold_update:
  "distinct (map fst (al @ kvs)) \<Longrightarrow> fold (\<lambda>(k, v). AList.update k v) kvs al = al @ kvs"
proof (induction kvs arbitrary: al)
  case (Cons kv kvs)
  obtain k v where kv: "kv = (k, v)" by fastforce
  from Cons.prems have "AList.update k v al = al @ [(k, v)]"
    by (intro update_new) (auto simp: kv)
  with Cons.IH [of "al @ [(k, v)]"] Cons.prems show ?case by (simp add: kv)
qed simp

lemma plain_untyped: "float_exact f \<Longrightarrow> plain_json j \<Longrightarrow> untyped f j = j"
proof (induction j rule: plain_json.induct)
  case (4 js)
  then show ?case by (auto simp: list_all_iff intro: map_idI)
next
  case (5 kvs)
  then have "map (\<lambda>(k, v). (k, untyped f v)) kvs = kvs"
    by (intro map_idI) (fastforce simp: list_all_iff)
  with 5(3) show ?case using fold_update [of "[]" kvs] by simp
qed (simp_all add: float_exact_def)

lemma plain_sorted: "plain_json j \<Longrightarrow> plain_json (sort_members j)"
proof (induction j rule: plain_json.induct)
  case (5 kvs)
  then have "distinct (map fst (map (\<lambda>(k, v). (k, sort_members v)) kvs))"
    by (simp add: comp_def case_prod_beta')
  then have "distinct (map fst (sort_key fst (map (\<lambda>(k, v). (k, sort_members v)) kvs)))"
    using distinct_map [of fst] by (metis distinct_sort set_sort)
  with 5 show ?case by (fastforce simp: list_all_iff)
qed (auto simp: list_all_iff)

lemma parse_plain: "plain_json j \<Longrightarrow> json_parse (json_encode j) = Some j"
  by (simp add: json_parse_encode plain_no_fractions plain_clean)


section \<open>Resources that survive\<close>

definition plain_time :: "time \<Rightarrow> bool" where
  "plain_time t \<longleftrightarrow> common_era t \<and> t mod second = 0"

definition plain_pointer :: "time option \<Rightarrow> bool" where
  "plain_pointer p \<longleftrightarrow> (case p of None \<Rightarrow> True | Some t \<Rightarrow> t \<noteq> zero_time \<and> plain_time t)"

definition plain_map :: "(string \<rightharpoonup> string) \<Rightarrow> bool" where
  "plain_map m \<longleftrightarrow> finite (dom m) \<and> (\<forall>k v. m k = Some v \<longrightarrow> valid_utf8 k \<and> valid_utf8 v)"

definition plain_condition :: "condition \<Rightarrow> bool" where
  "plain_condition c \<longleftrightarrow> valid_utf8 (cd_type c) \<and> valid_utf8 (cd_status c) \<and> small_int (cd_observedGeneration c) \<and>
     (cd_lastTransitionTime c = zero_time \<or> plain_time (cd_lastTransitionTime c)) \<and>
     valid_utf8 (cd_reason c) \<and> valid_utf8 (cd_message c)"

definition plain_status :: "kryptic_secret_status \<Rightarrow> bool" where
  "plain_status st \<longleftrightarrow> list_all plain_condition (st_conditions st) \<and> plain_pointer (st_lastSyncTime st) \<and>
     small_int (st_syncedKeyCount st) \<and> small_int (st_observedGeneration st)"

definition plain_spec :: "kryptic_secret_spec \<Rightarrow> bool" where
  "plain_spec s \<longleftrightarrow> valid_utf8 (sp_projectID s) \<and> valid_utf8 (sp_environment s) \<and> valid_utf8 (sp_secretName s) \<and>
     valid_utf8 (sp_refreshInterval s) \<and> list_all valid_utf8 (sp_keys s) \<and> valid_utf8 (AuthSecretName s) \<and>
     valid_utf8 (tp_type (sp_template s)) \<and> plain_map (tp_labels (sp_template s)) \<and>
     plain_map (tp_annotations (sp_template s))"

definition plain_meta :: "kryptic_secret \<Rightarrow> bool" where
  "plain_meta cr \<longleftrightarrow> valid_utf8 (cr_name cr) \<and> valid_utf8 (cr_namespace cr) \<and> valid_utf8 (cr_uid cr) \<and>
     small_int (cr_generation cr) \<and> plain_pointer (cr_deletionTimestamp cr) \<and> list_all valid_utf8 (cr_finalizers cr)"

text \<open>Members of the metadata that the operator does not read.\<close>

definition meta_keys :: "string list" where
  "meta_keys = [''name'', ''namespace'', ''uid'', ''generation'', ''deletionTimestamp'', ''finalizers'']"

definition unread :: "go_runtime \<Rightarrow> (string \<times> json) list \<Rightarrow> bool" where
  "unread R rest \<longleftrightarrow> plain_json (JObj rest) \<and> list_all (\<lambda>(k, v). list_all (\<lambda>n. \<not> field_matches R n k) meta_keys) rest"

subsection \<open>Their JSON is plain\<close>

lemma plain_unless [simp]:
  "list_all P (unless_empty absent k j) = (absent \<or> P (k, j))"
  "map fst (unless_empty absent k j) = (if absent then [] else [k])"
  by (simp_all add: unless_empty_def)

lemma plain_time_json: "plain_json (time_json t)"
  by (simp add: time_json_def ascii_valid_utf8 format_ascii)

lemma plain_strings_json: "list_all valid_utf8 ss \<Longrightarrow> plain_json (strings_json ss)"
  by (simp add: strings_json_def list.pred_map comp_def)

lemma plain_string_map_json: "plain_map m \<Longrightarrow> plain_json (string_map_json m)"
  by (auto simp: string_map_json_def plain_map_def list_all_iff comp_def get_or_empty_def)

lemma plain_condition_json: "plain_condition c \<Longrightarrow> plain_json (condition_json c)"
  by (simp add: condition_json_def plain_condition_def plain_time_json ascii_valid_utf8)

lemma plain_conditions_json: "list_all plain_condition cs \<Longrightarrow> plain_json (JArr (map condition_json cs))"
  by (induction cs) (simp_all add: plain_condition_json)

lemma plain_status_json: "plain_status st \<Longrightarrow> plain_json (stored_status_json st)"
  using plain_conditions_json [of "st_conditions st"]
  by (auto simp: stored_status_json_def plain_status_def plain_time_json ascii_valid_utf8 split: option.split)

lemma plain_auth_json: "valid_utf8 (ref_name (au_secretRef a)) \<Longrightarrow> plain_json (auth_json a)"
  by (simp add: auth_json_def ascii_valid_utf8)

lemma plain_template_json:
  "valid_utf8 (tp_type t) \<Longrightarrow> plain_map (tp_labels t) \<Longrightarrow> plain_map (tp_annotations t) \<Longrightarrow> plain_json (template_json t)"
  by (simp add: template_json_def ascii_valid_utf8 plain_string_map_json)

lemma plain_spec_json: "plain_spec s \<Longrightarrow> plain_json (spec_json s)"
  by (auto simp: spec_json_def plain_spec_def AuthSecretName_def ascii_valid_utf8 plain_strings_json plain_auth_json
      plain_template_json split: option.split)

lemma unread_keys: "unread R rest \<Longrightarrow> k \<in> set meta_keys \<Longrightarrow> k \<notin> fst ` set rest"
  by (force simp: unread_def list_all_iff)

lemma plain_meta_json: "plain_meta cr \<Longrightarrow> unread R rest \<Longrightarrow> plain_json (meta_json rest cr)"
  using unread_keys [of R rest]
  by (auto simp: meta_json_def plain_meta_def plain_time_json ascii_valid_utf8 plain_strings_json unread_def meta_keys_def
      split: option.split)

lemma plain_resource_json:
  "plain_meta cr \<Longrightarrow> unread R rest \<Longrightarrow> plain_spec (cr_spec cr) \<Longrightarrow> plain_status (cr_status cr) \<Longrightarrow>
     plain_json (resource_json rest cr)"
  by (simp add: resource_json_def plain_meta_json plain_spec_json plain_status_json ascii_valid_utf8)


section \<open>Reading the members in the order of their keys\<close>

lemma sort_members_eq:
  assumes "mset xs = mset ys" and "sorted (map fst ys)" and "distinct (map fst ys)"
  shows "sort_key fst xs = ys"
proof -
  from assms(1,3) have "inj_on fst (set xs)" by (metis distinct_map mset_eq_setD)
  from sort_key_inj_key_eq [OF assms(1) this assms(2)] show ?thesis .
qed

lemma sorted_unless [simp]:
  "map (\<lambda>(k, v). (k, sort_members v)) (unless_empty absent k j) = unless_empty absent k (sort_members j)"
  by (simp add: unless_empty_def)

lemma decode_unless:
  assumes "step a k v = Some a'" and "absent \<Longrightarrow> a' = a"
  shows "decode_members step a (unless_empty absent k v @ rest) = decode_members step a' rest"
  using assms by (simp add: unless_empty_def)

lemma decode_member: "step a k v = Some a' \<Longrightarrow> decode_members step a ((k, v) # rest) = decode_members step a' rest"
  by simp

lemma decode_optional:
  assumes "\<And>x. p = Some x \<Longrightarrow> step a k (f x) = Some a'" and "p = None \<Longrightarrow> a' = a"
  shows "decode_members step a ((case p of None \<Rightarrow> [] | Some x \<Rightarrow> [(k, f x)]) @ rest) = decode_members step a' rest"
  using assms by (cases p) simp_all

lemma sorted_optional [simp]:
  "map (\<lambda>(k, v). (k, sort_members v)) (case p of None \<Rightarrow> [] | Some x \<Rightarrow> [(k, f x)])
     = (case p of None \<Rightarrow> [] | Some x \<Rightarrow> [(k, sort_members (f x))])"
  by (simp split: option.split)

subsection \<open>Leaves\<close>

lemma sort_time_json [simp]: "sort_members (time_json t) = time_json t"
  by (simp add: time_json_def)

lemma sort_strings_json [simp]: "sort_members (strings_json ss) = strings_json ss"
  by (simp add: strings_json_def)

lemma sort_string_map_json [simp]: "sort_members (string_map_json m) = string_map_json m"
proof -
  have "sort_key fst (map (\<lambda>k. (k, JStr (get_or_empty m k))) (sorted_list_of_set (dom m)))
      = map (\<lambda>k. (k, JStr (get_or_empty m k))) (sorted_list_of_set (dom m))"
    by (rule sort_members_eq) (simp_all add: comp_def)
  then show ?thesis by (simp add: string_map_json_def comp_def)
qed

lemma small_int_back: "small_int n \<Longrightarrow> decode_int old (JInt n) = Some n"
  by (simp add: small_int_def decode_int_def abs_le_iff)

lemma strings_back: "decode_slice [] decode_string [] (strings_json ss) = Some ss"
proof -
  have "decode_elements [] decode_string [] (map JStr ss) = Some ss"
    by (induction ss) (simp_all add: decode_string_def)
  then show ?thesis by (simp add: strings_json_def decode_slice_def)
qed

lemma restrict_dom: "m |` dom m = m"
  by (rule ext) (simp add: restrict_map_def domIff)

lemma string_map_back: "plain_map m \<Longrightarrow> decode_map Map.empty (string_map_json m) = Some m"
proof -
  have "decode_members decode_map_entry a (map (\<lambda>k. (k, JStr (get_or_empty m k))) ks) = Some (a ++ (m |` set ks))"
    if "set ks \<subseteq> dom m" for a ks
    using that
  proof (induction ks arbitrary: a)
    case (Cons k ks)
    then obtain v where v: "m k = Some v" by auto
    have "a(k \<mapsto> v) ++ m |` set ks = a ++ m |` set (k # ks)"
      using v Cons.prems by (auto simp: fun_eq_iff map_add_def restrict_map_def split: option.split)
    with Cons v show ?case by (simp add: decode_map_entry_def decode_string_def get_or_empty_def)
  qed simp
  from this [of "sorted_list_of_set (dom m)" Map.empty] show "plain_map m \<Longrightarrow> ?thesis"
    by (simp add: string_map_json_def decode_map_def plain_map_def restrict_dom)
qed

lemma plain_time_back: "plain_time t \<Longrightarrow> decode_time old (JStr (format_rfc3339 t)) = Some t"
  by (simp add: plain_time_def decode_time_back to_second_def)

lemma time_back: "t = zero_time \<or> plain_time t \<Longrightarrow> decode_time old (time_json t) = Some t"
  by (cases "t = zero_time") (simp_all add: time_json_def plain_time_back decode_time_def [of old JNull])

lemma pointer_back:
  "plain_pointer p \<Longrightarrow> p = Some t \<Longrightarrow> decode_pointer zero_time decode_time old (time_json t) = Some (Some t)"
  by (simp add: plain_pointer_def time_json_def decode_pointer_def plain_time_back)

subsection \<open>Structs\<close>

lemma field_differs:
  "ascii name \<Longrightarrow> ascii k \<Longrightarrow> k \<noteq> name \<Longrightarrow>
     \<not> list_all2 (fold_rune_eq R) (map byte k) (map byte name) \<Longrightarrow> field_matches R name k = False"
  by (simp add: field_other)

lemma auth_back: "decode_pointer no_auth (decode_struct (auth_step R)) None (sort_members (auth_json a)) = Some (Some a)"
  by (simp add: auth_json_def decode_pointer_def decode_struct_def auth_step_def ref_step_def decode_string_def no_auth_def)

lemma sorted_template: "sort_members (template_json t) = JObj
    (unless_empty (tp_annotations t = Map.empty) ''annotations'' (string_map_json (tp_annotations t))
     @ unless_empty (tp_labels t = Map.empty) ''labels'' (string_map_json (tp_labels t))
     @ unless_empty (tp_type t = '''') ''type'' (JStr (tp_type t)))"
  unfolding template_json_def sort_members.simps map_append sorted_unless sort_string_map_json
  by (rule arg_cong [where f = JObj], rule sort_members_eq) (auto simp: unless_empty_def)

lemma template_steps:
  "template_step R c ''annotations'' v = map_option (\<lambda>x. c\<lparr>tp_annotations := x\<rparr>) (decode_map (tp_annotations c) v)"
  "template_step R c ''labels'' v = map_option (\<lambda>x. c\<lparr>tp_labels := x\<rparr>) (decode_map (tp_labels c) v)"
  "template_step R c ''type'' v = map_option (\<lambda>x. c\<lparr>tp_type := x\<rparr>) (decode_string (tp_type c) v)"
  by (simp_all add: template_step_def field_differs fold_rune_eq_def)

lemma template_back:
  assumes "plain_map (tp_labels t)" and "plain_map (tp_annotations t)"
  shows "decode_struct (template_step R) no_template (sort_members (template_json t)) = Some t"
  by (simp add: sorted_template decode_struct_def unless_empty_def template_steps string_map_back assms no_template_def
      decode_string_def)

lemma sorted_condition: "sort_members (condition_json c) = JObj
    ([(''lastTransitionTime'', time_json (cd_lastTransitionTime c)), (''message'', JStr (cd_message c))]
     @ unless_empty (cd_observedGeneration c = 0) ''observedGeneration'' (JInt (cd_observedGeneration c))
     @ [(''reason'', JStr (cd_reason c)), (''status'', JStr (cd_status c)), (''type'', JStr (cd_type c))])"
  by (cases "cd_observedGeneration c = 0") (simp_all add: condition_json_def unless_empty_def)

lemma condition_steps:
  "condition_step R c ''lastTransitionTime'' v
     = map_option (\<lambda>x. c\<lparr>cd_lastTransitionTime := x\<rparr>) (decode_time (cd_lastTransitionTime c) v)"
  "condition_step R c ''message'' v = map_option (\<lambda>x. c\<lparr>cd_message := x\<rparr>) (decode_string (cd_message c) v)"
  "condition_step R c ''observedGeneration'' v
     = map_option (\<lambda>x. c\<lparr>cd_observedGeneration := x\<rparr>) (decode_int (cd_observedGeneration c) v)"
  "condition_step R c ''reason'' v = map_option (\<lambda>x. c\<lparr>cd_reason := x\<rparr>) (decode_string (cd_reason c) v)"
  "condition_step R c ''status'' v = map_option (\<lambda>x. c\<lparr>cd_status := x\<rparr>) (decode_string (cd_status c) v)"
  "condition_step R c ''type'' v = map_option (\<lambda>x. c\<lparr>cd_type := x\<rparr>) (decode_string (cd_type c) v)"
  by (simp_all add: condition_step_def status_fields)

lemma condition_back:
  assumes "plain_condition c"
  shows "decode_struct (condition_step R) no_condition (sort_members (condition_json c)) = Some c"
  using assms
  by (simp add: sorted_condition decode_struct_def unless_empty_def condition_steps time_back small_int_back
      plain_condition_def no_condition_def decode_string_def)

lemma conditions_back:
  "list_all plain_condition cs \<Longrightarrow>
     decode_slice no_condition (decode_struct (condition_step R)) [] (JArr (map (\<lambda>c. sort_members (condition_json c)) cs))
       = Some cs"
  unfolding decode_slice_def json.case by (induction cs) (simp_all add: condition_back)

lemma sorted_stored_status: "sort_members (stored_status_json st) = JObj
    (unless_empty (st_conditions st = []) ''conditions''
        (JArr (map (\<lambda>c. sort_members (condition_json c)) (st_conditions st)))
     @ (case st_lastSyncTime st of None \<Rightarrow> [] | Some t \<Rightarrow> [(''lastSyncTime'', time_json t)])
     @ unless_empty (st_observedGeneration st = 0) ''observedGeneration'' (JInt (st_observedGeneration st))
     @ unless_empty (st_syncedKeyCount st = 0) ''syncedKeyCount'' (JInt (st_syncedKeyCount st)))"
  unfolding stored_status_json_def sort_members.simps map_append sorted_unless sorted_optional sort_time_json
    map_map comp_def
  by (rule arg_cong [where f = JObj], rule sort_members_eq) (auto simp: unless_empty_def split: option.split)

lemma stored_status_back:
  assumes "plain_status st"
  shows "decode_struct (status_step R) no_status (sort_members (stored_status_json st)) = Some st"
proof -
  note conds = conditions_back [of "st_conditions st" R] and ptr = pointer_back [of "st_lastSyncTime st"]
  from assms show ?thesis
    unfolding sorted_stored_status decode_struct_def json.case plain_status_def
    by (cases "st_lastSyncTime st")
      (simp_all add: unless_empty_def status_steps conds ptr small_int_back no_status_def)
qed

lemma sorted_spec: "sort_members (spec_json s) = JObj
    ((case sp_auth s of None \<Rightarrow> [] | Some a \<Rightarrow> [(''auth'', sort_members (auth_json a))])
     @ [(''environment'', JStr (sp_environment s))]
     @ unless_empty (sp_keys s = []) ''keys'' (strings_json (sp_keys s))
     @ [(''projectId'', JStr (sp_projectID s))]
     @ unless_empty (sp_refreshInterval s = '''') ''refreshInterval'' (JStr (sp_refreshInterval s))
     @ unless_empty (sp_secretName s = '''') ''secretName'' (JStr (sp_secretName s))
     @ [(''template'', sort_members (template_json (sp_template s)))])"
  unfolding spec_json_def sort_members.simps map_append sorted_unless sorted_optional sort_strings_json list.map prod.case
  by (rule arg_cong [where f = JObj], rule sort_members_eq) (auto simp: unless_empty_def split: option.split)

lemma spec_steps:
  "spec_step R c ''auth'' v
     = map_option (\<lambda>x. c\<lparr>sp_auth := x\<rparr>) (decode_pointer no_auth (decode_struct (auth_step R)) (sp_auth c) v)"
  "spec_step R c ''environment'' v = map_option (\<lambda>x. c\<lparr>sp_environment := x\<rparr>) (decode_string (sp_environment c) v)"
  "spec_step R c ''keys'' v = map_option (\<lambda>x. c\<lparr>sp_keys := x\<rparr>) (decode_slice '''' decode_string (sp_keys c) v)"
  "spec_step R c ''projectId'' v = map_option (\<lambda>x. c\<lparr>sp_projectID := x\<rparr>) (decode_string (sp_projectID c) v)"
  "spec_step R c ''refreshInterval'' v
     = map_option (\<lambda>x. c\<lparr>sp_refreshInterval := x\<rparr>) (decode_string (sp_refreshInterval c) v)"
  "spec_step R c ''secretName'' v = map_option (\<lambda>x. c\<lparr>sp_secretName := x\<rparr>) (decode_string (sp_secretName c) v)"
  "spec_step R c ''template'' v
     = map_option (\<lambda>x. c\<lparr>sp_template := x\<rparr>) (decode_struct (template_step R) (sp_template c) v)"
  by (simp_all add: spec_step_def field_differs fold_rune_eq_def)

lemma spec_back:
  assumes "plain_spec s"
  shows "decode_struct (spec_step R) no_spec (sort_members (spec_json s)) = Some s"
proof -
  note t = template_back [of "sp_template s" R]
  from assms show ?thesis
    unfolding sorted_spec decode_struct_def [of "spec_step R"] json.case plain_spec_def
    by (cases "sp_auth s")
      (simp_all add: unless_empty_def spec_steps auth_back strings_back t decode_string_def no_spec_def)
qed

subsection \<open>The metadata\<close>

text \<open>Members that a struct skips may be left out.\<close>

lemma decode_skips:
  "(\<And>k v a. (k, v) \<in> set kvs \<Longrightarrow> \<not> P k \<Longrightarrow> step a k v = Some a) \<Longrightarrow>
     decode_members step a kvs = decode_members step a (filter (\<lambda>(k, v). P k) kvs)"
proof (induction kvs arbitrary: a)
  case (Cons kv kvs)
  obtain k v where kv: "kv = (k, v)" by fastforce
  have "decode_members step b kvs = decode_members step b (filter (\<lambda>(k, v). P k) kvs)" for b
    by (rule Cons.IH) (use Cons.prems in auto)
  with Cons.prems [of k v] show ?case by (simp add: kv split: option.split)
qed simp

lemma meta_skips: "\<forall>n \<in> set meta_keys. \<not> field_matches R n k \<Longrightarrow> meta_step R a k v = Some a"
  by (simp add: meta_keys_def meta_step_def)

lemma meta_steps:
  "meta_step R c ''name'' v = map_option (\<lambda>x. c\<lparr>cr_name := x\<rparr>) (decode_string (cr_name c) v)"
  "meta_step R c ''namespace'' v = map_option (\<lambda>x. c\<lparr>cr_namespace := x\<rparr>) (decode_string (cr_namespace c) v)"
  "meta_step R c ''uid'' v = map_option (\<lambda>x. c\<lparr>cr_uid := x\<rparr>) (decode_string (cr_uid c) v)"
  "meta_step R c ''generation'' v = map_option (\<lambda>x. c\<lparr>cr_generation := x\<rparr>) (decode_int (cr_generation c) v)"
  "meta_step R c ''deletionTimestamp'' v = map_option (\<lambda>x. c\<lparr>cr_deletionTimestamp := x\<rparr>)
     (decode_pointer zero_time decode_time (cr_deletionTimestamp c) v)"
  "meta_step R c ''finalizers'' v
     = map_option (\<lambda>x. c\<lparr>cr_finalizers := x\<rparr>) (decode_slice '''' decode_string (cr_finalizers c) v)"
  by (simp_all add: meta_step_def field_differs fold_rune_eq_def)

lemma filter_unless [simp]:
  "filter (\<lambda>(k, v). P k) (unless_empty absent k j) = (if P k then unless_empty absent k j else [])"
  by (simp add: unless_empty_def)

lemma sorted_meta:
  assumes "unread R rest"
  shows "filter (\<lambda>(k, v). k \<in> set meta_keys) (members (sort_members (meta_json rest cr))) =
    (case cr_deletionTimestamp cr of None \<Rightarrow> [] | Some t \<Rightarrow> [(''deletionTimestamp'', time_json t)])
     @ unless_empty (cr_finalizers cr = []) ''finalizers'' (strings_json (cr_finalizers cr))
     @ unless_empty (cr_generation cr = 0) ''generation'' (JInt (cr_generation cr))
     @ unless_empty (cr_name cr = '''') ''name'' (JStr (cr_name cr))
     @ unless_empty (cr_namespace cr = '''') ''namespace'' (JStr (cr_namespace cr))
     @ unless_empty (cr_uid cr = '''') ''uid'' (JStr (cr_uid cr))" (is "_ = ?known")
proof -
  have "filter (\<lambda>(k, v). k \<in> set meta_keys) (map (\<lambda>(k, v). (k, sort_members v)) rest) = []"
    using unread_keys [OF assms] by (force simp: filter_empty_conv)
  then have "filter (\<lambda>(k, v). k \<in> set meta_keys) (members (sort_members (meta_json rest cr)))
      = sort_key fst (unless_empty (cr_name cr = '''') ''name'' (JStr (cr_name cr))
      @ unless_empty (cr_namespace cr = '''') ''namespace'' (JStr (cr_namespace cr))
      @ unless_empty (cr_uid cr = '''') ''uid'' (JStr (cr_uid cr))
      @ unless_empty (cr_generation cr = 0) ''generation'' (JInt (cr_generation cr))
      @ (case cr_deletionTimestamp cr of None \<Rightarrow> [] | Some t \<Rightarrow> [(''deletionTimestamp'', time_json t)])
      @ unless_empty (cr_finalizers cr = []) ''finalizers'' (strings_json (cr_finalizers cr)))"
    by (simp add: meta_json_def filter_sort meta_keys_def split: option.split)
  also have "\<dots> = ?known"
    by (rule sort_members_eq) (auto simp: unless_empty_def split: option.split)
  finally show ?thesis .
qed

lemma meta_back:
  assumes "plain_meta cr" and "unread R rest"
  shows "decode_struct (meta_step R) no_resource (sort_members (meta_json rest cr))
     = Some (cr\<lparr>cr_spec := no_spec, cr_status := no_status\<rparr>)"
proof -
  have "decode_struct (meta_step R) no_resource (sort_members (meta_json rest cr))
      = decode_members (meta_step R) no_resource (members (sort_members (meta_json rest cr)))"
    by (simp add: decode_struct_def meta_json_def)
  also have "\<dots> = decode_members (meta_step R) no_resource
      (filter (\<lambda>(k, v). k \<in> set meta_keys) (members (sort_members (meta_json rest cr))))"
  proof (rule decode_skips)
    fix k v a assume "(k, v) \<in> set (members (sort_members (meta_json rest cr)))" and "k \<notin> set meta_keys"
    then have "k \<in> fst ` set rest"
      by (auto simp: meta_json_def meta_keys_def unless_empty_def image_iff split: if_splits option.splits) (metis fst_conv)+
    with assms(2) show "meta_step R a k v = Some a"
      by (intro meta_skips) (auto simp: unread_def list_all_iff)
  qed
  also have "\<dots> = Some (cr\<lparr>cr_spec := no_spec, cr_status := no_status\<rparr>)"
    unfolding sorted_meta [OF assms(2)]
    using assms(1) pointer_back [of "cr_deletionTimestamp cr"]
    by (cases "cr_deletionTimestamp cr")
      (simp_all add: unless_empty_def meta_steps plain_meta_def strings_back small_int_back decode_string_def no_resource_def)
  finally show ?thesis .
qed

section \<open>The round trip\<close>

definition named_auth :: "kryptic_secret_spec \<Rightarrow> kryptic_secret_spec" where
  "named_auth s = (if AuthSecretName s = '''' then s\<lparr>sp_auth := None\<rparr> else s)"

lemma delete_unless: "AList.delete ''auth'' (unless_empty absent k j @ kvs)
    = (if k = ''auth'' then [] else unless_empty absent k j) @ AList.delete ''auth'' kvs"
  by (simp add: unless_empty_def)

lemma auth_of_spec: "map_of (members (spec_json s)) ''auth'' = map_option auth_json (sp_auth s)"
  by (auto simp: spec_json_def unless_empty_def split: option.split)

lemma spec_without_auth: "JObj (AList.delete ''auth'' (members (spec_json s))) = spec_json (s\<lparr>sp_auth := None\<rparr>)"
  by (cases "sp_auth s") (simp_all add: spec_json_def delete_unless)

lemma strip_spec:
  assumes "member ''spec'' object = Some (spec_json s)"
  shows "stripEmptyAuth object = (if spec_json (named_auth s) = spec_json s then object
     else set_member ''spec'' (spec_json (named_auth s)) object)"
proof -
  obtain kvs where kvs: "spec_json s = JObj kvs" by (simp add: spec_json_def)
  note auth = auth_of_spec [of s, unfolded kvs members.simps]
  show ?thesis
  proof (cases "sp_auth s")
    case None
    then have "named_auth s = s" by (simp add: named_auth_def)
    with assms auth None kvs show ?thesis by (simp add: stripEmptyAuth_def)
  next
    case (Some a)
    show ?thesis
    proof (cases "ref_name (au_secretRef a) = ''''")
      case True
      then have n: "named_auth s = s\<lparr>sp_auth := None\<rparr>" using Some by (simp add: named_auth_def AuthSecretName_def)
      have "spec_json (s\<lparr>sp_auth := None\<rparr>) \<noteq> spec_json s"
        using auth_of_spec [of s] auth_of_spec [of "s\<lparr>sp_auth := None\<rparr>"] Some by auto
      with assms auth spec_without_auth [of s] Some True kvs show ?thesis
        by (simp add: n stripEmptyAuth_def auth_json_def)
    next
      case False
      then have "named_auth s = s" using Some by (simp add: named_auth_def AuthSecretName_def)
      with assms auth Some False kvs show ?thesis by (simp add: stripEmptyAuth_def auth_json_def)
    qed
  qed
qed

definition object_json :: "(string \<times> json) list \<Rightarrow> kryptic_secret \<Rightarrow> json" where
  "object_json rest cr = JObj [(''metadata'', meta_json rest cr), (''spec'', spec_json (named_auth (cr_spec cr))),
     (''status'', stored_status_json (cr_status cr)), (''apiVersion'', JStr APIVersion), (''kind'', JStr Kind)]"

lemma ToUnstructured_object:
  assumes "float_exact f" and "plain_json (resource_json rest cr)"
  shows "ToUnstructured f rest cr = Some (object_json rest cr)"
proof -
  let ?o = "set_member ''kind'' (JStr Kind) (set_member ''apiVersion'' (JStr APIVersion) (resource_json rest cr))"
  have o: "?o = JObj [(''metadata'', meta_json rest cr), (''spec'', spec_json (cr_spec cr)),
     (''status'', stored_status_json (cr_status cr)), (''apiVersion'', JStr APIVersion), (''kind'', JStr Kind)]"
    by (simp add: resource_json_def set_member_def)
  then have "member ''spec'' ?o = Some (spec_json (cr_spec cr))" by (simp add: member_def)
  from strip_spec [OF this] have "stripEmptyAuth ?o = object_json rest cr"
    unfolding o by (simp add: object_json_def set_member_def)
  then show ?thesis
    by (simp add: ToUnstructured_def parse_plain [OF assms(2)] plain_untyped [OF assms])
qed

lemma plain_named: "plain_spec s \<Longrightarrow> plain_spec (named_auth s)"
  by (auto simp: plain_spec_def named_auth_def AuthSecretName_def ascii_valid_utf8)

lemma decode_object: "decode_struct step a (JObj kvs) = decode_members step a kvs"
  by (simp add: decode_struct_def)

lemma object_fields:
  "\<not> field_matches R ''metadata'' ''apiVersion''" "\<not> field_matches R ''spec'' ''apiVersion''"
  "\<not> field_matches R ''status'' ''apiVersion''" "\<not> field_matches R ''metadata'' ''kind''"
  "\<not> field_matches R ''spec'' ''kind''" "\<not> field_matches R ''status'' ''kind''"
  "\<not> field_matches R ''metadata'' ''spec''"
  by (rule field_other; simp add: fold_rune_eq_def)+

lemma object_back:
  assumes "plain_meta cr" and "plain_spec (cr_spec cr)" and "plain_status (cr_status cr)" and "unread R rest"
  shows "fromUnstructured R (object_json rest cr) = Some (cr\<lparr>cr_spec := named_auth (cr_spec cr)\<rparr>)"
proof -
  have "plain_json (object_json rest cr)"
    using plain_meta_json [OF assms(1,4)] plain_spec_json [OF plain_named [OF assms(2)]] plain_status_json [OF assms(3)]
    by (simp add: object_json_def ascii_valid_utf8 APIVersion_def Kind_def)
  from parse_plain [OF plain_sorted [OF this]]
  have "fromUnstructured R (object_json rest cr) = decode_struct (resource_step R) no_resource
      (sort_members (object_json rest cr))"
    by (simp add: fromUnstructured_def)
  also have "sort_members (object_json rest cr) = JObj [(''apiVersion'', JStr APIVersion), (''kind'', JStr Kind),
      (''metadata'', sort_members (meta_json rest cr)), (''spec'', sort_members (spec_json (named_auth (cr_spec cr)))),
      (''status'', sort_members (stored_status_json (cr_status cr)))]"
    by (simp add: object_json_def)
  finally show ?thesis
    unfolding decode_object
    using meta_back [OF assms(1,4)] spec_back [OF plain_named [OF assms(2)], of R] stored_status_back [OF assms(3), of R]
    by (simp add: resource_step_def object_fields status_fields no_resource_def)
qed

text \<open>
  C39. A typed resource survives the way to the untyped object and back: every field of the
  metadata, the spec and the status the operator knows comes back as it was, for text of valid
  UTF-8, times of whole seconds and integers a \<open>float64\<close> represents; only an \<open>auth\<close> that names
  no Secret is dropped, which the operator reads as no \<open>auth\<close> anyway.
\<close>

theorem typed_untyped_roundtrip:
  assumes "float_exact through_float" and "unread R rest"
    and "plain_meta cr" and "plain_spec (cr_spec cr)" and "plain_status (cr_status cr)"
  shows "\<exists>object. ToUnstructured through_float rest cr = Some object \<and>
     fromUnstructured R object = Some (cr\<lparr>cr_spec := named_auth (cr_spec cr)\<rparr>) \<and>
     AuthSecretName (named_auth (cr_spec cr)) = AuthSecretName (cr_spec cr)"
proof (intro exI conjI)
  show "ToUnstructured through_float rest cr = Some (object_json rest cr)"
    using assms by (intro ToUnstructured_object plain_resource_json) simp_all
qed (use assms in \<open>auto simp: object_back named_auth_def AuthSecretName_def split: option.splits\<close>)

lemma sample_plain: "unread R [(''creationTimestamp'', JNull)]" "plain_meta sample_cr" "plain_spec (cr_spec sample_cr)"
  "plain_status (cr_status sample_cr)"
  by (simp_all add: unread_def meta_keys_def field_differs fold_rune_eq_def plain_meta_def plain_spec_def plain_status_def
      sample_cr_def sample_spec_def AuthSecretName_def ascii_valid_utf8 LeaseFinalizer_def small_int_def plain_pointer_def
      plain_map_def)

theorem typed_untyped_roundtrip_witness:
  "\<exists>object. ToUnstructured (\<lambda>j. j) [(''creationTimestamp'', JNull)] sample_cr = Some object \<and>
     fromUnstructured sample_runtime object = Some (sample_cr\<lparr>cr_spec := named_auth (cr_spec sample_cr)\<rparr>) \<and>
     AuthSecretName (named_auth (cr_spec sample_cr)) = AuthSecretName (cr_spec sample_cr)"
  by (rule typed_untyped_roundtrip [OF _ sample_plain]) (simp add: float_exact_def)

end
