(* ===== verification/Spec2Isabelle.thy ===== *)
theory Spec2Isabelle
  imports Pass_Facts Mint_Facts Annotation_Facts Program_Facts Interleaving_Facts Unstructured_Facts
begin

text \<open>
  The Kryptic Kubernetes operator (the Go module under \<open>src/\<close>) keeps a Kubernetes
  \<open>Secret\<close> in step with a project of the Kryptic platform. For every
  \<open>KrypticSecret\<close> resource it finds machine credentials, exchanges them for a token, pulls an
  encrypted bundle, decrypts it, mints short-lived credentials on databases and clouds where the
  platform asks for them, writes the target Secret, and reports in the status of the resource. This
  development models that program, all but its log output, and proves what makes it correct. File names below
  are under \<open>src/internal\<close> unless they say otherwise.

  \<^bold>\<open>How it is modelled.\<close> A routine that touches the outside world is a value of the library's state
  monad over the record \<open>io_state\<close> (\<^verbatim>\<open>Prelude\<close>): \<open>world\<close> is everything outside the program and
  is never inspected, \<open>trace\<close> lists the calls made with the answers they got. Components extend
  that record by their own state: the API client by its token and key caches, the manager by what it
  remembers of its status writes. Errors are values: \<open>goerr + 'a\<close> for a result with an error,
  \<open>goerr option\<close> for an error alone. Pure functions of the source are functions. Strings are
  byte strings, as in Go; durations and times are nanoseconds, as \<open>int\<close>.

  \<^bold>\<open>Parameters.\<close> Code that is not under \<open>src/\<close> is an argument of the definitions that use it, one
  record per library: \<open>kube_api\<close> (client-go's typed and dynamic clients; \<^verbatim>\<open>Kube\<close>), \<open>net_api\<close>
  (\<open>http.Client\<close>, the clock; \<^verbatim>\<open>Http\<close>), \<open>target_api\<close> (database drivers, gocql, go-redis, the AWS
  SDK, temporary files, \<open>crypto/rand\<close>; \<^verbatim>\<open>Targets\<close>), \<open>crypto\<close> (the Kryptic encryption library;
  \<^verbatim>\<open>Crypto\<close>), \<open>run_api\<close> and \<open>start_api\<close> (work
  queue, watch, context; configuration and clients at start-up; \<^verbatim>\<open>Workqueue\<close>) and \<open>go_runtime\<close> (the Unicode
  tables, the texts of library errors, the order a map is walked in; \<^verbatim>\<open>Go_Strings\<close>). Every call may
  answer anything and change the world in any way, so a theorem holds whatever the cluster, the
  platform, the targets and the network do. The one hypothesis on a parameter that recurs is
  \<open>fair_map_order\<close>: a range over a map visits every entry once. \<^verbatim>\<open>Samples\<close> holds concrete parameters
  for the witnesses.

  \<^bold>\<open>Theories and sources.\<close>
  \<^item> The Go library as far as it is used: \<^verbatim>\<open>Go_Strings\<close>, \<^verbatim>\<open>Go_Time\<close> (durations, RFC 3339),
    \<^verbatim>\<open>Go_Url\<close>, \<^verbatim>\<open>Go_Json\<close> (encoding, parsing, decoding into structs), \<^verbatim>\<open>Errors\<close>, and the events of
    a run in \<^verbatim>\<open>World\<close>.
  \<^item> \<open>controller/types.go\<close>: \<^verbatim>\<open>Types\<close>. \<open>controller/api_url_policy.go\<close>: \<^verbatim>\<open>Api_Url_Policy\<close>.
    \<open>controller/cluster_credentials.go\<close>: \<^verbatim>\<open>Cluster_Credentials\<close>.
  \<^item> \<open>controller/reconcile.go\<close>: \<^verbatim>\<open>Reconcile\<close>, one pass from the credentials to the target Secret
    and the revocation of leases. Its fetcher is a record of functions, as the interface is in the
    source; the locale \<open>off_cluster_fetcher\<close> states what the pass relies on.
  \<^item> \<open>controller/manager.go\<close>: \<^verbatim>\<open>Manager\<close> (one queue item, the finalizer, the status and one
    event of the watch), \<^verbatim>\<open>Run_Loop\<close> (the loops \<open>Run\<close> and \<open>watch\<close>), \<^verbatim>\<open>Interleaving\<close> (the
    two side by side as a step relation), \<^verbatim>\<open>Unstructured\<close> (the untyped object of a resource).
  \<^item> \<open>krypticapi/client.go\<close>: \<^verbatim>\<open>Api_Types\<close>, \<^verbatim>\<open>Client\<close>; \<open>krypticapi/leases.go\<close>: \<^verbatim>\<open>Leases\<close>.
  \<^item> \<open>dynsecret/\<close>: \<^verbatim>\<open>Provider\<close>, \<^verbatim>\<open>Username\<close>, \<^verbatim>\<open>Sql\<close>, \<^verbatim>\<open>Other_Providers\<close> (Oracle, Cassandra,
    Redis), \<^verbatim>\<open>Aws_Iam\<close>, and \<^verbatim>\<open>Apply\<close>, which looks a provider up and carries out one piece of lease
    work. The locale \<open>lease_provider\<close> is the contract of a provider, interpreted on every one of
    them; \<open>tidy_provider\<close> adds that nothing stays open.
  \<^item> \<open>src/cmd/kryptic-operator/main.go\<close>: \<^verbatim>\<open>Operator\<close> puts the parts together, \<^verbatim>\<open>Program\<close> is the
    program from its command line to its exit code.

  \<^bold>\<open>How the parts interact.\<close> The watch turns events into queue items; the worker takes one, reads the
  resource, edits the finalizer, and calls the reconciler. The reconciler asks the client for the
  bundle and the leases; the client applies lease work with the providers and reports to the
  platform. The result goes to the target Secret, then to the status, whose echo the watch drops.

  \<^bold>\<open>What the lemmas show.\<close>
  \<^item> \<^verbatim>\<open>Wire\<close>, \<^verbatim>\<open>Url_Facts\<close>, \<^verbatim>\<open>Client_Facts\<close>, \<^verbatim>\<open>Lease_Facts\<close>: the shape and the destination of
    every request, the use of the caches, the outcome of every exchange, and what becomes of
    leases.
  \<^item> \<^verbatim>\<open>Mint_Facts\<close>, \<^verbatim>\<open>Username_Facts\<close>: the work on targets, in which order and with what left behind;
    what names and passwords consist of, and that rendering a template ends.
  \<^item> \<^verbatim>\<open>Pass_Facts\<close>: a pass as what it gathers (\<open>gathers\<close>) and what it concludes from that, and so
    which Secret it writes, with which data, and how long it waits, against the resource as the user
    wrote it.
  \<^item> \<^verbatim>\<open>Manager_Facts\<close>, \<^verbatim>\<open>Item_Facts\<close>, \<^verbatim>\<open>Run_Facts\<close>, \<^verbatim>\<open>Program_Facts\<close>: an abstract description
    of a pass (\<open>pass_outcome\<close>), of a queue item (\<open>item_outcome\<close>), of a run
    (\<open>worker_history\<close>), of the command line (\<open>command_line\<close>, \<open>refused\<close>) and of the program
    (\<open>program_outcome\<close>), each refined by the code's model, and the guarantees read off them.
  \<^item> \<^verbatim>\<open>Frame_Facts\<close>, \<^verbatim>\<open>Interleaving_Facts\<close>: which operations leave which part of the state alone, as
    the locales \<open>outside_view\<close> and \<open>client_view\<close>, and the invariant of the interleaving.
  \<^item> \<^verbatim>\<open>Json_Facts\<close>, \<^verbatim>\<open>Time_Facts\<close>, \<^verbatim>\<open>Annotation_Facts\<close>, \<^verbatim>\<open>Status_Facts\<close>,
    \<^verbatim>\<open>Unstructured_Facts\<close>: what is written as JSON or as a time is read back, and so the lease ids in
    the annotation and the status survive from one pass to the next, and a typed resource the way
    to the untyped object and back.
  \<^item> The theorems of this theory join the parts: what one pass writes and where its requests go.

  \<^bold>\<open>Loops.\<close> Loops over data are structural recursion. The loops of templates need not end for their
  shape alone; those that do not draw randomness are shown to end, and carry an \<open>option\<close> result
  where \<open>None\<close> is a loop that has not returned. Rejection sampling draws at most
  \<open>random_draws\<close> blocks, a bound the parameter supplies; when it is used up the result is
  \<open>None\<close>, which \<open>Apply\<close> passes on as the value \<open>Hang\<close>, no error of the program. The count of
  closing braces bounds the replacement of random tokens, since each replacement uses up two.
  \<open>Run\<close>, \<open>watch\<close> and the reading of one watch may go on for ever and are partial functions;
  \<open>run_rounds\<close> is the worker with a number of rounds, and \<open>Run\<close> returns exactly when some
  number of rounds does.

  \<^bold>\<open>Not modelled.\<close> Every log line but the one that carries a response body (of the logger, only its
  level). The mutexes themselves: a routine that
  holds one is a step of the interleaving, and the client's caches are used by the worker alone.
  Timeouts and cancellation inside a call appear as the errors the call may return, and redirects
  the HTTP client follows are part of the one call that met them. Panics: the source of randomness
  failing is the value \<open>Hang\<close>, and an answer of AWS without credentials, a nil pointer in Go, reads
  as empty strings. Metadata members the operator does not read are skipped by the decoder, whatever
  their type. The end-to-end
  platform, the tests, the Helm chart and the manifests are not part of the program.
\<close>

section \<open>One pass over a resource\<close>

text \<open>
  C1. A pass reports Ready exactly when the API server has accepted one write of the target
  Secret; it never attempts a second write, whatever the API, the control plane and the targets
  answer.
\<close>

theorem ready_iff_written:
  "wp (Reconcile (operator_reconciler X K getenv) cr) s (\<lambda>r s'. \<exists>es. trace s' = trace s @ es \<and>
     length (filter secret_write es) \<le> 1 \<and>
     length (filter accepted_write es) = (if cd_status (rs_condition r) = ConditionTrue then 1 else 0))"
proof (rule wp_mono [OF operator_pass], elim exE conjE)
  fix r s' es assume "trace s' = trace s @ es" and o: "pass_outcome (en_runtime X) cr es r"
  then show "\<exists>es. trace s' = trace s @ es \<and> length (filter secret_write es) \<le> 1 \<and>
     length (filter accepted_write es) = (if cd_status (rs_condition r) = ConditionTrue then 1 else 0)"
    using pass_outcome_writes [OF o] by blast
qed

text \<open>
  C2. Nothing foreign is overwritten: every write of a Secret follows, immediately, a read in the
  namespace of the resource under the name the spec asks for. A Secret that was not found is
  created there, under that name; one that was found is written only when the resource is an owner
  of it, in its own place and on the version that was read.
\<close>

theorem foreign_secrets_untouched:
  "wp (Reconcile (operator_reconciler X K getenv) cr) s
     (\<lambda>r s'. \<exists>es. trace s' = trace s @ es \<and> looked_before cr es)"
  by (rule wp_mono [OF operator_pass]) (blast dest: pass_outcome_looked)

text \<open>
  C16. What is written is what was gathered in this very pass, cut to what the user asked for: the
  keys the spec lists, or all when it lists none, with a dynamic value before a stored one of the
  same key. It goes to the resource's namespace, is owned by the resource alone, has the type of
  the template, and nothing is written unless everything could be gathered. A Ready pass reports
  the number of keys written, any other the number of the pass before.
\<close>

theorem written_secret_is_selected:
  "wp (Reconcile (operator_reconciler X K getenv) cr) s (\<lambda>r s'. \<exists>g s1 es.
     gathers (operator_reconciler X K getenv) cr s g s1 \<and> trace s' = trace s @ es \<and>
     list_all (written_as_asked cr g) es \<and>
     rs_syncedKeys r = (if cd_status (rs_condition r) = ConditionTrue
       then int (card (dom (asked_data cr g)))
       else st_syncedKeyCount (cr_status cr)))"
  by (rule wp_mono [OF operator_writes_right]) (auto simp: written_right_def)

section \<open>Requests\<close>

text \<open>
  C3. Server-side request forgery: in a pass over a resource that names a credentials Secret, the
  URL of every request that the client of the control plane hands to \<open>http.Client.Do\<close> has a
  scheme and a host that the operator's policy admits, or those of the hosted service, whatever
  the Secret, the control plane and the lease ids contain. Two things are outside: redirects, which
  the HTTP client of the standard library follows on its own and the policy does not see, and the
  connections of the lease providers to their targets, AWS among them.
\<close>

theorem requests_go_to_trusted_hosts:
  assumes "AuthSecretName (cr_spec cr) \<noteq> []"
  shows "wp (Reconcile (operator_reconciler X K getenv) cr) s (\<lambda>r s'. \<exists>es. trace s' = trace s @ es \<and>
     (\<forall>q a. Net (HttpDo q a) \<in> set es \<longrightarrow> (\<exists>u. url_parse (req_url q) = Some u \<and>
        (url_admitted (en_runtime X) (APIURLPolicyFromEnv getenv) u \<or>
         scheme u = ''https'' \<and> host u = ''pipelines.kryptic.dev''))))"
  by (rule wp_mono [OF emits_wp [OF operator_reconcile_trusted [OF assms]]])
    (fastforce simp: list_all_iff trusted_request_def trusted_url_def default_host_def split: option.splits)

theorem requests_go_to_trusted_hosts_witness:
  "AuthSecretName (cr_spec sample_cr) \<noteq> [] \<and>
   wp (Reconcile (operator_reconciler (sample_env 200) sample_kube (\<lambda>_. [])) sample_cr) sample_manager_state
     (\<lambda>r s'. \<exists>es. trace s' = trace sample_manager_state @ es \<and>
     (\<forall>q a. Net (HttpDo q a) \<in> set es \<longrightarrow> (\<exists>u. url_parse (req_url q) = Some u \<and>
        (url_admitted (en_runtime (sample_env 200)) (APIURLPolicyFromEnv (\<lambda>_. [])) u \<or>
         scheme u = ''https'' \<and> host u = ''pipelines.kryptic.dev''))))"
  using requests_go_to_trusted_hosts [of sample_cr "sample_env 200" sample_kube "\<lambda>_. []" sample_manager_state]
  by (simp add: sample_auth)

end
